(* ===== verification/Prelude.thy ===== *)
theory Prelude
  imports Complex_Main "HOL-Library.Word" "HOL-Library.Countable"
begin

text \<open>
  The vocabulary the component theories share.

  \<^item> JavaScript numbers and JSON values, as the source reads them: \<open>js_number\<close> keeps the
    non-finite values the code tests with \<open>Number.isFinite\<close>; \<open>json\<close> keeps \<open>undefined\<close> apart
    from \<open>null\<close> and an object as the list of its own properties in insertion order.
  \<^item> JavaScript \<open>Map\<close> and property assignment as \<open>map_set\<close> on association lists: an existing
    key keeps its position, a new key is appended.
  \<^item> The collections \<open>gov_simps\<close>, \<open>dec_simps\<close> and \<open>stop_simps\<close> that the component proofs
    extend and use.
\<close>

named_theorems gov_simps \<open>unfolding rules of the rate governors\<close>
named_theorems dec_simps \<open>values of decimal operations on finite arguments\<close>
named_theorems stop_simps \<open>unfolding rules of the protective-stop arm\<close>

section \<open>JavaScript values\<close>

datatype js_number = JsNum rat | JsNaN | JsInf | JsNegInf

fun isFiniteN :: "js_number \<Rightarrow> bool" where
  "isFiniteN (JsNum _) = True"
| "isFiniteN _ = False"

datatype json =
    JUndefined
  | JNull
  | JBool bool
  | JNum js_number
  | JStr string
  | JArr "json list"
  | JObj "(string \<times> json) list"

text \<open>Property read \<open>v?.k\<close>: absent properties and non-objects read as \<open>undefined\<close>.\<close>

fun jget :: "json \<Rightarrow> string \<Rightarrow> json" where
  "jget (JObj kvs) k = (case map_of kvs k of Some v \<Rightarrow> v | None \<Rightarrow> JUndefined)"
| "jget _ k = JUndefined"

text \<open>The nullish coalescing operator \<open>a ?? b\<close>.\<close>

fun jcoalesce :: "json \<Rightarrow> json \<Rightarrow> json" where
  "jcoalesce JUndefined b = b"
| "jcoalesce JNull b = b"
| "jcoalesce a b = a"

text \<open>A number that passes \<open>Number.isInteger\<close>.\<close>

fun json_int :: "json \<Rightarrow> int option" where
  "json_int (JNum (JsNum r)) = (if of_int \<lfloor>r\<rfloor> = r then Some \<lfloor>r\<rfloor> else None)"
| "json_int _ = None"

text \<open>\<open>typeof v === 'object' && v !== null\<close>\<close>

fun is_object :: "json \<Rightarrow> bool" where
  "is_object (JObj _) = True"
| "is_object (JArr _) = True"
| "is_object _ = False"

text \<open>\<open>Boolean(v)\<close>\<close>

fun truthy :: "json \<Rightarrow> bool" where
  "truthy JUndefined = False"
| "truthy JNull = False"
| "truthy (JBool b) = b"
| "truthy (JNum (JsNum r)) = (r \<noteq> 0)"
| "truthy (JNum JsNaN) = False"
| "truthy (JStr s) = (s \<noteq> [])"
| "truthy _ = True"

text \<open>
  The values \<open>JSON.stringify\<close> prints faithfully: no \<open>undefined\<close>, no \<open>NaN\<close> or infinity, one entry per key.
  \<open>json_codec\<close> is what the code relies on of \<open>JSON.stringify\<close> and \<open>JSON.parse\<close>, which are
  parameters; \<open>unary_stringify\<close> and \<open>unary_parse\<close> are one pair that satisfies it.
\<close>

fun json_pure :: "json \<Rightarrow> bool" where
  "json_pure JUndefined = False"
| "json_pure (JNum n) = isFiniteN n"
| "json_pure (JArr xs) = (\<forall>x \<in> set xs. json_pure x)"
| "json_pure (JObj kvs) = (distinct (map fst kvs) \<and> (\<forall>p \<in> set kvs. json_pure (snd p)))"
| "json_pure _ = True"

definition json_codec :: "(json \<Rightarrow> string) \<Rightarrow> (string \<Rightarrow> json option) \<Rightarrow> bool" where
  "json_codec stringify parseJson \<longleftrightarrow> (\<forall>j. json_pure j \<longrightarrow> parseJson (stringify j) = Some j)"

lemma json_codecD: "json_codec st pa \<Longrightarrow> json_pure j \<Longrightarrow> pa (st j) = Some j"
  by (simp add: json_codec_def)

lemma json_codec_inj:
  "json_codec st pa \<Longrightarrow> json_pure a \<Longrightarrow> json_pure b \<Longrightarrow> st a = st b \<Longrightarrow> a = b"
  by (metis json_codecD option.inject)

instance js_number :: countable by countable_datatype

instance json :: countable by countable_datatype

definition unary_stringify :: "json \<Rightarrow> string" where
  "unary_stringify j = replicate (to_nat j) CHR ''1''"

definition unary_parse :: "string \<Rightarrow> json option" where
  "unary_parse s = Some (from_nat (length s))"

lemma unary_codec: "json_codec unary_stringify unary_parse"
  by (simp add: json_codec_def unary_stringify_def unary_parse_def)

section \<open>Insertion-ordered maps\<close>

fun map_set :: "'k \<Rightarrow> 'v \<Rightarrow> ('k \<times> 'v) list \<Rightarrow> ('k \<times> 'v) list" where
  "map_set k v [] = [(k, v)]"
| "map_set k v ((k', v') # xs) = (if k' = k then (k, v) # xs else (k', v') # map_set k v xs)"

lemma map_of_map_set [simp]: "map_of (map_set k v xs) = (map_of xs)(k \<mapsto> v)"
  by (induction xs) auto

lemma keys_map_set [simp]: "fst ` set (map_set k v xs) = insert k (fst ` set xs)"
  by (induction xs) force+

lemma distinct_map_set: "distinct (map fst xs) \<Longrightarrow> distinct (map fst (map_set k v xs))"
proof (induction xs)
  case Nil
  then show ?case by simp
next
  case (Cons p xs)
  have "fst p \<notin> fst ` set (map_set k v xs)" if "fst p \<noteq> k"
    using Cons.prems that by (simp add: image_iff)
  with Cons show ?case by (cases p) (auto simp: image_iff)
qed

lemma set_map_set:
  "x \<in> set (map_set k v xs) \<Longrightarrow> x = (k, v) \<or> x \<in> set xs"
  by (induction xs) (auto split: if_splits)

lemma fold_map_set_members:
  "(k, v) \<in> set (fold (\<lambda>x acc. map_set (f x) (h x) acc) xs acc) \<Longrightarrow>
     (k, v) \<in> set acc \<or> (\<exists>x \<in> set xs. k = f x \<and> v = h x)"
  by (induction xs arbitrary: acc) (fastforce dest: set_map_set)+

lemma fold_map_set_keys:
  "fst ` set (fold (\<lambda>x acc. map_set (f x) (h x) acc) xs acc) = fst ` set acc \<union> f ` set xs"
  by (induction xs arbitrary: acc) auto

lemma map_of_distinct_iff:
  "distinct (map fst xs) \<Longrightarrow> map_of xs k = Some v \<longleftrightarrow> (k, v) \<in> set xs"
  by (induction xs) force+

section \<open>Lists\<close>

lemma sum_list_filter_le:
  fixes f :: "'a \<Rightarrow> 'b::linordered_ab_group_add"
  assumes "\<And>x. x \<in> set xs \<Longrightarrow> P x \<Longrightarrow> Q x" and "\<And>x. x \<in> set xs \<Longrightarrow> 0 \<le> f x"
  shows "sum_list (map f (filter P xs)) \<le> sum_list (map f (filter Q xs))"
  using assms
proof (induction xs)
  case Nil
  then show ?case by simp
next
  case (Cons x xs)
  then have "sum_list (map f (filter P xs)) \<le> sum_list (map f (filter Q xs))" by simp
  with Cons.prems show ?case by (auto intro: add_mono add_increasing)
qed

lemma dropWhile_idem [simp]: "dropWhile P (dropWhile P xs) = dropWhile P xs"
  by (induction xs) auto

lemma dropWhile_fixed_snoc:
  assumes "dropWhile P xs = xs" and "\<not> P y"
  shows "dropWhile P (xs @ [y]) = xs @ [y]"
proof (cases xs)
  case Nil
  with assms show ?thesis by simp
next
  case (Cons z zs)
  have "\<not> P z"
  proof
    assume "P z"
    with Cons assms(1) have "length (dropWhile P zs) = Suc (length zs)" by simp
    then show False using length_dropWhile_le [of P zs] by simp
  qed
  with Cons show ?thesis by simp
qed

end
