(* ===== verification/Rolling_Window.thy ===== *)
theory Rolling_Window
  imports Prelude
begin

text \<open>
  The contract both rate governors rest on: a ring of timestamped charges that is pruned
  lazily from the front, and an admission test that compares what is left with a ceiling.

  \<open>after c xs\<close> is the charge booked strictly after \<open>c\<close>, \<open>in_span a b xs\<close> the charge booked in
  \<open>(a, b]\<close>. The locale \<open>rolling_admission\<close> states what a ring promises (pruning drops exactly
  the expired prefix, pushing appends, the usage is what pruning leaves) and proves once that
  a log of admitted charges that the ring covers never exceeds the ceiling in any span of the
  window's width.
\<close>

type_synonym charge = "rat \<times> rat"

definition after :: "rat \<Rightarrow> charge list \<Rightarrow> rat" where
  "after c xs = sum_list (map snd (filter (\<lambda>e. c < fst e) xs))"

definition in_span :: "rat \<Rightarrow> rat \<Rightarrow> charge list \<Rightarrow> rat" where
  "in_span a b xs = sum_list (map snd (filter (\<lambda>e. a < fst e \<and> fst e \<le> b) xs))"

text \<open>A log a monotone clock produces: ordered, not in the future, every charge non-negative.\<close>

definition ring_ok :: "rat \<Rightarrow> charge list \<Rightarrow> bool" where
  "ring_ok now xs \<longleftrightarrow> sorted (map fst xs) \<and> (\<forall>e \<in> set xs. fst e \<le> now \<and> 0 \<le> snd e)"

lemma after_Nil [simp]: "after c [] = 0"
  by (simp add: after_def)

lemma in_span_Nil [simp]: "in_span a b [] = 0"
  by (simp add: in_span_def)

lemma after_append [simp]: "after c (xs @ ys) = after c xs + after c ys"
  by (simp add: after_def)

lemma in_span_append [simp]: "in_span a b (xs @ ys) = in_span a b xs + in_span a b ys"
  by (simp add: in_span_def)

lemma after_single [simp]: "after c [(t, n)] = (if c < t then n else 0)"
  by (simp add: after_def)

lemma in_span_single [simp]: "in_span a b [(t, n)] = (if a < t \<and> t \<le> b then n else 0)"
  by (simp add: in_span_def)

lemma after_antimono:
  assumes "ring_ok now xs" and "c \<le> d"
  shows "after d xs \<le> after c xs"
  using assms unfolding after_def ring_ok_def by (intro sum_list_filter_le) auto

lemma in_span_le_after:
  assumes "ring_ok now xs"
  shows "in_span a b xs \<le> after a xs"
  using assms unfolding after_def in_span_def ring_ok_def by (intro sum_list_filter_le) auto

lemma ring_ok_later: "ring_ok now xs \<Longrightarrow> now \<le> now' \<Longrightarrow> ring_ok now' xs"
  unfolding ring_ok_def by (meson order_trans)

lemma ring_ok_Nil [simp]: "ring_ok now []"
  by (simp add: ring_ok_def)

lemma ring_ok_push: "ring_ok now xs \<Longrightarrow> 0 \<le> n \<Longrightarrow> ring_ok now (xs @ [(now, n)])"
  by (auto simp: ring_ok_def sorted_append)

lemma ring_ok_prefix: "ring_ok now (xs @ ys) \<Longrightarrow> ring_ok now xs"
  by (auto simp: ring_ok_def sorted_append)

lemma ring_ok_dropWhile: "ring_ok now xs \<Longrightarrow> ring_ok now (dropWhile P xs)"
proof -
  assume ok: "ring_ok now xs"
  obtain k where k: "dropWhile P xs = drop k xs" by (metis dropWhile_eq_drop)
  from ok have "sorted (map fst (drop k xs))"
    by (simp add: ring_ok_def drop_map [symmetric] sorted_wrt_drop)
  with ok show ?thesis unfolding k ring_ok_def by (auto dest: in_set_dropD)
qed

text \<open>Pruning an ordered ring removes exactly the expired charges.\<close>

lemma filter_dropWhile_sorted:
  "sorted (map fst xs) \<Longrightarrow> h \<le> c \<Longrightarrow>
     filter (\<lambda>e. c < fst e) (dropWhile (\<lambda>e. fst e \<le> h) xs) = filter (\<lambda>e. c < fst e) (xs :: charge list)"
  by (induction xs) auto

lemma after_dropWhile:
  "ring_ok now xs \<Longrightarrow> h \<le> c \<Longrightarrow> after c (dropWhile (\<lambda>e. fst e \<le> h) xs) = after c xs"
  by (simp add: after_def ring_ok_def filter_dropWhile_sorted)

lemma sum_dropWhile:
  assumes "sorted (map fst xs)"
  shows "sum_list (map snd (dropWhile (\<lambda>e. fst e \<le> h) xs)) = after h xs"
  using assms
proof (induction xs)
  case Nil
  then show ?case by simp
next
  case (Cons e es)
  show ?case
  proof (cases "fst e \<le> h")
    case True
    with Cons show ?thesis by (simp add: after_def)
  next
    case False
    with Cons.prems have "filter (\<lambda>e. h < fst e) (e # es) = e # es"
      by (intro filter_True) auto
    with False show ?thesis by (simp add: after_def)
  qed
qed

locale rolling_admission =
  fixes entries :: "'s \<Rightarrow> charge list"
    and width :: "'s \<Rightarrow> rat"
    and prune :: "'s \<Rightarrow> rat \<Rightarrow> 's"
    and push :: "'s \<Rightarrow> rat \<Rightarrow> rat \<Rightarrow> 's"
    and used :: "'s \<Rightarrow> rat \<Rightarrow> rat"
  assumes entries_prune: "entries (prune s now) = dropWhile (\<lambda>e. fst e \<le> now - width s) (entries s)"
    and entries_push: "entries (push s now n) = entries s @ [(now, n)]"
    and width_prune: "width (prune s now) = width s"
    and width_push: "width (push s now n) = width s"
    and used_pruned: "used s now = sum_list (map snd (entries (prune s now)))"
begin

text \<open>The ring accounts at least every logged charge that is still inside its window.\<close>

definition covers :: "rat \<Rightarrow> charge list \<Rightarrow> 's \<Rightarrow> bool" where
  "covers now adm s \<longleftrightarrow> ring_ok now (entries s) \<and>
     (\<forall>c. now - width s \<le> c \<longrightarrow> after c adm \<le> after c (entries s))"

lemma used_after: "ring_ok now (entries s) \<Longrightarrow> used s now = after (now - width s) (entries s)"
  by (simp add: used_pruned entries_prune sum_dropWhile ring_ok_def)

lemma covers_later: "covers now adm s \<Longrightarrow> now \<le> now' \<Longrightarrow> covers now' adm s"
  by (auto simp: covers_def intro: ring_ok_later)

lemma covers_prune: "covers now adm s \<Longrightarrow> covers now adm (prune s now)"
  by (auto simp: covers_def entries_prune width_prune ring_ok_dropWhile after_dropWhile)

lemma covers_push: "covers now adm s \<Longrightarrow> 0 \<le> n \<Longrightarrow> covers now (adm @ [(now, n)]) (push s now n)"
  by (auto simp: covers_def entries_push width_push ring_ok_push)

lemma covers_top_up: "covers now adm s \<Longrightarrow> 0 \<le> n \<Longrightarrow> covers now adm (push s now n)"
  by (auto simp: covers_def entries_push width_push ring_ok_push intro: add_increasing2)

lemma used_prune:
  assumes "ring_ok now (entries s)"
  shows "used (prune s now) now = used s now"
proof -
  have "ring_ok now (entries (prune s now))"
    using assms by (simp add: entries_prune ring_ok_dropWhile)
  then show ?thesis
    using assms by (simp add: used_after entries_prune width_prune after_dropWhile)
qed

text \<open>What an admission test that passes says of the covered log.\<close>

lemma admit_after:
  assumes "covers now adm s" and "used s now + n \<le> cap"
  shows "after (now - width s) adm + n \<le> cap"
  using assms used_after [of now s] by (auto simp: covers_def intro: order_trans [OF add_right_mono])

text \<open>
  An admission that fits the ceiling keeps every span of the window's width under it: a span
  that ends before the new charge is unchanged, and one that contains it reaches back no
  further than the window the ring covers.
\<close>

lemma admit_span:
  assumes cov: "covers now adm s" and adm: "ring_ok now adm"
    and fits: "used s now + n \<le> cap" and n: "0 \<le> n"
    and spans: "\<And>a. in_span a (a + width s) adm \<le> cap"
  shows "in_span a (a + width s) (adm @ [(now, n)]) \<le> cap"
proof (cases "a < now \<and> now \<le> a + width s")
  case True
  then have a: "now - width s \<le> a" by linarith
  have "in_span a (a + width s) adm \<le> after a adm" by (rule in_span_le_after [OF adm])
  also have "\<dots> \<le> after a (entries s)" using cov a by (simp add: covers_def)
  also have "\<dots> \<le> after (now - width s) (entries s)"
    using cov a by (intro after_antimono) (auto simp: covers_def)
  also have "\<dots> = used s now" using cov by (simp add: used_after covers_def)
  finally show ?thesis using fits True by simp
next
  case False
  then show ?thesis using spans [of a] by auto
qed

end

end
