(* ===== verification/Order_Governor.thy ===== *)
theory Order_Governor
  imports Rolling_Window
begin

text \<open>
  The per-account order-rate governor, \<open>packages/binance/src/rate-limit/order-governor.ts\<close>.

  The closure state of \<open>createOrderRateGovernor\<close> is the record \<open>order_governor\<close>: the windows in
  the insertion order of the JavaScript \<open>Map\<close>, each with its ceiling and its ring of records.
  Every read prunes lazily, so the reads return the pruned state too. One turn of the
  \<open>while (true)\<close> loop of \<open>reserve\<close> is \<open>reserve_turn\<close>; between two turns the caller sleeps and
  other callers run, which is what the argument \<open>env\<close> of \<open>reserve_loop\<close> stands for.

  Times are milliseconds and counts are numbers, exact as \<open>rat\<close> (the code's values are small
  integers, on which double arithmetic is exact). The one product that may round, the haircut
  \<open>w.limit * utilisation\<close>, is taken through the argument \<open>fmul\<close>, the IEEE product of two doubles.
\<close>

record order_window =
  ow_windowMs :: js_number
  ow_limit :: js_number

record rate_record =
  rr_ts :: rat
  rr_count :: rat

record window_state =
  ws_windowMs :: rat
  ws_ceiling :: rat
  ws_records :: "rate_record list"

record order_governor =
  og_utilisation :: rat
  og_windows :: "(rat \<times> window_state) list"
  og_headers :: "string \<rightharpoonup> rat"

datatype gov_error =
    TargetUtilisation js_number
  | WindowMsNotPositive js_number
  | LimitNotPositive js_number
  | CountNotPositive js_number
  | CountExceedsCeiling rat rat rat
  | OrderBudgetUnavailable rat rat
  | Aborted string

definition DEFAULT_UTILISATION :: rat where
  "DEFAULT_UTILISATION = 8 / 10"

definition MAX_RESERVE_WAIT_MS :: rat where
  "MAX_RESERVE_WAIT_MS = 60000"

section \<open>Reading the limits\<close>

fun unitMs :: "string \<Rightarrow> rat option" where
  "unitMs u =
     (if u = ''SECOND'' then Some 1000
      else if u = ''MINUTE'' then Some 60000
      else if u = ''HOUR'' then Some 3600000
      else if u = ''DAY'' then Some 86400000
      else None)"

fun intervalToMs :: "string \<Rightarrow> js_number \<Rightarrow> rat option" where
  "intervalToMs interval (JsNum n) =
     (case unitMs interval of None \<Rightarrow> None | Some unit \<Rightarrow> if n \<le> 0 then None else Some (unit * n))"
| "intervalToMs interval _ = None"

definition to_lower :: "char \<Rightarrow> char" where
  "to_lower c = (let n = of_char c :: nat in if 65 \<le> n \<and> n \<le> 90 then char_of (n + 32) else c)"

text \<open>\<open>nstr\<close> is the language's number-to-string conversion.\<close>

definition intervalSuffix :: "(js_number \<Rightarrow> string) \<Rightarrow> string \<Rightarrow> js_number \<Rightarrow> string" where
  "intervalSuffix nstr interval n = nstr n @ map to_lower (take 1 interval)"

fun parseRow ::
  "(js_number \<Rightarrow> string) \<Rightarrow> json \<Rightarrow> (order_window \<times> string \<times> rat) option" where
  "parseRow nstr row =
     (if jget row ''rateLimitType'' \<noteq> JStr ''ORDERS'' then None
      else case (jget row ''interval'', jget row ''intervalNum'', jget row ''limit'') of
        (JStr interval, JNum n, JNum (JsNum lmt)) \<Rightarrow>
          if lmt \<le> 0 then None
          else (case intervalToMs interval n of
                  None \<Rightarrow> None
                | Some ms \<Rightarrow> Some (\<lparr>ow_windowMs = JsNum ms, ow_limit = JsNum lmt\<rparr>,
                     ''x-mbx-order-count-'' @ intervalSuffix nstr interval n, ms))
      | _ \<Rightarrow> None)"

fun parseOrderRateLimits ::
  "(js_number \<Rightarrow> string) \<Rightarrow> json \<Rightarrow> order_window list \<times> (string \<rightharpoonup> rat)" where
  "parseOrderRateLimits nstr (JArr rows) =
     fold (\<lambda>row (ws, hs). case parseRow nstr row of
              None \<Rightarrow> (ws, hs)
            | Some (w, h, ms) \<Rightarrow> (ws @ [w], hs(h \<mapsto> ms))) rows ([], Map.empty)"
| "parseOrderRateLimits nstr _ = ([], Map.empty)"

section \<open>Windows\<close>

definition positive :: "js_number \<Rightarrow> bool" where
  "positive n = (case n of JsNum r \<Rightarrow> 0 < r | _ \<Rightarrow> False)"

fun num_of :: "js_number \<Rightarrow> rat" where
  "num_of (JsNum r) = r"
| "num_of _ = 0"

text \<open>The validation loop, which runs to its end before anything is written.\<close>

fun validateWindows :: "order_window list \<Rightarrow> gov_error option" where
  "validateWindows [] = None"
| "validateWindows (w # ws) =
     (if \<not> positive (ow_windowMs w) then Some (WindowMsNotPositive (ow_windowMs w))
      else if \<not> positive (ow_limit w) then Some (LimitNotPositive (ow_limit w))
      else validateWindows ws)"

definition windowCeiling :: "(rat \<Rightarrow> rat \<Rightarrow> rat) \<Rightarrow> rat \<Rightarrow> rat \<Rightarrow> rat" where
  "windowCeiling fmul u lmt = max 1 (of_int \<lfloor>fmul lmt u\<rfloor>)"

definition rebuildWindow ::
  "(rat \<Rightarrow> rat \<Rightarrow> rat) \<Rightarrow> rat \<Rightarrow> (rat \<times> window_state) list \<Rightarrow> order_window \<Rightarrow> window_state" where
  "rebuildWindow fmul u previous w =
     \<lparr>ws_windowMs = num_of (ow_windowMs w),
      ws_ceiling = windowCeiling fmul u (num_of (ow_limit w)),
      ws_records = (case map_of previous (num_of (ow_windowMs w)) of
                      Some p \<Rightarrow> ws_records p | None \<Rightarrow> [])\<rparr>"

definition applyWindows ::
  "(rat \<Rightarrow> rat \<Rightarrow> rat) \<Rightarrow> order_governor \<Rightarrow> order_window list \<Rightarrow> order_governor \<times> gov_error option" where
  "applyWindows fmul g next =
     (case validateWindows next of
        Some e \<Rightarrow> (g, Some e)
      | None \<Rightarrow>
          (g\<lparr>og_windows := fold (\<lambda>w acc. map_set (num_of (ow_windowMs w))
                                   (rebuildWindow fmul (og_utilisation g) (og_windows g) w) acc)
                              next []\<rparr>, None))"

definition createOrderRateGovernor ::
  "(rat \<Rightarrow> rat \<Rightarrow> rat) \<Rightarrow> order_window list \<Rightarrow> js_number option \<Rightarrow> (string \<rightharpoonup> rat) option \<Rightarrow>
     gov_error + order_governor" where
  "createOrderRateGovernor fmul windows targetUtilisation headers =
     (let u = (case targetUtilisation of None \<Rightarrow> JsNum DEFAULT_UTILISATION | Some n \<Rightarrow> n)
      in if \<not> positive u \<or> 1 < num_of u then Inl (TargetUtilisation u)
         else case applyWindows fmul
                     \<lparr>og_utilisation = num_of u, og_windows = [],
                      og_headers = (case headers of None \<Rightarrow> Map.empty | Some h \<Rightarrow> h)\<rparr> windows of
                (g, None) \<Rightarrow> Inr g
              | (g, Some e) \<Rightarrow> Inl e)"

section \<open>The tally\<close>

definition pruneW :: "window_state \<Rightarrow> rat \<Rightarrow> window_state" where
  "pruneW w now = w\<lparr>ws_records := dropWhile (\<lambda>r. rr_ts r \<le> now - ws_windowMs w) (ws_records w)\<rparr>"

definition usedIn :: "window_state \<Rightarrow> rat \<Rightarrow> window_state \<times> rat" where
  "usedIn w now = (let w' = pruneW w now in (w', sum_list (map rr_count (ws_records w'))))"

definition pushW :: "window_state \<Rightarrow> rat \<Rightarrow> rat \<Rightarrow> window_state" where
  "pushW w now n = w\<lparr>ws_records := ws_records w @ [\<lparr>rr_ts = now, rr_count = n\<rparr>]\<rparr>"

text \<open>
  The first window that cannot admit \<open>count\<close>, with the windows as the scan leaves them: those
  up to the blocking one are pruned, the ones behind it are not visited.
\<close>

fun blockingWindow ::
  "rat \<Rightarrow> rat \<Rightarrow> (rat \<times> window_state) list \<Rightarrow> (rat \<times> window_state) list \<times> window_state option" where
  "blockingWindow n now [] = ([], None)"
| "blockingWindow n now ((k, w) # ws) =
     (let (w', used) = usedIn w now
      in if ws_ceiling w' < used + n then ((k, w') # ws, Some w')
         else let (ws', b) = blockingWindow n now ws in ((k, w') # ws', b))"

definition commitW :: "rat \<Rightarrow> rat \<Rightarrow> (rat \<times> window_state) list \<Rightarrow> (rat \<times> window_state) list" where
  "commitW n now ws = map (\<lambda>(k, w). (k, pushW w now n)) ws"

definition unsatisfiableWindow :: "rat \<Rightarrow> (rat \<times> window_state) list \<Rightarrow> window_state option" where
  "unsatisfiableWindow n ws = map_option snd (List.find (\<lambda>(k, w). ws_ceiling w < n) ws)"

section \<open>Operations\<close>

definition og_used :: "order_governor \<Rightarrow> rat \<Rightarrow> rat \<Rightarrow> order_governor \<times> rat" where
  "og_used g windowMs now =
     (case map_of (og_windows g) windowMs of
        None \<Rightarrow> (g, 0)
      | Some w \<Rightarrow> (let (w', u) = usedIn w now
                  in (g\<lparr>og_windows := map_set windowMs w' (og_windows g)\<rparr>, u)))"

definition og_ceiling :: "order_governor \<Rightarrow> rat \<Rightarrow> js_number" where
  "og_ceiling g windowMs =
     (case map_of (og_windows g) windowMs of None \<Rightarrow> JsInf | Some w \<Rightarrow> JsNum (ws_ceiling w))"

definition observe :: "order_governor \<Rightarrow> rat \<Rightarrow> js_number \<Rightarrow> rat \<Rightarrow> order_governor" where
  "observe g windowMs used now =
     (case (map_of (og_windows g) windowMs, used) of
        (Some w, JsNum u) \<Rightarrow>
          if u < 0 then g
          else (let (w', own) = usedIn w now
                in g\<lparr>og_windows := map_set windowMs
                       (if own < u then pushW w' now (u - own) else w') (og_windows g)\<rparr>)
      | _ \<Rightarrow> g)"

definition hasHeadroom :: "order_governor \<Rightarrow> js_number \<Rightarrow> rat \<Rightarrow> gov_error + (order_governor \<times> bool)" where
  "hasHeadroom g count now =
     (if \<not> positive count then Inl (CountNotPositive count)
      else case unsatisfiableWindow (num_of count) (og_windows g) of
             Some _ \<Rightarrow> Inr (g, False)
           | None \<Rightarrow>
               (let (ws, b) = blockingWindow (num_of count) now (og_windows g)
                in Inr (g\<lparr>og_windows := ws\<rparr>, b = None)))"

datatype turn = Admitted | Refused gov_error | Sleep rat

definition reserve_turn :: "rat \<Rightarrow> rat \<Rightarrow> rat \<Rightarrow> order_governor \<Rightarrow> order_governor \<times> turn" where
  "reserve_turn n deadline now g =
     (let (ws, b) = blockingWindow n now (og_windows g)
      in case b of
           None \<Rightarrow> (g\<lparr>og_windows := commitW n now ws\<rparr>, Admitted)
         | Some w \<Rightarrow>
             (case ws_records w of
                [] \<Rightarrow> (g\<lparr>og_windows := commitW n now ws\<rparr>, Admitted)
              | oldest # _ \<Rightarrow>
                  (let waitMs = max 1 (rr_ts oldest + ws_windowMs w - now)
                   in if deadline < now + waitMs
                      then (g\<lparr>og_windows := ws\<rparr>, Refused (OrderBudgetUnavailable (ws_windowMs w) waitMs))
                      else (g\<lparr>og_windows := ws\<rparr>, Sleep waitMs))))"

text \<open>
  What ends a sleep: the timer, at some later time and over the state other callers left, or
  the caller's abort signal.
\<close>

datatype wake = Woke rat order_governor | AbortSignal string

fun reserve_loop ::
  "nat \<Rightarrow> (order_governor \<Rightarrow> rat \<Rightarrow> rat \<Rightarrow> wake) \<Rightarrow> rat \<Rightarrow> rat \<Rightarrow> rat \<Rightarrow> order_governor \<Rightarrow>
     (order_governor \<times> gov_error option) option" where
  "reserve_loop 0 env n deadline now g = None"
| "reserve_loop (Suc fuel) env n deadline now g =
     (case reserve_turn n deadline now g of
        (g', Admitted) \<Rightarrow> Some (g', None)
      | (g', Refused e) \<Rightarrow> Some (g', Some e)
      | (g', Sleep waitMs) \<Rightarrow>
          (case env g' now waitMs of
             AbortSignal r \<Rightarrow> Some (g', Some (Aborted r))
           | Woke now' g'' \<Rightarrow> reserve_loop fuel env n deadline now' g''))"

definition reserve ::
  "nat \<Rightarrow> (order_governor \<Rightarrow> rat \<Rightarrow> rat \<Rightarrow> wake) \<Rightarrow> js_number \<Rightarrow> string option \<Rightarrow> rat \<Rightarrow> order_governor \<Rightarrow>
     (order_governor \<times> gov_error option) option" where
  "reserve fuel env count aborted now g =
     (if \<not> positive count then Some (g, Some (CountNotPositive count))
      else case unsatisfiableWindow (num_of count) (og_windows g) of
             Some w \<Rightarrow> Some (g, Some (CountExceedsCeiling (num_of count) (ws_ceiling w) (ws_windowMs w)))
           | None \<Rightarrow>
               (case aborted of
                  Some r \<Rightarrow> Some (g, Some (Aborted r))
                | None \<Rightarrow> reserve_loop fuel env (num_of count) (now + MAX_RESERVE_WAIT_MS) now g))"

section \<open>The windows keep the rolling-window contract\<close>

definition ws_entries :: "window_state \<Rightarrow> charge list" where
  "ws_entries w = map (\<lambda>r. (rr_ts r, rr_count r)) (ws_records w)"

definition ws_used :: "window_state \<Rightarrow> rat \<Rightarrow> rat" where
  "ws_used w now = snd (usedIn w now)"

interpretation ow: rolling_admission ws_entries ws_windowMs pruneW pushW ws_used
proof unfold_locales
  fix s now n
  show "ws_entries (pruneW s now) = dropWhile (\<lambda>e. fst e \<le> now - ws_windowMs s) (ws_entries s)"
    by (simp add: ws_entries_def pruneW_def dropWhile_map comp_def)
  show "ws_entries (pushW s now n) = ws_entries s @ [(now, n)]"
    by (simp add: ws_entries_def pushW_def)
  show "ws_windowMs (pruneW s now) = ws_windowMs s" by (simp add: pruneW_def)
  show "ws_windowMs (pushW s now n) = ws_windowMs s" by (simp add: pushW_def)
  show "ws_used s now = sum_list (map snd (ws_entries (pruneW s now)))"
    by (simp add: ws_used_def usedIn_def Let_def ws_entries_def comp_def)
qed

lemma usedIn_eq: "usedIn w now = (pruneW w now, ws_used w now)"
  by (simp add: usedIn_def ws_used_def Let_def)

lemma ceiling_pruneW [simp]: "ws_ceiling (pruneW w now) = ws_ceiling w"
  by (simp add: pruneW_def)

lemma ceiling_pushW [simp]: "ws_ceiling (pushW w now n) = ws_ceiling w"
  by (simp add: pushW_def)

lemma windowMs_pruneW [simp]: "ws_windowMs (pruneW w now) = ws_windowMs w"
  by (rule ow.width_prune)

lemma windowMs_pushW [simp]: "ws_windowMs (pushW w now n) = ws_windowMs w"
  by (rule ow.width_push)

lemma blockingWindow_members:
  "(k, w) \<in> set (fst (blockingWindow n now ws)) \<Longrightarrow>
     \<exists>v. (k, v) \<in> set ws \<and> (w = v \<or> w = pruneW v now)"
  by (induction ws) (fastforce simp: usedIn_eq Let_def split: if_splits prod.splits)+

lemma blockingWindow_None:
  "blockingWindow n now ws = (ws', None) \<Longrightarrow>
     ws' = map (\<lambda>(k, w). (k, pruneW w now)) ws \<and>
     (\<forall>k w. (k, w) \<in> set ws \<longrightarrow> ws_used w now + n \<le> ws_ceiling w)"
proof (induction n now ws arbitrary: ws' rule: blockingWindow.induct)
  case (1 n now)
  then show ?case by simp
next
  case (2 n now k w ws)
  from 2(2) have fits: "\<not> ws_ceiling w < ws_used w now + n"
    by (auto simp: usedIn_eq Let_def split: if_splits prod.splits)
  with 2(2) obtain ws'' where ws'': "blockingWindow n now ws = (ws'', None)"
      and eq: "ws' = (k, pruneW w now) # ws''"
    by (auto simp: usedIn_eq Let_def split: prod.splits)
  from 2(1) [OF usedIn_eq [symmetric] refl _ ws''] fits
  have "ws'' = map (\<lambda>(k, w). (k, pruneW w now)) ws \<and>
     (\<forall>k w. (k, w) \<in> set ws \<longrightarrow> ws_used w now + n \<le> ws_ceiling w)"
    by simp
  with eq fits show ?case by auto
qed

lemma blockingWindow_None_iff:
  "snd (blockingWindow n now ws) = None \<longleftrightarrow>
     (\<forall>k w. (k, w) \<in> set ws \<longrightarrow> ws_used w now + n \<le> ws_ceiling w)"
  by (induction ws) (auto simp: usedIn_eq Let_def not_less case_prod_unfold split: if_splits)

lemma blockingWindow_Some:
  "blockingWindow n now ws = (ws', Some b) \<Longrightarrow>
     \<exists>k v. (k, v) \<in> set ws \<and> b = pruneW v now \<and> ws_ceiling v < ws_used v now + n"
proof (induction n now ws arbitrary: ws' rule: blockingWindow.induct)
  case (1 n now)
  then show ?case by simp
next
  case (2 n now k w ws)
  show ?case
  proof (cases "ws_ceiling w < ws_used w now + n")
    case True
    with 2(2) show ?thesis by (auto simp: usedIn_eq Let_def)
  next
    case False
    with 2(2) obtain ws'' where "blockingWindow n now ws = (ws'', Some b)"
      by (auto simp: usedIn_eq Let_def split: prod.splits)
    from 2(1) [OF usedIn_eq [symmetric] refl _ this] False show ?thesis by auto
  qed
qed

lemma unsatisfiableWindow_None:
  "unsatisfiableWindow n ws = None \<longleftrightarrow> (\<forall>k w. (k, w) \<in> set ws \<longrightarrow> n \<le> ws_ceiling w)"
  by (auto simp: unsatisfiableWindow_def find_None_iff not_less)

text \<open>A blocking window holds at least one record, since alone \<open>count\<close> fits its ceiling.\<close>

lemma blocking_has_records:
  assumes "blockingWindow n now ws = (ws', Some b)" and "unsatisfiableWindow n ws = None"
  shows "ws_records b \<noteq> []"
proof
  assume empty: "ws_records b = []"
  from blockingWindow_Some [OF assms(1)] obtain k v where v: "(k, v) \<in> set ws"
    "b = pruneW v now" "ws_ceiling v < ws_used v now + n" by blast
  from v(2) empty have "ws_used v now = 0"
    by (simp add: ws_used_def usedIn_def Let_def)
  with v assms(2) show False by (fastforce simp: unsatisfiableWindow_None)
qed

lemma reserve_turn_Admitted:
  assumes "reserve_turn n d now g = (g', Admitted)"
    and "unsatisfiableWindow n (og_windows g) = None"
  shows "g' = g\<lparr>og_windows := map (\<lambda>(k, w). (k, pushW (pruneW w now) now n)) (og_windows g)\<rparr> \<and>
    (\<forall>k w. (k, w) \<in> set (og_windows g) \<longrightarrow> ws_used w now + n \<le> ws_ceiling w)"
proof -
  obtain ws b where blk: "blockingWindow n now (og_windows g) = (ws, b)" by fastforce
  have "b = None"
  proof (rule ccontr)
    assume "b \<noteq> None"
    then obtain w where w: "b = Some w" by auto
    with blocking_has_records [of n now "og_windows g" ws w] blk assms(2)
    obtain r rs where "ws_records w = r # rs" by (cases "ws_records w") auto
    with assms(1) blk w show False by (simp add: reserve_turn_def Let_def split: if_splits)
  qed
  with blk assms(1) blockingWindow_None [of n now "og_windows g" ws] show ?thesis
    by (auto simp: reserve_turn_def commitW_def case_prod_unfold)
qed

lemma reserve_turn_windows:
  assumes "reserve_turn n d now g = (g', t)" and "t \<noteq> Admitted"
  shows "\<exists>ws. g' = g\<lparr>og_windows := ws\<rparr> \<and> ws = fst (blockingWindow n now (og_windows g))"
  using assms
  by (auto simp: reserve_turn_def Let_def split: prod.splits option.splits list.splits if_splits)


section \<open>Interleaved callers\<close>

text \<open>
  Any number of callers share one governor. A caller enters \<open>reserve\<close> with a positive count that fits
  every ceiling of that moment and then waits with its deadline; a step is one synchronous piece of code:
  the entry, a turn of a waiting caller's loop (admitted, put back to sleep or refused), its abort, a peek, a
  usage read, an observation from a response header, a reconfiguration, or the passing of time. The
  ceilings are not checked again on a turn, so a reconfiguration may tighten one below a waiting count.

  The logs \<open>gs_log\<close> are ghosts, one per window length: the admissions since that length became metered,
  each with the ceiling of its moment and with whether its count alone fitted every ceiling then. A
  reconfiguration that keeps a length keeps its log, as the code keeps the window's records.
\<close>

record admission =
  ad_at :: rat
  ad_count :: rat
  ad_ceiling :: rat
  ad_fits :: bool

definition charges :: "admission list \<Rightarrow> charge list" where
  "charges xs = map (\<lambda>x. (ad_at x, ad_count x)) xs"

record gov_sys =
  gs_now :: rat
  gs_gov :: order_governor
  gs_waiting :: "(rat \<times> rat) list"
  gs_log :: "rat \<Rightarrow> admission list"

definition log_admission :: "rat \<Rightarrow> rat \<Rightarrow> order_governor \<Rightarrow> (rat \<Rightarrow> admission list) \<Rightarrow> rat \<Rightarrow> admission list" where
  "log_admission n now g logs k =
     (case map_of (og_windows g) k of
        None \<Rightarrow> logs k
      | Some w \<Rightarrow> logs k @ [\<lparr>ad_at = now, ad_count = n, ad_ceiling = ws_ceiling w,
                            ad_fits = (unsatisfiableWindow n (og_windows g) = None)\<rparr>])"

inductive gov_step :: "(rat \<Rightarrow> rat \<Rightarrow> rat) \<Rightarrow> gov_sys \<Rightarrow> gov_sys \<Rightarrow> bool" for fmul where
  tick: "gs_now s \<le> t \<Longrightarrow> gov_step fmul s (s\<lparr>gs_now := t\<rparr>)"
| enter: "0 < n \<Longrightarrow> unsatisfiableWindow n (og_windows (gs_gov s)) = None \<Longrightarrow>
    gov_step fmul s (s\<lparr>gs_waiting := (n, gs_now s + MAX_RESERVE_WAIT_MS) # gs_waiting s\<rparr>)"
| admit: "(n, d) \<in> set (gs_waiting s) \<Longrightarrow> reserve_turn n d (gs_now s) (gs_gov s) = (g, Admitted) \<Longrightarrow>
    gov_step fmul s (s\<lparr>gs_gov := g, gs_log := log_admission n (gs_now s) (gs_gov s) (gs_log s),
      gs_waiting := remove1 (n, d) (gs_waiting s)\<rparr>)"
| sleep: "(n, d) \<in> set (gs_waiting s) \<Longrightarrow> reserve_turn n d (gs_now s) (gs_gov s) = (g, Sleep ms) \<Longrightarrow>
    gov_step fmul s (s\<lparr>gs_gov := g\<rparr>)"
| refuse: "(n, d) \<in> set (gs_waiting s) \<Longrightarrow> reserve_turn n d (gs_now s) (gs_gov s) = (g, Refused e) \<Longrightarrow>
    gov_step fmul s (s\<lparr>gs_gov := g, gs_waiting := remove1 (n, d) (gs_waiting s)\<rparr>)"
| abort: "gov_step fmul s (s\<lparr>gs_waiting := remove1 (n, d) (gs_waiting s)\<rparr>)"
| peek: "hasHeadroom (gs_gov s) n (gs_now s) = Inr (g, b) \<Longrightarrow> gov_step fmul s (s\<lparr>gs_gov := g\<rparr>)"
| read: "og_used (gs_gov s) ms (gs_now s) = (g, u) \<Longrightarrow> gov_step fmul s (s\<lparr>gs_gov := g\<rparr>)"
| report: "gov_step fmul s (s\<lparr>gs_gov := observe (gs_gov s) ms u (gs_now s)\<rparr>)"
| reconfigure: "applyWindows fmul (gs_gov s) ws = (g, None) \<Longrightarrow>
    gov_step fmul s (s\<lparr>gs_gov := g,
      gs_log := (\<lambda>k. if map_of (og_windows (gs_gov s)) k = None then [] else gs_log s k)\<rparr>)"

inductive gov_reach :: "(rat \<Rightarrow> rat \<Rightarrow> rat) \<Rightarrow> gov_sys \<Rightarrow> bool" for fmul where
  created: "createOrderRateGovernor fmul ws u hs = Inr g \<Longrightarrow>
    gov_reach fmul \<lparr>gs_now = t, gs_gov = g, gs_waiting = [], gs_log = (\<lambda>_. [])\<rparr>"
| stepped: "gov_reach fmul s \<Longrightarrow> gov_step fmul s s' \<Longrightarrow> gov_reach fmul s'"

lemma charges_simps [simp]: "charges [] = []" "charges (x # xs) = (ad_at x, ad_count x) # charges xs" "charges (xs @ ys) = charges xs @ charges ys"
  by (simp_all add: charges_def)

text \<open>
  A log is sound for the length \<open>k\<close> when every admission that fitted kept the window ending with it
  within the ceiling of its moment.
\<close>

definition log_sound :: "rat \<Rightarrow> admission list \<Rightarrow> bool" where
  "log_sound k xs \<longleftrightarrow> (\<forall>pre x post. xs = pre @ x # post \<longrightarrow> ad_fits x \<or> ad_count x \<le> 1 \<longrightarrow>
     after (ad_at x - k) (charges pre) + ad_count x \<le> ad_ceiling x)"

definition window_inv :: "rat \<Rightarrow> rat \<Rightarrow> admission list \<Rightarrow> window_state \<Rightarrow> bool" where
  "window_inv now k xs w \<longleftrightarrow> ws_windowMs w = k \<and> ring_ok now (charges xs) \<and>
     ow.covers now (charges xs) w \<and> log_sound k xs"

definition ceilings_ok :: "order_governor \<Rightarrow> bool" where
  "ceilings_ok g \<longleftrightarrow> (\<forall>k w. (k, w) \<in> set (og_windows g) \<longrightarrow> 1 \<le> ws_ceiling w)"

definition gov_inv :: "gov_sys \<Rightarrow> bool" where
  "gov_inv s \<longleftrightarrow> ceilings_ok (gs_gov s) \<and> (\<forall>(n, d) \<in> set (gs_waiting s). 0 < n) \<and>
     (\<forall>k w. map_of (og_windows (gs_gov s)) k = Some w \<longrightarrow> window_inv (gs_now s) k (gs_log s k) w)"

lemma log_sound_Nil [simp]: "log_sound k []"
  by (simp add: log_sound_def)

lemma log_sound_snoc:
  assumes "log_sound k xs" "ad_fits x \<or> ad_count x \<le> 1 \<Longrightarrow> after (ad_at x - k) (charges xs) + ad_count x \<le> ad_ceiling x"
  shows "log_sound k (xs @ [x])"
  unfolding log_sound_def
proof (intro allI impI)
  fix pre y post assume y: "xs @ [x] = pre @ y # post" and fits: "ad_fits y \<or> ad_count y \<le> 1"
  show "after (ad_at y - k) (charges pre) + ad_count y \<le> ad_ceiling y"
  proof (cases post rule: rev_cases)
    case Nil
    then show ?thesis using y assms(2) fits by simp
  next
    case (snoc ys z)
    then show ?thesis using y assms(1) fits unfolding log_sound_def by (metis append.assoc append_Cons append1_eq_conv)
  qed
qed

lemma window_inv_prune: "window_inv now k xs w \<Longrightarrow> window_inv now k xs (pruneW w now)"
  by (simp add: window_inv_def ow.covers_prune)

lemma window_inv_top_up: "window_inv now k xs w \<Longrightarrow> 0 \<le> n \<Longrightarrow> window_inv now k xs (pushW w now n)"
  by (simp add: window_inv_def ow.covers_top_up)

lemma window_inv_later: "window_inv now k xs w \<Longrightarrow> now \<le> t \<Longrightarrow> window_inv t k xs w"
  by (auto simp: window_inv_def intro: ring_ok_later ow.covers_later)

lemma window_inv_admit:
  assumes "window_inv now k xs w" "0 < n" "ad_at x = now" "ad_count x = n" "ad_ceiling x = ws_ceiling w"
    and "ad_fits x \<or> n \<le> 1 \<Longrightarrow> ws_used w now + n \<le> ws_ceiling w" and "v = w \<or> v = pruneW w now"
  shows "window_inv now k (xs @ [x]) (pushW v now n)"
proof -
  have v: "window_inv now k xs v" using assms(1,7) window_inv_prune by blast
  have "after (now - k) (charges xs) + n \<le> ws_ceiling w" if "ad_fits x \<or> n \<le> 1"
    using ow.admit_after [of now "charges xs" w n] assms(1) assms(6) [OF that] by (simp add: window_inv_def)
  then have "log_sound k (xs @ [x])" using assms(1,3-5) by (intro log_sound_snoc) (auto simp: window_inv_def)
  with v show ?thesis using assms(2-4) by (auto simp: window_inv_def intro: ring_ok_push ow.covers_push)
qed

lemma window_inv_fresh:
  assumes "ring_ok now (ws_entries w)" "ws_windowMs w = k"
  shows "window_inv now k [] w"
proof -
  have "0 \<le> after c (ws_entries w)" for c
    using assms(1) by (auto simp: after_def ring_ok_def intro!: sum_list_nonneg)
  with assms show ?thesis by (simp add: window_inv_def ow.covers_def)
qed

text \<open>What the scan does to one window length.\<close>

lemma scan_map_of:
  "map_of (fst (blockingWindow n now ws)) k = Some w \<Longrightarrow> \<exists>v. map_of ws k = Some v \<and> (w = v \<or> w = pruneW v now)"
  by (induction ws) (auto simp: usedIn_eq Let_def case_prod_unfold split: if_splits)

lemma commit_map_of: "map_of (commitW n now ws) k = map_option (\<lambda>w. pushW w now n) (map_of ws k)"
  by (induction ws) (auto simp: commitW_def)

text \<open>
  An admission commits to the windows as the scan left them; when the count alone fits every ceiling, it
  fits on top of what each window still holds.
\<close>

lemma reserve_turn_commits:
  assumes "reserve_turn n d now g = (g', Admitted)"
  shows "g' = g\<lparr>og_windows := commitW n now (fst (blockingWindow n now (og_windows g)))\<rparr>"
  using assms by (auto simp: reserve_turn_def Let_def split: prod.splits option.splits list.splits if_splits)

lemma small_counts_fit: "ceilings_ok g \<Longrightarrow> n \<le> 1 \<Longrightarrow> unsatisfiableWindow n (og_windows g) = None"
  by (auto simp: unsatisfiableWindow_None ceilings_ok_def intro: order_trans)

lemma applyWindows_members:
  assumes "applyWindows fmul g ws = (g', None)" and "(k, w) \<in> set (og_windows g')"
  shows "\<exists>x \<in> set ws. k = num_of (ow_windowMs x) \<and> w = rebuildWindow fmul (og_utilisation g) (og_windows g) x"
  using assms fold_map_set_members [of k w "\<lambda>x. num_of (ow_windowMs x)"
      "rebuildWindow fmul (og_utilisation g) (og_windows g)" ws "[]"]
  by (auto simp: applyWindows_def split: option.splits)

lemma rebuilt_ceilings: "applyWindows fmul g ws = (g', None) \<Longrightarrow> ceilings_ok g'"
  by (auto simp: ceilings_ok_def rebuildWindow_def windowCeiling_def dest!: applyWindows_members)

text \<open>A length that survives keeps its log, because it keeps its records; a new one starts empty.\<close>

lemma rebuilt_window_inv:
  assumes "applyWindows fmul g ws = (g', None)" "map_of (og_windows g') k = Some w"
    and prev: "\<And>v. map_of (og_windows g) k = Some v \<Longrightarrow> window_inv now k (logs k) v"
  shows "window_inv now k (if map_of (og_windows g) k = None then [] else logs k) w"
proof -
  obtain x where x: "k = num_of (ow_windowMs x)" "w = rebuildWindow fmul (og_utilisation g) (og_windows g) x"
    using applyWindows_members [OF assms(1) map_of_SomeD [OF assms(2)]] by blast
  show ?thesis
  proof (cases "map_of (og_windows g) k")
    case None
    then have "window_inv now k [] w"
      by (intro window_inv_fresh) (simp_all add: x rebuildWindow_def ws_entries_def)
    with None show ?thesis by simp
  next
    case (Some v)
    then have "ws_windowMs w = ws_windowMs v" "ws_entries w = ws_entries v"
      using prev [OF Some] by (simp_all add: x rebuildWindow_def ws_entries_def window_inv_def)
    then show ?thesis using prev [OF Some] Some by (simp add: window_inv_def ow.covers_def)
  qed
qed

lemma gov_inv_scan:
  assumes "gov_inv s"
  shows "gov_inv (s\<lparr>gs_gov := gs_gov s\<lparr>og_windows := fst (blockingWindow n (gs_now s) (og_windows (gs_gov s)))\<rparr>\<rparr>)"
  using assms
  by (auto simp: gov_inv_def ceilings_ok_def dest!: blockingWindow_members scan_map_of intro: window_inv_prune)

lemma gov_inv_set:
  assumes inv: "gov_inv s" and v: "map_of (og_windows (gs_gov s)) ms = Some v" "ws_ceiling w = ws_ceiling v"
    and w: "window_inv (gs_now s) ms (gs_log s ms) w"
  shows "gov_inv (s\<lparr>gs_gov := gs_gov s\<lparr>og_windows := map_set ms w (og_windows (gs_gov s))\<rparr>\<rparr>)"
proof -
  have "ceilings_ok (gs_gov s\<lparr>og_windows := map_set ms w (og_windows (gs_gov s))\<rparr>)"
    using inv map_of_SomeD [OF v(1)] v(2) by (auto simp: gov_inv_def ceilings_ok_def dest: set_map_set)
  with inv w show ?thesis by (simp add: gov_inv_def)
qed

lemma gov_inv_waiting: "gov_inv s \<Longrightarrow> set ps \<subseteq> set (gs_waiting s) \<Longrightarrow> gov_inv (s\<lparr>gs_waiting := ps\<rparr>)"
  by (auto simp: gov_inv_def)

lemma gov_inv_admit:
  assumes inv: "gov_inv s" and n: "0 < n" and turn: "reserve_turn n d (gs_now s) (gs_gov s) = (g, Admitted)"
  shows "gov_inv (s\<lparr>gs_gov := g, gs_log := log_admission n (gs_now s) (gs_gov s) (gs_log s)\<rparr>)"
proof -
  let ?ws = "og_windows (gs_gov s)" and ?now = "gs_now s"
  note g = reserve_turn_commits [OF turn]
  have "ceilings_ok g" using inv by (auto simp: gov_inv_def ceilings_ok_def g commitW_def dest!: blockingWindow_members)
  moreover have "window_inv ?now k (log_admission n ?now (gs_gov s) (gs_log s) k) w" if w: "map_of (og_windows g) k = Some w" for k w
  proof -
    obtain v u where v: "map_of ?ws k = Some v" "u = v \<or> u = pruneW v ?now" "w = pushW u ?now n"
      using w by (auto simp: g commit_map_of dest!: scan_map_of)
    have "ws_used v ?now + n \<le> ws_ceiling v" if "unsatisfiableWindow n ?ws = None \<or> n \<le> 1"
      using reserve_turn_Admitted [OF turn] map_of_SomeD [OF v(1)] that small_counts_fit [of "gs_gov s" n] inv
      by (auto simp: gov_inv_def)
    moreover have "window_inv ?now k (gs_log s k) v" using inv v(1) by (simp add: gov_inv_def)
    ultimately show ?thesis
      using n v(2) unfolding log_admission_def v(1) option.simps v(3) by (intro window_inv_admit [of _ _ _ v]) auto
  qed
  ultimately show ?thesis using inv by (simp add: gov_inv_def)
qed

lemma gov_step_inv: "gov_step fmul s s' \<Longrightarrow> gov_inv s \<Longrightarrow> gov_inv s'"
proof (induction rule: gov_step.induct)
  case (tick s t)
  then show ?case by (auto simp: gov_inv_def intro: window_inv_later)
next
  case (enter n s)
  then show ?case by (auto simp: gov_inv_def)
next
  case (admit n d s g)
  then have "0 < n" by (auto simp: gov_inv_def)
  from gov_inv_waiting [OF gov_inv_admit [OF admit(3) this admit(2)], of "remove1 (n, d) (gs_waiting s)"] show ?case
    by (simp add: set_remove1_subset)
next
  case (sleep n d s g ms)
  from reserve_turn_windows [OF sleep(2)] gov_inv_scan [OF sleep(3), of n] show ?case by auto
next
  case (refuse n d s g e)
  from reserve_turn_windows [OF refuse(2)] gov_inv_waiting [OF gov_inv_scan [OF refuse(3), of n], of "remove1 (n, d) (gs_waiting s)"]
  show ?case by (auto simp: set_remove1_subset)
next
  case (abort s n d)
  then show ?case by (intro gov_inv_waiting) (auto simp: set_remove1_subset)
next
  case (peek s n g b)
  with gov_inv_scan [OF peek(2), of "num_of n"] show ?case
    by (auto simp: hasHeadroom_def Let_def case_prod_unfold split: if_splits option.splits)
next
  case (read s ms g u)
  show ?case
  proof (cases "map_of (og_windows (gs_gov s)) ms")
    case None
    then have "g = gs_gov s" using read(1) by (simp add: og_used_def)
    with read(2) show ?thesis by simp
  next
    case (Some v)
    with read(2) have "window_inv (gs_now s) ms (gs_log s ms) (pruneW v (gs_now s))" by (auto simp: gov_inv_def intro: window_inv_prune)
    from gov_inv_set [OF read(2) Some _ this] read(1) Some show ?thesis by (auto simp: og_used_def usedIn_eq)
  qed
next
  case (report s ms u)
  show ?case
  proof (cases "\<exists>v n. map_of (og_windows (gs_gov s)) ms = Some v \<and> u = JsNum n \<and> 0 \<le> n")
    case True
    then obtain v n where v: "map_of (og_windows (gs_gov s)) ms = Some v" "u = JsNum n" "0 \<le> n" by blast
    with report have p: "window_inv (gs_now s) ms (gs_log s ms) (pruneW v (gs_now s))" by (auto simp: gov_inv_def intro: window_inv_prune)
    from gov_inv_set [OF report v(1) _ p] gov_inv_set [OF report v(1) _ window_inv_top_up [OF p, of "n - ws_used v (gs_now s)"]] v
    show ?thesis by (simp add: observe_def usedIn_eq)
  next
    case False
    then have "observe (gs_gov s) ms u (gs_now s) = gs_gov s" by (auto simp: observe_def not_le split: option.splits js_number.splits)
    with report show ?thesis by simp
  qed
next
  case (reconfigure s ws g)
  from rebuilt_window_inv [OF reconfigure(1), of _ _ "gs_now s" "gs_log s"] rebuilt_ceilings [OF reconfigure(1)] reconfigure(2)
  show ?case by (auto simp: gov_inv_def)
qed

lemma gov_reach_inv: "gov_reach fmul s \<Longrightarrow> gov_inv s"
proof (induction rule: gov_reach.induct)
  case (created ws u hs g t)
  let ?g0 = "\<lparr>og_utilisation = num_of (case u of None \<Rightarrow> JsNum DEFAULT_UTILISATION | Some n \<Rightarrow> n),
     og_windows = [], og_headers = (case hs of None \<Rightarrow> Map.empty | Some h \<Rightarrow> h)\<rparr>"
  from created have g: "applyWindows fmul ?g0 ws = (g, None)"
    by (auto simp: createOrderRateGovernor_def Let_def split: if_splits prod.splits option.splits)
  from rebuilt_window_inv [OF g, of _ _ t "\<lambda>_. []"] rebuilt_ceilings [OF g] show ?case by (simp add: gov_inv_def)
next
  case (stepped s s')
  then show ?case by (blast intro: gov_step_inv)
qed

section \<open>Waiting\<close>

lemma reserve_turn_Sleep:
  "reserve_turn n d now g = (g', Sleep w) \<Longrightarrow> 1 \<le> w \<and> now + w \<le> d"
  by (auto simp: reserve_turn_def Let_def not_less split: prod.splits option.splits list.splits if_splits)

lemma reserve_loop_returns:
  assumes env: "\<And>g t w t' g'. env g t w = Woke t' g' \<Longrightarrow> t + w \<le> t'"
  shows "0 < fuel \<Longrightarrow> d - now < of_nat fuel \<Longrightarrow> \<exists>r. reserve_loop fuel env n d now g = Some r"
proof (induction fuel arbitrary: now g)
  case 0
  then show ?case by simp
next
  case (Suc fuel)
  obtain g' t where turn: "reserve_turn n d now g = (g', t)" by fastforce
  show ?case
  proof (cases t)
    case (Sleep w)
    from reserve_turn_Sleep [of n d now g g' w] turn Sleep have w: "1 \<le> w" "now + w \<le> d" by auto
    show ?thesis
    proof (cases "env g' now w")
      case (Woke now' g'')
      from env [OF this] w Suc.prems have "d - now' < of_nat fuel" by simp
      moreover have "0 < fuel"
      proof (rule ccontr)
        assume "\<not> 0 < fuel"
        with Suc.prems w show False by simp
      qed
      ultimately have "\<exists>r. reserve_loop fuel env n d now' g'' = Some r" by (intro Suc.IH)
      with turn Sleep Woke show ?thesis by simp
    qed (simp add: turn Sleep)
  qed (simp_all add: turn)
qed

section \<open>Properties\<close>

text \<open>
  C1. No rolling span is ever over-admitted, across reconfigurations. In every state the interleaved callers can
  reach, for every window length \<open>k\<close> that is metered and every span of that length, the orders admitted in
  the span since \<open>k\<close> became metered stay within the ceiling that was in force at the last of them,
  whatever is observed, peeked, waited for, aborted or reconfigured in between: a ceiling that is
  tightened in place binds at once, because the records of a surviving length are carried over. The last
  admission must be of a single order, as every caller in the source asks for, or of a count that still fitted
  every ceiling on its own.
\<close>

theorem order_rate_never_exceeded:
  assumes "gov_reach fmul s" and "map_of (og_windows (gs_gov s)) k \<noteq> None"
    and log: "gs_log s k = pre @ x # post" and x: "ad_fits x \<or> ad_count x \<le> 1"
    and span: "a < ad_at x" "ad_at x \<le> a + k" "\<forall>y \<in> set post. a + k < ad_at y"
  shows "in_span a (a + k) (charges (gs_log s k)) \<le> ad_ceiling x"
proof -
  have ok: "ring_ok (gs_now s) (charges (gs_log s k))" "log_sound k (gs_log s k)"
    using gov_reach_inv [OF assms(1)] assms(2) by (auto simp: gov_inv_def window_inv_def)
  have pre: "ring_ok (gs_now s) (charges pre)" using ok(1) ring_ok_prefix by (auto simp: log)
  have "in_span a (a + k) (charges post) = 0" using span(3) by (induction post) (auto simp: in_span_def)
  then have "in_span a (a + k) (charges (gs_log s k)) = in_span a (a + k) (charges pre) + ad_count x"
    using span(1,2) by (simp add: log in_span_def)
  also have "\<dots> \<le> after (ad_at x - k) (charges pre) + ad_count x"
    using in_span_le_after [OF pre, of a "a + k"] after_antimono [OF pre, of "ad_at x - k" a] span(2) by simp
  also have "\<dots> \<le> ad_ceiling x" using ok(2) log x by (auto simp: log_sound_def)
  finally show ?thesis .
qed

text \<open>
  A governor that admits two orders under a ceiling of four, is tightened to two by a reconfiguration and then
  refuses: the third order waits until the first two have aged out.
\<close>

definition gov_demo_window :: "rat \<Rightarrow> order_window" where
  "gov_demo_window lmt = \<lparr>ow_windowMs = JsNum 10000, ow_limit = JsNum lmt\<rparr>"

definition gov_demo_at :: "rat \<Rightarrow> rat list \<Rightarrow> order_governor" where
  "gov_demo_at cap ts = \<lparr>og_utilisation = 8 / 10,
     og_windows = [(10000, \<lparr>ws_windowMs = 10000, ws_ceiling = cap, ws_records = map (\<lambda>t. \<lparr>rr_ts = t, rr_count = 1\<rparr>) ts\<rparr>)],
     og_headers = Map.empty\<rparr>"

definition gov_demo :: order_governor where
  "gov_demo = gov_demo_at 4 []"

definition gov_demo_log :: "rat \<Rightarrow> (rat \<times> rat) list \<Rightarrow> rat \<Rightarrow> admission list" where
  "gov_demo_log n ps k = (if k = 10000 then map (\<lambda>(t, cap). \<lparr>ad_at = t, ad_count = n, ad_ceiling = cap, ad_fits = True\<rparr>) ps else [])"

definition gov_demo_sys :: "rat \<Rightarrow> rat \<Rightarrow> rat list \<Rightarrow> (rat \<times> rat) list \<Rightarrow> (rat \<times> rat) list \<Rightarrow> gov_sys" where
  "gov_demo_sys t cap ts ps qs = \<lparr>gs_now = t, gs_gov = gov_demo_at cap ts, gs_waiting = qs, gs_log = gov_demo_log 1 ps\<rparr>"

lemma gov_demo_created: "createOrderRateGovernor (*) [gov_demo_window 5] None None = Inr gov_demo"
  by (simp add: createOrderRateGovernor_def gov_demo_window_def gov_demo_def gov_demo_at_def DEFAULT_UTILISATION_def
      positive_def applyWindows_def rebuildWindow_def windowCeiling_def)

lemma gov_demo_tightened: "applyWindows (*) (gov_demo_at cap ts) [gov_demo_window 3] = (gov_demo_at 2 ts, None)"
proof -
  have "\<lfloor>12 / 5 :: rat\<rfloor> = 2" by (rule floor_unique) simp_all
  then show ?thesis by (simp add: gov_demo_window_def gov_demo_at_def positive_def applyWindows_def rebuildWindow_def windowCeiling_def)
qed

lemma gov_demo_enter:
  "1 \<le> cap \<Longrightarrow> gov_reach f (gov_demo_sys t cap ts ps []) \<Longrightarrow> gov_reach f (gov_demo_sys t cap ts ps [(1, t + 60000)])"
  using gov_reach.stepped [OF _ gov_step.enter [of 1 "gov_demo_sys t cap ts ps []"]]
  by (simp add: gov_demo_sys_def gov_demo_at_def unsatisfiableWindow_def MAX_RESERVE_WAIT_MS_def)

lemma gov_demo_admit:
  assumes "gov_reach f (gov_demo_sys t cap ts ps [])" "1 \<le> cap" "dropWhile (\<lambda>u. u \<le> t - 10000) ts = ts'" "of_nat (length ts') + 1 \<le> cap"
  shows "gov_reach f (gov_demo_sys t cap (ts' @ [t]) (ps @ [(t, cap)]) [])"
proof -
  let ?s = "gov_demo_sys t cap ts ps [(1, t + 60000)]"
  have "sum_list (map rr_count (map (\<lambda>t. \<lparr>rr_ts = t, rr_count = 1\<rparr>) ts')) = of_nat (length ts')" by (induction ts') simp_all
  then have turn: "reserve_turn 1 (t + 60000) (gs_now ?s) (gs_gov ?s) = (gov_demo_at cap (ts' @ [t]), Admitted)"
    using assms(3,4) by (simp add: gov_demo_sys_def gov_demo_at_def reserve_turn_def usedIn_def pruneW_def dropWhile_map comp_def commitW_def pushW_def Let_def)
  have e: "gov_demo_sys t cap (ts' @ [t]) (ps @ [(t, cap)]) [] =
      ?s\<lparr>gs_gov := gov_demo_at cap (ts' @ [t]), gs_log := log_admission 1 (gs_now ?s) (gs_gov ?s) (gs_log ?s),
         gs_waiting := remove1 (1, t + 60000) (gs_waiting ?s)\<rparr>"
    using assms(2) by (auto simp: gov_demo_sys_def gov_demo_log_def log_admission_def gov_demo_at_def unsatisfiableWindow_def fun_eq_iff)
  have "(1, t + 60000) \<in> set (gs_waiting ?s)" by (simp add: gov_demo_sys_def)
  from gov_reach.stepped [OF gov_demo_enter [OF assms(2,1)] gov_step.admit [OF this turn]] show ?thesis unfolding e .
qed

lemma gov_demo_tick: "gov_reach f (gov_demo_sys t cap ts ps []) \<Longrightarrow> t \<le> t' \<Longrightarrow> gov_reach f (gov_demo_sys t' cap ts ps [])"
  using gov_reach.stepped [OF _ gov_step.tick [of "gov_demo_sys t cap ts ps []" t']] by (simp add: gov_demo_sys_def)

lemma gov_demo_tighten: "gov_reach (*) (gov_demo_sys t cap ts ps []) \<Longrightarrow> gov_reach (*) (gov_demo_sys t 2 ts ps [])"
proof -
  assume r: "gov_reach (*) (gov_demo_sys t cap ts ps [])"
  let ?s = "gov_demo_sys t cap ts ps []"
  have e: "gov_demo_sys t 2 ts ps [] = ?s\<lparr>gs_gov := gov_demo_at 2 ts,
      gs_log := (\<lambda>k. if map_of (og_windows (gs_gov ?s)) k = None then [] else gs_log ?s k)\<rparr>"
    by (auto simp: gov_demo_sys_def gov_demo_at_def gov_demo_log_def fun_eq_iff)
  have "applyWindows (*) (gs_gov ?s) [gov_demo_window 3] = (gov_demo_at 2 ts, None)" by (simp add: gov_demo_sys_def gov_demo_tightened)
  from gov_reach.stepped [OF r gov_step.reconfigure [OF this]] show ?thesis unfolding e .
qed

lemma gov_demo_reached: "gov_reach (*) (gov_demo_sys 10000 2 [1, 10000] [(0, 4), (1, 4), (10000, 2)] [])"
proof -
  have "gov_reach (*) (gov_demo_sys 0 4 [] [] [])"
  proof -
    have "gov_demo_log 1 [] = (\<lambda>_. [])" by (simp add: gov_demo_log_def fun_eq_iff)
    then show ?thesis using gov_reach.created [OF gov_demo_created, of 0] by (simp add: gov_demo_def gov_demo_sys_def)
  qed
  from gov_demo_admit [OF this, of "[]"] have "gov_reach (*) (gov_demo_sys 0 4 [0] [(0, 4)] [])" by simp
  then have "gov_reach (*) (gov_demo_sys 1 4 [0] [(0, 4)] [])" by (rule gov_demo_tick) simp
  from gov_demo_admit [OF this, of "[0]"] have "gov_reach (*) (gov_demo_sys 1 4 [0, 1] [(0, 4), (1, 4)] [])" by simp
  then have "gov_reach (*) (gov_demo_sys 1 2 [0, 1] [(0, 4), (1, 4)] [])" by (rule gov_demo_tighten)
  then have "gov_reach (*) (gov_demo_sys 10000 2 [0, 1] [(0, 4), (1, 4)] [])" by (rule gov_demo_tick) simp
  from gov_demo_admit [OF this, of "[1]"] show ?thesis by simp
qed

theorem order_rate_never_exceeded_witness:
  "gov_reach (*) (gov_demo_sys 10000 2 [1, 10000] [(0, 4), (1, 4), (10000, 2)] []) \<and>
   in_span 0 10000 (charges (gs_log (gov_demo_sys 10000 2 [1, 10000] [(0, 4), (1, 4), (10000, 2)] []) 10000)) \<le> 2"
proof -
  let ?s = "gov_demo_sys 10000 2 [1, 10000] [(0, 4), (1, 4), (10000, 2)] []"
  let ?x = "\<lambda>t cap. \<lparr>ad_at = t, ad_count = 1, ad_ceiling = cap, ad_fits = True\<rparr>"
  have w: "map_of (og_windows (gs_gov ?s)) 10000 \<noteq> None" by (simp add: gov_demo_sys_def gov_demo_at_def)
  have log: "gs_log ?s 10000 = [?x 0 4, ?x 1 4] @ ?x 10000 2 # []" by (simp add: gov_demo_sys_def gov_demo_log_def)
  from order_rate_never_exceeded [OF gov_demo_reached w log, of 0] gov_demo_reached show ?thesis by simp
qed

text \<open>
  The guard for an empty ring, marked unreachable in the source, is reached when a reconfiguration
  tightens a ceiling below a count that already waits: the turn then commits the whole count over the
  ceiling, without consulting the windows behind the blocking one.
\<close>

lemma empty_ring_guard_over_admits:
  assumes "map_of (og_windows g) k = Some w" "og_windows g = [(k, w)]" "ws_records w = []" "ws_ceiling w < n"
  shows "snd (reserve_turn n d now g) = Admitted \<and>
    (\<exists>w'. map_of (og_windows (fst (reserve_turn n d now g))) k = Some w' \<and> ws_ceiling w' < sum_list (map rr_count (ws_records w')))"
  using assms by (simp add: reserve_turn_def usedIn_def pruneW_def commitW_def pushW_def Let_def)

text \<open>
  C2. A reservation always comes back. As long as a timer never fires early, \<open>reserve\<close> returns,
  admitted, refused or aborted, within 60001 turns of its loop, whatever the other callers do to
  the windows while it sleeps: the 60 second bound on the total wait covers windows of any length.
\<close>

theorem reserve_returns:
  assumes "\<And>g t w t' g'. env g t w = Woke t' g' \<Longrightarrow> t + w \<le> t'"
  shows "\<exists>r. reserve 60001 env count aborted now g = Some r"
proof -
  have "\<exists>r. reserve_loop 60001 env (num_of count) (now + MAX_RESERVE_WAIT_MS) now g = Some r"
    by (rule reserve_loop_returns) (use assms in \<open>auto simp: MAX_RESERVE_WAIT_MS_def\<close>)
  then show ?thesis by (auto simp: reserve_def split: option.splits)
qed

theorem reserve_returns_witness:
  "\<exists>r. reserve 60001 (\<lambda>g t w. Woke (t + w) g) (JsNum 1) None 0 gov_demo = Some r"
  by (rule reserve_returns) simp


text \<open>Pruning twice at one instant is pruning once, whatever order the records are in.\<close>

lemma ws_used_pruneW [simp]: "ws_used (pruneW w now) now = ws_used w now"
  by (simp add: ws_used_def usedIn_def pruneW_def Let_def)

lemma scan_used:
  "(k, w) \<in> set (fst (blockingWindow n now ws)) \<Longrightarrow>
     \<exists>v. (k, v) \<in> set ws \<and> ws_used w now = ws_used v now \<and> ws_ceiling w = ws_ceiling v"
  by (fastforce dest: blockingWindow_members)

lemma reserve_turn_admits_iff:
  assumes "unsatisfiableWindow n (og_windows g) = None"
  shows "snd (reserve_turn n d now g) = Admitted \<longleftrightarrow> snd (blockingWindow n now (og_windows g)) = None"
proof -
  obtain ws b where blk: "blockingWindow n now (og_windows g) = (ws, b)" by fastforce
  show ?thesis
  proof (cases b)
    case None
    with blk show ?thesis by (simp add: reserve_turn_def)
  next
    case (Some w)
    with blocking_has_records [of n now "og_windows g" ws w] blk assms
    obtain r rs where "ws_records w = r # rs" by (cases "ws_records w") auto
    with blk Some show ?thesis by (simp add: reserve_turn_def Let_def)
  qed
qed

text \<open>
  The peek is exact and free. \<open>hasHeadroom\<close> answers true exactly when the count fits every
  window's ceiling on top of what the window still holds; a \<open>reserve\<close> turn at the same instant on
  the state the peek leaves is then admitted at once, and the peek changes no window's usage.
\<close>

lemma hasHeadroom_exact:
  assumes "hasHeadroom g (JsNum n) now = Inr (g', b)"
  shows "(b \<longleftrightarrow> (\<forall>k w. (k, w) \<in> set (og_windows g) \<longrightarrow> n \<le> ws_ceiling w \<and> ws_used w now + n \<le> ws_ceiling w)) \<and>
    (b \<longrightarrow> snd (reserve_turn n d now g') = Admitted) \<and>
    (\<forall>k w. (k, w) \<in> set (og_windows g') \<longrightarrow>
       (\<exists>v. (k, v) \<in> set (og_windows g) \<and> ws_used w now = ws_used v now))"
proof (cases "unsatisfiableWindow n (og_windows g)")
  case None
  let ?scan = "blockingWindow n now (og_windows g)"
  from assms None have g': "g' = g\<lparr>og_windows := fst ?scan\<rparr>" and b: "b = (snd ?scan = None)"
    by (auto simp: hasHeadroom_def Let_def case_prod_unfold split: if_splits)
  have sat: "unsatisfiableWindow n (og_windows g') = None"
    using None scan_used [of _ _ n now "og_windows g"]
    by (fastforce simp: g' unsatisfiableWindow_None)
  have "snd (blockingWindow n now (og_windows g')) = None" if b
    using that b scan_used [of _ _ n now "og_windows g"]
    by (fastforce simp: g' blockingWindow_None_iff)
  then have "snd (reserve_turn n d now g') = Admitted" if b
    using that by (simp add: reserve_turn_admits_iff [OF sat])
  with None b g' show ?thesis
    by (auto simp: blockingWindow_None_iff unsatisfiableWindow_None dest: scan_used)
next
  case (Some w)
  with assms have "g' = g" "\<not> b" by (auto simp: hasHeadroom_def split: if_splits)
  with Some unsatisfiableWindow_None [of n "og_windows g"] show ?thesis by auto
qed

text \<open>
  An observation only ever tops a window up: after \<open>observe\<close> the usage of the reported window
  is the larger of what the governor had booked and what the exchange reports, and no other window
  changes.
\<close>

lemma observe_tops_up:
  assumes "map_of (og_windows g) ms = Some w" and "0 < ws_windowMs w" and "0 \<le> u"
  shows "snd (og_used (observe g ms (JsNum u) now) ms now) = max u (ws_used w now) \<and>
    (\<forall>ms'. ms' \<noteq> ms \<longrightarrow>
       map_of (og_windows (observe g ms (JsNum u) now)) ms' = map_of (og_windows g) ms')"
proof -
  let ?w = "pruneW w now"
  let ?p = "pushW ?w now (u - ws_used w now)"
  have "ws_used ?p now = u"
  proof -
    let ?exp = "\<lambda>r. rr_ts r \<le> now - ws_windowMs w"
    have kept: "dropWhile ?exp (ws_records ?w @ [\<lparr>rr_ts = now, rr_count = u - ws_used w now\<rparr>]) =
        ws_records ?w @ [\<lparr>rr_ts = now, rr_count = u - ws_used w now\<rparr>]"
      using assms(2) by (intro dropWhile_fixed_snoc) (simp_all add: pruneW_def)
    have "ws_used ?p now = sum_list (map rr_count (ws_records ?w)) + (u - ws_used w now)"
      using kept by (simp add: ws_used_def usedIn_def pruneW_def pushW_def Let_def)
    then show ?thesis by (simp add: ws_used_def usedIn_def Let_def)
  qed
  with assms show ?thesis
    by (auto simp: observe_def og_used_def usedIn_eq max_def)
qed

text \<open>
  Reconfiguring is all or nothing and forgets no usage: a malformed set leaves the governor
  untouched; otherwise exactly the listed lengths are metered, a length that survives keeps its
  records, a new one starts empty, and no ceiling is below one or, where the haircut product does
  not exceed the limit, above the larger of one and the published limit.
\<close>

lemma reconfigure_keeps_tally:
  assumes "applyWindows fmul g next = (g', e)"
    and haircut: "\<And>x. 0 < x \<Longrightarrow> fmul x (og_utilisation g) \<le> x"
  shows "(e \<noteq> None \<longrightarrow> g' = g) \<and>
    (e = None \<longrightarrow> (\<forall>ms. (map_of (og_windows g') ms \<noteq> None) = (\<exists>x \<in> set next. num_of (ow_windowMs x) = ms)) \<and>
      (\<forall>ms w. map_of (og_windows g') ms = Some w \<longrightarrow>
         ws_records w = (case map_of (og_windows g) ms of Some p \<Rightarrow> ws_records p | None \<Rightarrow> []) \<and>
         1 \<le> ws_ceiling w \<and>
         (\<exists>x \<in> set next. num_of (ow_windowMs x) = ms \<and> ws_ceiling w \<le> max 1 (num_of (ow_limit x)))))"
proof -
  have valid: "0 < num_of (ow_limit x)" if "validateWindows next = None" "x \<in> set next" for x
    using that
    by (induction "next" rule: validateWindows.induct)
       (auto simp: positive_def split: if_splits js_number.splits)
  have cap: "windowCeiling fmul (og_utilisation g) l \<le> max 1 l" if "0 < l" for l
    using haircut [OF that] by (auto simp: windowCeiling_def intro: order_trans [OF of_int_floor_le] max.coboundedI2)
  show ?thesis
  proof (cases "validateWindows next")
    case (Some err)
    with assms(1) show ?thesis by (auto simp: applyWindows_def)
  next
    case None
    with assms(1) have e: "e = None" and g': "og_windows g' = fold (\<lambda>w acc. map_set (num_of (ow_windowMs w))
        (rebuildWindow fmul (og_utilisation g) (og_windows g) w) acc) next []"
      by (auto simp: applyWindows_def)
    have keys': "fst ` set (og_windows g') = (\<lambda>x. num_of (ow_windowMs x)) ` set next"
      unfolding g' by (simp add: fold_map_set_keys)
    have dom: "map_of (og_windows g') ms \<noteq> None \<longleftrightarrow> (\<exists>x \<in> set next. num_of (ow_windowMs x) = ms)" for ms
      using keys' by (auto simp: map_of_eq_None_iff)
    have "ws_records w = (case map_of (og_windows g) ms of Some p \<Rightarrow> ws_records p | None \<Rightarrow> []) \<and>
         1 \<le> ws_ceiling w \<and> (\<exists>x \<in> set next. num_of (ow_windowMs x) = ms \<and> ws_ceiling w \<le> max 1 (num_of (ow_limit x)))"
      if "map_of (og_windows g') ms = Some w" for ms w
      using applyWindows_members [of fmul g "next" g' ms w] map_of_SomeD [OF that] assms(1) e valid [OF None] cap
      by (fastforce simp: rebuildWindow_def windowCeiling_def)
    with e dom show ?thesis by auto
  qed
qed

end
