(* ===== verification/Weight_Governor.thy ===== *)
theory Weight_Governor
  imports Order_Governor
begin

text \<open>
  The in-process request-weight governor, \<open>packages/binance/src/rate-limit/weight-governor.ts\<close>:
  one ring of charges over a rolling minute, admission against the ceiling for orders and against
  \<open>ceiling - orderReserve\<close> for bulk reads.

  The ring is the record \<open>weight_ring\<close>; it is a second provider of the rolling-window contract.
  \<open>fmul\<close> is the IEEE product of \<open>budget * utilisation\<close>, as in the order governor.
\<close>

record weight_config =
  wc_budget :: rat
  wc_ceiling :: rat
  wc_orderReserve :: rat

record weight_ring =
  wr_records :: "rate_record list"

datatype weight_error =
    BudgetNotPositive js_number
  | WeightUtilisation js_number
  | OrderReserveRange rat js_number
  | CostNegative js_number
  | CostExceedsCeiling rat rat rat
  | WeightAborted

definition WINDOW_MS :: rat where
  "WINDOW_MS = 60000"

definition DEFAULT_BUDGET :: rat where
  "DEFAULT_BUDGET = 1200"

definition DEFAULT_ORDER_RESERVE :: rat where
  "DEFAULT_ORDER_RESERVE = 0"

definition opt_num :: "js_number option \<Rightarrow> rat \<Rightarrow> js_number" where
  "opt_num v d = (case v of Some n \<Rightarrow> n | None \<Rightarrow> JsNum d)"

definition resolveWeightGovernorConfig ::
  "(rat \<Rightarrow> rat \<Rightarrow> rat) \<Rightarrow> js_number option \<Rightarrow> js_number option \<Rightarrow> js_number option \<Rightarrow>
     weight_error + weight_config" where
  "resolveWeightGovernorConfig fmul budgetO utilisationO orderReserveO =
     (let budget = opt_num budgetO DEFAULT_BUDGET;
          utilisation = opt_num utilisationO DEFAULT_UTILISATION
      in if \<not> positive budget then Inl (BudgetNotPositive budget)
         else if \<not> positive utilisation \<or> 1 < num_of utilisation then Inl (WeightUtilisation utilisation)
         else
           (let cap = of_int \<lfloor>fmul (num_of budget) (num_of utilisation)\<rfloor>;
                orderReserve = opt_num orderReserveO DEFAULT_ORDER_RESERVE
            in if \<not> isFiniteN orderReserve \<or> num_of orderReserve < 0 \<or> cap \<le> num_of orderReserve
               then Inl (OrderReserveRange cap orderReserve)
               else Inr \<lparr>wc_budget = num_of budget, wc_ceiling = cap, wc_orderReserve = num_of orderReserve\<rparr>))"

definition computeAdmissionLimit :: "rat \<Rightarrow> rat \<Rightarrow> rat \<Rightarrow> bool \<Rightarrow> rat" where
  "computeAdmissionLimit cap orderReserve cost priority =
     (if priority \<or> cap - orderReserve < cost then cap else cap - orderReserve)"

definition wr_prune :: "weight_ring \<Rightarrow> rat \<Rightarrow> weight_ring" where
  "wr_prune s now = s\<lparr>wr_records := dropWhile (\<lambda>r. rr_ts r \<le> now - WINDOW_MS) (wr_records s)\<rparr>"

definition usedNow :: "weight_ring \<Rightarrow> rat \<Rightarrow> weight_ring \<times> rat" where
  "usedNow s now = (let s' = wr_prune s now in (s', sum_list (map rr_count (wr_records s'))))"

definition wr_push :: "weight_ring \<Rightarrow> rat \<Rightarrow> rat \<Rightarrow> weight_ring" where
  "wr_push s now cost = s\<lparr>wr_records := wr_records s @ [\<lparr>rr_ts = now, rr_count = cost\<rparr>]\<rparr>"

datatype weight_turn = WAdmitted | WSleep rat

definition weight_turn_step :: "rat \<Rightarrow> rat \<Rightarrow> rat \<Rightarrow> weight_ring \<Rightarrow> weight_ring \<times> weight_turn" where
  "weight_turn_step limit cost now s =
     (let (s', used) = usedNow s now
      in if used + cost \<le> limit then (wr_push s' now cost, WAdmitted)
         else case wr_records s' of
                [] \<Rightarrow> (wr_push s' now cost, WAdmitted)
              | oldest # _ \<Rightarrow> (s', WSleep (max 1 (rr_ts oldest + WINDOW_MS - now))))"

datatype weight_wake = WWoke rat weight_ring | WAbort

fun weight_loop ::
  "nat \<Rightarrow> (weight_ring \<Rightarrow> rat \<Rightarrow> rat \<Rightarrow> weight_wake) \<Rightarrow> rat \<Rightarrow> rat \<Rightarrow> rat \<Rightarrow> weight_ring \<Rightarrow>
     (weight_ring \<times> weight_error option) option" where
  "weight_loop 0 env limit cost now s = None"
| "weight_loop (Suc fuel) env limit cost now s =
     (case weight_turn_step limit cost now s of
        (s', WAdmitted) \<Rightarrow> Some (s', None)
      | (s', WSleep waitMs) \<Rightarrow>
          (case env s' now waitMs of
             WAbort \<Rightarrow> Some (s', Some WeightAborted)
           | WWoke now' s'' \<Rightarrow> weight_loop fuel env limit cost now' s''))"

definition weight_reserve ::
  "nat \<Rightarrow> (weight_ring \<Rightarrow> rat \<Rightarrow> rat \<Rightarrow> weight_wake) \<Rightarrow> weight_config \<Rightarrow> js_number \<Rightarrow> bool \<Rightarrow> bool \<Rightarrow>
     rat \<Rightarrow> weight_ring \<Rightarrow> (weight_ring \<times> weight_error option) option" where
  "weight_reserve fuel env c cost priority aborted now s =
     (if \<not> isFiniteN cost \<or> num_of cost < 0 then Some (s, Some (CostNegative cost))
      else if wc_ceiling c < num_of cost
        then Some (s, Some (CostExceedsCeiling (num_of cost) (wc_ceiling c) (wc_budget c)))
      else if aborted then Some (s, Some WeightAborted)
      else weight_loop fuel env
             (computeAdmissionLimit (wc_ceiling c) (wc_orderReserve c) (num_of cost) priority)
             (num_of cost) now s)"

section \<open>The ring keeps the rolling-window contract\<close>

definition wr_entries :: "weight_ring \<Rightarrow> charge list" where
  "wr_entries s = map (\<lambda>r. (rr_ts r, rr_count r)) (wr_records s)"

definition wr_used :: "weight_ring \<Rightarrow> rat \<Rightarrow> rat" where
  "wr_used s now = snd (usedNow s now)"

interpretation wg: rolling_admission wr_entries "\<lambda>_. WINDOW_MS" wr_prune wr_push wr_used
proof unfold_locales
  fix s now n
  show "wr_entries (wr_prune s now) = dropWhile (\<lambda>e. fst e \<le> now - WINDOW_MS) (wr_entries s)"
    by (simp add: wr_entries_def wr_prune_def dropWhile_map comp_def)
  show "wr_entries (wr_push s now n) = wr_entries s @ [(now, n)]"
    by (simp add: wr_entries_def wr_push_def)
  show "wr_used s now = sum_list (map snd (wr_entries (wr_prune s now)))"
    by (simp add: wr_used_def usedNow_def Let_def wr_entries_def comp_def)
qed simp_all

lemma usedNow_eq: "usedNow s now = (wr_prune s now, wr_used s now)"
  by (simp add: usedNow_def wr_used_def Let_def)

lemma computeAdmissionLimit_le: "0 \<le> r \<Longrightarrow> computeAdmissionLimit cap r cost p \<le> cap"
  by (simp add: computeAdmissionLimit_def)

lemma computeAdmissionLimit_fits: "cost \<le> cap \<Longrightarrow> cost \<le> computeAdmissionLimit cap r cost p"
  by (simp add: computeAdmissionLimit_def)

lemma weight_turn_admits:
  assumes "cost \<le> limit"
  shows "weight_turn_step limit cost now s =
    (if wr_used s now + cost \<le> limit then (wr_push (wr_prune s now) now cost, WAdmitted)
     else (wr_prune s now, WSleep (max 1 (rr_ts (hd (wr_records (wr_prune s now))) + WINDOW_MS - now))))"
proof -
  have "wr_records (wr_prune s now) \<noteq> []" if "\<not> wr_used s now + cost \<le> limit"
    using that assms by (auto simp: wr_used_def usedNow_def Let_def)
  then show ?thesis
    by (auto simp: weight_turn_step_def usedNow_eq split: list.splits)
qed

section \<open>Interleaved callers\<close>

record weight_sys =
  wy_now :: rat
  wy_ring :: weight_ring
  wy_adm :: "charge list"

inductive weight_step :: "weight_config \<Rightarrow> weight_sys \<Rightarrow> weight_sys \<Rightarrow> bool" for c where
  w_tick: "wy_now s \<le> t \<Longrightarrow> weight_step c s (s\<lparr>wy_now := t\<rparr>)"
| w_admit: "0 \<le> cost \<Longrightarrow> cost \<le> wc_ceiling c \<Longrightarrow>
    weight_turn_step (computeAdmissionLimit (wc_ceiling c) (wc_orderReserve c) cost p) cost
      (wy_now s) (wy_ring s) = (r, WAdmitted) \<Longrightarrow>
    weight_step c s (s\<lparr>wy_ring := r, wy_adm := wy_adm s @ [(wy_now s, cost)]\<rparr>)"
| w_hold: "0 \<le> cost \<Longrightarrow> cost \<le> wc_ceiling c \<Longrightarrow>
    weight_turn_step (computeAdmissionLimit (wc_ceiling c) (wc_orderReserve c) cost p) cost
      (wy_now s) (wy_ring s) = (r, WSleep w) \<Longrightarrow> weight_step c s (s\<lparr>wy_ring := r\<rparr>)"
| w_read: "weight_step c s (s\<lparr>wy_ring := fst (usedNow (wy_ring s) (wy_now s))\<rparr>)"

inductive weight_reach :: "weight_config \<Rightarrow> weight_sys \<Rightarrow> bool" for c where
  w_created: "weight_reach c \<lparr>wy_now = t, wy_ring = \<lparr>wr_records = []\<rparr>, wy_adm = []\<rparr>"
| w_stepped: "weight_reach c s \<Longrightarrow> weight_step c s s' \<Longrightarrow> weight_reach c s'"

definition weight_inv :: "weight_config \<Rightarrow> weight_sys \<Rightarrow> bool" where
  "weight_inv c s \<longleftrightarrow> ring_ok (wy_now s) (wy_adm s) \<and> wg.covers (wy_now s) (wy_adm s) (wy_ring s) \<and>
     (\<forall>a. in_span a (a + WINDOW_MS) (wy_adm s) \<le> wc_ceiling c)"

lemma weight_step_inv:
  assumes "0 \<le> wc_orderReserve c"
  shows "weight_step c s s' \<Longrightarrow> weight_inv c s \<Longrightarrow> weight_inv c s'"
proof (induction rule: weight_step.induct)
  case (w_tick s t)
  then show ?case by (auto simp: weight_inv_def intro: ring_ok_later wg.covers_later)
next
  case (w_admit cost p s r)
  let ?limit = "computeAdmissionLimit (wc_ceiling c) (wc_orderReserve c) cost p"
  from w_admit(3) weight_turn_admits [OF computeAdmissionLimit_fits [OF w_admit(2)]]
  have r: "r = wr_push (wr_prune (wy_ring s) (wy_now s)) (wy_now s) cost"
    and fits: "wr_used (wy_ring s) (wy_now s) + cost \<le> ?limit"
    by (auto split: if_splits)
  from fits computeAdmissionLimit_le [OF assms] have
    "wr_used (wy_ring s) (wy_now s) + cost \<le> wc_ceiling c" by (rule order_trans)
  with w_admit(1,4) wg.admit_span [of "wy_now s" "wy_adm s" "wy_ring s" cost "wc_ceiling c"] show ?case
    by (auto simp: weight_inv_def r intro!: ring_ok_push wg.covers_push wg.covers_prune)
next
  case (w_hold cost p s r w)
  from w_hold(3) weight_turn_admits [OF computeAdmissionLimit_fits [OF w_hold(2)]]
  have "r = wr_prune (wy_ring s) (wy_now s)" by (auto split: if_splits)
  with w_hold(4) show ?case by (auto simp: weight_inv_def intro: wg.covers_prune)
next
  case (w_read s)
  then show ?case by (auto simp: weight_inv_def usedNow_eq intro: wg.covers_prune)
qed

lemma weight_reach_inv:
  assumes "0 \<le> wc_orderReserve c" and "0 \<le> wc_ceiling c"
  shows "weight_reach c s \<Longrightarrow> weight_inv c s"
proof (induction rule: weight_reach.induct)
  case (w_created t)
  then show ?case using assms by (simp add: weight_inv_def wg.covers_def wr_entries_def)
next
  case (w_stepped s s')
  then show ?case by (blast intro: weight_step_inv [OF assms(1)])
qed

lemma resolved_config:
  assumes "resolveWeightGovernorConfig fmul b u r = Inr c"
  shows "0 \<le> wc_orderReserve c \<and> wc_orderReserve c < wc_ceiling c"
  using assms by (auto simp: resolveWeightGovernorConfig_def Let_def split: if_splits)


lemma weight_loop_alone:
  assumes cost: "cost \<le> limit"
    and env: "\<And>s t w. \<exists>t'. env s t w = WWoke t' s \<and> t + w \<le> t'"
  shows "length (wr_records (wr_prune s now)) < fuel \<Longrightarrow> \<exists>s'. weight_loop fuel env limit cost now s = Some (s', None)"
proof (induction fuel arbitrary: now s)
  case 0
  then show ?case by simp
next
  case (Suc fuel)
  show ?case
  proof (cases "wr_used s now + cost \<le> limit")
    case True
    then show ?thesis by (simp add: weight_turn_admits [OF cost])
  next
    case False
    let ?s = "wr_prune s now"
    from False cost have "wr_records ?s \<noteq> []" by (auto simp: wr_used_def usedNow_def Let_def)
    then obtain h hs where h: "wr_records ?s = h # hs" by (cases "wr_records ?s") auto
    let ?w = "max 1 (rr_ts h + WINDOW_MS - now)"
    obtain t' where t': "env ?s now ?w = WWoke t' ?s" "now + ?w \<le> t'" using env by blast
    have "length (wr_records (wr_prune ?s t')) \<le> length hs"
    proof -
      have "rr_ts h \<le> t' - WINDOW_MS" using t'(2) by (simp add: max_def split: if_splits)
      then have "wr_records (wr_prune ?s t') = dropWhile (\<lambda>r. rr_ts r \<le> t' - WINDOW_MS) hs"
        using h by (simp add: wr_prune_def)
      then show ?thesis by (simp add: length_dropWhile_le)
    qed
    with Suc.prems h have "length (wr_records (wr_prune ?s t')) < fuel" by simp
    from Suc.IH [OF this] show ?thesis
      using False h t'(1) by (simp add: weight_turn_admits [OF cost])
  qed
qed

section \<open>Properties\<close>

text \<open>
  C3. The weight budget holds in every rolling minute: whatever mix of orders and bulk reads the
  callers reserve, in every reachable state the weight admitted in any span of 60 seconds stays
  within the resolved ceiling.
\<close>

theorem weight_never_exceeded:
  assumes "resolveWeightGovernorConfig fmul b u r = Inr c" and "weight_reach c s"
  shows "in_span a (a + WINDOW_MS) (wy_adm s) \<le> wc_ceiling c"
  using weight_reach_inv [of c s] resolved_config [OF assms(1)] assms(2)
  by (auto simp: weight_inv_def)

definition weight_demo_config :: weight_config where
  "weight_demo_config = \<lparr>wc_budget = 100, wc_ceiling = 80, wc_orderReserve = 8\<rparr>"

lemma weight_demo_resolved:
  "resolveWeightGovernorConfig (*) (Some (JsNum 100)) None (Some (JsNum 8)) = Inr weight_demo_config"
  by (simp add: resolveWeightGovernorConfig_def opt_num_def positive_def DEFAULT_UTILISATION_def
      weight_demo_config_def)

definition weight_demo_sys :: weight_sys where
  "weight_demo_sys = \<lparr>wy_now = 0, wy_ring = \<lparr>wr_records = [\<lparr>rr_ts = 0, rr_count = 70\<rparr>]\<rparr>, wy_adm = [(0, 70)]\<rparr>"

lemma weight_demo_reached: "weight_reach weight_demo_config weight_demo_sys"
proof -
  let ?s = "\<lparr>wy_now = 0, wy_ring = \<lparr>wr_records = []\<rparr>, wy_adm = []\<rparr>"
  have "weight_step weight_demo_config ?s (?s\<lparr>wy_ring := \<lparr>wr_records = [\<lparr>rr_ts = 0, rr_count = 70\<rparr>]\<rparr>,
      wy_adm := wy_adm ?s @ [(wy_now ?s, 70)]\<rparr>)"
    by (rule weight_step.w_admit [where p = False])
       (simp_all add: weight_demo_config_def computeAdmissionLimit_def weight_turn_step_def usedNow_def
         wr_prune_def wr_push_def)
  from weight_reach.w_stepped [OF weight_reach.w_created this] show ?thesis
    by (simp add: weight_demo_sys_def)
qed

theorem weight_never_exceeded_witness:
  "in_span (-1) (-1 + WINDOW_MS) (wy_adm weight_demo_sys) \<le> 80"
  using weight_never_exceeded [OF weight_demo_resolved weight_demo_reached, of "-1"]
  by (simp add: weight_demo_config_def)

text \<open>
  A caller that nobody disturbs is admitted after a finite wait: each sleep outlives the oldest
  charge in the ring, so the loop ends with an admission after at most one turn per charge the ring
  held plus one, for every cost within the ceiling, priority or not.
\<close>

lemma weight_reserve_admitted_alone:
  assumes "0 \<le> cost" and "cost \<le> wc_ceiling c" and "\<And>s t w. 0 \<le> late s t w"
  shows "\<exists>s'. weight_reserve (Suc (length (wr_records s))) (\<lambda>s t w. WWoke (t + w + late s t w) s)
     c (JsNum cost) priority False now s = Some (s', None)"
proof -
  let ?limit = "computeAdmissionLimit (wc_ceiling c) (wc_orderReserve c) cost priority"
  have "\<exists>s'. weight_loop (Suc (length (wr_records s))) (\<lambda>s t w. WWoke (t + w + late s t w) s) ?limit cost now s
      = Some (s', None)"
    using computeAdmissionLimit_fits [OF assms(2)] assms(3)
    by (intro weight_loop_alone) (auto simp: wr_prune_def less_Suc_eq_le length_dropWhile_le)
  with assms(1,2) show ?thesis by (simp add: weight_reserve_def del: weight_loop.simps)
qed

text \<open>
  C4. Bulk reads leave the order band free: right after a bulk reservation that fits under
  \<open>ceiling - orderReserve\<close> is admitted, a priority reservation of at most \<open>orderReserve\<close> is admitted
  at the same instant without waiting.
\<close>

theorem bulk_leaves_order_band:
  assumes "weight_turn_step (computeAdmissionLimit cap r cost False) cost now s = (s', WAdmitted)"
    and "0 \<le> cost" and "0 < cap - r" and "cost \<le> cap - r" and "p \<le> r"
  shows "snd (weight_turn_step (computeAdmissionLimit cap r p True) p now s') = WAdmitted"
proof -
  let ?s = "wr_prune s now"
  from assms(4) have limit: "computeAdmissionLimit cap r cost False = cap - r"
    by (simp add: computeAdmissionLimit_def)
  from assms(1,4) have s': "s' = wr_push ?s now cost" and used: "wr_used s now + cost \<le> cap - r"
    unfolding limit by (auto simp: weight_turn_admits split: if_splits)
  have "dropWhile (\<lambda>x. rr_ts x \<le> now - WINDOW_MS) (wr_records ?s @ [\<lparr>rr_ts = now, rr_count = cost\<rparr>])
      = wr_records ?s @ [\<lparr>rr_ts = now, rr_count = cost\<rparr>]"
    by (rule dropWhile_fixed_snoc) (simp_all add: wr_prune_def WINDOW_MS_def)
  then have "wr_used s' now = wr_used s now + cost"
    by (simp add: s' wr_used_def usedNow_def wr_push_def wr_prune_def Let_def)
  with used assms(5) show ?thesis
    by (simp add: weight_turn_step_def usedNow_eq computeAdmissionLimit_def)
qed

theorem bulk_leaves_order_band_witness:
  "snd (weight_turn_step (computeAdmissionLimit 80 8 8 True) 8 0
      \<lparr>wr_records = [\<lparr>rr_ts = 0, rr_count = 72\<rparr>]\<rparr>) = WAdmitted"
  by (rule bulk_leaves_order_band [where cost = 72 and s = "\<lparr>wr_records = []\<rparr>"])
     (simp_all add: weight_turn_step_def usedNow_def wr_prune_def wr_push_def computeAdmissionLimit_def)

end
