(* ===== verification/Contract.thy ===== *)
theory Contract
  imports Prelude
begin

text \<open>
  The data every part of the bot exchanges: the strategy contract
  (\<open>packages/strategy/core/src/contract.ts\<close>), the decisions a tick emits
  (\<open>decision.ts\<close>), their outcomes (\<open>executor.ts\<close>) and the shared predicate on order statuses
  (\<open>packages/contracts/src/resting-order.ts\<close>).

  Decimal amounts stay the decimal strings the contract carries. The two optional exchange
  filters arrive from a cache that is revived without validation, so they are \<open>json\<close> values.
\<close>

datatype order_side = BUY | SELL

datatype order_type = LIMIT | MARKET | STOP_LOSS | STOP_LOSS_LIMIT

datatype time_in_force = GTC | IOC | FOK

record candle =
  cd_openTimeMs :: int
  cd_closeTimeMs :: int
  cd_open :: string
  cd_high :: string
  cd_low :: string
  cd_close :: string
  cd_volume :: string
  cd_isClosed :: bool

record symbol_filters =
  sf_minNotional :: string
  sf_tickSize :: string
  sf_stepSize :: string
  sf_minQty :: string
  sf_maxQty :: string
  sf_minPrice :: string
  sf_maxPrice :: string
  sf_percentPriceBySide :: json
  sf_trailingDelta :: json

record symbol_info =
  si_symbol :: string
  si_baseAsset :: string
  si_quoteAsset :: string
  si_status :: string
  si_filters :: symbol_filters

record open_order =
  oo_orderId :: int
  oo_clientOrderId :: string
  oo_symbol :: string
  oo_side :: order_side
  oo_type :: order_type
  oo_status :: string
  oo_price :: string
  oo_origQty :: string
  oo_executedQty :: string
  oo_cummulativeQuoteQty :: string
  oo_stopPrice :: "string option"
  oo_trailingDelta :: "int option"
  oo_timeInForce :: "time_in_force option"
  oo_transactTimeMs :: int
  oo_updateTimeMs :: int

record order_intent =
  oi_symbol :: string
  oi_side :: order_side
  oi_reason :: string
  oi_clientOrderId :: string
  oi_meta :: "json option"
  oi_overrideActionId :: "string option"
  oi_deferrable :: "bool option"

record order_params =
  op_type :: order_type
  op_price :: "string option"
  op_stopPrice :: "string option"
  op_quantity :: string
  op_trailingDelta :: "int option"
  op_timeInForce :: "time_in_force option"

datatype decision =
    Noop
  | PlaceOrder order_intent order_params
  | CancelOrder int string "string option"
  | ReplaceOrder int string order_intent order_params
  | EmitEvent string json
  | SetKv string json
  | DeleteKv string

datatype failure_phase = PreCall | Rejected | Ambiguous | Accepted

text \<open>The cause a failed decision carries: a coded exchange error, or anything else.\<close>

datatype failure_cause = BinanceApiError int string | OtherCause

datatype decision_result =
    ResultOk
  | ResultFail (rf_retryable: bool) (rf_phase: failure_phase) (rf_reason: string)
      (rf_cause: "failure_cause option") (rf_deferred: bool)

record position_view =
  pv_avgEntryPrice :: "string option"
  pv_heldQuantity :: "string option"

datatype adopted_fill =
    FillBuy (fb_avgEntryPrice: string) (fb_heldQuantity: string)
  | FillSellReduce (fs_heldQuantity: string)
  | FillEmpty

section \<open>Tick output\<close>

record log_entry =
  le_level :: string
  le_message :: string
  le_context :: "json option"

record metric_entry =
  mt_name :: string
  mt_value :: rat
  mt_tags :: "json option"

definition log_of :: "string \<Rightarrow> string \<Rightarrow> json option \<Rightarrow> log_entry" where
  "log_of level message ctx = \<lparr>le_level = level, le_message = message, le_context = ctx\<rparr>"

definition metric_of :: "string \<Rightarrow> json option \<Rightarrow> rat \<Rightarrow> metric_entry" where
  "metric_of name tags v = \<lparr>mt_name = name, mt_value = v, mt_tags = tags\<rparr>"

record tick_output =
  to_nextState :: json
  to_decisions :: "decision list"
  to_logs :: "log_entry list"
  to_metrics :: "metric_entry list"

section \<open>Order statuses\<close>

text \<open>\<open>String.prototype.toUpperCase\<close> on the ASCII letters the exchange's vocabulary uses.\<close>

definition to_upper :: "char \<Rightarrow> char" where
  "to_upper c = (let n = of_char c :: nat in if 97 \<le> n \<and> n \<le> 122 then char_of (n - 32) else c)"

definition toUpperCase :: "string \<Rightarrow> string" where
  "toUpperCase s = map to_upper s"

definition TERMINAL_ORDER_STATUSES :: "string list" where
  "TERMINAL_ORDER_STATUSES = [''FILLED'', ''CANCELED'', ''REJECTED'', ''EXPIRED'', ''EXPIRED_IN_MATCH'']"

definition isTerminalOrderStatus :: "string \<Rightarrow> bool" where
  "isTerminalOrderStatus status = List.member TERMINAL_ORDER_STATUSES (toUpperCase status)"

definition isRestingStatus :: "string \<Rightarrow> bool" where
  "isRestingStatus status = (\<not> isTerminalOrderStatus status)"

definition isRestingSell :: "open_order \<Rightarrow> bool" where
  "isRestingSell ord = (oo_side ord = SELL \<and> isRestingStatus (oo_status ord))"

end
