(* ===== verification/Refusal_Circuit.thy ===== *)
theory Refusal_Circuit
  imports Contract
begin

text \<open>
  The order-refusal circuit breaker, \<open>apps/worker/src/tick/order-refusal-circuit.ts\<close>: a placement
  the exchange refuses three times in a row with the same structural error is deferred, and from
  then on probed once a minute.

  The persisted state is the datatype \<open>refusal_state\<close> with one constructor per \<open>count\<close>. A
  placement decision is the record \<open>placement\<close>; its \<open>pd_cancelOrderId\<close> tells a \<open>replace-order\<close>
  from a bare \<open>place-order\<close>. The abstract specification is \<open>streak\<close>: how often, at the end of a
  history of outcomes, one request was refused in a row with one error.
\<close>

record order_request =
  rq_clientOrderId :: string
  rq_cancelOrderId :: "int option"
  rq_symbol :: string
  rq_side :: order_side
  rq_type :: order_type
  rq_quantity :: string
  rq_price :: "string option"
  rq_stopPrice :: "string option"
  rq_trailingDelta :: "int option"
  rq_timeInForce :: "time_in_force option"

record order_rejection =
  rj_code :: int
  rj_msg :: string

datatype refusal_state =
    Refused1 order_request order_rejection
  | Refused2 order_request order_rejection
  | Refused3 order_request order_rejection rat

record placement =
  pd_cancelOrderId :: "int option"
  pd_intent :: order_intent
  pd_params :: order_params

datatype placement_outcome =
    CircuitDeferred placement
  | NotAttempted placement
  | PlacementResult placement decision_result

datatype refusal_event = Tripped | ProbeRefused

definition ORDER_REFUSAL_THRESHOLD :: nat where
  "ORDER_REFUSAL_THRESHOLD = 3"

definition ORDER_REFUSAL_PROBE_MS :: rat where
  "ORDER_REFUSAL_PROBE_MS = 60000"

fun refusal_request :: "refusal_state \<Rightarrow> order_request" where
  "refusal_request (Refused1 q j) = q"
| "refusal_request (Refused2 q j) = q"
| "refusal_request (Refused3 q j t) = q"

fun refusal_rejection :: "refusal_state \<Rightarrow> order_rejection" where
  "refusal_rejection (Refused1 q j) = j"
| "refusal_rejection (Refused2 q j) = j"
| "refusal_rejection (Refused3 q j t) = j"

fun placement_of :: "decision \<Rightarrow> placement option" where
  "placement_of (PlaceOrder i p) = Some \<lparr>pd_cancelOrderId = None, pd_intent = i, pd_params = p\<rparr>"
| "placement_of (ReplaceOrder c r i p) = Some \<lparr>pd_cancelOrderId = Some c, pd_intent = i, pd_params = p\<rparr>"
| "placement_of _ = None"

definition buildOrderRequestIdentity :: "placement \<Rightarrow> order_request" where
  "buildOrderRequestIdentity d =
     \<lparr>rq_clientOrderId = oi_clientOrderId (pd_intent d),
      rq_cancelOrderId = pd_cancelOrderId d,
      rq_symbol = oi_symbol (pd_intent d),
      rq_side = oi_side (pd_intent d),
      rq_type = op_type (pd_params d),
      rq_quantity = op_quantity (pd_params d),
      rq_price = op_price (pd_params d),
      rq_stopPrice = op_stopPrice (pd_params d),
      rq_trailingDelta = op_trailingDelta (pd_params d),
      rq_timeInForce = op_timeInForce (pd_params d)\<rparr>"

definition sameRequest :: "order_request \<Rightarrow> order_request \<Rightarrow> bool" where
  "sameRequest a b \<longleftrightarrow>
     rq_clientOrderId a = rq_clientOrderId b \<and>
     rq_cancelOrderId a = rq_cancelOrderId b \<and>
     rq_symbol a = rq_symbol b \<and>
     rq_side a = rq_side b \<and>
     rq_type a = rq_type b \<and>
     rq_quantity a = rq_quantity b \<and>
     rq_price a = rq_price b \<and>
     rq_stopPrice a = rq_stopPrice b \<and>
     rq_trailingDelta a = rq_trailingDelta b \<and>
     rq_timeInForce a = rq_timeInForce b"

definition sameRejection :: "order_rejection \<Rightarrow> order_rejection \<Rightarrow> bool" where
  "sameRejection a b \<longleftrightarrow> rj_code a = rj_code b \<and> rj_msg a = rj_msg b"

fun structuralRejection :: "decision_result \<Rightarrow> order_rejection option" where
  "structuralRejection ResultOk = None"
| "structuralRejection (ResultFail retryable phase reason cause deferred) =
     (if phase \<noteq> Rejected \<or> retryable then None
      else case cause of
             Some (BinanceApiError code msg) \<Rightarrow> Some \<lparr>rj_code = code, rj_msg = msg\<rparr>
           | _ \<Rightarrow> None)"

text \<open>The gate's answer \<open>(defer, probe)\<close>.\<close>

definition orderRefusalGate :: "refusal_state option \<Rightarrow> placement \<Rightarrow> rat \<Rightarrow> bool \<times> bool" where
  "orderRefusalGate state d nowMs =
     (case state of
        Some (Refused3 q j nextProbeAtMs) \<Rightarrow>
          if \<not> sameRequest q (buildOrderRequestIdentity d) then (False, False)
          else if nowMs < nextProbeAtMs then (True, False) else (False, True)
      | _ \<Rightarrow> (False, False))"

fun transitionOrderRefusal ::
  "refusal_state option \<Rightarrow> placement_outcome option \<Rightarrow> rat \<Rightarrow> refusal_state option \<times> refusal_event option" where
  "transitionOrderRefusal previous None nowMs = (None, None)"
| "transitionOrderRefusal previous (Some (CircuitDeferred d)) nowMs =
     (case previous of
        Some s \<Rightarrow> if sameRequest (refusal_request s) (buildOrderRequestIdentity d)
                  then (Some s, None) else (None, None)
      | None \<Rightarrow> (None, None))"
| "transitionOrderRefusal previous (Some (NotAttempted d)) nowMs =
     (case previous of
        None \<Rightarrow> (None, None)
      | Some s \<Rightarrow>
          if \<not> sameRequest (refusal_request s) (buildOrderRequestIdentity d) then (None, None)
          else (case s of
                  Refused3 q j nextProbeAtMs \<Rightarrow>
                    if nowMs < nextProbeAtMs then (Some s, None)
                    else (Some (Refused3 q j (nowMs + ORDER_REFUSAL_PROBE_MS)), None)
                | _ \<Rightarrow> (Some s, None)))"
| "transitionOrderRefusal previous (Some (PlacementResult d result)) nowMs =
     (let request = buildOrderRequestIdentity d
      in case structuralRejection result of
           None \<Rightarrow> (None, None)
         | Some rejection \<Rightarrow>
             (case previous of
                Some s \<Rightarrow>
                  if sameRequest (refusal_request s) request \<and> sameRejection (refusal_rejection s) rejection
                  then (case s of
                          Refused1 _ _ \<Rightarrow> (Some (Refused2 request rejection), None)
                        | Refused2 _ _ \<Rightarrow>
                            (Some (Refused3 request rejection (nowMs + ORDER_REFUSAL_PROBE_MS)), Some Tripped)
                        | Refused3 _ _ _ \<Rightarrow>
                            (Some (Refused3 request rejection (nowMs + ORDER_REFUSAL_PROBE_MS)), Some ProbeRefused))
                  else (Some (Refused1 request rejection), None)
              | None \<Rightarrow> (Some (Refused1 request rejection), None)))"

section \<open>Reading the persisted state\<close>

fun json_str_opt :: "json \<Rightarrow> string option option" where
  "json_str_opt (JStr s) = Some (Some s)"
| "json_str_opt JNull = Some None"
| "json_str_opt _ = None"

fun json_int_opt :: "json \<Rightarrow> int option option" where
  "json_int_opt JNull = Some None"
| "json_int_opt j = map_option Some (json_int j)"

fun isRequestType :: "json \<Rightarrow> order_type option" where
  "isRequestType (JStr s) =
     (if s = ''LIMIT'' then Some LIMIT
      else if s = ''MARKET'' then Some MARKET
      else if s = ''STOP_LOSS'' then Some STOP_LOSS
      else if s = ''STOP_LOSS_LIMIT'' then Some STOP_LOSS_LIMIT
      else None)"
| "isRequestType _ = None"

fun isTimeInForce :: "json \<Rightarrow> time_in_force option option" where
  "isTimeInForce JNull = Some None"
| "isTimeInForce (JStr s) =
     (if s = ''GTC'' then Some (Some GTC)
      else if s = ''IOC'' then Some (Some IOC)
      else if s = ''FOK'' then Some (Some FOK)
      else None)"
| "isTimeInForce _ = None"

fun request_side :: "json \<Rightarrow> order_side option" where
  "request_side (JStr s) = (if s = ''BUY'' then Some BUY else if s = ''SELL'' then Some SELL else None)"
| "request_side _ = None"

fun json_str :: "json \<Rightarrow> string option" where
  "json_str (JStr s) = Some s"
| "json_str _ = None"

fun recordOf :: "json \<Rightarrow> json option" where
  "recordOf (JObj kvs) = Some (JObj kvs)"
| "recordOf (JArr xs) = Some (JArr xs)"
| "recordOf _ = None"

definition parseRequest :: "json \<Rightarrow> order_request option" where
  "parseRequest v =
     (case recordOf v of
        None \<Rightarrow> None
      | Some r \<Rightarrow>
          (case (json_str (jget r ''clientOrderId''),
                 json_int_opt (jcoalesce (jget r ''cancelOrderId'') JNull),
                 json_str (jget r ''symbol''),
                 request_side (jget r ''side''),
                 isRequestType (jget r ''type''),
                 json_str (jget r ''quantity''),
                 json_str_opt (jget r ''price''),
                 json_str_opt (jget r ''stopPrice''),
                 json_int_opt (jcoalesce (jget r ''trailingDelta'') JNull),
                 isTimeInForce (jget r ''timeInForce'')) of
             (Some c, Some co, Some sy, Some sd, Some ty, Some q, Some pr, Some sp, Some td, Some tif) \<Rightarrow>
               Some \<lparr>rq_clientOrderId = c, rq_cancelOrderId = co, rq_symbol = sy, rq_side = sd,
                     rq_type = ty, rq_quantity = q, rq_price = pr, rq_stopPrice = sp,
                     rq_trailingDelta = td, rq_timeInForce = tif\<rparr>
           | _ \<Rightarrow> None))"

text \<open>
  The stored value after \<open>JSON.parse\<close>.
\<close>

definition refusal_of_json :: "json \<Rightarrow> refusal_state option" where
  "refusal_of_json v =
     (case recordOf v of
        None \<Rightarrow> None
      | Some r \<Rightarrow>
          (case (parseRequest (jget r ''request''), recordOf (jget r ''rejection'')) of
             (Some request, Some rejection) \<Rightarrow>
               (case (json_int (jget rejection ''code''), json_str (jget rejection ''msg''),
                      json_int (jget r ''count'')) of
                  (Some code, Some msg, Some count) \<Rightarrow>
                    (let rej = \<lparr>rj_code = code, rj_msg = msg\<rparr>
                     in if jget r ''v'' \<noteq> JNum (JsNum 1) then None
                        else if count = 1 then Some (Refused1 request rej)
                        else if count = 2 then Some (Refused2 request rej)
                        else if count = 3 then
                          (case jget r ''nextProbeAtMs'' of
                             JNum (JsNum t) \<Rightarrow> Some (Refused3 request rej t)
                           | _ \<Rightarrow> None)
                        else None)
                | _ \<Rightarrow> None)
           | _ \<Rightarrow> None))"

datatype raw_state = RawUndefined | RawNull | RawString string

text \<open>\<open>parseJson\<close> is \<open>JSON.parse\<close>; \<open>None\<close> is its exception. The outer option is \<open>undefined\<close>.\<close>

definition parseOrderRefusalState ::
  "(string \<Rightarrow> json option) \<Rightarrow> raw_state \<Rightarrow> refusal_state option option" where
  "parseOrderRefusalState parseJson raw =
     (case raw of
        RawUndefined \<Rightarrow> None
      | RawNull \<Rightarrow> Some None
      | RawString s \<Rightarrow> (case parseJson s of None \<Rightarrow> Some None | Some v \<Rightarrow> Some (refusal_of_json v)))"

section \<open>Writing the state\<close>

text \<open>The object \<open>JSON.stringify\<close> is given, property by property.\<close>

fun opt_json :: "('a \<Rightarrow> json) \<Rightarrow> 'a option \<Rightarrow> json" where
  "opt_json f None = JNull"
| "opt_json f (Some x) = f x"

definition int_json :: "int \<Rightarrow> json" where
  "int_json i = JNum (JsNum (of_int i))"

fun side_json :: "order_side \<Rightarrow> json" where
  "side_json BUY = JStr ''BUY''"
| "side_json SELL = JStr ''SELL''"

fun type_json :: "order_type \<Rightarrow> json" where
  "type_json LIMIT = JStr ''LIMIT''"
| "type_json MARKET = JStr ''MARKET''"
| "type_json STOP_LOSS = JStr ''STOP_LOSS''"
| "type_json STOP_LOSS_LIMIT = JStr ''STOP_LOSS_LIMIT''"

fun tif_json :: "time_in_force \<Rightarrow> json" where
  "tif_json GTC = JStr ''GTC''"
| "tif_json IOC = JStr ''IOC''"
| "tif_json FOK = JStr ''FOK''"

definition request_json :: "order_request \<Rightarrow> json" where
  "request_json q = JObj
     [(''clientOrderId'', JStr (rq_clientOrderId q)),
      (''cancelOrderId'', opt_json int_json (rq_cancelOrderId q)),
      (''symbol'', JStr (rq_symbol q)),
      (''side'', side_json (rq_side q)),
      (''type'', type_json (rq_type q)),
      (''quantity'', JStr (rq_quantity q)),
      (''price'', opt_json JStr (rq_price q)),
      (''stopPrice'', opt_json JStr (rq_stopPrice q)),
      (''trailingDelta'', opt_json int_json (rq_trailingDelta q)),
      (''timeInForce'', opt_json tif_json (rq_timeInForce q))]"

definition rejection_json :: "order_rejection \<Rightarrow> json" where
  "rejection_json j = JObj [(''code'', int_json (rj_code j)), (''msg'', JStr (rj_msg j))]"

fun refusal_json :: "refusal_state \<Rightarrow> json" where
  "refusal_json (Refused1 q j) = JObj
     [(''v'', int_json 1), (''request'', request_json q), (''rejection'', rejection_json j), (''count'', int_json 1)]"
| "refusal_json (Refused2 q j) = JObj
     [(''v'', int_json 1), (''request'', request_json q), (''rejection'', rejection_json j), (''count'', int_json 2)]"
| "refusal_json (Refused3 q j t) = JObj
     [(''v'', int_json 1), (''request'', request_json q), (''rejection'', rejection_json j), (''count'', int_json 3),
      (''nextProbeAtMs'', JNum (JsNum t))]"

lemma json_int_int_json [simp]: "json_int (int_json i) = Some i"
  by (simp add: int_json_def)

lemma json_int_opt_json [simp]: "json_int_opt (jcoalesce (opt_json int_json v) JNull) = Some v"
  by (cases v) (simp_all add: int_json_def)

lemma json_str_opt_json [simp]: "json_str_opt (opt_json JStr v) = Some v"
  by (cases v) simp_all

lemma request_side_json [simp]: "request_side (side_json v) = Some v"
  by (cases v) simp_all

lemma isRequestType_json [simp]: "isRequestType (type_json v) = Some v"
  by (cases v) simp_all

lemma isTimeInForce_json [simp]: "isTimeInForce (opt_json tif_json v) = Some v"
proof (cases v)
  case (Some t)
  then show ?thesis by (cases t) simp_all
qed simp

lemma parseRequest_json [simp]: "parseRequest (request_json q) = Some q"
  by (simp add: parseRequest_def request_json_def)

lemma refusal_of_json_json: "refusal_of_json (refusal_json s) = Some s"
  by (cases s) (simp_all add: refusal_of_json_def rejection_json_def, simp_all add: int_json_def)

section \<open>The abstract specification\<close>

lemma sameRequest_iff: "sameRequest a b \<longleftrightarrow> a = b"
  by (auto simp: sameRequest_def)

lemma sameRejection_iff: "sameRejection a b \<longleftrightarrow> a = b"
  by (auto simp: sameRejection_def)

text \<open>
  \<open>streak q j os\<close> counts the refusals of request \<open>q\<close> with error \<open>j\<close> at the end of a history
  (newest outcome first). Deferring or skipping the same request keeps the streak, every other
  outcome ends it.
\<close>

fun streak :: "order_request \<Rightarrow> order_rejection \<Rightarrow> placement_outcome option list \<Rightarrow> nat" where
  "streak q j [] = 0"
| "streak q j (None # os) = 0"
| "streak q j (Some (CircuitDeferred d) # os) =
     (if buildOrderRequestIdentity d = q then streak q j os else 0)"
| "streak q j (Some (NotAttempted d) # os) =
     (if buildOrderRequestIdentity d = q then streak q j os else 0)"
| "streak q j (Some (PlacementResult d r) # os) =
     (if buildOrderRequestIdentity d = q \<and> structuralRejection r = Some j then Suc (streak q j os) else 0)"

text \<open>The state after a history of timed outcomes, newest first.\<close>

fun circuit_run :: "(placement_outcome option \<times> rat) list \<Rightarrow> refusal_state option" where
  "circuit_run [] = None"
| "circuit_run ((out, t) # os) = fst (transitionOrderRefusal (circuit_run os) out t)"

fun represents :: "refusal_state option \<Rightarrow> (order_request \<Rightarrow> order_rejection \<Rightarrow> nat) \<Rightarrow> bool" where
  "represents None f \<longleftrightarrow> (\<forall>q j. f q j = 0)"
| "represents (Some (Refused1 q j)) f \<longleftrightarrow> (\<forall>q' j'. f q' j' = (if q' = q \<and> j' = j then 1 else 0))"
| "represents (Some (Refused2 q j)) f \<longleftrightarrow> (\<forall>q' j'. f q' j' = (if q' = q \<and> j' = j then 2 else 0))"
| "represents (Some (Refused3 q j t)) f \<longleftrightarrow>
     3 \<le> f q j \<and> (\<forall>q' j'. (q', j') \<noteq> (q, j) \<longrightarrow> f q' j' = 0)"

lemma refusal_option_cases:
  obtains (Untracked) "s = None" | (One) q j where "s = Some (Refused1 q j)"
    | (Two) q j where "s = Some (Refused2 q j)" | (Open) q j t where "s = Some (Refused3 q j t)"
  by (cases s) (auto elim: refusal_state.exhaust)

lemma transition_represents:
  assumes "represents s (\<lambda>q j. streak q j os)"
  shows "represents (fst (transitionOrderRefusal s out t)) (\<lambda>q j. streak q j (out # os))"
proof (cases out)
  case None
  then show ?thesis by simp
next
  case (Some oc)
  show ?thesis
  proof (cases oc)
    case (CircuitDeferred d)
    then show ?thesis
      using assms Some
      by (cases s rule: refusal_option_cases) (auto simp: sameRequest_iff)
  next
    case (NotAttempted d)
    then show ?thesis
      using assms Some
      by (auto simp: sameRequest_iff split: option.splits refusal_state.splits)
  next
    case (PlacementResult d r)
    then show ?thesis
      using assms Some
      by (auto simp: sameRequest_iff sameRejection_iff Let_def split: option.splits refusal_state.splits)
  qed
qed

text \<open>\<open>sha256hex\<close> is \<open>createHash('sha256')\<close> of a string, in hexadecimal.\<close>

definition identity_json :: "refusal_state \<Rightarrow> json" where
  "identity_json s = JObj [(''request'', request_json (refusal_request s)),
                           (''rejection'', rejection_json (refusal_rejection s))]"

definition orderRefusalIdentityKey ::
  "(string \<Rightarrow> string) \<Rightarrow> (json \<Rightarrow> string) \<Rightarrow> refusal_state \<Rightarrow> string" where
  "orderRefusalIdentityKey sha256hex stringify s = sha256hex (stringify (identity_json s))"

lemma rejection_json_inject: "rejection_json a = rejection_json b \<longleftrightarrow> a = b"
  by (auto simp: rejection_json_def int_json_def intro: order_rejection.equality)

lemma tripped_event:
  assumes "represents s (\<lambda>q j. streak q j os)"
  shows "snd (transitionOrderRefusal s out t) = Some Tripped \<longleftrightarrow>
           (\<exists>q j. streak q j os = 2 \<and> streak q j (out # os) = 3)"
proof (cases "\<exists>d r. out = Some (PlacementResult d r)")
  case True
  then obtain d r where out: "out = Some (PlacementResult d r)" by blast
  show ?thesis
    using assms
    by (cases s rule: refusal_option_cases)
       (auto simp: Let_def out sameRequest_iff sameRejection_iff split: option.splits if_splits)
next
  case False
  then have "\<forall>q j. streak q j (out # os) \<in> {0, streak q j os}"
    by (auto split: option.splits elim!: placement_outcome.exhaust) (cases out; cases "the out"; auto)+
  moreover have "snd (transitionOrderRefusal s out t) \<noteq> Some Tripped"
    using False by (cases out; cases "the out") (auto split: option.splits refusal_state.splits)
  ultimately show ?thesis
    by (metis empty_iff insert_iff numeral_eq_iff num.distinct(5) zero_neq_numeral)
qed

lemma probe_time_from_history:
  "circuit_run h = Some (Refused3 q j t) \<Longrightarrow> t - ORDER_REFUSAL_PROBE_MS \<in> snd ` set h"
proof (induction h)
  case (Cons x h)
  obtain out t' where x: "x = (out, t')" by (cases x)
  have "circuit_run h = Some (Refused3 q j t) \<or> t = t' + ORDER_REFUSAL_PROBE_MS"
    using Cons.prems unfolding x
    by (cases out; cases "the out")
       (auto simp: Let_def split: option.splits refusal_state.splits if_splits)
  then show ?case using Cons.IH x by force
qed simp

lemma circuit_run_represents: "represents (circuit_run h) (\<lambda>q j. streak q j (map fst h))"
proof (induction h)
  case (Cons x h)
  obtain out t where "x = (out, t)" by (cases x)
  with transition_represents [OF Cons.IH, of out t] show ?case by simp
qed simp

lemma represents_tripped:
  assumes "represents s f"
  shows "(\<exists>t. s = Some (Refused3 q j t)) \<longleftrightarrow> 3 \<le> f q j"
  using assms by (cases s rule: refusal_option_cases) (auto split: if_splits, (metis not_numeral_le_zero)+)

section \<open>Properties\<close>

text \<open>
  C5. Refinement: after any history of timed outcomes, the circuit is tripped for request
  \<open>q\<close> and error \<open>j\<close> exactly when the history ends with at least
  \<open>ORDER_REFUSAL_THRESHOLD\<close> refusals of \<open>q\<close> with \<open>j\<close> in a row, and a step reports \<open>tripped\<close> exactly
  when it takes that count to the threshold.
\<close>
theorem circuit_refines_streak:
  shows "((\<exists>t. circuit_run h = Some (Refused3 q j t)) \<longleftrightarrow>
           ORDER_REFUSAL_THRESHOLD \<le> streak q j (map fst h)) \<and>
    (snd (transitionOrderRefusal (circuit_run h) out now) = Some Tripped \<longleftrightarrow>
           (\<exists>q j. streak q j (map fst h) + 1 = ORDER_REFUSAL_THRESHOLD \<and>
                  streak q j (out # map fst h) = ORDER_REFUSAL_THRESHOLD))"
proof (rule conjI)
  note r = circuit_run_represents [of h]
  show "(\<exists>t. circuit_run h = Some (Refused3 q j t)) \<longleftrightarrow>
          ORDER_REFUSAL_THRESHOLD \<le> streak q j (map fst h)"
    using represents_tripped [OF r] by (simp add: ORDER_REFUSAL_THRESHOLD_def)
  show "snd (transitionOrderRefusal (circuit_run h) out now) = Some Tripped \<longleftrightarrow>
          (\<exists>q j. streak q j (map fst h) + 1 = ORDER_REFUSAL_THRESHOLD \<and>
                 streak q j (out # map fst h) = ORDER_REFUSAL_THRESHOLD)"
    using r tripped_event [of "circuit_run h" "map fst h" out now]
    by (simp add: ORDER_REFUSAL_THRESHOLD_def)
qed

text \<open>
  After any history the gate defers a placement exactly when its identical request stands
  refused three times in a row and the probe time lies ahead; it lets it through as a probe
  exactly when that time has come. Any other request, in particular a \<open>replace-order\<close> with the
  same successor, passes. The probe time is one probe interval after an outcome of that history.
\<close>
lemma gate_defers_exactly_tripped:
  shows "(fst (orderRefusalGate (circuit_run h) d now) \<longleftrightarrow>
           (\<exists>j t. circuit_run h = Some (Refused3 (buildOrderRequestIdentity d) j t) \<and>
                  3 \<le> streak (buildOrderRequestIdentity d) j (map fst h) \<and> now < t)) \<and>
    (snd (orderRefusalGate (circuit_run h) d now) \<longleftrightarrow>
           (\<exists>j t. circuit_run h = Some (Refused3 (buildOrderRequestIdentity d) j t) \<and>
                  3 \<le> streak (buildOrderRequestIdentity d) j (map fst h) \<and> t \<le> now)) \<and>
    (circuit_run h = Some (Refused3 q j t) \<longrightarrow> t - ORDER_REFUSAL_PROBE_MS \<in> snd ` set h)"
proof (rule conjI [OF _ conjI])
  note r = circuit_run_represents [of h]
  have gate: "orderRefusalGate s d now =
      ((\<exists>j t. s = Some (Refused3 (buildOrderRequestIdentity d) j t) \<and> now < t),
       (\<exists>j t. s = Some (Refused3 (buildOrderRequestIdentity d) j t) \<and> t \<le> now))" for s
    by (auto simp: orderRefusalGate_def sameRequest_iff split: option.splits refusal_state.splits)
  have three: "3 \<le> streak q j (map fst h)" if "circuit_run h = Some (Refused3 q j t)" for q j t
    using represents_tripped [OF r, of q j] that by blast
  show "fst (orderRefusalGate (circuit_run h) d now) \<longleftrightarrow>
           (\<exists>j t. circuit_run h = Some (Refused3 (buildOrderRequestIdentity d) j t) \<and>
                  3 \<le> streak (buildOrderRequestIdentity d) j (map fst h) \<and> now < t)"
    using three by (auto simp: gate)
  show "snd (orderRefusalGate (circuit_run h) d now) \<longleftrightarrow>
           (\<exists>j t. circuit_run h = Some (Refused3 (buildOrderRequestIdentity d) j t) \<and>
                  3 \<le> streak (buildOrderRequestIdentity d) j (map fst h) \<and> t \<le> now)"
    using three by (auto simp: gate)
  show "circuit_run h = Some (Refused3 q j t) \<longrightarrow> t - ORDER_REFUSAL_PROBE_MS \<in> snd ` set h"
    by (blast intro: probe_time_from_history)
qed

definition example_placement :: placement where
  "example_placement = \<lparr>pd_cancelOrderId = None,
     pd_intent = \<lparr>oi_symbol = ''BTCUSDT'', oi_side = SELL, oi_reason = ''stop'', oi_clientOrderId = ''c1'',
       oi_meta = None, oi_overrideActionId = None, oi_deferrable = None\<rparr>,
     pd_params = \<lparr>op_type = STOP_LOSS, op_price = None, op_stopPrice = Some ''90'', op_quantity = ''1'',
       op_trailingDelta = Some 100, op_timeInForce = None\<rparr>\<rparr>"

definition example_refused :: "placement_outcome option" where
  "example_refused = Some (PlacementResult example_placement
     (ResultFail False Rejected ''refused'' (Some (BinanceApiError (- 2010) ''no balance'')) False))"

lemma example_tripped:
  "circuit_run [(example_refused, 30), (example_refused, 20), (example_refused, 10)] =
     Some (Refused3 (buildOrderRequestIdentity example_placement)
             \<lparr>rj_code = - 2010, rj_msg = ''no balance''\<rparr> 60030)"
  by (simp add: example_refused_def Let_def sameRequest_iff sameRejection_iff ORDER_REFUSAL_PROBE_MS_def)

lemma json_pure_fields:
  "json_pure (side_json sd)" "json_pure (type_json ty)" "json_pure (tif_json tf)"
  by (cases sd; simp; fail | cases ty; simp; fail | cases tf; simp; fail)+

lemma json_pure_opt: "(\<And>x. json_pure (f x)) \<Longrightarrow> json_pure (opt_json f v)"
  by (cases v) simp_all

lemma json_pure_request: "json_pure (request_json q)"
  unfolding request_json_def json_pure.simps
  by (simp add: json_pure_fields json_pure_opt int_json_def)

lemma json_pure_rejection: "json_pure (rejection_json j)"
  by (simp add: rejection_json_def int_json_def)

lemma json_pure_refusal: "json_pure (refusal_json s)"
  by (cases s) (simp_all add: json_pure_request json_pure_rejection, simp_all add: int_json_def)

lemma json_pure_identity: "json_pure (identity_json s)"
  by (simp add: identity_json_def json_pure_request json_pure_rejection)

lemma identity_json_inject:
  assumes "identity_json s = identity_json s'"
  shows "refusal_request s = refusal_request s' \<and> refusal_rejection s = refusal_rejection s'"
proof -
  from assms have "request_json (refusal_request s) = request_json (refusal_request s')"
    and j: "rejection_json (refusal_rejection s) = rejection_json (refusal_rejection s')"
    by (simp_all add: identity_json_def)
  from arg_cong [OF this(1), of parseRequest] j show ?thesis
    by (simp add: rejection_json_inject)
qed

text \<open>
  C6. Round trip of the persisted state through \<open>JSON.stringify\<close> and \<open>JSON.parse\<close>: whenever parsing
  inverts printing, the reader returns the very state the writer stored, for every order type,
  optional field and count. The text that is digested into the identity key determines the request
  and the rejection.
\<close>
theorem refusal_state_round_trip:
  assumes codec: "json_codec stringify parseJson"
  shows "(parseOrderRefusalState parseJson (RawString (stringify (refusal_json s))) = Some (Some s)) \<and>
    (orderRefusalIdentityKey (\<lambda>x. x) stringify s = orderRefusalIdentityKey (\<lambda>x. x) stringify s' \<longrightarrow>
       refusal_request s = refusal_request s' \<and> refusal_rejection s = refusal_rejection s')"
proof (rule conjI)
  show "parseOrderRefusalState parseJson (RawString (stringify (refusal_json s))) = Some (Some s)"
    by (simp add: parseOrderRefusalState_def json_codecD [OF codec] json_pure_refusal refusal_of_json_json)
  show "orderRefusalIdentityKey (\<lambda>x. x) stringify s = orderRefusalIdentityKey (\<lambda>x. x) stringify s' \<longrightarrow>
       refusal_request s = refusal_request s' \<and> refusal_rejection s = refusal_rejection s'"
    unfolding orderRefusalIdentityKey_def
    using json_codec_inj [OF codec json_pure_identity json_pure_identity] identity_json_inject by blast
qed

theorem refusal_state_round_trip_witness:
  "parseOrderRefusalState unary_parse
     (RawString (unary_stringify (refusal_json (Refused3 (buildOrderRequestIdentity example_placement)
        \<lparr>rj_code = - 2010, rj_msg = ''no balance''\<rparr> 60030)))) =
   Some (Some (Refused3 (buildOrderRequestIdentity example_placement)
        \<lparr>rj_code = - 2010, rj_msg = ''no balance''\<rparr> 60030))"
  by (rule refusal_state_round_trip [OF unary_codec, THEN conjunct1])

end
