(* ===== verification/Halt_Filter.thy ===== *)
theory Halt_Filter
  imports Contract "HOL-Library.Multiset"
begin

text \<open>
  The entry-halt filter of the tick path, \<open>apps/worker/src/tick/halt-filter.ts\<close>: when one of the
  profile's breakers (daily loss, loss streak, drawdown) is tripped, new BUY orders of the tick
  are dropped and everything else runs. The breaker flags live in Redis; a read that fails lets
  every decision through.

  A Redis read is a value of the option type, \<open>None\<close> when it rejects. Other processes set and
  expire flags at any time, so the probe and each later single-key read answer independently.
\<close>

datatype entry_halt_kind = DailyLoss | LossStreak | Drawdown

definition EntryHaltKind_options :: "entry_halt_kind list" where
  "EntryHaltKind_options = [DailyLoss, LossStreak, Drawdown]"

record suppress_result =
  kept :: "decision list"
  dropped :: "decision list"

record halt_filter_result = suppress_result +
  kinds :: "entry_halt_kind list"

fun is_buy_entry :: "decision \<Rightarrow> bool" where
  "is_buy_entry (PlaceOrder i p) = (oi_side i = BUY)"
| "is_buy_entry (ReplaceOrder c r i p) = (oi_side i = BUY)"
| "is_buy_entry _ = False"

text \<open>One turn of the loop, pushing onto the two arrays.\<close>

definition suppress_turn :: "suppress_result \<Rightarrow> decision \<Rightarrow> suppress_result" where
  "suppress_turn r d =
     (if is_buy_entry d then r\<lparr>dropped := dropped r @ [d]\<rparr> else r\<lparr>kept := kept r @ [d]\<rparr>)"

definition suppressBuyEntries :: "decision list \<Rightarrow> suppress_result" where
  "suppressBuyEntries decisions = foldl suppress_turn \<lparr>kept = [], dropped = []\<rparr> decisions"

definition no_halt :: "decision list \<Rightarrow> halt_filter_result" where
  "no_halt decisions = \<lparr>kept = decisions, dropped = [], kinds = []\<rparr>"

text \<open>\<open>Promise.all\<close> over the single-key reads: one rejection rejects the whole.\<close>

fun promise_all :: "'a option list \<Rightarrow> 'a list option" where
  "promise_all [] = Some []"
| "promise_all (x # xs) =
     (case x of None \<Rightarrow> None
      | Some v \<Rightarrow> (case promise_all xs of None \<Rightarrow> None | Some vs \<Rightarrow> Some (v # vs)))"

text \<open>
  \<open>existsAny ks\<close> answers the multi-key probe, \<open>existsOne k\<close> a later single-key read.
\<close>

definition applyEntryHalts ::
  "(string list \<Rightarrow> nat option) \<Rightarrow> (string \<Rightarrow> nat option) \<Rightarrow> (entry_halt_kind \<Rightarrow> string) \<Rightarrow> decision list
     \<Rightarrow> halt_filter_result" where
  "applyEntryHalts existsAny existsOne keys decisions =
     (let entries = map (\<lambda>kind. (kind, keys kind)) EntryHaltKind_options
      in case existsAny (map snd entries) of
           None \<Rightarrow> no_halt decisions
         | Some anyv \<Rightarrow>
             if anyv = 0 then no_halt decisions
             else (case promise_all (map (existsOne \<circ> snd) entries) of
                     None \<Rightarrow> no_halt decisions
                   | Some flags \<Rightarrow>
                       (let ks = map fst (map snd (filter (\<lambda>(f, e). 0 < f) (zip flags entries)))
                        in if ks = [] then no_halt decisions
                           else (let f = suppressBuyEntries decisions
                                 in \<lparr>kept = kept f, dropped = dropped f, kinds = ks\<rparr>))))"

lemma suppress_foldl:
  "foldl suppress_turn r ds =
     \<lparr>kept = kept r @ filter (\<lambda>d. \<not> is_buy_entry d) ds, dropped = dropped r @ filter is_buy_entry ds\<rparr>"
  by (induction ds arbitrary: r) (auto simp: suppress_turn_def)

lemma suppressBuyEntries_filter:
  "suppressBuyEntries ds =
     \<lparr>kept = filter (\<lambda>d. \<not> is_buy_entry d) ds, dropped = filter is_buy_entry ds\<rparr>"
  by (simp add: suppressBuyEntries_def suppress_foldl)

lemma kept_no_halt [simp]: "kept (no_halt ds) = ds" "dropped (no_halt ds) = []" "kinds (no_halt ds) = []"
  by (simp_all add: no_halt_def)

lemma promise_all_some: "promise_all xs = Some vs \<longleftrightarrow> xs = map Some vs"
proof (induction xs arbitrary: vs)
  case (Cons x xs)
  then show ?case by (cases x; cases vs) (auto split: option.splits, metis+)
qed auto

lemma promise_all_none: "promise_all xs = None \<longleftrightarrow> None \<in> set xs"
  by (induction xs) (auto split: option.splits)

text \<open>The answers of an atomic store holding the keys \<open>S\<close>.\<close>

definition exists_in :: "string set \<Rightarrow> string list \<Rightarrow> nat" where
  "exists_in S ks = length (filter (\<lambda>k. k \<in> S) ks)"

lemma applyEntryHalts_cases:
  obtains (Open) "applyEntryHalts ea eo keys ds = no_halt ds"
  | (Halted) ks where "ks \<noteq> []" "set ks \<subseteq> {k. \<exists>n > 0. eo (keys k) = Some n}"
      "applyEntryHalts ea eo keys ds =
         \<lparr>kept = filter (\<lambda>d. \<not> is_buy_entry d) ds, dropped = filter is_buy_entry ds, kinds = ks\<rparr>"
proof -
  let ?es = "map (\<lambda>kind. (kind, keys kind)) EntryHaltKind_options"
  let ?ks = "\<lambda>flags. map fst (map snd (filter (\<lambda>(f, e). 0 < f) (zip flags ?es)))"
  have sub: "set (?ks flags) \<subseteq> {k. \<exists>n > 0. eo (keys k) = Some n}"
    if "promise_all (map (eo \<circ> snd) ?es) = Some flags" for flags
    using that unfolding promise_all_some
    by (auto simp: EntryHaltKind_options_def Cons_eq_map_conv split: if_splits)
  show ?thesis
  proof (cases "ea (map snd ?es)")
    case (Some n)
    show ?thesis
    proof (cases "promise_all (map (eo \<circ> snd) ?es)")
      case flags: (Some flags)
      show ?thesis
      proof (cases "n = 0 \<or> ?ks flags = []")
        case False
        with Some flags have "applyEntryHalts ea eo keys ds =
            \<lparr>kept = filter (\<lambda>d. \<not> is_buy_entry d) ds, dropped = filter is_buy_entry ds, kinds = ?ks flags\<rparr>"
          unfolding applyEntryHalts_def Let_def suppressBuyEntries_filter by simp
        with Halted [OF _ sub [OF flags]] False show ?thesis by blast
      qed (use Open Some flags in \<open>auto simp: applyEntryHalts_def Let_def\<close>)
    qed (use Open Some in \<open>simp add: applyEntryHalts_def Let_def\<close>)
  qed (use Open in \<open>simp add: applyEntryHalts_def Let_def\<close>)
qed

section \<open>Properties\<close>

text \<open>
  C7. Whatever the flag reads answer, fail or race with, the filter never drops anything but a BUY
  placement or a BUY replacement: every exit, cancel and event is kept, in its order. Nothing is
  dropped unless a breaker whose own flag read was positive is named, and with a breaker named no
  BUY entry is kept.
\<close>
theorem halt_only_drops_buys:
  fixes ea :: "string list \<Rightarrow> nat option" and eo :: "string \<Rightarrow> nat option"
  assumes "r = applyEntryHalts ea eo keys ds"
  shows "(filter (\<lambda>d. \<not> is_buy_entry d) (kept r) = filter (\<lambda>d. \<not> is_buy_entry d) ds) \<and>
    (mset (kept r) + mset (dropped r) = mset ds) \<and>
    (set (dropped r) \<subseteq> {d. is_buy_entry d}) \<and>
    (kinds r = [] \<longrightarrow> kept r = ds) \<and>
    (kinds r \<noteq> [] \<longrightarrow> (\<forall>d \<in> set (kept r). \<not> is_buy_entry d)) \<and>
    (\<forall>k \<in> set (kinds r). \<exists>n > 0. eo (keys k) = Some n)"
  unfolding assms
  by (intro conjI; rule applyEntryHalts_cases [of ea eo keys ds]; auto simp: multiset_partition [symmetric])

definition example_intent :: "order_side \<Rightarrow> order_intent" where
  "example_intent side = \<lparr>oi_symbol = ''BTCUSDT'', oi_side = side, oi_reason = ''r'', oi_clientOrderId = ''c1'',
     oi_meta = None, oi_overrideActionId = None, oi_deferrable = None\<rparr>"

definition example_params :: order_params where
  "example_params = \<lparr>op_type = MARKET, op_price = None, op_stopPrice = None, op_quantity = ''1'',
     op_trailingDelta = None, op_timeInForce = None\<rparr>"

theorem halt_only_drops_buys_witness:
  "let buy = PlaceOrder (example_intent BUY) example_params;
       sell = PlaceOrder (example_intent SELL) example_params;
       r = applyEntryHalts (\<lambda>_. Some 1) (\<lambda>k. Some (if k = ''dd'' then 1 else 0))
             (case_entry_halt_kind ''dl'' ''ls'' ''dd'') [buy, sell, Noop]
   in kept r = [sell, Noop] \<and> dropped r = [buy] \<and> kinds r = [Drawdown] \<and>
      (\<forall>d \<in> set (kept r). \<not> is_buy_entry d)"
proof -
  let ?buy = "PlaceOrder (example_intent BUY) example_params"
  let ?sell = "PlaceOrder (example_intent SELL) example_params"
  let ?r = "applyEntryHalts (\<lambda>_. Some 1) (\<lambda>k. Some (if k = ''dd'' then 1 else 0))
             (case_entry_halt_kind ''dl'' ''ls'' ''dd'') [?buy, ?sell, Noop]"
  have "kept ?r = [?sell, Noop] \<and> dropped ?r = [?buy] \<and> kinds ?r = [Drawdown]"
    by (simp add: applyEntryHalts_def EntryHaltKind_options_def suppressBuyEntries_filter Let_def example_intent_def)
  with halt_only_drops_buys [OF refl, THEN conjunct2, THEN conjunct2, THEN conjunct2, THEN conjunct2, THEN conjunct1] show ?thesis by (metis list.distinct(1))
qed

text \<open>
  When every read answers from one store, the active breakers are named exactly, in the
  declaration order of the kinds, and the BUY entries are dropped exactly when some breaker is set.
\<close>
lemma halt_exact:
  shows "(kinds (applyEntryHalts (\<lambda>ks. Some (exists_in S ks)) (\<lambda>k. Some (exists_in S [k])) keys ds) =
           filter (\<lambda>k. keys k \<in> S) EntryHaltKind_options) \<and>
    (dropped (applyEntryHalts (\<lambda>ks. Some (exists_in S ks)) (\<lambda>k. Some (exists_in S [k])) keys ds) =
           (if \<exists>k. keys k \<in> S then filter is_buy_entry ds else []))"
proof (rule conjI)
  have "(\<exists>k. keys k \<in> S) \<longleftrightarrow> keys DailyLoss \<in> S \<or> keys LossStreak \<in> S \<or> keys Drawdown \<in> S"
    by (metis entry_halt_kind.exhaust)
  then show "dropped (applyEntryHalts (\<lambda>ks. Some (exists_in S ks)) (\<lambda>k. Some (exists_in S [k])) keys ds) =
           (if \<exists>k. keys k \<in> S then filter is_buy_entry ds else [])"
    by (simp add: applyEntryHalts_def EntryHaltKind_options_def exists_in_def suppressBuyEntries_filter Let_def)
  show "kinds (applyEntryHalts (\<lambda>ks. Some (exists_in S ks)) (\<lambda>k. Some (exists_in S [k])) keys ds) =
           filter (\<lambda>k. keys k \<in> S) EntryHaltKind_options"
    by (simp add: applyEntryHalts_def EntryHaltKind_options_def exists_in_def Let_def)
qed

end
