(* ===== verification/State_Migration.thy ===== *)
theory State_Migration
  imports Contract
begin

text \<open>
  The migration walk of persisted strategy state, \<open>apps/worker/src/state/migrate-state.ts\<close>.

  A strategy plugin is the record \<open>strategy_shape\<close>; its \<open>migrateState\<close> is a parameter, \<open>None\<close>
  when the plugin declares none, and a hop that throws returns \<open>None\<close>. The loop of
  \<open>runStateMigration\<close> is \<open>migration_loop\<close>, recursive in the hops left. \<open>chain\<close> is the reference:
  the chain of hops with neither the visited set nor the cap.
\<close>

type_synonym migrate_fn = "string \<Rightarrow> json \<Rightarrow> json option"

record strategy_shape =
  ss_version :: string
  ss_migrateState :: "migrate_fn option"
  ss_initialState :: "json \<Rightarrow> json"
  ss_mergeConcurrent :: "(json \<Rightarrow> json \<Rightarrow> json) option"

datatype migration_result = NotMigrated | Migrated json string

definition MAX_MIGRATION_HOPS :: nat where
  "MAX_MIGRATION_HOPS = 16"

fun str_of :: "json \<Rightarrow> string option" where
  "str_of (JStr s) = Some s"
| "str_of _ = None"

definition readStateSchemaVersion :: "json \<Rightarrow> string option" where
  "readStateSchemaVersion state = str_of (jget state ''schemaVersion'')"

text \<open>\<open>None\<close> when a hop throws; otherwise the cursor and the body the loop leaves behind.\<close>

fun migration_loop ::
  "migrate_fn \<Rightarrow> string \<Rightarrow> nat \<Rightarrow> string \<Rightarrow> json \<Rightarrow> string list \<Rightarrow> (string \<times> json) option" where
  "migration_loop migrate target 0 cursor migrated visited = Some (cursor, migrated)"
| "migration_loop migrate target (Suc hopsLeft) cursor migrated visited =
     (if cursor = target then Some (cursor, migrated)
      else case migrate cursor migrated of
             None \<Rightarrow> None
           | Some next \<Rightarrow>
               (case str_of (jget next ''schemaVersion'') of
                  None \<Rightarrow> Some (cursor, next)
                | Some nextVer \<Rightarrow>
                    if List.member visited nextVer then Some (cursor, next)
                    else migration_loop migrate target hopsLeft nextVer next (nextVer # visited)))"

definition runStateMigration :: "strategy_shape \<Rightarrow> string \<Rightarrow> json \<Rightarrow> migration_result option" where
  "runStateMigration strategy fromVersion state =
     (let stateSchemaVersion = readStateSchemaVersion state;
          effectiveFromVersion = (case stateSchemaVersion of Some v \<Rightarrow> v | None \<Rightarrow> fromVersion)
      in if effectiveFromVersion = ss_version strategy then
           (if stateSchemaVersion \<noteq> None \<and> stateSchemaVersion \<noteq> Some fromVersion
            then Some (Migrated state (ss_version strategy)) else Some NotMigrated)
         else
           (case ss_migrateState strategy of
              None \<Rightarrow> Some NotMigrated
            | Some migrate \<Rightarrow>
                (case migration_loop migrate (ss_version strategy) MAX_MIGRATION_HOPS
                        effectiveFromVersion state [effectiveFromVersion] of
                   None \<Rightarrow> None
                 | Some (cursor, migrated) \<Rightarrow>
                     if cursor \<noteq> ss_version strategy then None
                     else Some (Migrated migrated (ss_version strategy)))))"

section \<open>The reference walk\<close>

text \<open>
  \<open>chain m c b p c' b'\<close>: from the body \<open>b\<close> at version \<open>c\<close>, the hops of \<open>m\<close> stamp the versions \<open>p\<close>
  in turn and end with the body \<open>b'\<close> at version \<open>c'\<close>.
\<close>

inductive chain :: "migrate_fn \<Rightarrow> string \<Rightarrow> json \<Rightarrow> string list \<Rightarrow> string \<Rightarrow> json \<Rightarrow> bool" for m where
  chain_end: "chain m c b [] c b"
| chain_hop: "m c b = Some nb \<Longrightarrow> readStateSchemaVersion nb = Some v \<Longrightarrow> chain m v nb p c' b'
     \<Longrightarrow> chain m c b (v # p) c' b'"

inductive_simps chain_Nil [simp]: "chain m c b [] c' b'"
inductive_simps chain_Cons [simp]: "chain m c b (v # p) c' b'"

lemma chain_ends: "chain m c b p c' b' \<Longrightarrow> p \<noteq> [] \<Longrightarrow> c' \<in> set p"
  by (induction rule: chain.induct) (auto elim: chain.cases)

lemma chain_stamp: "chain m c b p c' b' \<Longrightarrow> p \<noteq> [] \<Longrightarrow> readStateSchemaVersion b' = Some c'"
proof (induction rule: chain.induct)
  case (chain_hop c b nb v p c' b')
  then show ?case by (cases p) auto
qed simp

lemma chain_stamp': "chain m c b p c' b' \<Longrightarrow> c \<noteq> c' \<Longrightarrow> readStateSchemaVersion b' = Some c'"
  by (rule chain_stamp) auto

lemma migration_loop_chain:
  assumes "c \<in> set vis"
  shows "migration_loop m target n c b vis = Some (target, b') \<longleftrightarrow>
    (\<exists>p. chain m c b p target b' \<and> length p \<le> n \<and> distinct p \<and> set p \<inter> set vis = {})"
  using assms
proof (induction n arbitrary: c b vis)
  case 0
  then show ?case by auto
next
  case (Suc n)
  show ?case
  proof (cases "c = target")
    case True
    then have "p = []" if "chain m c b p target b'" "set p \<inter> set vis = {}" for p
      using chain_ends that Suc.prems by blast
    then have "(\<exists>p. chain m c b p target b' \<and> length p \<le> Suc n \<and> distinct p \<and> set p \<inter> set vis = {}) \<longleftrightarrow> b = b'"
      using True by (metis chain_Nil distinct.simps(1) inf_bot_left le0 list.set(1) list.size(3))
    with True show ?thesis by simp
  next
    case False
    then have ne: "(\<exists>p. chain m c b p target b' \<and> length p \<le> Suc n \<and> distinct p \<and> set p \<inter> set vis = {}) \<longleftrightarrow>
        (\<exists>v p. chain m c b (v # p) target b' \<and> length p \<le> n \<and> distinct (v # p) \<and> set (v # p) \<inter> set vis = {})"
      by (metis Suc_le_mono chain_Nil length_Cons list.exhaust)
    show ?thesis
      unfolding ne using False Suc.IH
      by (auto simp: readStateSchemaVersion_def split: option.splits if_splits)
  qed
qed

section \<open>Properties\<close>

lemma runStateMigration_migrated:
  assumes "runStateMigration s from body = Some (Migrated b v)"
  shows "v = ss_version s \<and> readStateSchemaVersion b = Some (ss_version s)"
  using assms
  by (auto simp: runStateMigration_def Let_def migration_loop_chain split: option.splits if_splits
      dest: chain_stamp')

text \<open>
  C8. The walk ends for every plugin, and its answer is exact. It succeeds exactly when the plugin's
  hops lead from the body's own version to the strategy's in at most sixteen steps that never
  return to a version already seen; the body returned then carries the strategy's version stamp.
  A failed walk returns null, whatever the reason (a throw, a cycle, the cap, a missing stamp).
\<close>
theorem migration_exact:
  assumes "ss_migrateState s = Some m"
    and "c = (case readStateSchemaVersion body of Some v \<Rightarrow> v | None \<Rightarrow> from)" and "c \<noteq> ss_version s"
  shows "(runStateMigration s from body = Some (Migrated b v) \<longleftrightarrow>
           v = ss_version s \<and>
           (\<exists>p. chain m c body p (ss_version s) b \<and> length p \<le> 16 \<and> distinct (c # p))) \<and>
    (runStateMigration s from body \<noteq> Some NotMigrated) \<and>
    (runStateMigration s from body = Some (Migrated b v) \<longrightarrow>
           readStateSchemaVersion b = Some (ss_version s))"
proof (rule conjI [OF _ conjI])
  let ?L = "migration_loop m (ss_version s) MAX_MIGRATION_HOPS c body [c]"
  have run: "runStateMigration s from body =
      (case ?L of None \<Rightarrow> None
       | Some (cursor, migrated) \<Rightarrow>
           if cursor \<noteq> ss_version s then None else Some (Migrated migrated (ss_version s)))"
    using assms by (simp add: runStateMigration_def Let_def)
  then show "runStateMigration s from body \<noteq> Some NotMigrated"
    by (simp split: option.splits)
  have "runStateMigration s from body = Some (Migrated b v) \<longleftrightarrow>
      v = ss_version s \<and> ?L = Some (ss_version s, b)"
    unfolding run by (auto split: option.splits)
  then show "runStateMigration s from body = Some (Migrated b v) \<longleftrightarrow>
           v = ss_version s \<and>
           (\<exists>p. chain m c body p (ss_version s) b \<and> length p \<le> 16 \<and> distinct (c # p))"
    by (auto simp: migration_loop_chain MAX_MIGRATION_HOPS_def)
  show "runStateMigration s from body = Some (Migrated b v) \<longrightarrow>
           readStateSchemaVersion b = Some (ss_version s)"
    using runStateMigration_migrated by blast
qed

definition stamped :: "string \<Rightarrow> json" where
  "stamped v = JObj [(''schemaVersion'', JStr v)]"

lemma stamped_version [simp]: "readStateSchemaVersion (stamped v) = Some v"
  by (simp add: stamped_def readStateSchemaVersion_def)

definition example_strategy :: strategy_shape where
  "example_strategy = \<lparr>ss_version = ''3'',
     ss_migrateState = Some (\<lambda>v b. if v = ''1'' then Some (stamped ''2'') else if v = ''2'' then Some (stamped ''3'') else None),
     ss_initialState = (\<lambda>c. stamped ''3''), ss_mergeConcurrent = None\<rparr>"

theorem migration_exact_witness:
  "runStateMigration example_strategy ''1'' (stamped ''1'') = Some (Migrated (stamped ''3'') ''3'')"
proof -
  let ?m = "\<lambda>v b::json. if v = ''1'' then Some (stamped ''2'') else if v = ''2'' then Some (stamped ''3'') else None"
  have "chain ?m ''1'' (stamped ''1'') [''2'', ''3''] ''3'' (stamped ''3'')"
    by simp
  then have "\<exists>p. chain ?m ''1'' (stamped ''1'') p (ss_version example_strategy) (stamped ''3'') \<and> length p \<le> 16 \<and> distinct (''1'' # p)"
    by (intro exI [of _ "[''2'', ''3'']"]) (simp add: example_strategy_def)
  then show ?thesis
    by (subst migration_exact [of _ ?m "''1''", THEN conjunct1]) (simp_all add: example_strategy_def)
qed

end
