(* ===== verification/Symbol_State.thy ===== *)
theory Symbol_State
  imports State_Migration
begin

text \<open>
  The durable state of one (profile, symbol) slice: \<open>apps/worker/src/state/version-aware-mutate.ts\<close>,
  \<open>state-port.ts\<close>, the repository writes of \<open>packages/db/src/repo/symbol-states.ts\<close> and the writer
  of \<open>apps/worker/src/boot/builders/state-persistence.ts\<close>.

  \<open>store\<close> is what all writers share: the slice's Postgres row and its Redis cache entry. Every
  operation passes it along. What other writers do to it while an operation awaits, and which of
  the operation's own calls reject, comes with the records \<open>write_io\<close> and \<open>attempt_io\<close>. The
  relation \<open>row_le\<close> is the guarantee every compare-and-swap writer gives; the lemmas rely on it
  for the others and prove it of each operation.
\<close>

record srow =
  sr_state :: json
  sr_strategyVersion :: string
  sr_version :: nat

record store =
  st_row :: "srow option"
  st_cache :: "string option"

datatype state_error = ReadFailed | DelFailed | PersistFailed | MigrationFailed | CasExhausted

section \<open>Repository writes\<close>

definition casUpsert :: "store \<Rightarrow> json \<Rightarrow> string \<Rightarrow> nat option \<Rightarrow> store \<times> srow option" where
  "casUpsert st state strategyVersion expectedVersion =
     (case expectedVersion of
        None \<Rightarrow>
          (case st_row st of
             None \<Rightarrow> (let r = \<lparr>sr_state = state, sr_strategyVersion = strategyVersion, sr_version = 0\<rparr>
                      in (st\<lparr>st_row := Some r\<rparr>, Some r))
           | Some _ \<Rightarrow> (st, None))
      | Some n \<Rightarrow>
          (case st_row st of
             Some r \<Rightarrow>
               if sr_version r = n then
                 (let r' = r\<lparr>sr_state := state, sr_strategyVersion := strategyVersion, sr_version := n + 1\<rparr>
                  in (st\<lparr>st_row := Some r'\<rparr>, Some r'))
               else (st, None)
           | None \<Rightarrow> (st, None)))"

definition persistSymbolState :: "store \<Rightarrow> json \<Rightarrow> string \<Rightarrow> nat option \<Rightarrow> store \<times> bool" where
  "persistSymbolState st nextState nextStrategyVersion expectedVersion =
     (let (st', row) = casUpsert st nextState nextStrategyVersion expectedVersion in (st', row \<noteq> None))"

definition removeAllForProfile :: "store \<Rightarrow> store" where
  "removeAllForProfile st = st\<lparr>st_row := None\<rparr>"

section \<open>Reconcile and migrate\<close>

record reconciled_state =
  rc_state :: json
  rc_workingVersion :: string
  rc_expectedVersion :: "nat option"
  rc_rowExisted :: bool
  rc_migrated :: bool

text \<open>\<open>===\<close> on parsed values: objects and arrays are distinct references.\<close>

fun strict_eq :: "json \<Rightarrow> json \<Rightarrow> bool" where
  "strict_eq (JObj _) _ = False"
| "strict_eq (JArr _) _ = False"
| "strict_eq (JNum JsNaN) _ = False"
| "strict_eq a b = (a = b)"

definition isRecord :: "json \<Rightarrow> bool" where
  "isRecord v = (case v of JObj _ \<Rightarrow> True | JArr _ \<Rightarrow> True | _ \<Rightarrow> False)"

definition schema_field :: "json \<Rightarrow> json" where
  "schema_field v = (if isRecord v then jget v ''schemaVersion'' else JUndefined)"

definition working_body :: "strategy_shape \<Rightarrow> json \<Rightarrow> srow option \<Rightarrow> json \<times> string" where
  "working_body strategy config row =
     (case row of
        None \<Rightarrow> (ss_initialState strategy config, ss_version strategy)
      | Some r \<Rightarrow> (sr_state r, sr_strategyVersion r))"

text \<open>
  The body to work on, and whether the cache entry is deleted. A first failing delete of the seed
  branch is caught and tried again; \<open>dels\<close> says which deletes resolve.
\<close>

definition settle_cache ::
  "(string \<Rightarrow> json option) \<Rightarrow> srow option \<Rightarrow> json \<Rightarrow> string option \<Rightarrow> bool \<times> bool \<Rightarrow> store
     \<Rightarrow> store \<times> (state_error + json)" where
  "settle_cache parseJson row workingState cachedBody dels st =
     (case cachedBody of
        None \<Rightarrow> (st, Inr workingState)
      | Some s \<Rightarrow>
          (case parseJson s of
             Some cached \<Rightarrow>
               (let cachedVer = schema_field cached
                in if row \<noteq> None \<and> cachedVer \<noteq> JUndefined \<and> strict_eq cachedVer (schema_field workingState)
                   then (st, Inr cached)
                   else if row = None then
                     (if fst dels \<or> snd dels then (st\<lparr>st_cache := None\<rparr>, Inr workingState)
                      else (st, Inl DelFailed))
                   else (st, Inr workingState))
           | None \<Rightarrow>
               if fst dels then (st\<lparr>st_cache := None\<rparr>, Inr workingState) else (st, Inl DelFailed)))"

definition migrate_settled ::
  "strategy_shape \<Rightarrow> srow option \<Rightarrow> string \<Rightarrow> json \<Rightarrow> reconciled_state option" where
  "migrate_settled strategy row workingVersion workingState =
     (case runStateMigration strategy workingVersion workingState of
        None \<Rightarrow> None
      | Some m \<Rightarrow>
          (let (state, version, migrated) =
             (case m of Migrated s v \<Rightarrow> (s, v, True) | NotMigrated \<Rightarrow> (workingState, workingVersion, False))
           in Some \<lparr>rc_state = state, rc_workingVersion = version,
                    rc_expectedVersion = map_option sr_version row,
                    rc_rowExisted = (row \<noteq> None), rc_migrated = migrated\<rparr>))"

definition reconcileAndMigrate ::
  "(string \<Rightarrow> json option) \<Rightarrow> strategy_shape \<Rightarrow> json \<Rightarrow> srow option \<Rightarrow> string option \<Rightarrow> bool \<times> bool \<Rightarrow> store
     \<Rightarrow> store \<times> (state_error + reconciled_state option)" where
  "reconcileAndMigrate parseJson strategy config row cachedBody dels st =
     (let (workingState, workingVersion) = working_body strategy config row
      in case settle_cache parseJson row workingState cachedBody dels st of
           (st', Inl e) \<Rightarrow> (st', Inl e)
         | (st', Inr body) \<Rightarrow> (st', Inr (migrate_settled strategy row workingVersion body)))"

section \<open>Writing\<close>

text \<open>
  How a persist call ends: it settles, or it rejects, possibly after the statement took effect.
  \<open>wi_gap\<close> is what other writers do between the durable write and the cache refresh.
\<close>

datatype persist_io = Settles | Rejects bool

record write_io =
  wi_persist :: persist_io
  wi_gap :: "store \<Rightarrow> store"
  wi_setOk :: bool
  wi_delOk :: bool

definition refreshStateCache :: "(json \<Rightarrow> string) \<Rightarrow> write_io \<Rightarrow> store \<Rightarrow> json \<Rightarrow> store" where
  "refreshStateCache stringify io st state =
     (if wi_setOk io then st\<lparr>st_cache := Some (stringify state)\<rparr>
      else if wi_delOk io then st\<lparr>st_cache := None\<rparr>
      else st)"

definition writeStateThrough ::
  "(json \<Rightarrow> string) \<Rightarrow> write_io \<Rightarrow> store \<Rightarrow> json \<Rightarrow> string \<Rightarrow> nat option \<Rightarrow> store \<times> (state_error + bool)" where
  "writeStateThrough stringify io st state version expectedVersion =
     (let (st', applied) = persistSymbolState st state version expectedVersion
      in case wi_persist io of
           Rejects landed \<Rightarrow> (if landed then st' else st, Inl PersistFailed)
         | Settles \<Rightarrow>
             if applied then (refreshStateCache stringify io (wi_gap io st') state, Inr True)
             else (st', Inr False))"

section \<open>Event-driven mutation\<close>

record attempt_io =
  ai_before :: "store \<Rightarrow> store"
  ai_between :: "store \<Rightarrow> store"
  ai_readsOk :: bool
  ai_dels :: "bool \<times> bool"
  ai_meanwhile :: "store \<Rightarrow> store"
  ai_write :: write_io

definition MAX_CAS_RETRIES :: nat where
  "MAX_CAS_RETRIES = 5"

text \<open>How one turn of the retry loop ends. \<open>Unchanged\<close> is the return with nothing to write.\<close>

datatype attempt_end = Threw state_error | Unchanged | Wrote | Missed

definition attempt_write ::
  "(json \<Rightarrow> string) \<Rightarrow> attempt_io \<Rightarrow> store \<Rightarrow> json \<Rightarrow> reconciled_state \<Rightarrow> store \<times> attempt_end" where
  "attempt_write stringify io st body reconciled =
     (case writeStateThrough stringify (ai_write io) (ai_meanwhile io st) body
             (rc_workingVersion reconciled) (rc_expectedVersion reconciled) of
        (st', Inl e) \<Rightarrow> (st', Threw e)
      | (st', Inr applied) \<Rightarrow> (st', if applied then Wrote else Missed))"

definition mutate_attempt ::
  "(string \<Rightarrow> json option) \<Rightarrow> (json \<Rightarrow> string) \<Rightarrow> strategy_shape \<Rightarrow> json \<Rightarrow> (json \<Rightarrow> json option)
     \<Rightarrow> attempt_io \<Rightarrow> store \<Rightarrow> store \<times> attempt_end" where
  "mutate_attempt parseJson stringify strategy config mutate io st =
     (let st1 = ai_before io st; row = st_row st1;
          st2 = ai_between io st1; cachedBody = st_cache st2
      in if \<not> ai_readsOk io then (st2, Threw ReadFailed)
         else case reconcileAndMigrate parseJson strategy config row cachedBody (ai_dels io) st2 of
                (st3, Inl e) \<Rightarrow> (st3, Threw e)
              | (st3, Inr None) \<Rightarrow> (st3, Threw MigrationFailed)
              | (st3, Inr (Some reconciled)) \<Rightarrow>
                  (case mutate (rc_state reconciled) of
                     None \<Rightarrow>
                       if \<not> rc_rowExisted reconciled \<or> rc_migrated reconciled
                       then attempt_write stringify io st3 (rc_state reconciled) reconciled
                       else (st3, Unchanged)
                   | Some next \<Rightarrow> attempt_write stringify io st3 next reconciled))"

text \<open>The loop, with the attempts left; \<open>ios\<close> is indexed by the attempt number.\<close>

fun mutate_loop ::
  "(store \<Rightarrow> attempt_io \<Rightarrow> store \<times> attempt_end) \<Rightarrow> (nat \<Rightarrow> attempt_io) \<Rightarrow> nat \<Rightarrow> nat \<Rightarrow> store
     \<Rightarrow> store \<times> (state_error + attempt_end)" where
  "mutate_loop turn ios attempt 0 st = (st, Inl CasExhausted)"
| "mutate_loop turn ios attempt (Suc left) st =
     (case turn st (ios attempt) of
        (st', Missed) \<Rightarrow> mutate_loop turn ios (Suc attempt) left st'
      | (st', Threw e) \<Rightarrow> (st', Inl e)
      | (st', out) \<Rightarrow> (st', Inr out))"

text \<open>
  \<open>profile\<close> is the row \<open>findById\<close> returns, as strategy name and config; \<open>registry\<close> resolves the
  plugin. \<open>None\<close> as the result is the early return.
\<close>

definition mutateSymbolState ::
  "(string \<Rightarrow> json option) \<Rightarrow> (json \<Rightarrow> string) \<Rightarrow> (string \<times> json) option \<Rightarrow> (string \<Rightarrow> strategy_shape option)
     \<Rightarrow> (json \<Rightarrow> json option) \<Rightarrow> (nat \<Rightarrow> attempt_io) \<Rightarrow> store \<Rightarrow> store \<times> (state_error + attempt_end) option" where
  "mutateSymbolState parseJson stringify profile registry mutate ios st =
     (case profile of
        None \<Rightarrow> (st, None)
      | Some (strategyName, config) \<Rightarrow>
          (case registry strategyName of
             None \<Rightarrow> (st, None)
           | Some strategy \<Rightarrow>
               (let (st', out) =
                  mutate_loop (\<lambda>s io. mutate_attempt parseJson stringify strategy config mutate io s)
                    ios 0 (MAX_CAS_RETRIES + 1) st
                in (st', Some out))))"

section \<open>The tick's read and commit\<close>

record reconciled_read =
  rr_state :: json
  rr_workingVersion :: string
  rr_expectedVersion :: "nat option"

definition loadSymbolStateForTick ::
  "(string \<Rightarrow> json option) \<Rightarrow> strategy_shape \<Rightarrow> json \<Rightarrow> string option \<Rightarrow> bool \<times> bool \<Rightarrow> store
     \<Rightarrow> store \<times> (state_error + reconciled_read)" where
  "loadSymbolStateForTick parseJson strategy config cachedBody dels st =
     (case reconcileAndMigrate parseJson strategy config (st_row st) cachedBody dels st of
        (st', Inl e) \<Rightarrow> (st', Inl e)
      | (st', Inr None) \<Rightarrow> (st', Inl MigrationFailed)
      | (st', Inr (Some r)) \<Rightarrow>
          (st', Inr \<lparr>rr_state = rc_state r, rr_workingVersion = rc_workingVersion r,
                     rr_expectedVersion = rc_expectedVersion r\<rparr>))"

datatype tick_commit_outcome = Applied | CasMiss | Degraded

text \<open>
  How the race of the persist call and its deadline ends; after a timeout or a rejection the
  statement may or may not have taken effect.
\<close>

datatype commit_race = RaceSettled | RaceRejected bool | RaceTimeout bool

definition race_persist ::
  "commit_race \<Rightarrow> store \<Rightarrow> json \<Rightarrow> string \<Rightarrow> nat option \<Rightarrow> store \<times> bool option" where
  "race_persist race st nextState workingVersion expectedVersion =
     (let (st', ok) = persistSymbolState st nextState workingVersion expectedVersion
      in case race of
           RaceSettled \<Rightarrow> (st', Some ok)
         | RaceRejected landed \<Rightarrow> (if landed then st' else st, None)
         | RaceTimeout landed \<Rightarrow> (if landed then st' else st, None))"

definition commitSymbolStateForTick ::
  "(json \<Rightarrow> string) \<Rightarrow> commit_race \<Rightarrow> write_io \<Rightarrow> store \<Rightarrow> json \<Rightarrow> string \<Rightarrow> nat option
     \<Rightarrow> store \<times> tick_commit_outcome" where
  "commitSymbolStateForTick stringify race io st nextState workingVersion expectedVersion =
     (case race_persist race st nextState workingVersion expectedVersion of
        (st', Some True) \<Rightarrow> (refreshStateCache stringify io (wi_gap io st') nextState, Applied)
      | (st', Some False) \<Rightarrow> (st', CasMiss)
      | (st', None) \<Rightarrow> (refreshStateCache stringify io (wi_gap io st') nextState, Degraded))"

text \<open>One turn of the latch merge; a migration failure ends it without a write.\<close>

definition merge_attempt ::
  "(string \<Rightarrow> json option) \<Rightarrow> (json \<Rightarrow> string) \<Rightarrow> strategy_shape \<Rightarrow> json \<Rightarrow> (json \<Rightarrow> json \<Rightarrow> json) \<Rightarrow> json
     \<Rightarrow> store \<Rightarrow> attempt_io \<Rightarrow> store \<times> attempt_end" where
  "merge_attempt parseJson stringify strategy config mergeConcurrent tickNextState st io =
     (let st1 = ai_before io st; row = st_row st1;
          st2 = ai_between io st1; cachedBody = st_cache st2
      in if \<not> ai_readsOk io then (st2, Threw ReadFailed)
         else case reconcileAndMigrate parseJson strategy config row cachedBody (ai_dels io) st2 of
                (st3, Inl e) \<Rightarrow> (st3, Threw e)
              | (st3, Inr None) \<Rightarrow> (st3, Unchanged)
              | (st3, Inr (Some reconciled)) \<Rightarrow>
                  attempt_write stringify io st3 (mergeConcurrent (rc_state reconciled) tickNextState) reconciled)"

definition mergeLatchFieldsOnCasMiss ::
  "(string \<Rightarrow> json option) \<Rightarrow> (json \<Rightarrow> string) \<Rightarrow> strategy_shape \<Rightarrow> json \<Rightarrow> (json \<Rightarrow> json \<Rightarrow> json) \<Rightarrow> json
     \<Rightarrow> (nat \<Rightarrow> attempt_io) \<Rightarrow> store \<Rightarrow> store \<times> (state_error + bool)" where
  "mergeLatchFieldsOnCasMiss parseJson stringify strategy config mergeConcurrent tickNextState ios st =
     (case mutate_loop (merge_attempt parseJson stringify strategy config mergeConcurrent tickNextState)
             ios 0 (MAX_CAS_RETRIES + 1) st of
        (st', Inl CasExhausted) \<Rightarrow> (st', Inr False)
      | (st', Inl e) \<Rightarrow> (st', Inl e)
      | (st', Inr out) \<Rightarrow> (st', Inr (out = Wrote)))"

text \<open>The \<open>commit\<close> closure of \<open>StatePort.loadForTick\<close>: an error of the merge is swallowed.\<close>

definition port_commit ::
  "(string \<Rightarrow> json option) \<Rightarrow> (json \<Rightarrow> string) \<Rightarrow> strategy_shape \<Rightarrow> json \<Rightarrow> reconciled_read \<Rightarrow> json
     \<Rightarrow> commit_race \<Rightarrow> write_io \<Rightarrow> (nat \<Rightarrow> attempt_io) \<Rightarrow> store \<Rightarrow> store \<times> tick_commit_outcome" where
  "port_commit parseJson stringify strategy config load nextState race io ios st =
     (case commitSymbolStateForTick stringify race io st nextState
             (rr_workingVersion load) (rr_expectedVersion load) of
        (st', CasMiss) \<Rightarrow>
          (case ss_mergeConcurrent strategy of
             None \<Rightarrow> (st', CasMiss)
           | Some merge \<Rightarrow>
               (fst (mergeLatchFieldsOnCasMiss parseJson stringify strategy config merge nextState ios st'), CasMiss))
      | (st', out) \<Rightarrow> (st', out))"

section \<open>The order of writes\<close>

fun rank :: "srow option \<Rightarrow> nat" where
  "rank None = 0"
| "rank (Some r) = Suc (sr_version r)"

definition row_le :: "srow option \<Rightarrow> srow option \<Rightarrow> bool" where
  "row_le a b \<longleftrightarrow> a = b \<or> rank a < rank b"

lemma row_le_refl [simp, intro]: "row_le a a"
  by (simp add: row_le_def)

lemma row_le_trans [trans]: "row_le a b \<Longrightarrow> row_le b c \<Longrightarrow> row_le a c"
  by (auto simp: row_le_def)

lemma row_le_rank: "row_le a b \<Longrightarrow> rank a \<le> rank b"
  by (auto simp: row_le_def)

lemma row_le_same_rank: "row_le a b \<Longrightarrow> rank a = rank b \<Longrightarrow> a = b"
  by (simp add: row_le_def)

definition rely :: "(store \<Rightarrow> store) \<Rightarrow> bool" where
  "rely f \<longleftrightarrow> (\<forall>s. row_le (st_row s) (st_row (f s)))"

definition io_ok :: "attempt_io \<Rightarrow> bool" where
  "io_ok io \<longleftrightarrow> rely (ai_before io) \<and> rely (ai_between io) \<and> rely (ai_meanwhile io) \<and> rely (wi_gap (ai_write io))"

lemma relyD: "rely f \<Longrightarrow> row_le (st_row s) (st_row (f s))"
  by (simp add: rely_def)

text \<open>The compare-and-swap on the token of a row \<open>r\<close> read earlier.\<close>

lemma casUpsert_rank:
  "casUpsert st b v (map_option sr_version r) =
     (if rank (st_row st) = rank r
      then (st\<lparr>st_row := Some \<lparr>sr_state = b, sr_strategyVersion = v, sr_version = rank r\<rparr>\<rparr>,
            Some \<lparr>sr_state = b, sr_strategyVersion = v, sr_version = rank r\<rparr>)
      else (st, None))"
  by (cases r; cases "st_row st") (auto simp: casUpsert_def Let_def)

lemma persist_rank:
  "persistSymbolState st b v (map_option sr_version r) =
     (if rank (st_row st) = rank r
      then (st\<lparr>st_row := Some \<lparr>sr_state = b, sr_strategyVersion = v, sr_version = rank r\<rparr>\<rparr>, True)
      else (st, False))"
  by (simp add: persistSymbolState_def casUpsert_rank)

lemma persist_le:
  fixes r :: "srow option"
  shows "row_le (st_row st) (st_row (fst (persistSymbolState st b v (map_option sr_version r))))"
  by (simp add: persist_rank row_le_def)

lemma st_row_refresh [simp]: "st_row (refreshStateCache f io st b) = st_row st"
  by (simp add: refreshStateCache_def)

lemma st_row_settle: "settle_cache p row w c d st = (st', out) \<Longrightarrow> st_row st' = st_row st"
  by (auto simp: settle_cache_def Let_def split: option.splits if_splits)

lemma reconcile_cases:
  assumes "reconcileAndMigrate p s cfg row c d st = (st', out)"
  obtains (Fail) e where "out = Inl e" "settle_cache p row (fst (working_body s cfg row)) c d st = (st', Inl e)"
  | (Settled) body where "settle_cache p row (fst (working_body s cfg row)) c d st = (st', Inr body)"
      "out = Inr (migrate_settled s row (snd (working_body s cfg row)) body)"
proof -
  obtain w v where wv: "working_body s cfg row = (w, v)" by (cases "working_body s cfg row")
  obtain s1 o1 where so: "settle_cache p row w c d st = (s1, o1)" by (cases "settle_cache p row w c d st")
  show ?thesis
    by (cases o1) (use assms wv so that in \<open>auto simp: reconcileAndMigrate_def\<close>)
qed

lemma st_row_reconcile: "reconcileAndMigrate p s cfg row c d st = (st', out) \<Longrightarrow> st_row st' = st_row st"
  by (erule reconcile_cases) (auto dest: st_row_settle)

lemma migrate_settled_expected:
  "migrate_settled s row v b = Some rec \<Longrightarrow>
     rc_expectedVersion rec = map_option sr_version row \<and> rc_rowExisted rec = (row \<noteq> None)"
  by (auto simp: migrate_settled_def Let_def split: prod.splits option.splits)

lemma reconcile_expected:
  "reconcileAndMigrate p s cfg row c d st = (st', Inr (Some rec)) \<Longrightarrow>
     rc_expectedVersion rec = map_option sr_version row \<and> rc_rowExisted rec = (row \<noteq> None)"
  by (erule reconcile_cases) (simp, rule migrate_settled_expected, simp)

text \<open>What a write through the store does, seen from the row \<open>r\<close> it was based on.\<close>

lemma attempt_write_le:
  assumes "attempt_write f io st body rec = (st', out)" and "io_ok io"
    and "rc_expectedVersion rec = map_option sr_version r" and "row_le r (st_row st)"
  shows "row_le (st_row st) (st_row st')"
    and "out = Missed \<Longrightarrow> rank r < rank (st_row st')"
    and "out = Wrote \<Longrightarrow> row_le (Some \<lparr>sr_state = body, sr_strategyVersion = rc_workingVersion rec, sr_version = rank r\<rparr>) (st_row st')"
    and "out = Wrote \<Longrightarrow> st_row (ai_meanwhile io st) = r"
    and "out \<noteq> Threw CasExhausted"
proof -
  let ?w = "ai_meanwhile io st"
  have m: "row_le (st_row st) (st_row ?w)" and g: "\<And>s. row_le (st_row s) (st_row (wi_gap (ai_write io) s))"
    using assms(2) by (auto simp: io_ok_def intro: relyD)
  have rw: "row_le r (st_row ?w)" using assms(4) m by (rule row_le_trans)
  note w = assms(1) [unfolded attempt_write_def writeStateThrough_def assms(3) persist_rank]
  note sp = if_splits persist_io.splits prod.splits sum.splits
  show "out \<noteq> Threw CasExhausted" using w by (auto split: sp)
  show "out = Wrote \<Longrightarrow> st_row ?w = r"
    using w row_le_same_rank [OF rw] by (auto split: sp)
  show "out = Missed \<Longrightarrow> rank r < rank (st_row st')"
    using w rw by (auto simp: row_le_def split: sp)
  show "out = Wrote \<Longrightarrow> row_le (Some \<lparr>sr_state = body, sr_strategyVersion = rc_workingVersion rec, sr_version = rank r\<rparr>) (st_row st')"
    using w g [of "?w\<lparr>st_row := Some \<lparr>sr_state = body, sr_strategyVersion = rc_workingVersion rec, sr_version = rank r\<rparr>\<rparr>"]
    by (auto split: sp)
  have new: "rank (st_row ?w) = rank r \<Longrightarrow> row_le (st_row st) (Some \<lparr>sr_state = body, sr_strategyVersion = rc_workingVersion rec, sr_version = rank r\<rparr>)"
    using row_le_rank [OF m] by (simp add: row_le_def)
  show "row_le (st_row st) (st_row st')"
    using w m new g [of "?w\<lparr>st_row := Some \<lparr>sr_state = body, sr_strategyVersion = rc_workingVersion rec, sr_version = rank r\<rparr>\<rparr>"]
    by (auto split: sp dest: row_le_trans)
qed

section \<open>The retry loop\<close>

text \<open>
  What one attempt reads, the row and then the cache entry, and the store an attempt starts from
  after the ones before it.
\<close>

definition read_row :: "attempt_io \<Rightarrow> store \<Rightarrow> srow option" where
  "read_row io st = st_row (ai_before io st)"

definition read_cache :: "attempt_io \<Rightarrow> store \<Rightarrow> string option" where
  "read_cache io st = st_cache (ai_between io (ai_before io st))"

primrec attempt_store :: "(store \<Rightarrow> attempt_io \<Rightarrow> store \<times> attempt_end) \<Rightarrow> (nat \<Rightarrow> attempt_io) \<Rightarrow> store \<Rightarrow> nat \<Rightarrow> store" where
  "attempt_store turn ios st 0 = st"
| "attempt_store turn ios st (Suc i) = fst (turn (attempt_store turn ios st i) (ios i))"

lemma attempt_store_shift:
  "attempt_store turn (\<lambda>m. ios (Suc m)) (fst (turn st (ios 0))) i = attempt_store turn ios st (Suc i)"
  by (induction i) simp_all

text \<open>The attempt that decides a loop that wrote: every attempt before it missed.\<close>

lemma loop_deciding:
  "mutate_loop turn ios k n st = (st', Inr Wrote) \<Longrightarrow>
     \<exists>i < n. (\<forall>j < i. snd (turn (attempt_store turn (\<lambda>m. ios (k + m)) st j) (ios (k + j))) = Missed) \<and>
             turn (attempt_store turn (\<lambda>m. ios (k + m)) st i) (ios (k + i)) = (st', Wrote)"
proof (induction n arbitrary: k st)
  case (Suc n)
  obtain s1 o1 where t: "turn st (ios k) = (s1, o1)" by (cases "turn st (ios k)")
  show ?case
  proof (cases "o1 = Missed")
    case True
    let ?at = "attempt_store turn (\<lambda>m. ios (k + m)) st"
    have sh: "attempt_store turn (\<lambda>m. ios (Suc k + m)) s1 j = ?at (Suc j)" for j
      using attempt_store_shift [of turn "\<lambda>m. ios (k + m)" st j] t by simp
    from True t Suc.prems Suc.IH [of "Suc k" s1] obtain i where i: "i < n"
      "\<forall>j < i. snd (turn (?at (Suc j)) (ios (Suc k + j))) = Missed" "turn (?at (Suc i)) (ios (Suc k + i)) = (st', Wrote)"
      unfolding sh by auto
    have "snd (turn (?at j) (ios (k + j))) = Missed" if "j < Suc i" for j
      using that i(2) t True by (cases j) simp_all
    with i(1,3) show ?thesis by (intro exI [of _ "Suc i"]) simp
  next
    case False
    with t Suc.prems have "turn st (ios k) = (st', Wrote)" by (cases o1) auto
    then show ?thesis by (intro exI [of _ 0]) simp
  qed
qed simp

text \<open>
  The contract of one optimistic attempt, shared by the event-driven mutation and the latch merge:
  the durable row only moves forward, a miss means another writer moved it, and a landed write
  replaces exactly the row it was computed from.
\<close>

locale cas_attempts =
  fixes turn :: "store \<Rightarrow> attempt_io \<Rightarrow> store \<times> attempt_end"
    and produces :: "srow option \<Rightarrow> string option \<Rightarrow> srow \<Rightarrow> bool"
  assumes turn_le: "io_ok io \<Longrightarrow> turn st io = (st', out) \<Longrightarrow> row_le (st_row st) (st_row st')"
    and turn_missed: "io_ok io \<Longrightarrow> turn st io = (st', Missed) \<Longrightarrow> rank (st_row st) < rank (st_row st')"
    and turn_wrote: "io_ok io \<Longrightarrow> turn st io = (st', Wrote) \<Longrightarrow>
      \<exists>new. row_le (st_row st) (read_row io st) \<and> produces (read_row io st) (read_cache io st) new \<and>
        sr_version new = rank (read_row io st) \<and> row_le (Some new) (st_row st')"
    and turn_threw: "io_ok io \<Longrightarrow> turn st io \<noteq> (st', Threw CasExhausted)"
begin

lemma loop_le:
  assumes "\<And>i. io_ok (ios i)"
  shows "mutate_loop turn ios k n st = (st', out) \<Longrightarrow> row_le (st_row st) (st_row st')"
proof (induction n arbitrary: k st)
  case (Suc n)
  obtain s1 o1 where t: "turn st (ios k) = (s1, o1)" by (cases "turn st (ios k)")
  with assms have "row_le (st_row st) (st_row s1)" by (rule turn_le)
  with Suc t show ?case by (cases o1) (auto dest: row_le_trans)
qed simp

lemma loop_exhausted:
  assumes "\<And>i. io_ok (ios i)"
  shows "mutate_loop turn ios k n st = (st', Inl CasExhausted) \<Longrightarrow> rank (st_row st) + n \<le> rank (st_row st')"
proof (induction n arbitrary: k st)
  case (Suc n)
  obtain s1 o1 where t: "turn st (ios k) = (s1, o1)" by (cases "turn st (ios k)")
  with Suc.prems turn_threw [OF assms] have "o1 = Missed" by (cases o1) auto
  with Suc t turn_missed [OF assms, of st k s1] show ?case by fastforce
qed simp

lemma loop_wrote:
  assumes ios: "\<And>i. io_ok (ios i)" and run: "mutate_loop turn ios 0 n st = (st', Inr Wrote)"
  shows "\<exists>i < n. \<exists>new. (\<forall>j < i. snd (turn (attempt_store turn ios st j) (ios j)) = Missed) \<and>
    (let sti = attempt_store turn ios st i; r = read_row (ios i) sti
     in row_le (st_row st) r \<and> produces r (read_cache (ios i) sti) new \<and> sr_version new = rank r \<and> row_le (Some new) (st_row st'))"
proof -
  let ?at = "attempt_store turn ios st"
  obtain i where i: "i < n" "\<forall>j < i. snd (turn (?at j) (ios j)) = Missed" "turn (?at i) (ios i) = (st', Wrote)"
    using loop_deciding [OF run] by auto
  have "row_le (st_row st) (st_row (?at m))" for m
    by (induction m) (auto intro: row_le_trans turn_le [OF ios surjective_pairing])
  with turn_wrote [OF ios i(3)] i(1,2) show ?thesis by (auto simp: Let_def intro: row_le_trans)
qed

end

text \<open>
  The body a read settles on: the cached body when the row exists and their schema stamps agree, else
  the row's own body or the seed. The row \<open>new\<close> a mutation writes on top of the row \<open>r\<close> it read, with the
  cache entry \<open>c\<close> it read: the mutator applied to that body after its migration, or the body itself
  when the mutator declines, stamped at the version the read settled on.
\<close>

definition trusted_body :: "(string \<Rightarrow> json option) \<Rightarrow> srow option \<Rightarrow> json \<Rightarrow> string option \<Rightarrow> json" where
  "trusted_body parseJson r own c =
     (case Option.bind c parseJson of
        Some cached \<Rightarrow>
          if r \<noteq> None \<and> schema_field cached \<noteq> JUndefined \<and> strict_eq (schema_field cached) (schema_field own) then cached else own
      | None \<Rightarrow> own)"

definition reconciles ::
  "(string \<Rightarrow> json option) \<Rightarrow> strategy_shape \<Rightarrow> json \<Rightarrow> srow option \<Rightarrow> string option \<Rightarrow> reconciled_state option" where
  "reconciles parseJson s config r c =
     (let (own, version) = working_body s config r in migrate_settled s r version (trusted_body parseJson r own c))"

definition mutation_of ::
  "(string \<Rightarrow> json option) \<Rightarrow> strategy_shape \<Rightarrow> json \<Rightarrow> (json \<Rightarrow> json option) \<Rightarrow> srow option \<Rightarrow> string option \<Rightarrow> srow \<Rightarrow> bool" where
  "mutation_of parseJson s config mutate r c new \<longleftrightarrow>
     (\<exists>rec. reconciles parseJson s config r c = Some rec \<and>
            sr_state new = (case mutate (rc_state rec) of Some b \<Rightarrow> b | None \<Rightarrow> rc_state rec) \<and>
            sr_strategyVersion new = rc_workingVersion rec)"

definition merge_of ::
  "(string \<Rightarrow> json option) \<Rightarrow> strategy_shape \<Rightarrow> json \<Rightarrow> (json \<Rightarrow> json \<Rightarrow> json) \<Rightarrow> json \<Rightarrow> srow option \<Rightarrow> string option \<Rightarrow> srow \<Rightarrow> bool" where
  "merge_of parseJson s config merge tick r c new \<longleftrightarrow>
     (\<exists>rec. reconciles parseJson s config r c = Some rec \<and> sr_state new = merge (rc_state rec) tick \<and>
            sr_strategyVersion new = rc_workingVersion rec)"

lemma settle_trusted: "settle_cache p row w c d st = (st', Inr body) \<Longrightarrow> body = trusted_body p row w c"
  by (auto simp: settle_cache_def trusted_body_def Let_def split: option.splits if_splits)

lemma reconcile_reconciles:
  assumes "reconcileAndMigrate p s cfg row c d st = (st', Inr (Some rec))"
  shows "reconciles p s cfg row c = Some rec"
  using assms
proof (cases rule: reconcile_cases)
  case (Settled body)
  from settle_trusted [OF Settled(1)] Settled(2) show ?thesis by (simp add: reconciles_def Let_def case_prod_unfold)
qed simp

lemma read_le:
  assumes "io_ok io"
  shows "row_le (st_row st) (st_row (ai_before io st))"
    and "row_le (st_row (ai_before io st)) (st_row (ai_between io (ai_before io st)))"
    and "row_le (st_row st) (st_row (ai_between io (ai_before io st)))"
  using assms by (auto simp: io_ok_def dest!: relyD intro: row_le_trans)

lemma mutate_attempt_cases:
  assumes "mutate_attempt p f s cfg mutate io st = (st', out)" and "io_ok io"
  obtains (NoWrite) "row_le (st_row st) (st_row st')" "out \<noteq> Missed" "out \<noteq> Wrote" "out \<noteq> Threw CasExhausted"
  | (Write) rec st3 body where "reconciles p s cfg (read_row io st) (read_cache io st) = Some rec"
      "st_row st3 = st_row (ai_between io (ai_before io st))"
      "body = (case mutate (rc_state rec) of Some b \<Rightarrow> b | None \<Rightarrow> rc_state rec)"
      "rc_expectedVersion rec = map_option sr_version (st_row (ai_before io st))"
      "attempt_write f io st3 body rec = (st', out)"
proof (cases "ai_readsOk io")
  case False
  with assms that(1) read_le(3) show ?thesis by (auto simp: mutate_attempt_def Let_def)
next
  case True
  let ?s1 = "ai_before io st" and ?s2 = "ai_between io (ai_before io st)"
  obtain s3 r3 where rc: "reconcileAndMigrate p s cfg (st_row ?s1) (st_cache ?s2) (ai_dels io) ?s2 = (s3, r3)"
    by (cases "reconcileAndMigrate p s cfg (st_row ?s1) (st_cache ?s2) (ai_dels io) ?s2")
  have row3: "st_row s3 = st_row ?s2" using rc by (rule st_row_reconcile)
  have de: "r3 \<noteq> Inl CasExhausted"
    using rc by (auto elim!: reconcile_cases simp: settle_cache_def Let_def split: option.splits if_splits)
  consider e where "r3 = Inl e" | "r3 = Inr None" | rec where "r3 = Inr (Some rec)"
    by (metis not_None_eq sum.exhaust)
  then show ?thesis
  proof cases
    case 3
    then have rec: "reconciles p s cfg (read_row io st) (read_cache io st) = Some rec"
      using rc reconcile_reconciles by (auto simp: read_row_def read_cache_def)
    have ex: "rc_expectedVersion rec = map_option sr_version (st_row ?s1)"
      using reconcile_expected rc 3 by blast
    show ?thesis
      using assms(1) True rc 3 NoWrite [unfolded row3] row3 read_le(3) [OF assms(2)] Write [OF rec row3 _ ex]
      by (auto simp: mutate_attempt_def Let_def split: option.splits if_splits)
  qed (use assms True rc that(1) row3 read_le(3) de in \<open>auto simp: mutate_attempt_def Let_def\<close>)
qed

interpretation mut: cas_attempts "\<lambda>st io. mutate_attempt p f s cfg mutate io st" "mutation_of p s cfg mutate"
proof
  fix io st st' out
  assume io: "io_ok io"
  {
    assume "mutate_attempt p f s cfg mutate io st = (st', out)"
    then show "row_le (st_row st) (st_row st')"
      by (rule mutate_attempt_cases [OF _ io])
         (metis attempt_write_le(1) io read_le(2,3) row_le_trans)+
  }
  {
    assume "mutate_attempt p f s cfg mutate io st = (st', Missed)"
    then show "rank (st_row st) < rank (st_row st')"
      by (rule mutate_attempt_cases [OF _ io])
         (simp, metis attempt_write_le(2) io le_less_trans read_le(1,2) row_le_rank)
  }
  {
    assume "mutate_attempt p f s cfg mutate io st = (st', Wrote)"
    then show "\<exists>new. row_le (st_row st) (read_row io st) \<and> mutation_of p s cfg mutate (read_row io st) (read_cache io st) new \<and>
        sr_version new = rank (read_row io st) \<and> row_le (Some new) (st_row st')"
    proof (rule mutate_attempt_cases [OF _ io])
      fix rec :: reconciled_state and st3 body
      let ?r = "st_row (ai_before io st)"
      let ?new = "\<lparr>sr_state = body, sr_strategyVersion = rc_workingVersion rec, sr_version = rank ?r\<rparr>"
      assume r: "reconciles p s cfg (read_row io st) (read_cache io st) = Some rec" and 3: "st_row st3 = st_row (ai_between io (ai_before io st))"
        and b: "body = (case mutate (rc_state rec) of Some b \<Rightarrow> b | None \<Rightarrow> rc_state rec)"
        and e: "rc_expectedVersion rec = map_option sr_version ?r" and w: "attempt_write f io st3 body rec = (st', Wrote)"
      have "row_le (Some ?new) (st_row st')"
        using attempt_write_le(3) [OF w io e] 3 read_le(2) [OF io] by simp
      moreover have "mutation_of p s cfg mutate (read_row io st) (read_cache io st) ?new" using r b by (auto simp: mutation_of_def)
      ultimately show ?thesis using read_le(1) [OF io] by (intro exI [of _ ?new]) (simp add: read_row_def)
    qed simp_all
  }
  show "mutate_attempt p f s cfg mutate io st \<noteq> (st', Threw CasExhausted)"
    by (rule notI, erule mutate_attempt_cases [OF _ io])
       (simp, metis attempt_write_le(5) io read_le(2))
qed

text \<open>A merge turn is a mutation turn whose migration failure ends quietly.\<close>

lemma merge_attempt_mutate:
  "merge_attempt p f s cfg merge tick st io =
     (case mutate_attempt p f s cfg (\<lambda>b. Some (merge b tick)) io st of
        (st', out) \<Rightarrow> (st', if out = Threw MigrationFailed then Unchanged else out))"
proof -
  have "snd (attempt_write f io st3 body rec) \<noteq> Threw MigrationFailed" for st3 body rec
    by (auto simp: attempt_write_def writeStateThrough_def split: prod.splits sum.splits persist_io.splits if_splits)
  moreover have "reconcileAndMigrate p s cfg r c d st \<noteq> (st', Inl MigrationFailed)" for r c d st st'
    by (auto elim!: reconcile_cases simp: settle_cache_def Let_def split: option.splits if_splits)
  ultimately show ?thesis
    by (auto simp: merge_attempt_def mutate_attempt_def Let_def split: prod.splits sum.splits option.splits)
       (metis snd_conv)+
qed

lemma merge_attempt_eq:
  assumes "merge_attempt p f s cfg merge tick st io = (st', out)" and "out \<noteq> Unchanged"
  shows "mutate_attempt p f s cfg (\<lambda>b. Some (merge b tick)) io st = (st', out)"
  using assms by (auto simp: merge_attempt_mutate split: prod.splits if_splits)

lemma merge_of_mutation: "merge_of p s cfg merge tick = mutation_of p s cfg (\<lambda>b. Some (merge b tick))"
  by (auto simp: fun_eq_iff merge_of_def mutation_of_def)

interpretation mrg: cas_attempts "merge_attempt p f s cfg merge tick" "merge_of p s cfg merge tick"
proof
  fix io st st' out
  assume io: "io_ok io"
  show "merge_attempt p f s cfg merge tick st io = (st', out) \<Longrightarrow> row_le (st_row st) (st_row st')"
    using mut.turn_le [OF io] by (auto simp: merge_attempt_mutate split: prod.splits)
  show "merge_attempt p f s cfg merge tick st io = (st', Missed) \<Longrightarrow> rank (st_row st) < rank (st_row st')"
    by (drule merge_attempt_eq) (auto dest: mut.turn_missed [OF io])
  show "merge_attempt p f s cfg merge tick st io = (st', Wrote) \<Longrightarrow>
      \<exists>new. row_le (st_row st) (read_row io st) \<and> merge_of p s cfg merge tick (read_row io st) (read_cache io st) new \<and>
        sr_version new = rank (read_row io st) \<and> row_le (Some new) (st_row st')"
    unfolding merge_of_mutation by (rule mut.turn_wrote [OF io merge_attempt_eq]) auto
  show "merge_attempt p f s cfg merge tick st io \<noteq> (st', Threw CasExhausted)"
    using mut.turn_threw [OF io] merge_attempt_eq by blast
qed

lemma merge_row_le:
  assumes "\<And>i. io_ok (ios i)"
  shows "row_le (st_row x) (st_row (fst (mergeLatchFieldsOnCasMiss p f s cfg m tick ios x)))"
proof -
  let ?l = "mutate_loop (merge_attempt p f s cfg m tick) ios 0 (MAX_CAS_RETRIES + 1) x"
  have "fst (mergeLatchFieldsOnCasMiss p f s cfg m tick ios x) = fst ?l"
    unfolding mergeLatchFieldsOnCasMiss_def by (simp only: split: prod.splits sum.splits state_error.splits) simp
  moreover have "row_le (st_row x) (st_row (fst ?l))"
    by (rule mrg.loop_le [where ios = ios, OF assms]) (rule surjective_pairing)
  ultimately show ?thesis by simp
qed

section \<open>Several writers on one slice\<close>

text \<open>
  Any number of writers (ticks and fills on any pod) read the row and later write with the token
  they read. \<open>sw_hist\<close> records each landed write with the row its writer had read.
\<close>

record slice_world =
  sw_store :: store
  sw_snap :: "nat \<Rightarrow> srow option option"
  sw_hist :: "(srow option \<times> srow) list"

inductive slice_step :: "slice_world \<Rightarrow> slice_world \<Rightarrow> bool" where
  slice_read: "slice_step w (w\<lparr>sw_snap := (sw_snap w)(k := Some (st_row (sw_store w)))\<rparr>)"
| slice_write: "sw_snap w k = Some r \<Longrightarrow> casUpsert (sw_store w) body v (map_option sr_version r) = (st', Some new)
     \<Longrightarrow> slice_step w (w\<lparr>sw_store := st', sw_hist := (r, new) # sw_hist w\<rparr>)"
| slice_miss: "sw_snap w k = Some r \<Longrightarrow> casUpsert (sw_store w) body v (map_option sr_version r) = (st', None)
     \<Longrightarrow> slice_step w (w\<lparr>sw_store := st'\<rparr>)"
| slice_cache: "slice_step w (w\<lparr>sw_store := (sw_store w)\<lparr>st_cache := c\<rparr>\<rparr>)"

inductive slice_reach :: "store \<Rightarrow> slice_world \<Rightarrow> bool" for st0 where
  slice_start: "slice_reach st0 \<lparr>sw_store = st0, sw_snap = (\<lambda>_. None), sw_hist = []\<rparr>"
| slice_next: "slice_reach st0 w \<Longrightarrow> slice_step w w' \<Longrightarrow> slice_reach st0 w'"

fun linear_hist :: "srow option \<Rightarrow> (srow option \<times> srow) list \<Rightarrow> srow option \<Rightarrow> bool" where
  "linear_hist r0 [] row \<longleftrightarrow> row = r0"
| "linear_hist r0 ((r, new) # h) row \<longleftrightarrow> row = Some new \<and> sr_version new = rank r \<and> linear_hist r0 h r"

definition slice_inv :: "store \<Rightarrow> slice_world \<Rightarrow> bool" where
  "slice_inv st0 w \<longleftrightarrow> linear_hist (st_row st0) (sw_hist w) (st_row (sw_store w)) \<and>
     (\<forall>k r. sw_snap w k = Some r \<longrightarrow> row_le r (st_row (sw_store w)))"

lemma slice_step_inv:
  assumes "slice_step w w'" and "slice_inv st0 w"
  shows "slice_inv st0 w'"
  using assms(1)
proof cases
  case (slice_write k r body v st' new)
  let ?row = "st_row (sw_store w)"
  from slice_write(3) have eq: "rank ?row = rank r" and new: "new = \<lparr>sr_state = body, sr_strategyVersion = v, sr_version = rank r\<rparr>"
    and st': "st_row st' = Some new" by (auto simp: casUpsert_rank split: if_splits)
  have "row_le r ?row" using assms(2) slice_write(2) by (auto simp: slice_inv_def)
  with eq have r: "r = ?row" by (metis row_le_same_rank)
  have "row_le q (Some new)" if "row_le q ?row" for q
    using that by (rule row_le_trans) (simp add: row_le_def new r)
  with assms(2) show ?thesis
    unfolding slice_inv_def slice_write(1) by (auto simp: st' r new)
qed (use assms(2) in \<open>auto simp: slice_inv_def casUpsert_rank split: if_splits\<close>)

lemma slice_reach_inv: "slice_reach st0 w \<Longrightarrow> slice_inv st0 w"
proof (induction rule: slice_reach.induct)
  case slice_start
  then show ?case by (simp add: slice_inv_def)
next
  case (slice_next w w')
  then show ?case by (metis slice_step_inv)
qed

section \<open>Stamps and the cache\<close>

lemma stamped_fields:
  "readStateSchemaVersion b = Some v \<Longrightarrow> schema_field b = JStr v"
  by (cases "jget b ''schemaVersion''"; cases b)
     (auto simp: readStateSchemaVersion_def schema_field_def isRecord_def)

lemma schema_field_stamped: "schema_field b = JStr v \<Longrightarrow> readStateSchemaVersion b = Some v"
  by (auto simp: readStateSchemaVersion_def schema_field_def split: if_splits)

lemma strict_eq_str: "strict_eq a (JStr v) \<longleftrightarrow> a = JStr v"
  by (cases "(a, JStr v)" rule: strict_eq.cases) auto

lemma settle_cache_stamp:
  assumes "settle_cache p row w c d st = (st', Inr body)" and "readStateSchemaVersion w = Some v"
  shows "readStateSchemaVersion body = Some v"
  using assms stamped_fields [OF assms(2)]
  by (auto simp: settle_cache_def Let_def strict_eq_str schema_field_stamped split: option.splits if_splits)

lemma migrate_settled_stamp:
  assumes "migrate_settled s row wv body = Some rec" and "readStateSchemaVersion body = Some v"
    and "ss_migrateState s \<noteq> None"
  shows "readStateSchemaVersion (rc_state rec) = Some (ss_version s) \<and> rc_workingVersion rec = ss_version s"
proof -
  obtain m where m: "runStateMigration s wv body = Some m" using assms(1) by (auto simp: migrate_settled_def split: option.splits)
  show ?thesis
  proof (cases m)
    case NotMigrated
    with m assms(2,3) have "v = ss_version s \<and> wv = v"
      by (auto simp: runStateMigration_def Let_def split: if_splits option.splits prod.splits)
    with assms m NotMigrated show ?thesis by (auto simp: migrate_settled_def)
  next
    case (Migrated b v')
    with m have "v' = ss_version s \<and> readStateSchemaVersion b = Some (ss_version s)"
      using runStateMigration_migrated by blast
    with assms m Migrated show ?thesis by (auto simp: migrate_settled_def)
  qed
qed

lemma committed_slice:
  assumes "commitSymbolStateForTick f race io st next (ss_version s) (Some n) = (st', out)"
    and row: "st_row st = Some r" "readStateSchemaVersion (sr_state r) = Some (ss_version s)"
      "sr_strategyVersion r = ss_version s"
    and "wi_gap io = id" and "readStateSchemaVersion next = Some (ss_version s)"
    and "out = Applied \<and> (wi_setOk io \<or> wi_delOk io) \<or> out = Degraded \<and> wi_setOk io"
  shows "\<exists>r'. st_row st' = Some r' \<and> readStateSchemaVersion (sr_state r') = Some (ss_version s) \<and>
           sr_strategyVersion r' = ss_version s \<and>
           (st_cache st' = Some (f next) \<or> st_cache st' = None \<and> sr_state r' = next)"
  using assms
  by (auto simp: commitSymbolStateForTick_def race_persist_def persistSymbolState_def casUpsert_def
      refreshStateCache_def Let_def split: commit_race.splits if_splits prod.splits option.splits bool.splits)

section \<open>Properties\<close>

text \<open>
  C9. No lost update: however the reads and writes of any number of writers interleave, the landed
  writes of a slice form one chain from its first row to its current row. Every landed write
  replaces exactly the row its writer had read and takes the next version number.
\<close>
theorem no_lost_update:
  assumes "slice_reach st0 w"
  shows "linear_hist (st_row st0) (sw_hist w) (st_row (sw_store w))"
  using slice_reach_inv [OF assms] by (simp add: slice_inv_def)

definition example_row :: "nat \<Rightarrow> srow" where
  "example_row n = \<lparr>sr_state = stamped ''3'', sr_strategyVersion = ''3'', sr_version = n\<rparr>"

definition example_store :: store where
  "example_store = \<lparr>st_row = Some (example_row 0), st_cache = None\<rparr>"

theorem no_lost_update_witness:
  "\<exists>w. slice_reach example_store w \<and> sw_hist w = [(Some (example_row 0), example_row 1)] \<and>
       linear_hist (st_row example_store) (sw_hist w) (st_row (sw_store w))"
proof -
  let ?w0 = "\<lparr>sw_store = example_store, sw_snap = (\<lambda>_. None), sw_hist = []\<rparr>"
  let ?w1 = "?w0\<lparr>sw_snap := (sw_snap ?w0)(7 := Some (st_row (sw_store ?w0)))\<rparr>"
  let ?w2 = "?w1\<lparr>sw_store := example_store\<lparr>st_row := Some (example_row 1)\<rparr>,
                  sw_hist := (Some (example_row 0), example_row 1) # sw_hist ?w1\<rparr>"
  have "slice_reach example_store ?w1"
    by (rule slice_next [OF slice_start slice_read])
  moreover have "slice_step ?w1 ?w2"
    by (rule slice_write [where k = 7 and body = "stamped ''3''" and v = "''3''"])
       (simp_all add: casUpsert_def example_store_def example_row_def Let_def)
  ultimately have r: "slice_reach example_store ?w2" by (rule slice_next)
  with no_lost_update [OF r] show ?thesis
    by (intro exI [of _ ?w2]) (simp add: example_store_def example_row_def)
qed


definition example_write :: write_io where
  "example_write = \<lparr>wi_persist = Settles, wi_gap = id, wi_setOk = True, wi_delOk = True\<rparr>"

text \<open>Every attempt's write is preceded by another writer's when \<open>busy\<close>.\<close>

definition other_writer :: "store \<Rightarrow> store" where
  "other_writer st = fst (casUpsert st (stamped ''3'') ''3'' (map_option sr_version (st_row st)))"

definition example_io :: "bool \<Rightarrow> nat \<Rightarrow> attempt_io" where
  "example_io busy i = \<lparr>ai_before = id, ai_between = id, ai_readsOk = True, ai_dels = (True, True),
     ai_meanwhile = (if busy then other_writer else id), ai_write = example_write\<rparr>"

lemma example_io_ok: "io_ok (example_io busy i)"
  by (simp add: io_ok_def example_io_def example_write_def rely_def other_writer_def casUpsert_rank row_le_def)

lemmas example_mutation_defs =
  mutateSymbolState_def MAX_CAS_RETRIES_def mutate_attempt_def attempt_write_def example_io_def example_store_def example_row_def
  example_write_def reconcileAndMigrate_def working_body_def settle_cache_def migrate_settled_def runStateMigration_def
  example_strategy_def writeStateThrough_def persistSymbolState_def casUpsert_def other_writer_def Let_def


text \<open>
  A retry composes on the winner only when the cache does not hold an older body: the row is read after a
  miss, but the winner refreshes the cache after its durable write, so an attempt in that gap reads the
  winner's row with the body before it. Both carry one schema stamp, so the cached body is trusted, and the write,
  whose token is the winner's, replaces the winner's row by a result computed without it.
\<close>
lemma stale_cache_reverts_winner:
  assumes codec: "json_codec f p" "json_pure old"
    and stamps: "readStateSchemaVersion old = Some (ss_version s)" "readStateSchemaVersion (sr_state winner) = Some (ss_version s)"
      "sr_strategyVersion winner = ss_version s"
    and mutate: "mutate old = Some b"
  shows "mutate_attempt p f s cfg mutate (example_io False i) \<lparr>st_row = Some winner, st_cache = Some (f old)\<rparr> =
    (\<lparr>st_row = Some \<lparr>sr_state = b, sr_strategyVersion = ss_version s, sr_version = Suc (sr_version winner)\<rparr>, st_cache = Some (f b)\<rparr>, Wrote)"
  using json_codecD [OF codec] stamped_fields [OF stamps(1)] stamped_fields [OF stamps(2)] stamps mutate
  by (simp add: mutate_attempt_def attempt_write_def example_io_def example_write_def reconcileAndMigrate_def working_body_def
      settle_cache_def migrate_settled_def runStateMigration_def writeStateThrough_def persistSymbolState_def casUpsert_def
      refreshStateCache_def Let_def)

text \<open>
  C11. A tick's commit that loses the race touches neither the row nor the cache itself; the state
  port then grafts the tick's latches onto the winner. Whatever the commit does, the durable row
  only moves forward, so a concurrent fill's row is never undone.
\<close>
theorem tick_commit_never_reverts:
  fixes r :: "srow option"
  assumes "\<And>i. io_ok (ios i)" and "rely (wi_gap io)"
    and "rr_expectedVersion load = map_option sr_version r"
    and "port_commit p f s cfg load next race io ios st = (st', out)"
  shows "(row_le (st_row st) (st_row st')) \<and>
    (ss_mergeConcurrent s = None \<longrightarrow> out = CasMiss \<longrightarrow> st' = st) \<and>
    (out = CasMiss \<longrightarrow> rank (st_row st) \<noteq> rank r)"
proof (rule conjI [OF _ conjI])
  obtain s1 o1 where c: "commitSymbolStateForTick f race io st next (rr_workingVersion load) (map_option sr_version r) = (s1, o1)"
    by (cases "commitSymbolStateForTick f race io st next (rr_workingVersion load) (map_option sr_version r)")
  note cu = c [unfolded commitSymbolStateForTick_def race_persist_def persist_rank Let_def]
  note sp = if_splits commit_race.splits prod.splits option.splits bool.splits
  have g: "row_le a (st_row x) \<Longrightarrow> row_le a (st_row (wi_gap io x))" for a x
    using relyD [OF assms(2)] by (blast intro: row_le_trans)
  have up: "rank (st_row st) = rank r \<Longrightarrow> row_le (st_row st) (Some \<lparr>sr_state = b, sr_strategyVersion = v, sr_version = rank r\<rparr>)" for b v
    by (simp add: row_le_def)
  have le: "row_le (st_row st) (st_row s1)"
    using cu by (auto split: sp intro!: g up)
  have cas: "o1 = CasMiss \<Longrightarrow> s1 = st \<and> rank (st_row st) \<noteq> rank r"
    using cu by (auto split: sp)
  have mrg: "row_le (st_row x) (st_row (fst (mergeLatchFieldsOnCasMiss p f s cfg m next ios x)))" for m x
    by (rule merge_row_le) (rule assms(1))
  have o: "out = o1" "out \<noteq> CasMiss \<Longrightarrow> st' = s1"
    using assms(4) c by (auto simp: port_commit_def assms(3) split: tick_commit_outcome.splits option.splits)
  show "ss_mergeConcurrent s = None \<longrightarrow> out = CasMiss \<longrightarrow> st' = st"
    using assms(4) c cas by (auto simp: port_commit_def assms(3) split: tick_commit_outcome.splits)
  show "out = CasMiss \<longrightarrow> rank (st_row st) \<noteq> rank r" using cas o by blast
  show "row_le (st_row st) (st_row st')"
    using assms(4) c le mrg cas
    by (auto simp: port_commit_def assms(3) split: tick_commit_outcome.splits option.splits)
qed

theorem tick_commit_never_reverts_witness:
  "port_commit unary_parse unary_stringify example_strategy JNull
     \<lparr>rr_state = stamped ''3'', rr_workingVersion = ''3'', rr_expectedVersion = Some 0\<rparr> (stamped ''3'')
     RaceSettled example_write (example_io False) \<lparr>st_row = Some (example_row 4), st_cache = None\<rparr> =
     (\<lparr>st_row = Some (example_row 4), st_cache = None\<rparr>, CasMiss)"
proof -
  let ?st = "\<lparr>st_row = Some (example_row 4), st_cache = None\<rparr>"
  let ?p = "port_commit unary_parse unary_stringify example_strategy JNull
     \<lparr>rr_state = stamped ''3'', rr_workingVersion = ''3'', rr_expectedVersion = Some 0\<rparr> (stamped ''3'')
     RaceSettled example_write (example_io False) ?st"
  have out: "snd ?p = CasMiss"
    by (simp add: port_commit_def commitSymbolStateForTick_def race_persist_def persistSymbolState_def casUpsert_def
        example_row_def example_strategy_def)
  obtain st' where p: "?p = (st', CasMiss)" using out by (cases ?p) simp
  have "rely (wi_gap example_write)" by (simp add: rely_def example_write_def)
  from tick_commit_never_reverts [OF example_io_ok this _ p, of "Some (example_row 0)", THEN conjunct2, THEN conjunct1]
  have "st' = ?st" by (simp add: example_row_def example_strategy_def)
  with p show ?thesis by simp
qed

text \<open>
  The reconcile heals version stamps: for a plugin with migrations whose seed is stamped with its
  version, a row with a stamped body reconciles, whatever the cache holds, only to a body stamped
  with the plugin's current version, and that is the version the commit writes beside it. A column
  that drifted from its body is corrected.
\<close>
lemma reconcile_heals_stamp:
  assumes "ss_migrateState s \<noteq> None"
    and "\<And>cfg. readStateSchemaVersion (ss_initialState s cfg) = Some (ss_version s)"
    and "\<And>r. row = Some r \<Longrightarrow> \<exists>v. readStateSchemaVersion (sr_state r) = Some v"
    and "reconcileAndMigrate p s cfg row c d st = (st', Inr (Some rec))"
  shows "readStateSchemaVersion (rc_state rec) = Some (ss_version s) \<and> rc_workingVersion rec = ss_version s"
  using assms(4)
proof (cases rule: reconcile_cases)
  case (Settled body)
  obtain v where v: "readStateSchemaVersion (fst (working_body s cfg row)) = Some v"
    using assms(2,3) by (cases row) (auto simp: working_body_def)
  have "readStateSchemaVersion body = Some v"
    using Settled(1) v by (rule settle_cache_stamp)
  then show ?thesis
    using migrate_settled_stamp [of s row "snd (working_body s cfg row)" body rec v] assms(1) Settled(2) by simp
qed simp

text \<open>
  Read your writes: after a tick commit that was applied, or that degraded on a timeout or an error
  while the slice already had a row, the next tick of an otherwise idle slice is handed exactly the
  body that was committed, so it cannot derive the same decision twice. The cache write must have
  gone through, or, for an applied commit, at least the delete that replaces it.
\<close>
lemma read_your_writes:
  assumes codec: "json_codec f p" and pure: "json_pure next"
    and stamp: "readStateSchemaVersion next = Some (ss_version s)"
    and load: "rr_workingVersion load = ss_version s" "rr_expectedVersion load = Some n"
    and row: "st_row st = Some r" "readStateSchemaVersion (sr_state r) = Some (ss_version s)"
      "sr_strategyVersion r = ss_version s"
    and gap: "wi_gap io = id"
    and commit: "commitSymbolStateForTick f race io st next (rr_workingVersion load) (rr_expectedVersion load) = (st', out)"
    and out: "out = Applied \<and> (wi_setOk io \<or> wi_delOk io) \<or> out = Degraded \<and> wi_setOk io"
  shows "\<exists>st''. loadSymbolStateForTick p s cfg (st_cache st') d st' =
           (st'', Inr \<lparr>rr_state = next, rr_workingVersion = ss_version s,
                       rr_expectedVersion = map_option sr_version (st_row st')\<rparr>)"
proof -
  obtain r' where r': "st_row st' = Some r'" "readStateSchemaVersion (sr_state r') = Some (ss_version s)"
      "sr_strategyVersion r' = ss_version s"
    and c: "st_cache st' = Some (f next) \<or> st_cache st' = None \<and> sr_state r' = next"
    using committed_slice [OF commit [unfolded load] row gap stamp out] by blast
  have "settle_cache p (Some r') (sr_state r') (st_cache st') d st' = (st', Inr next)"
    using c
  proof
    assume "st_cache st' = Some (f next)"
    then show ?thesis
      using json_codecD [OF codec pure] stamped_fields [OF stamp] stamped_fields [OF r'(2)]
      by (simp add: settle_cache_def Let_def)
  qed (simp add: settle_cache_def)
  then show ?thesis
    using r' stamp
    by (simp add: loadSymbolStateForTick_def reconcileAndMigrate_def working_body_def migrate_settled_def
        runStateMigration_def Let_def)
qed

text \<open>
  On a slice without a row the same degrade is not read back: when the first persist of a seeded
  slice times out without landing, the next tick deletes the refreshed cache entry and runs again on
  the plugin's initial state.
\<close>
lemma degraded_seed_not_read_back:
  assumes "json_codec f p" and "json_pure next" and "st_row st = None" and "wi_gap io = id" and "wi_setOk io"
    and "readStateSchemaVersion (ss_initialState s cfg) = Some (ss_version s)"
    and "commitSymbolStateForTick f (RaceTimeout False) io st next (ss_version s) None = (st', out)"
  shows "out = Degraded \<and> st_cache st' = Some (f next) \<and>
         loadSymbolStateForTick p s cfg (st_cache st') (True, d) st' =
           (st'\<lparr>st_cache := None\<rparr>, Inr \<lparr>rr_state = ss_initialState s cfg, rr_workingVersion = ss_version s, rr_expectedVersion = None\<rparr>)"
proof -
  have st': "out = Degraded" "st' = st\<lparr>st_cache := Some (f next)\<rparr>"
    using assms(4,5,7) by (auto simp: commitSymbolStateForTick_def race_persist_def refreshStateCache_def Let_def
        split: prod.splits)
  then show ?thesis
    using assms json_codecD [OF assms(1,2)]
    by (simp add: loadSymbolStateForTick_def reconcileAndMigrate_def working_body_def settle_cache_def
        migrate_settled_def runStateMigration_def Let_def)
qed

text \<open>
  The version token does not survive a reset: after \<open>removeAllForProfile\<close> and a fresh seed, the token
  of a row read before the reset matches again, and the late write replaces the seed.
\<close>
lemma reset_reuses_version:
  assumes "st_row st = Some r" and "sr_version r = 0"
    and "casUpsert (removeAllForProfile st) seed v None = (st1, Some r1)"
  shows "casUpsert st1 old v' (map_option sr_version (st_row st)) =
           (st1\<lparr>st_row := Some \<lparr>sr_state = old, sr_strategyVersion = v', sr_version = 1\<rparr>\<rparr>,
            Some \<lparr>sr_state = old, sr_strategyVersion = v', sr_version = 1\<rparr>)"
  using assms by (auto simp: casUpsert_def removeAllForProfile_def Let_def)

end
