(* ===== verification/Decimal_Js.thy ===== *)
theory Decimal_Js
  imports Prelude
begin

text \<open>
  The interface to \<open>decimal.js\<close>, the third-party decimal arithmetic behind every money computation.

  The library is a parameter: the record \<open>decimal_js\<close> holds the operations the source calls, and
  every definition that computes with decimals takes one as its first argument \<open>D\<close>. The locale
  \<open>decimal_laws\<close> states the documented behaviour the properties rely on, through the value of a
  finite decimal: sums, differences, products and quotients are correctly rounded to 20
  significant digits (the default precision, which the source never changes), rounding to integers
  and comparisons are exact, and printing a value and parsing it again keeps it. Exponents beyond
  the library's limits, and printing with the decimal places of a non-finite step, are left open.

  \<open>nearest20\<close> is the rounding specification and comes with the facts the components use:
  monotonicity, exactness, and the relative error. The second half builds \<open>dec_js\<close>, arithmetic on
  scaled integers that satisfies every law.
\<close>

record 'd decimal_js =
  d_new :: "string \<Rightarrow> 'd option"
  d_int :: "int \<Rightarrow> 'd"
  d_num :: "js_number \<Rightarrow> 'd"
  d_plus :: "'d \<Rightarrow> 'd \<Rightarrow> 'd"
  d_minus :: "'d \<Rightarrow> 'd \<Rightarrow> 'd"
  d_times :: "'d \<Rightarrow> 'd \<Rightarrow> 'd"
  d_div :: "'d \<Rightarrow> 'd \<Rightarrow> 'd"
  d_floor :: "'d \<Rightarrow> 'd"
  d_ceil :: "'d \<Rightarrow> 'd"
  d_abs :: "'d \<Rightarrow> 'd"
  d_min :: "'d \<Rightarrow> 'd \<Rightarrow> 'd"
  d_max :: "'d \<Rightarrow> 'd \<Rightarrow> 'd"
  d_lt :: "'d \<Rightarrow> 'd \<Rightarrow> bool"
  d_lte :: "'d \<Rightarrow> 'd \<Rightarrow> bool"
  d_isFinite :: "'d \<Rightarrow> bool"
  d_toString :: "'d \<Rightarrow> string"
  d_toFixed :: "'d \<Rightarrow> nat \<Rightarrow> string"
  d_toFixedAll :: "'d \<Rightarrow> string"
  d_decimalPlaces :: "'d \<Rightarrow> nat"
  d_toDecimalPlaces :: "'d \<Rightarrow> nat \<Rightarrow> 'd"
  d_toNumber :: "'d \<Rightarrow> rat"

abbreviation d_gt :: "('d, 'x) decimal_js_scheme \<Rightarrow> 'd \<Rightarrow> 'd \<Rightarrow> bool" where
  "d_gt D a b \<equiv> d_lt D b a"

abbreviation d_gte :: "('d, 'x) decimal_js_scheme \<Rightarrow> 'd \<Rightarrow> 'd \<Rightarrow> bool" where
  "d_gte D a b \<equiv> d_lte D b a"

section \<open>Decimal digits\<close>

function digs :: "int \<Rightarrow> int list" where
  "digs n = (if n < 10 then [n] else digs (n div 10) @ [n mod 10])"
  by pat_completeness auto

termination digs
  by (relation "measure nat") auto

declare digs.simps [simp del]

definition num_of :: "int list \<Rightarrow> int" where
  "num_of ds = foldl (\<lambda>a d. 10 * a + d) 0 ds"

lemma num_of_snoc [simp]: "num_of (ds @ [d]) = 10 * num_of ds + d"
  by (simp add: num_of_def)

lemma digs_small: "n < 10 \<Longrightarrow> digs n = [n]"
  by (subst digs.simps) simp

lemma digs_step: "10 \<le> n \<Longrightarrow> digs n = digs (n div 10) @ [n mod 10]"
  by (subst digs.simps) simp

lemma num_of_digs [simp]: "num_of (digs n) = n"
proof (induction n rule: digs.induct)
  case (1 n)
  then show ?case by (cases "n < 10") (simp_all add: digs_small digs_step num_of_def [of "[n]"])
qed

lemma digs_digits: "0 \<le> n \<Longrightarrow> d \<in> set (digs n) \<Longrightarrow> 0 \<le> d \<and> d < 10"
proof (induction n rule: digs.induct)
  case (1 n)
  then show ?case by (cases "n < 10") (auto simp: digs_small digs_step)
qed

lemma digs_length_pos: "0 < length (digs n)"
  by (subst digs.simps) simp

lemma digs_bounds: "0 < n \<Longrightarrow> 10 ^ (length (digs n) - 1) \<le> n \<and> n < 10 ^ length (digs n)"
proof (induction n rule: digs.induct)
  case (1 n)
  show ?case
  proof (cases "n < 10")
    case True
    with 1(2) show ?thesis by (simp add: digs_small)
  next
    case False
    let ?m = "n div 10"
    from False have ih: "10 ^ (length (digs ?m) - 1) \<le> ?m \<and> ?m < 10 ^ length (digs ?m)" using 1(1) by simp
    obtain l where l: "length (digs ?m) = Suc l" using digs_length_pos [of ?m] by (cases "length (digs ?m)") auto
    from ih have a: "10 ^ l \<le> ?m" "?m < 10 ^ Suc l" by (simp_all add: l)
    have "10 ^ Suc l \<le> n" using a(1) by simp
    moreover have "n < 10 ^ Suc (Suc l)" using a(2) by simp
    ultimately show ?thesis using False by (simp add: digs_step l)
  qed
qed

definition sig_exp :: "rat \<Rightarrow> int" where
  "sig_exp x = (let (p, q) = quotient_of x;
                    e = int (length (digs p)) - int (length (digs q))
                in if 10 powi e \<le> x then e else e - 1)"

lemma digs_rat_bounds:
  assumes "0 < p"
  shows "10 ^ (length (digs p) - 1) \<le> (of_int p :: rat)" and "of_int p < (10 ^ length (digs p) :: rat)"
proof -
  have "10 ^ (length (digs p) - 1) \<le> p" "p < 10 ^ length (digs p)"
    using assms digs_bounds by auto
  then have "(of_int (10 ^ (length (digs p) - 1)) :: rat) \<le> of_int p" "(of_int p :: rat) < of_int (10 ^ length (digs p))"
    by (simp_all only: of_int_le_iff of_int_less_iff)
  then show "10 ^ (length (digs p) - 1) \<le> (of_int p :: rat)" and "of_int p < (10 ^ length (digs p) :: rat)"
    by simp_all
qed

lemma powi_diff_nat: "(10::rat) powi (int a - int b) = 10 ^ a / 10 ^ b"
  by (subst power_int_diff) simp_all

lemma quotient_bracket:
  fixes x :: rat
  assumes "10 ^ (a - 1) \<le> x" "x < 10 ^ a" "10 ^ (b - 1) \<le> y" "y < 10 ^ b" "0 < a" "0 < b"
  shows "10 powi (int a - int b - 1) \<le> x / y" and "x / y < 10 powi (int a - int b + 1)"
proof -
  have e: "int a - int b - 1 = int (a - 1) - int b" "int a - int b + 1 = int a - int (b - 1)"
    using assms(5,6) by linarith+
  have y: "0 < y" by (rule less_le_trans [OF _ assms(3)]) simp
  have x: "0 < x" by (rule less_le_trans [OF _ assms(1)]) simp
  show "10 powi (int a - int b - 1) \<le> x / y"
    unfolding e powi_diff_nat using assms y x by (intro frac_le) simp_all
  show "x / y < 10 powi (int a - int b + 1)"
    unfolding e powi_diff_nat using assms y x by (intro frac_less) simp_all
qed

lemma sig_exp_bracket:
  assumes "0 < x"
  shows "10 powi sig_exp x \<le> x" and "x < 10 powi (sig_exp x + 1)"
proof -
  obtain p q where pq: "quotient_of x = (p, q)" by (cases "quotient_of x")
  have q: "0 < q" using pq by (rule quotient_of_denom_pos)
  have x: "x = of_int p / of_int q" using pq by (rule quotient_of_div)
  have p: "0 < p" using assms q unfolding x by (simp add: zero_less_divide_iff)
  note b = quotient_bracket [OF digs_rat_bounds [OF p] digs_rat_bounds [OF q] digs_length_pos digs_length_pos, folded x]
  show "10 powi sig_exp x \<le> x" and "x < 10 powi (sig_exp x + 1)"
    using b by (simp_all add: sig_exp_def pq Let_def)
qed

section \<open>Rounding to 20 significant digits\<close>

definition dec20 :: "rat \<Rightarrow> bool" where
  "dec20 v \<longleftrightarrow> (\<exists>m e. \<bar>m\<bar> < 10 ^ 20 \<and> v = of_int m * 10 powi e)"

definition nearest20 :: "rat \<Rightarrow> rat \<Rightarrow> bool" where
  "nearest20 x y \<longleftrightarrow> dec20 y \<and> (\<forall>v. dec20 v \<longrightarrow> \<bar>y - x\<bar> \<le> \<bar>v - x\<bar>)"

lemma nearest20_dec: "nearest20 x y \<Longrightarrow> dec20 y"
  by (simp add: nearest20_def)

lemma nearest20_exact: "nearest20 x y \<Longrightarrow> dec20 x \<Longrightarrow> y = x"
  by (force simp: nearest20_def)

lemma nearest20_le: "nearest20 x y \<Longrightarrow> dec20 v \<Longrightarrow> x \<le> v \<Longrightarrow> y \<le> v"
  by (fastforce simp: nearest20_def)

lemma nearest20_ge: "nearest20 x y \<Longrightarrow> dec20 v \<Longrightarrow> v \<le> x \<Longrightarrow> v \<le> y"
  by (fastforce simp: nearest20_def)

lemma dec20_int: "\<bar>m\<bar> < 10 ^ 20 \<Longrightarrow> dec20 (of_int m)"
  unfolding dec20_def by (intro exI [of _ m] exI [of _ 0]) simp

lemma dec20_0 [simp]: "dec20 0" and dec20_1 [simp]: "dec20 1"
  using dec20_int [of 0] dec20_int [of 1] by simp_all

lemma dec20_shift: "dec20 x \<Longrightarrow> dec20 (x * 10 powi k)"
  unfolding dec20_def by (metis mult.assoc power_int_add zero_neq_numeral)

lemma dec20_div10: "dec20 x \<Longrightarrow> dec20 (x / 10 ^ k)"
  using dec20_shift [of x "- int k"] by (simp add: power_int_minus field_simps)

lemma dec20_minus: "dec20 x \<Longrightarrow> dec20 (- x)"
  unfolding dec20_def by (metis abs_minus mult_minus_left of_int_minus)

text \<open>Half up, away from zero.\<close>

definition round_up :: "rat \<Rightarrow> int" where
  "round_up x = (if x < 0 then - \<lfloor>- x + 1 / 2\<rfloor> else \<lfloor>x + 1 / 2\<rfloor>)"

lemma round_up_near: "\<bar>of_int (round_up x) - x\<bar> \<le> \<bar>of_int n - x\<bar>"
proof -
  have h: "\<bar>of_int \<lfloor>y + 1 / 2\<rfloor> - y\<bar> \<le> 1 / 2" for y :: rat by linarith
  have h2: "\<bar>of_int \<lfloor>y + 1 / 2\<rfloor> - y\<bar> \<le> \<bar>of_int m - y\<bar>" for y :: rat and m
  proof (cases "m = \<lfloor>y + 1 / 2\<rfloor>")
    case False
    then have "1 \<le> \<bar>m - \<lfloor>y + 1 / 2\<rfloor>\<bar>" by linarith
    then have "(1 :: rat) \<le> \<bar>of_int m - of_int \<lfloor>y + 1 / 2\<rfloor>\<bar>" by (metis of_int_1_le_iff of_int_abs of_int_diff)
    with h [of y] show ?thesis by linarith
  qed simp
  show ?thesis
    using h2 [of x n] h2 [of "- x" "- n"] by (auto simp: round_up_def abs_if split: if_splits)
qed

lemma round_up_half: "\<bar>of_int (round_up x) - x\<bar> \<le> 1 / 2"
proof (cases "x < 0")
  case True
  have "\<bar>of_int \<lfloor>- x + 1 / 2\<rfloor> - - x\<bar> \<le> 1 / 2" by linarith
  with True show ?thesis unfolding round_up_def by (simp only: if_True of_int_minus)
next
  case False
  have "\<bar>of_int \<lfloor>x + 1 / 2\<rfloor> - x\<bar> \<le> 1 / 2" by linarith
  with False show ?thesis unfolding round_up_def by (simp only: if_False)
qed

definition round20_at :: "int \<Rightarrow> rat \<Rightarrow> rat" where
  "round20_at k x = of_int (round_up (x * 10 powi k)) * 10 powi (- k)"

lemma powi_mult_inv [simp]: "(10::rat) powi k * 10 powi (- k) = 1" "(10::rat) powi (- k) * 10 powi k = 1"
  by (simp_all add: power_int_minus)

lemma scaled_diff: "\<bar>of_int n * 10 powi (- k) - x\<bar> = \<bar>of_int n - x * 10 powi k\<bar> * (10 powi (- k) :: rat)"
proof -
  have "of_int n * 10 powi (- k) - x = (of_int n - x * 10 powi k) * (10 powi (- k) :: rat)"
    by (simp add: left_diff_distrib mult.assoc)
  then show ?thesis by (simp add: abs_mult)
qed

lemma round20_at_near:
  "\<bar>round20_at k x - x\<bar> \<le> \<bar>of_int n * 10 powi (- k) - x\<bar>"
  unfolding round20_at_def scaled_diff by (intro mult_right_mono round_up_near) simp

lemma dec20_grid:
  assumes "of_int m * 10 powi e = v" and "- k \<le> e"
  shows "\<exists>n. v = of_int n * (10 powi (- k) :: rat)"
proof -
  have "(10::rat) powi e = 10 powi (e + k) * 10 powi (- k)"
    by (simp add: power_int_add [symmetric])
  also have "(10::rat) powi (e + k) = of_int (10 ^ nat (e + k))"
    using assms(2) by (simp add: power_int_def)
  finally show ?thesis using assms(1) by (intro exI [of _ "m * 10 ^ nat (e + k)"]) simp
qed

lemma round20_at_nearest:
  assumes "10 ^ 19 \<le> \<bar>x\<bar> * 10 powi k" and "\<bar>x\<bar> * 10 powi k < 10 ^ 20"
  shows "nearest20 x (round20_at k x)"
  unfolding nearest20_def
proof (intro conjI allI impI)
  let ?z = "x * 10 powi k"
  let ?n = "round_up ?z"
  have z: "\<bar>?z\<bar> = \<bar>x\<bar> * 10 powi k" by (simp add: abs_mult)
  have "\<bar>of_int ?n\<bar> \<le> \<bar>?z\<bar> + 1 / (2 :: rat)" using round_up_half [of ?z] by linarith
  then have "of_int \<bar>?n\<bar> < (of_int (10 ^ 20 + 1) :: rat)" using assms(2) unfolding z by simp
  then have n: "\<bar>?n\<bar> \<le> 10 ^ 20" unfolding of_int_less_iff by linarith
  show "dec20 (round20_at k x)"
  proof (cases "\<bar>?n\<bar> = 10 ^ 20")
    case True
    have "(of_int ?n :: rat) = of_int (sgn ?n * 10 ^ 20)" by (metis True mult.commute mult_sgn_abs sgn_mult_abs)
    then have "round20_at k x = of_int (sgn ?n) * 10 powi (20 + - k)"
      unfolding round20_at_def by (subst power_int_add) simp_all
    then show ?thesis
      unfolding dec20_def by (intro exI [of _ "sgn ?n"] exI [of _ "20 + - k"]) (simp add: abs_sgn_eq)
  next
    case False
    with n show ?thesis unfolding dec20_def round20_at_def by (intro exI [of _ ?n] exI [of _ "- k"]) simp
  qed
  fix v assume "dec20 v"
  then obtain m e where v: "\<bar>m\<bar> < 10 ^ 20" "v = of_int m * 10 powi e" unfolding dec20_def by blast
  show "\<bar>round20_at k x - x\<bar> \<le> \<bar>v - x\<bar>"
  proof (cases "- k \<le> e")
    case True
    then obtain n where "v = of_int n * 10 powi (- k)" using dec20_grid v(2) by metis
    then show ?thesis using round20_at_near by simp
  next
    case False
    define u :: rat where "u = of_int ((if x < 0 then - 1 else 1) * 10 ^ 19) * 10 powi (- k)"
    have u: "\<bar>u\<bar> = 10 ^ 19 * 10 powi (- k)" "x < 0 \<longleftrightarrow> u < 0"
      using zero_less_power_int [of "10 :: rat" "- k"] by (auto simp: u_def abs_mult not_less)
    have "(10 ^ 19 :: rat) * 10 powi (- k) \<le> \<bar>x\<bar> * 10 powi k * 10 powi (- k)"
      by (rule mult_right_mono [OF assms(1)]) simp
    then have ux: "\<bar>u\<bar> \<le> \<bar>x\<bar>" by (simp add: u mult.assoc)
    have "\<bar>v\<bar> \<le> 10 ^ 20 * 10 powi e"
      unfolding v(2) abs_mult using v(1) by (simp add: of_int_abs [symmetric] del: of_int_abs)
    also have "\<dots> \<le> 10 ^ 20 * 10 powi (- k - 1)"
      using False by (intro mult_left_mono power_int_increasing) simp_all
    also have "\<dots> = \<bar>u\<bar>" unfolding u by (subst power_int_diff) simp_all
    finally have "\<bar>u - x\<bar> \<le> \<bar>v - x\<bar>" using ux u(2) by linarith
    moreover have "\<bar>round20_at k x - x\<bar> \<le> \<bar>u - x\<bar>" unfolding u_def by (rule round20_at_near)
    ultimately show ?thesis by linarith
  qed
qed

definition round20 :: "rat \<Rightarrow> int \<times> int" where
  "round20 x = (if x = 0 then (0, 0) else let k = 19 - sig_exp \<bar>x\<bar> in (round_up (x * 10 powi k), k))"

lemma round20_nearest: "nearest20 x (of_int (fst (round20 x)) * 10 powi (- snd (round20 x)))"
proof (cases "x = 0")
  case True
  then show ?thesis
    by (auto simp: round20_def nearest20_def dec20_def intro!: exI [of _ 0])
next
  case False
  let ?e = "sig_exp \<bar>x\<bar>"
  have b: "10 powi ?e \<le> \<bar>x\<bar>" "\<bar>x\<bar> < 10 powi (?e + 1)" using sig_exp_bracket [of "\<bar>x\<bar>"] False by simp_all
  have p: "(0 :: rat) < 10 powi (19 - ?e)" by simp
  have q: "(10 :: rat) powi ?e * 10 powi (19 - ?e) = 10 ^ 19" "(10 :: rat) powi (?e + 1) * 10 powi (19 - ?e) = 10 ^ 20"
    by (simp_all add: power_int_add [symmetric])
  have "nearest20 x (round20_at (19 - ?e) x)"
    using mult_right_mono [OF b(1) less_imp_le [OF p]] mult_strict_right_mono [OF b(2) p]
    unfolding q by (rule round20_at_nearest)
  with False show ?thesis by (simp add: round20_def round20_at_def Let_def)
qed

lemma nearest20_rel:
  assumes "nearest20 x y"
  shows "\<bar>y - x\<bar> \<le> \<bar>x\<bar> / 10 ^ 19"
proof (cases "x = 0")
  case True
  have "dec20 0" by (auto simp: dec20_def intro!: exI [of _ 0])
  with assms True show ?thesis unfolding nearest20_def by fastforce
next
  case False
  let ?e = "sig_exp \<bar>x\<bar>" and ?k = "19 - sig_exp \<bar>x\<bar>"
  have b: "10 powi ?e \<le> \<bar>x\<bar>" using sig_exp_bracket [of "\<bar>x\<bar>"] False by simp
  let ?y = "of_int (fst (round20 x)) * 10 powi (- snd (round20 x)) :: rat"
  have "?y = of_int (round_up (x * 10 powi ?k)) * 10 powi (- ?k)" using False by (simp add: round20_def Let_def)
  then have "\<bar>?y - x\<bar> = \<bar>of_int (round_up (x * 10 powi ?k)) - x * 10 powi ?k\<bar> * 10 powi (- ?k)"
    by (metis scaled_diff)
  also have "\<dots> \<le> 1 * 10 powi (- ?k)"
    using round_up_half [of "x * 10 powi ?k"] by (intro mult_right_mono) simp_all
  also have "\<dots> = 10 powi ?e / 10 ^ 19" by (simp add: power_int_diff)
  also have "\<dots> \<le> \<bar>x\<bar> / 10 ^ 19" using b by (simp add: divide_right_mono)
  finally have "\<bar>?y - x\<bar> \<le> \<bar>x\<bar> / 10 ^ 19" .
  moreover have "\<bar>y - x\<bar> \<le> \<bar>?y - x\<bar>"
    using assms round20_nearest [of x] unfolding nearest20_def by blast
  ultimately show ?thesis by linarith
qed
text \<open>One-sided forms of the relative error.\<close>

abbreviation eps :: rat where "eps \<equiv> 1 / 10 ^ 19"

lemma nearest20_lower:
  assumes "nearest20 x y" "0 \<le> x"
  shows "x * (1 - eps) \<le> y"
proof -
  have "x - y \<le> \<bar>y - x\<bar>" by (rule abs_ge_minus_self [of "y - x", simplified])
  also have "\<dots> \<le> x * eps" using nearest20_rel [OF assms(1)] assms(2) by (simp only: abs_of_nonneg mult_1_right times_divide_eq_right)
  finally show ?thesis unfolding right_diff_distrib mult_1_right by linarith
qed

lemma nearest20_upper:
  assumes "nearest20 x y" "0 \<le> x"
  shows "y \<le> x * (1 + eps)"
proof -
  have "y - x \<le> \<bar>y - x\<bar>" by (rule abs_ge_self)
  also have "\<dots> \<le> x * eps" using nearest20_rel [OF assms(1)] assms(2) by (simp only: abs_of_nonneg mult_1_right times_divide_eq_right)
  finally show ?thesis unfolding distrib_left mult_1_right by linarith
qed

section \<open>Plain decimal strings\<close>

text \<open>
  The grammar of a plain decimal string, as mantissa and scale: \<open>(m, s)\<close> is the number \<open>m / 10 ^ s\<close>.
\<close>

definition digit_of :: "char \<Rightarrow> int option" where
  "digit_of c = (let n = of_char c :: int in if 48 \<le> n \<and> n \<le> 57 then Some (n - 48) else None)"

definition digits_of :: "string \<Rightarrow> int list option" where
  "digits_of s = those (map digit_of s)"

definition unsigned_parse :: "string \<Rightarrow> (int \<times> nat) option" where
  "unsigned_parse s =
     (case (digits_of (takeWhile (\<lambda>c. c \<noteq> CHR ''.'') s), digits_of (tl (dropWhile (\<lambda>c. c \<noteq> CHR ''.'') s))) of
        (Some ds, Some fs) \<Rightarrow> if ds = [] \<and> fs = [] then None else Some (num_of (ds @ fs), length fs)
      | _ \<Rightarrow> None)"

definition plain_parse :: "string \<Rightarrow> (int \<times> nat) option" where
  "plain_parse s =
     (case s of
        c # r \<Rightarrow> if c = CHR ''-'' then map_option (\<lambda>(m, k). (- m, k)) (unsigned_parse r) else unsigned_parse s
      | [] \<Rightarrow> None)"

section \<open>The laws\<close>

definition round_places :: "nat \<Rightarrow> rat \<Rightarrow> rat" where
  "round_places n x = of_int (round_up (x * 10 ^ n)) / 10 ^ n"

locale decimal_laws =
  fixes D :: "'d decimal_js" and val :: "'d \<Rightarrow> rat"
  assumes new_plain: "plain_parse s = Some (m, k) \<Longrightarrow>
      \<exists>d. d_new D s = Some d \<and> d_isFinite D d \<and> val d = of_int m / 10 ^ k"
    and int_finite: "d_isFinite D (d_int D n)"
    and int_val: "val (d_int D n) = of_int n"
    and num_finite: "d_isFinite D (d_num D x) \<longleftrightarrow> isFiniteN x"
    and plus: "d_isFinite D a \<Longrightarrow> d_isFinite D b \<Longrightarrow>
      d_isFinite D (d_plus D a b) \<and> nearest20 (val a + val b) (val (d_plus D a b))"
    and minus: "d_isFinite D a \<Longrightarrow> d_isFinite D b \<Longrightarrow>
      d_isFinite D (d_minus D a b) \<and> nearest20 (val a - val b) (val (d_minus D a b))"
    and times: "d_isFinite D a \<Longrightarrow> d_isFinite D b \<Longrightarrow>
      d_isFinite D (d_times D a b) \<and> nearest20 (val a * val b) (val (d_times D a b))"
    and div: "d_isFinite D a \<Longrightarrow> d_isFinite D b \<Longrightarrow> val b \<noteq> 0 \<Longrightarrow>
      d_isFinite D (d_div D a b) \<and> nearest20 (val a / val b) (val (d_div D a b))"
    and floor: "d_isFinite D a \<Longrightarrow> d_isFinite D (d_floor D a) \<and> val (d_floor D a) = of_int \<lfloor>val a\<rfloor>"
    and ceil: "d_isFinite D a \<Longrightarrow> d_isFinite D (d_ceil D a) \<and> val (d_ceil D a) = of_int \<lceil>val a\<rceil>"
    and abs: "d_isFinite D a \<Longrightarrow> d_isFinite D (d_abs D a) \<and> val (d_abs D a) = \<bar>val a\<bar>"
    and min: "d_isFinite D a \<Longrightarrow> d_isFinite D b \<Longrightarrow>
      d_isFinite D (d_min D a b) \<and> val (d_min D a b) = min (val a) (val b)"
    and max: "d_isFinite D a \<Longrightarrow> d_isFinite D b \<Longrightarrow>
      d_isFinite D (d_max D a b) \<and> val (d_max D a b) = max (val a) (val b)"
    and lt: "d_isFinite D a \<Longrightarrow> d_isFinite D b \<Longrightarrow> d_lt D a b \<longleftrightarrow> val a < val b"
    and lte: "d_isFinite D a \<Longrightarrow> d_isFinite D b \<Longrightarrow> d_lte D a b \<longleftrightarrow> val a \<le> val b"
    and toString: "d_isFinite D a \<Longrightarrow>
      \<exists>d. d_new D (d_toString D a) = Some d \<and> d_isFinite D d \<and> val d = val a"
    and toFixedAll: "d_isFinite D a \<Longrightarrow>
      \<exists>d. d_new D (d_toFixedAll D a) = Some d \<and> d_isFinite D d \<and> val d = val a"
    and toFixed: "d_isFinite D a \<Longrightarrow>
      \<exists>d. d_new D (d_toFixed D a p) = Some d \<and> d_isFinite D d \<and> val d = round_places p (val a)"
    and decimalPlaces: "d_isFinite D a \<Longrightarrow> val a * 10 ^ d_decimalPlaces D a \<in> \<int>"
    and toDecimalPlaces: "d_isFinite D a \<Longrightarrow>
      d_isFinite D (d_toDecimalPlaces D a p) \<and> val (d_toDecimalPlaces D a p) = round_places p (val a)"
    and toNumber: "d_isFinite D a \<Longrightarrow> val a \<in> \<int> \<Longrightarrow> \<bar>val a\<bar> \<le> 2 ^ 53 \<Longrightarrow> d_toNumber D a = val a"
begin

lemmas finite_simps = int_finite plus minus times div floor ceil abs min max
lemmas value_simps = int_val floor ceil abs min max lt lte

end

section \<open>Arithmetic on scaled integers\<close>

datatype dec = Dec int nat | DecNaN

fun dval :: "dec \<Rightarrow> rat" where
  "dval (Dec m s) = of_int m / 10 ^ s"
| "dval DecNaN = 0"

fun dfin :: "dec \<Rightarrow> bool" where
  "dfin (Dec m s) = True"
| "dfin DecNaN = False"

definition dec_of :: "int \<times> int \<Rightarrow> dec" where
  "dec_of p = (if 0 \<le> snd p then Dec (fst p) (nat (snd p)) else Dec (fst p * 10 ^ nat (- snd p)) 0)"

fun places :: "int \<Rightarrow> nat \<Rightarrow> nat" where
  "places m 0 = 0"
| "places m (Suc s) = (if 10 dvd m then places (m div 10) s else Suc s)"

definition digit_char :: "int \<Rightarrow> char" where
  "digit_char d = char_of (48 + d)"

definition show_fixed :: "nat \<Rightarrow> int \<Rightarrow> string" where
  "show_fixed n m =
     (let ds = digs \<bar>m\<bar>; pad = replicate (Suc n - length ds) 0 @ ds; i = length pad - n
      in (if m < 0 then ''-'' else []) @ map digit_char (take i pad) @
         (if n = 0 then [] else CHR ''.'' # map digit_char (drop i pad)))"

text \<open>Operations on a \<open>NaN\<close> argument.\<close>

definition nan1 :: "(dec \<Rightarrow> dec) \<Rightarrow> dec \<Rightarrow> dec" where
  "nan1 f a = (if dfin a then f a else DecNaN)"

definition nan2 :: "(dec \<Rightarrow> dec \<Rightarrow> dec) \<Rightarrow> dec \<Rightarrow> dec \<Rightarrow> dec" where
  "nan2 f a b = (if dfin a \<and> dfin b then f a b else DecNaN)"

definition dec_js :: "dec decimal_js" where
  "dec_js = \<lparr>
     d_new = (\<lambda>s. map_option (\<lambda>(m, k). Dec m k) (plain_parse s)),
     d_int = (\<lambda>n. Dec n 0),
     d_num = (\<lambda>x. case x of JsNum r \<Rightarrow> dec_of (round20 r) | _ \<Rightarrow> DecNaN),
     d_plus = nan2 (\<lambda>a b. dec_of (round20 (dval a + dval b))),
     d_minus = nan2 (\<lambda>a b. dec_of (round20 (dval a - dval b))),
     d_times = nan2 (\<lambda>a b. dec_of (round20 (dval a * dval b))),
     d_div = nan2 (\<lambda>a b. dec_of (round20 (dval a / dval b))),
     d_floor = nan1 (\<lambda>a. Dec \<lfloor>dval a\<rfloor> 0),
     d_ceil = nan1 (\<lambda>a. Dec \<lceil>dval a\<rceil> 0),
     d_abs = (\<lambda>a. case a of Dec m k \<Rightarrow> Dec \<bar>m\<bar> k | DecNaN \<Rightarrow> DecNaN),
     d_min = nan2 (\<lambda>a b. if dval a \<le> dval b then a else b),
     d_max = nan2 (\<lambda>a b. if dval a \<le> dval b then b else a),
     d_lt = (\<lambda>a b. dfin a \<and> dfin b \<and> dval a < dval b),
     d_lte = (\<lambda>a b. dfin a \<and> dfin b \<and> dval a \<le> dval b),
     d_isFinite = dfin,
     d_toString = (\<lambda>a. case a of Dec m k \<Rightarrow> show_fixed k m | DecNaN \<Rightarrow> ''NaN''),
     d_toFixed = (\<lambda>a n. show_fixed n (round_up (dval a * 10 ^ n))),
     d_toFixedAll = (\<lambda>a. case a of Dec m k \<Rightarrow> show_fixed k m | DecNaN \<Rightarrow> ''NaN''),
     d_decimalPlaces = (\<lambda>a. case a of Dec m k \<Rightarrow> places m k | DecNaN \<Rightarrow> 0),
     d_toDecimalPlaces = (\<lambda>a n. nan1 (\<lambda>a. Dec (round_up (dval a * 10 ^ n)) n) a),
     d_toNumber = dval\<rparr>"

lemma dval_dec_of: "dval (dec_of p) = of_int (fst p) * 10 powi (- snd p)"
  by (simp add: dec_of_def power_int_def field_simps)

lemma nearest20_dec_of: "nearest20 x (dval (dec_of (round20 x)))"
  unfolding dval_dec_of by (rule round20_nearest)

lemma digit_of_char: "0 \<le> d \<Longrightarrow> d < 10 \<Longrightarrow> digit_of (digit_char d) = Some d"
  by (simp add: digit_of_def digit_char_def)

lemma digits_of_chars: "\<forall>d \<in> set ds. 0 \<le> d \<and> d < 10 \<Longrightarrow> digits_of (map digit_char ds) = Some ds"
  by (induction ds) (simp_all add: digits_of_def digit_of_char)

lemma digit_char_plain: "0 \<le> d \<Longrightarrow> d < 10 \<Longrightarrow> digit_char d \<noteq> CHR ''.'' \<and> digit_char d \<noteq> CHR ''-''"
  using digit_of_char [of d] by (auto simp: digit_of_def)

lemma num_of_pad: "num_of (replicate k 0 @ ds) = num_of ds"
  by (induction k) (simp_all add: num_of_def)

lemma unsigned_parse_show:
  assumes "\<forall>d \<in> set ip. 0 \<le> d \<and> d < 10" "\<forall>d \<in> set fp. 0 \<le> d \<and> d < 10" "ip \<noteq> []"
  shows "unsigned_parse (map digit_char ip @ (if fp = [] then [] else CHR ''.'' # map digit_char fp)) =
           Some (num_of (ip @ fp), length fp)"
proof -
  have d: "\<forall>c \<in> set (map digit_char ip). c \<noteq> CHR ''.''" using assms(1) digit_char_plain by auto
  have "takeWhile (\<lambda>c. c \<noteq> CHR ''.'') (map digit_char ip @ r) = map digit_char ip @ takeWhile (\<lambda>c. c \<noteq> CHR ''.'') r"
    "dropWhile (\<lambda>c. c \<noteq> CHR ''.'') (map digit_char ip @ r) = dropWhile (\<lambda>c. c \<noteq> CHR ''.'') r" for r
    using d by (induction ip) (auto simp: takeWhile_append2 dropWhile_append2)
  then show ?thesis
    using assms by (simp add: unsigned_parse_def digits_of_chars) (simp add: digits_of_def)
qed

lemma plain_parse_split:
  assumes d: "\<forall>d \<in> set ip. 0 \<le> d \<and> d < 10" "\<forall>d \<in> set fp. 0 \<le> d \<and> d < 10" and ne: "ip \<noteq> []"
    and num: "num_of (ip @ fp) = \<bar>m\<bar>"
  shows "plain_parse ((if m < 0 then ''-'' else []) @ map digit_char ip @
           (if length fp = 0 then [] else CHR ''.'' # map digit_char fp)) = Some (m, length fp)"
proof -
  let ?b = "map digit_char ip @ (if fp = [] then [] else CHR ''.'' # map digit_char fp)"
  have body: "unsigned_parse ?b = Some (\<bar>m\<bar>, length fp)"
    using unsigned_parse_show [OF d ne] num by simp
  obtain c r where c: "?b = c # r" "c \<noteq> CHR ''-''"
    using ne d(1) digit_char_plain by (cases ip) auto
  show ?thesis
    using body c by (cases "m < 0") (simp_all add: plain_parse_def)
qed

lemma plain_parse_show: "plain_parse (show_fixed n m) = Some (m, n)"
proof -
  define pad where "pad = replicate (Suc n - length (digs \<bar>m\<bar>)) 0 @ digs \<bar>m\<bar>"
  define ip fp where "ip = take (length pad - n) pad" and "fp = drop (length pad - n) pad"
  have len: "n < length pad" by (simp add: pad_def)
  have dig: "\<forall>d \<in> set pad. 0 \<le> d \<and> d < 10" using digs_digits [of "\<bar>m\<bar>"] by (auto simp: pad_def)
  have fl: "length fp = n" using len by (simp add: fp_def)
  have "ip \<noteq> []" using len by (auto simp: ip_def)
  moreover have "num_of (ip @ fp) = \<bar>m\<bar>"
    by (simp add: ip_def fp_def) (simp add: pad_def num_of_pad)
  moreover have "\<forall>d \<in> set ip. 0 \<le> d \<and> d < 10" "\<forall>d \<in> set fp. 0 \<le> d \<and> d < 10"
    using dig unfolding ip_def fp_def by (meson in_set_takeD in_set_dropD)+
  ultimately have "plain_parse ((if m < 0 then ''-'' else []) @ map digit_char ip @
      (if length fp = 0 then [] else CHR ''.'' # map digit_char fp)) = Some (m, length fp)"
    by (intro plain_parse_split)
  then show ?thesis
    unfolding fl show_fixed_def Let_def pad_def [symmetric] ip_def [symmetric] fp_def [symmetric] .
qed

lemma places_int: "of_int m / (10 :: rat) ^ s * 10 ^ places m s \<in> \<int>"
proof (induction s arbitrary: m)
  case (Suc s)
  show ?case
  proof (cases "10 dvd m")
    case True
    then have "of_int m / (10 :: rat) ^ Suc s = of_int (m div 10) / 10 ^ s" by (auto elim!: dvdE)
    with True Suc show ?thesis by simp
  qed simp
qed simp

lemma dfin_dec_of [simp]: "dfin (dec_of p)"
  by (simp add: dec_of_def)

interpretation djs: decimal_laws dec_js dval
proof
  fix s m k
  assume "plain_parse s = Some (m, k)"
  then show "\<exists>d. d_new dec_js s = Some d \<and> d_isFinite dec_js d \<and> dval d = of_int m / 10 ^ k"
    by (simp add: dec_js_def)
next
  fix a assume "d_isFinite dec_js a"
  then obtain m k where a: "a = Dec m k" by (cases a) (simp_all add: dec_js_def)
  show "\<exists>d. d_new dec_js (d_toString dec_js a) = Some d \<and> d_isFinite dec_js d \<and> dval d = dval a"
    by (simp add: dec_js_def a plain_parse_show)
  show "\<exists>d. d_new dec_js (d_toFixedAll dec_js a) = Some d \<and> d_isFinite dec_js d \<and> dval d = dval a"
    by (simp add: dec_js_def a plain_parse_show)
  show "dval a * 10 ^ d_decimalPlaces dec_js a \<in> \<int>"
    using places_int [of m k] by (simp add: dec_js_def a)
qed (auto simp: dec_js_def nan1_def nan2_def nearest20_dec_of plain_parse_show round_places_def
      split: dec.splits js_number.splits)

text \<open>A literal of the source, as \<open>new Decimal\<close> reads it when the module loads.\<close>

definition dlit :: "'d decimal_js \<Rightarrow> string \<Rightarrow> 'd" where
  "dlit D s = (case d_new D s of Some d \<Rightarrow> d | None \<Rightarrow> d_int D 0)"

lemma dlit_val:
  assumes "decimal_laws D val" "plain_parse s = Some (m, k)"
  shows "d_isFinite D (dlit D s)" "val (dlit D s) = of_int m / 10 ^ k"
  using decimal_laws.new_plain [OF assms] by (auto simp: dlit_def)

end
