(* ===== verification/Money.thy ===== *)
theory Money
  imports Decimal_Js
begin

text \<open>
  The money package, \<open>packages/money/src/quantize.ts\<close> and \<open>format.ts\<close>: quantising quantities and
  prices onto an exchange grid and reading and writing decimal strings. A throw is \<open>None\<close>.

  The exact behaviour is stated for a step that is a power of ten and values of at most 20
  significant digits, which is what the exchange publishes; with more digits the division rounds
  first.
\<close>

definition roundToStep :: "'d decimal_js \<Rightarrow> 'd \<Rightarrow> 'd \<Rightarrow> 'd option" where
  "roundToStep D v step =
     (if d_lte D step (d_int D 0) then None
      else Some (d_times D (d_floor D (d_div D v step)) step))"

definition ceilToStep :: "'d decimal_js \<Rightarrow> 'd \<Rightarrow> 'd \<Rightarrow> 'd option" where
  "ceilToStep D v step =
     (if d_lte D step (d_int D 0) then None
      else Some (d_times D (d_ceil D (d_div D v step)) step))"

definition roundToTick :: "'d decimal_js \<Rightarrow> 'd \<Rightarrow> 'd \<Rightarrow> 'd option" where
  "roundToTick D price tickSize =
     (if d_lte D tickSize (d_int D 0) then None
      else Some (d_times D (d_floor D (d_div D price tickSize)) tickSize))"

definition meetsMinNotional :: "'d decimal_js \<Rightarrow> 'd \<Rightarrow> 'd \<Rightarrow> 'd \<Rightarrow> bool" where
  "meetsMinNotional D quantity price minNotional = d_gte D (d_times D quantity price) minNotional"

definition toFixedStep :: "'d decimal_js \<Rightarrow> 'd \<Rightarrow> 'd \<Rightarrow> string" where
  "toFixedStep D v step = d_toFixed D v (d_decimalPlaces D step)"

definition parseDecimal :: "'d decimal_js \<Rightarrow> string \<Rightarrow> 'd option" where
  "parseDecimal D s = d_new D s"

definition isFiniteDecimalString :: "'d decimal_js \<Rightarrow> string \<Rightarrow> bool" where
  "isFiniteDecimalString D s = (case d_new D s of Some d \<Rightarrow> d_isFinite D d | None \<Rightarrow> False)"

definition isPlainDecimalString :: "string \<Rightarrow> bool" where
  "isPlainDecimalString s = (plain_parse s \<noteq> None)"

section \<open>Grids\<close>

text \<open>A power-of-ten step, and the floor and ceiling of a value on its grid.\<close>

definition pow10 :: "rat \<Rightarrow> bool" where
  "pow10 s \<longleftrightarrow> (\<exists>k. s = 10 powi k)"

definition floor_to :: "rat \<Rightarrow> rat \<Rightarrow> rat" where
  "floor_to s x = of_int \<lfloor>x / s\<rfloor> * s"

definition ceil_to :: "rat \<Rightarrow> rat \<Rightarrow> rat" where
  "ceil_to s x = of_int \<lceil>x / s\<rceil> * s"

lemma pow10_pos: "pow10 s \<Longrightarrow> 0 < s"
  by (auto simp: pow10_def)

lemma floor_to_le: "0 < s \<Longrightarrow> floor_to s x \<le> x"
  unfolding floor_to_def by (subst pos_le_divide_eq [symmetric]) simp_all

lemma floor_to_gt: "0 < s \<Longrightarrow> x - s < floor_to s x"
proof -
  assume s: "0 < s"
  have "x / s < of_int \<lfloor>x / s\<rfloor> + 1" by linarith
  then have "x < (of_int \<lfloor>x / s\<rfloor> + 1) * s" using s by (simp add: pos_divide_less_eq)
  then show ?thesis by (simp add: floor_to_def distrib_right)
qed

lemma ceil_to_ge: "0 < s \<Longrightarrow> x \<le> ceil_to s x"
  unfolding ceil_to_def by (subst pos_divide_le_eq [symmetric]) simp_all

lemma pow10_div_dec20: "pow10 s \<Longrightarrow> dec20 x \<Longrightarrow> dec20 (x / s)"
  using dec20_shift [of x "- k" for k] by (auto simp: pow10_def power_int_minus divide_inverse)

lemma pow10_mult_dec20: "pow10 s \<Longrightarrow> dec20 x \<Longrightarrow> dec20 (x * s)"
  by (auto simp: pow10_def dec20_shift)

lemma floor_dec20:
  assumes "dec20 x"
  shows "dec20 (of_int \<lfloor>x\<rfloor>)"
proof -
  obtain m e where m: "\<bar>m\<bar> < 10 ^ 20" "x = of_int m * 10 powi e" using assms by (auto simp: dec20_def)
  show ?thesis
  proof (cases "0 \<le> e")
    case True
    then have "x = of_int (m * 10 ^ nat e)" by (simp add: m power_int_def)
    then show ?thesis using assms by simp
  next
    case False
    then have x: "x = of_int m / 10 ^ nat (- e)" by (simp add: m power_int_def field_simps)
    have p: "(1 :: rat) \<le> 10 ^ nat (- e)" by simp
    have "\<bar>x\<bar> \<le> of_int \<bar>m\<bar>"
      unfolding x abs_divide using p by (simp add: divide_le_eq mult_le_cancel_left1)
    moreover have "(of_int \<bar>m\<bar> :: rat) \<le> of_int (10 ^ 20 - 1)" using m(1) by (simp only: of_int_le_iff)
    ultimately have "\<bar>x\<bar> \<le> 10 ^ 20 - 1" by simp
    then have "- (10 ^ 20 - 1) \<le> x" "x \<le> 10 ^ 20 - 1" by linarith+
    then have "- (10 ^ 20 - 1) \<le> \<lfloor>x\<rfloor>" "\<lfloor>x\<rfloor> \<le> 10 ^ 20 - 1"
      by (simp_all add: le_floor_iff floor_le_iff)
    then show ?thesis by (intro dec20_int) linarith
  qed
qed

lemma ceiling_dec20: "dec20 x \<Longrightarrow> dec20 (of_int \<lceil>x\<rceil>)"
  using floor_dec20 [OF dec20_minus, of x] dec20_minus by (simp add: ceiling_def)

lemma pow10_grid:
  assumes "pow10 s" and "s * 10 ^ n \<in> \<int>"
  shows "round_places n (of_int m * s) = of_int m * s"
proof -
  obtain z where z: "s * 10 ^ n = of_int z" using assms(2) by (auto elim: Ints_cases)
  have "round_up (of_int k) = k" for k :: int
    unfolding round_up_def by (cases "k < 0") (simp_all, linarith+)
  then have "round_up (of_int m * s * 10 ^ n) = m * z" by (metis mult.assoc of_int_mult z)
  then show ?thesis by (simp add: round_places_def) (simp add: z [symmetric] field_simps)
qed

text \<open>A positive rounded result bounds its exact value from below.\<close>

lemma nearest20_pos:
  assumes "nearest20 x y" "0 < y"
  shows "0 \<le> x" "y \<le> x * (1 + eps)"
proof -
  show "0 \<le> x" using nearest20_le [OF assms(1) dec20_0] assms(2) by fastforce
  then show "y \<le> x * (1 + eps)" by (rule nearest20_upper [OF assms(1)])
qed

context decimal_laws
begin

text \<open>A quotient that is bought back at its divisor costs at most the dividend, up to one rounding.\<close>

lemma quotient_cost:
  assumes "d_isFinite D m" "d_isFinite D price" "0 < val price"
  shows "d_isFinite D (d_div D m price)" "dec20 (val (d_div D m price))"
    "0 < val (d_div D m price) \<Longrightarrow> val (d_div D m price) * val price \<le> val m * (1 + eps)"
proof -
  let ?x = "d_div D m price"
  have x: "d_isFinite D ?x" "nearest20 (val m / val price) (val ?x)" using div [OF assms(1,2)] assms(3) by auto
  then show "d_isFinite D ?x" "dec20 (val ?x)" using nearest20_dec by auto
  assume pos: "0 < val ?x"
  then have "val ?x \<le> val m / val price * (1 + eps)" by (rule nearest20_pos [OF x(2)])
  then have "val ?x * val price \<le> val m / val price * (1 + eps) * val price"
    using assms(3) by (intro mult_right_mono) simp_all
  also have "\<dots> = val m * (1 + eps)" using assms(3) by simp
  finally show "val ?x * val price \<le> val m * (1 + eps)" .
qed

lemma roundToStep_val:
  assumes "d_isFinite D v" "d_isFinite D step" "dec20 (val v)" "pow10 (val step)"
  shows "\<exists>r. roundToStep D v step = Some r \<and> d_isFinite D r \<and> val r = floor_to (val step) (val v)"
proof -
  have pos: "0 < val step" using assms(4) by (rule pow10_pos)
  let ?q = "d_div D v step"
  have q: "d_isFinite D ?q" "val ?q = val v / val step"
    using div [OF assms(1,2)] pos nearest20_exact pow10_div_dec20 [OF assms(4,3)] by auto
  let ?n = "d_floor D ?q"
  have n: "d_isFinite D ?n" "val ?n = of_int \<lfloor>val v / val step\<rfloor>" using floor [OF q(1)] q(2) by auto
  have "dec20 (val ?n * val step)"
    unfolding n(2) by (intro pow10_mult_dec20 floor_dec20 pow10_div_dec20 assms)
  then have "val (d_times D ?n step) = val ?n * val step" "d_isFinite D (d_times D ?n step)"
    using times [OF n(1) assms(2)] nearest20_exact by auto
  then show ?thesis
    using assms(2) pos by (simp add: roundToStep_def lte int_finite int_val n(2) floor_to_def)
qed

lemma ceilToStep_val:
  assumes "d_isFinite D v" "d_isFinite D step" "dec20 (val v)" "pow10 (val step)"
  shows "\<exists>r. ceilToStep D v step = Some r \<and> d_isFinite D r \<and> val r = ceil_to (val step) (val v)"
proof -
  have pos: "0 < val step" using assms(4) by (rule pow10_pos)
  let ?q = "d_div D v step"
  have q: "d_isFinite D ?q" "val ?q = val v / val step"
    using div [OF assms(1,2)] pos nearest20_exact pow10_div_dec20 [OF assms(4,3)] by auto
  let ?n = "d_ceil D ?q"
  have n: "d_isFinite D ?n" "val ?n = of_int \<lceil>val v / val step\<rceil>" using ceil [OF q(1)] q(2) by auto
  have "dec20 (val ?n * val step)"
    unfolding n(2) by (intro pow10_mult_dec20 ceiling_dec20 pow10_div_dec20 assms)
  then have "val (d_times D ?n step) = val ?n * val step" "d_isFinite D (d_times D ?n step)"
    using times [OF n(1) assms(2)] nearest20_exact by auto
  then show ?thesis
    using assms(2) pos by (simp add: ceilToStep_def lte int_finite int_val n(2) ceil_to_def)
qed

lemma toFixedStep_grid:
  assumes "d_isFinite D v" "d_isFinite D step" "pow10 (val step)" "val v = of_int m * val step"
  shows "\<exists>d. d_new D (toFixedStep D v step) = Some d \<and> d_isFinite D d \<and> val d = val v"
  using toFixed [OF assms(1), of "d_decimalPlaces D step"]
    pow10_grid [OF assms(3) decimalPlaces [OF assms(2)], of m] assms(4)
  unfolding toFixedStep_def by simp

end

lemma roundToTick_eq: "roundToTick = roundToStep"
  by (simp add: fun_eq_iff roundToTick_def roundToStep_def)

text \<open>The two 20-digit neighbours of 0.99...9 (23 nines) are 0.99...9 (20 nines) and 1.\<close>

lemma nearest20_nines:
  assumes "nearest20 ((10 ^ 23 - 1) / 10 ^ 23) y"
  shows "y = 1"
proof -
  let ?x = "(10 ^ 23 - 1) / 10 ^ 23 :: rat"
  have near: "\<bar>y - ?x\<bar> \<le> \<bar>1 - ?x\<bar>" using assms dec20_1 unfolding nearest20_def by blast
  then have y: "(10 ^ 23 - 2) / 10 ^ 23 \<le> y" "y \<le> 1" by (simp_all add: abs_le_iff field_simps)
  obtain m e where m: "\<bar>m\<bar> < 10 ^ 20" "y = of_int m * 10 powi e"
    using nearest20_dec [OF assms] by (auto simp: dec20_def)
  show ?thesis
  proof (cases "- 20 \<le> e")
    case True
    then obtain n where n: "y = of_int n * (10 powi - 20 :: rat)" using dec20_grid m(2) by metis
    then have "(of_int n :: rat) \<le> 10 ^ 20" "(10 ^ 23 - 2) / 10 ^ 3 \<le> (of_int n :: rat)"
      using y by (simp_all add: power_int_minus field_simps)
    then have "(of_int n :: rat) \<le> of_int (10 ^ 20)" "(of_int (10 ^ 20 - 1) :: rat) < of_int n" by simp_all
    then have "n = 10 ^ 20" unfolding of_int_le_iff of_int_less_iff by linarith
    then show ?thesis by (simp add: n power_int_minus)
  next
    case False
    have "of_int \<bar>m\<bar> \<le> (of_int (10 ^ 20) :: rat)" using m(1) by (simp only: of_int_le_iff)
    then have "y \<le> 10 ^ 20 * 10 powi e"
      unfolding m(2) by (intro mult_right_mono) (simp_all add: abs_le_iff)
    also have "\<dots> \<le> 10 ^ 20 * 10 powi (- 21)" using False by (intro mult_left_mono power_int_increasing) simp_all
    also have "\<dots> < (10 ^ 23 - 2) / 10 ^ 23" by (simp add: power_int_minus)
    finally show ?thesis using y by simp
  qed
qed

section \<open>Properties\<close>

text \<open>
  C12. For a power-of-ten step and values of at most 20 significant digits the quantisers are exact: a
  quantity is floored to the largest multiple of the step not above it, a price to the largest multiple
  of its tick, the ceiling is the smallest multiple not below the value, and printing a floored
  value with the step's decimal places and parsing it again loses nothing.
\<close>
theorem quantise_exact:
  assumes "decimal_laws D val" "d_isFinite D v" "d_isFinite D step" "dec20 (val v)" "pow10 (val step)"
  shows "(\<exists>r. roundToStep D v step = Some r \<and> val r = floor_to (val step) (val v) \<and>
           val r \<le> val v \<and> val v - val step < val r \<and>
           (\<exists>d. d_new D (toFixedStep D r step) = Some d \<and> val d = val r)) \<and>
    (\<exists>r. roundToTick D v step = Some r \<and> val r = floor_to (val step) (val v) \<and>
           (\<exists>d. d_new D (toFixedStep D r step) = Some d \<and> val d = val r)) \<and>
    (\<exists>r. ceilToStep D v step = Some r \<and> val r = ceil_to (val step) (val v) \<and> val v \<le> val r)"
proof (rule conjI [OF _ conjI])
  have pos: "0 < val step" using assms(5) by (rule pow10_pos)
  obtain r where r: "roundToStep D v step = Some r" "d_isFinite D r" "val r = floor_to (val step) (val v)"
    using decimal_laws.roundToStep_val [OF assms] by blast
  then have "val r = of_int \<lfloor>val v / val step\<rfloor> * val step" by (simp add: floor_to_def)
  from decimal_laws.toFixedStep_grid [OF assms(1) r(2) assms(3,5) this]
  show "\<exists>r. roundToStep D v step = Some r \<and> val r = floor_to (val step) (val v) \<and>
           val r \<le> val v \<and> val v - val step < val r \<and>
           (\<exists>d. d_new D (toFixedStep D r step) = Some d \<and> val d = val r)"
    using r floor_to_le [OF pos] floor_to_gt [OF pos] by auto
  then show "\<exists>r. roundToTick D v step = Some r \<and> val r = floor_to (val step) (val v) \<and>
           (\<exists>d. d_new D (toFixedStep D r step) = Some d \<and> val d = val r)"
    unfolding roundToTick_eq by blast
  show "\<exists>r. ceilToStep D v step = Some r \<and> val r = ceil_to (val step) (val v) \<and> val v \<le> val r"
    using decimal_laws.ceilToStep_val [OF assms] ceil_to_ge [OF pos] by metis
qed

lemma dec_js_finite [simp]: "d_isFinite dec_js (Dec m s)"
  by (simp add: dec_js_def)

lemma dec20_Dec: "\<bar>m\<bar> < 10 ^ 20 \<Longrightarrow> dec20 (dval (Dec m s))"
  by (simp add: dec20_div10 dec20_int)

lemma pow10_Dec: "pow10 (dval (Dec 1 s))"
  unfolding pow10_def by (intro exI [of _ "- int s"]) (simp add: power_int_minus divide_inverse)

theorem quantise_exact_witness:
  "\<exists>r. roundToStep dec_js (Dec 123456 4) (Dec 1 2) = Some r \<and> dval r = 1234 / 100"
proof -
  have "\<lfloor>30864 / 25 :: rat\<rfloor> = 1234" by (rule floor_unique) simp_all
  then have "floor_to (dval (Dec 1 2)) (dval (Dec 123456 4)) = 1234 / 100" by (simp add: floor_to_def)
  moreover have "dec20 (dval (Dec 123456 4))" by (rule dec20_Dec) simp
  ultimately show ?thesis
    using quantise_exact [OF djs.decimal_laws_axioms dec_js_finite dec_js_finite _ pow10_Dec [of 2], THEN conjunct1] by metis
qed

text \<open>
  With more than 20 digits the floor is lost: the quotient is rounded before it is floored, so a value
  of 0.99...9 with 23 nines quantises to a whole step of 1, above the input.
\<close>
lemma round_to_step_exceeds:
  assumes "decimal_laws D val" "d_isFinite D v" "d_isFinite D step"
    and "val step = 1" "val v = (10 ^ 23 - 1) / 10 ^ 23"
  shows "\<exists>r. roundToStep D v step = Some r \<and> val v < val r"
proof -
  note div = decimal_laws.div [OF assms(1)] and fl = decimal_laws.floor [OF assms(1)]
  have q: "d_isFinite D (d_div D v step)" "nearest20 ((10 ^ 23 - 1) / 10 ^ 23) (val (d_div D v step))"
    using div [OF assms(2,3)] assms(4,5) by auto
  have "val (d_div D v step) = 1"
    by (rule nearest20_nines [OF q(2)])
  then have "val (d_floor D (d_div D v step)) = 1" using fl [OF q(1)] by simp
  with fl [OF q(1)] decimal_laws.times [OF assms(1) _ assms(3), of "d_floor D (d_div D v step)"]
  have "val (d_times D (d_floor D (d_div D v step)) step) = 1"
    using nearest20_exact assms(4) by auto
  then show ?thesis
    using assms decimal_laws.lte [OF assms(1)] decimal_laws.int_finite [OF assms(1)] decimal_laws.int_val [OF assms(1)]
    by (simp add: roundToStep_def)
qed

end
