(* ===== verification/Fill_Resolution.thy ===== *)
theory Fill_Resolution
  imports Money Contract
begin

text \<open>
  Folding exchange fills into a position, \<open>packages/strategy/core/src/fill-resolution.ts\<close>: the
  weighted-average entry price, the reduction by a sell, the classification of an unsellable
  remainder, and the realised profit of a sell.

  The outer option of a result is the exception of a malformed decimal string.
\<close>

record 'd raw_fill =
  rf_side :: order_side
  rf_price :: 'd
  rf_quantity :: 'd

definition CRUMB_RATIO :: "'d decimal_js \<Rightarrow> 'd" where
  "CRUMB_RATIO D = dlit D ''0.01''"

definition isBelowMinNotional :: "'d decimal_js \<Rightarrow> 'd \<Rightarrow> 'd option \<Rightarrow> 'd option \<Rightarrow> bool" where
  "isBelowMinNotional D quantity price minNotional =
     (case (minNotional, price) of
        (Some mn, Some p) \<Rightarrow>
          d_gt D mn (d_int D 0) \<and> d_gt D p (d_int D 0) \<and> d_lt D (d_times D quantity p) mn
      | _ \<Rightarrow> False)"

definition isUnsellableDust ::
  "'d decimal_js \<Rightarrow> 'd \<Rightarrow> 'd \<Rightarrow> 'd option \<Rightarrow> 'd option \<Rightarrow> 'd option \<Rightarrow> bool" where
  "isUnsellableDust D remaining priorQuantity price stepSize minNotional =
     (if d_lte D remaining (d_int D 0) then True
      else if (case stepSize of Some st \<Rightarrow> d_gt D st (d_int D 0) \<and> d_lt D remaining st | None \<Rightarrow> False) then True
      else let isCrumb = d_gt D priorQuantity (d_int D 0) \<and>
                         d_lt D (d_div D remaining priorQuantity) (CRUMB_RATIO D)
           in isCrumb \<and> isBelowMinNotional D remaining price minNotional)"

definition isValuelessResidue :: "'d decimal_js \<Rightarrow> 'd \<Rightarrow> 'd option \<Rightarrow> 'd option \<Rightarrow> bool" where
  "isValuelessResidue D quantity price minNotional =
     isBelowMinNotional D quantity price (map_option (\<lambda>mn. d_times D mn (CRUMB_RATIO D)) minNotional)"

text \<open>A decimal field of the prior view: absent and empty strings are falsy.\<close>

definition prior_field :: "'d decimal_js \<Rightarrow> string option \<Rightarrow> 'd option option" where
  "prior_field D v =
     (case v of
        None \<Rightarrow> Some None
      | Some s \<Rightarrow> if s = [] then Some None
                  else (case d_new D s of None \<Rightarrow> None | Some d \<Rightarrow> Some (Some d)))"

definition prior_quantity :: "'d decimal_js \<Rightarrow> position_view option \<Rightarrow> 'd option" where
  "prior_quantity D prior =
     (case prior_field D (Option.bind prior pv_heldQuantity) of
        None \<Rightarrow> None
      | Some None \<Rightarrow> Some (d_int D 0)
      | Some (Some d) \<Rightarrow> Some d)"

definition fold_buy :: "'d decimal_js \<Rightarrow> 'd \<Rightarrow> 'd option \<Rightarrow> 'd raw_fill \<Rightarrow> adopted_fill" where
  "fold_buy D prevQty prevLbp fill =
     (let nextQty = d_plus D prevQty (rf_quantity fill);
          nextLbp = (case prevLbp of
             Some lbp \<Rightarrow>
               if d_gt D prevQty (d_int D 0)
               then d_div D (d_plus D (d_times D lbp prevQty) (d_times D (rf_price fill) (rf_quantity fill))) nextQty
               else rf_price fill
           | None \<Rightarrow> rf_price fill)
      in FillBuy (d_toString D nextLbp) (d_toString D nextQty))"

definition fold_sell ::
  "'d decimal_js \<Rightarrow> 'd \<Rightarrow> 'd raw_fill \<Rightarrow> 'd option \<Rightarrow> 'd option \<Rightarrow> adopted_fill" where
  "fold_sell D prevQty fill stepSize minNotional =
     (let remaining = d_minus D prevQty (rf_quantity fill)
      in if isUnsellableDust D remaining prevQty (Some (rf_price fill)) stepSize minNotional
         then FillEmpty else FillSellReduce (d_toString D remaining))"

definition resolveFill ::
  "'d decimal_js \<Rightarrow> position_view option \<Rightarrow> 'd raw_fill \<Rightarrow> 'd option \<Rightarrow> 'd option \<Rightarrow> adopted_fill option" where
  "resolveFill D prior fill stepSize minNotional =
     (case (prior_quantity D prior, prior_field D (Option.bind prior pv_avgEntryPrice)) of
        (Some prevQty, Some prevLbp) \<Rightarrow>
          Some (if rf_side fill = BUY then fold_buy D prevQty prevLbp fill
                else fold_sell D prevQty fill stepSize minNotional)
      | _ \<Rightarrow> None)"

record realized_pnl =
  rp_realizedPnl :: string
  rp_costBasisQuote :: string

definition realizedPnlOnSell ::
  "'d decimal_js \<Rightarrow> position_view option \<Rightarrow> 'd \<Rightarrow> 'd \<Rightarrow> realized_pnl option option" where
  "realizedPnlOnSell D prior soldQty proceeds =
     (case (Option.bind prior pv_avgEntryPrice, Option.bind prior pv_heldQuantity) of
        (Some ap, Some hq) \<Rightarrow>
          if ap = [] \<or> hq = [] then Some None
          else (case (d_new D ap, d_new D hq) of
                  (Some avgEntry, Some heldBefore) \<Rightarrow>
                    if d_lte D heldBefore (d_int D 0) \<or> d_lte D soldQty (d_int D 0) then Some None
                    else (let matchedQty = d_min D soldQty heldBefore;
                              costBasisQuote = d_times D matchedQty avgEntry;
                              matchedProceeds = d_div D (d_times D proceeds matchedQty) soldQty
                          in Some (Some \<lparr>rp_realizedPnl = d_toString D (d_minus D matchedProceeds costBasisQuote),
                                         rp_costBasisQuote = d_toString D costBasisQuote\<rparr>))
                | _ \<Rightarrow> None)
      | _ \<Rightarrow> Some None)"

section \<open>Dust and averages\<close>

lemma frac_rearrange: "N / q * (c * c / d * e) = N * c * c / (q * d) * (e :: rat)"
  by (simp add: mult.assoc)

text \<open>
  A remainder that cannot be sold: nothing, less than one lot step, or under one percent of the position
  and worth less than one minimum order; the two products are judged with a relative margin \<open>k\<close>.
\<close>

definition unsellable_rest :: "rat \<Rightarrow> rat \<Rightarrow> rat \<Rightarrow> rat \<Rightarrow> rat option \<Rightarrow> rat option \<Rightarrow> bool" where
  "unsellable_rest k rem prev price step mn \<longleftrightarrow>
     rem \<le> 0 \<or> (\<exists>s. step = Some s \<and> rem < s) \<or>
     (0 < prev \<and> rem * (1 + k) < prev / 100 \<and> 0 < price \<and> (\<exists>m. mn = Some m \<and> 0 < m \<and> rem * price * (1 + k) < m))"

context decimal_laws
begin

lemma crumb_val: "d_isFinite D (CRUMB_RATIO D)" "val (CRUMB_RATIO D) = 1 / 100"
proof -
  have p: "plain_parse ''0.01'' = Some (1, 2)"
    by (simp add: plain_parse_def unsigned_parse_def digits_of_def digit_of_def num_of_def)
  show "d_isFinite D (CRUMB_RATIO D)" "val (CRUMB_RATIO D) = 1 / 100"
    using dlit_val [OF decimal_laws_axioms p] by (simp_all add: CRUMB_RATIO_def)
qed

lemma below_min_notional_sound:
  assumes "d_isFinite D q" "\<And>p. price = Some p \<Longrightarrow> d_isFinite D p"
    and "\<And>m. mn = Some m \<Longrightarrow> d_isFinite D m \<and> dec20 (val m)"
    and "isBelowMinNotional D q price mn"
  obtains p m where "price = Some p" "mn = Some m" "0 < val p" "val q * val p < val m"
proof -
  from assms(4) obtain p m where pm: "price = Some p" "mn = Some m" "d_gt D p (d_int D 0)" "d_lt D (d_times D q p) m"
    by (auto simp: isBelowMinNotional_def split: option.splits)
  note t = times [OF assms(1) assms(2) [OF pm(1)]]
  have m: "d_isFinite D m" "dec20 (val m)" using assms(3) pm(2) by auto
  have "val (d_times D q p) < val m" using pm(4) lt t m by blast
  then have "val q * val p < val m" using nearest20_ge t m by (meson not_le)
  moreover have "0 < val p" using pm(3) lt int_finite int_val assms(2) pm(1) by (metis of_int_0)
  ultimately show thesis using that pm by blast
qed

text \<open>Every position written off as dust is one, in exact arithmetic.\<close>

lemma dust_sound:
  assumes fin: "d_isFinite D rem" "d_isFinite D prior" "d_isFinite D p"
      "\<And>s. step = Some s \<Longrightarrow> d_isFinite D s" "\<And>m. mn = Some m \<Longrightarrow> d_isFinite D m \<and> dec20 (val m)"
    and dust: "isUnsellableDust D rem prior (Some p) step mn"
  shows "unsellable_rest 0 (val rem) (val prior) (val p) (map_option val step) (map_option val mn)"
proof (cases "val rem \<le> 0 \<or> (\<exists>s. step = Some s \<and> val rem < val s)")
  case False
  have crumb: "dec20 (1 / 100)" using dec20_div10 [OF dec20_1, of 2] by simp
  from False dust have c: "d_gt D prior (d_int D 0)" "d_lt D (d_div D rem prior) (CRUMB_RATIO D)"
    and b: "isBelowMinNotional D rem (Some p) mn"
    using lte [OF fin(1) int_finite] int_val lt [OF fin(1) fin(4)]
    by (auto simp: isUnsellableDust_def split: option.splits if_splits)
  have p0: "0 < val prior" using c(1) lt [OF int_finite fin(2)] int_val by simp
  note d = div [OF fin(1,2)]
  have "val (d_div D rem prior) < 1 / 100" using c(2) lt d p0 crumb_val by auto
  moreover have "nearest20 (val rem / val prior) (val (d_div D rem prior))" using d p0 by simp
  ultimately have "val rem / val prior < 1 / 100" using nearest20_ge [OF _ crumb] not_le by blast
  then have q: "val rem < val prior / 100" using p0 by (simp add: pos_divide_less_eq)
  obtain m where m: "mn = Some m" "d_gt D m (d_int D 0)" "d_gt D p (d_int D 0)"
    using b by (auto simp: isBelowMinNotional_def split: option.splits)
  have "val rem * val p < val m" using below_min_notional_sound [OF fin(1) _ fin(5) b] fin(3) m(1) by auto
  moreover have "0 < val m" "0 < val p" using m lt [OF int_finite] fin(3,5) int_val by auto
  ultimately show ?thesis using m(1) p0 q by (simp add: unsellable_rest_def)
qed (auto simp: unsellable_rest_def)

lemma dust_complete:
  assumes fin: "d_isFinite D rem" "d_isFinite D prior" "d_isFinite D p"
      "\<And>s. step = Some s \<Longrightarrow> d_isFinite D s" "\<And>m. mn = Some m \<Longrightarrow> d_isFinite D m"
    and dust: "unsellable_rest eps (val rem) (val prior) (val p) (map_option val step) (map_option val mn)"
  shows "isUnsellableDust D rem prior (Some p) step mn"
proof (cases "val rem \<le> 0 \<or> (\<exists>s. step = Some s \<and> val rem < val s)")
  case True
  then show ?thesis using lte [OF fin(1) int_finite] int_val lt [OF fin(1) fin(4)] lt [OF int_finite fin(4)]
    by (fastforce simp: isUnsellableDust_def split: option.splits)
next
  case False
  then have r0: "0 < val rem" by simp
  from False dust obtain m where prior: "0 < val prior" "val rem * (1 + eps) < val prior / 100"
    and m: "mn = Some m" "0 < val p" "0 < val m" "val rem * val p * (1 + eps) < val m"
    by (auto simp: unsellable_rest_def)
  have mf: "d_isFinite D m" using fin(5) m(1) .
  have d: "d_isFinite D (d_div D rem prior)" "nearest20 (val rem / val prior) (val (d_div D rem prior))" using div [OF fin(1,2)] prior(1) by auto
  have "val (d_div D rem prior) \<le> val rem / val prior * (1 + eps)" using nearest20_upper [OF d(2)] r0 prior(1) by simp
  also have "\<dots> < 1 / 100" using prior by (simp add: pos_divide_less_eq)
  finally have crumb: "d_lt D (d_div D rem prior) (CRUMB_RATIO D)" using lt [OF d(1)] crumb_val by simp
  have t: "d_isFinite D (d_times D rem p)" "nearest20 (val rem * val p) (val (d_times D rem p))" using times [OF fin(1,3)] by auto
  have "val (d_times D rem p) \<le> val rem * val p * (1 + eps)" using nearest20_upper [OF t(2)] r0 m(2) by simp
  then have "d_lt D (d_times D rem p) m" using lt [OF t(1) mf] m(4) by simp
  then have "isBelowMinNotional D rem (Some p) mn"
    using m(1-3) lt [OF int_finite mf] lt [OF int_finite fin(3)] int_val by (simp add: isBelowMinNotional_def)
  with crumb show ?thesis using prior(1) lt [OF int_finite fin(2)] int_val by (simp add: isUnsellableDust_def Let_def)
qed

lemma prior_quantity_some:
  assumes "prior_quantity D prior = Some q" "\<And>s d. d_new D s = Some d \<Longrightarrow> Option.bind prior pv_heldQuantity = Some s \<Longrightarrow> d_isFinite D d"
  shows "d_isFinite D q"
  using assms by (auto simp: prior_quantity_def prior_field_def int_finite split: option.splits if_splits)

lemma weighted_average_close:
  assumes fin: "d_isFinite D lbp" "d_isFinite D q1" "d_isFinite D p" "d_isFinite D q2"
    and pos: "0 \<le> val lbp" "0 < val q1" "0 \<le> val p" "0 \<le> val q2"
  defines "w \<equiv> (val lbp * val q1 + val p * val q2) / (val q1 + val q2)"
  defines "r \<equiv> d_div D (d_plus D (d_times D lbp q1) (d_times D p q2)) (d_plus D q1 q2)"
  shows "d_isFinite D r" "w * (1 - 10 * eps) \<le> val r" "val r \<le> w * (1 + 10 * eps)"
proof -
  let ?a = "val lbp * val q1" and ?b = "val p * val q2" and ?q = "val q1 + val q2"
  let ?A = "d_times D lbp q1" and ?B = "d_times D p q2" and ?Q = "d_plus D q1 q2"
  let ?S = "d_plus D ?A ?B"
  have ab: "0 \<le> ?a" "0 \<le> ?b" "0 < ?q" using pos by simp_all
  note A = times [OF fin(1,2)] and B = times [OF fin(3,4)] and Q = plus [OF fin(2,4)]
  have S: "d_isFinite D ?S" "nearest20 (val ?A + val ?B) (val ?S)" using plus A B by auto
  have Ql: "?q * (1 - eps) \<le> val ?Q" and Qu: "val ?Q \<le> ?q * (1 + eps)"
    using nearest20_lower [of ?q] nearest20_upper [of ?q] Q ab(3) by auto
  have "0 < ?q * (1 - eps)" using ab(3) by (intro mult_pos_pos) simp_all
  with Ql have Q0: "0 < val ?Q" by linarith
  have 1: "?a * (1 - eps) \<le> val ?A" "val ?A \<le> ?a * (1 + eps)" "?b * (1 - eps) \<le> val ?B" "val ?B \<le> ?b * (1 + eps)"
    using nearest20_lower nearest20_upper A B ab by auto
  then have 2: "(?a + ?b) * (1 - eps) \<le> val ?A + val ?B" "val ?A + val ?B \<le> (?a + ?b) * (1 + eps)"
    unfolding distrib_right by linarith+
  have "0 \<le> (?a + ?b) * (1 - eps)" using ab by (intro mult_nonneg_nonneg) simp_all
  with 2 have s0: "0 \<le> val ?A + val ?B" by linarith
  have 3: "(?a + ?b) * (1 - eps) * (1 - eps) \<le> val ?S" "val ?S \<le> (?a + ?b) * (1 + eps) * (1 + eps)"
    using nearest20_lower [OF S(2) s0] nearest20_upper [OF S(2) s0]
      mult_right_mono [OF 2(1), of "1 - eps"] mult_right_mono [OF 2(2), of "1 + eps"] by simp_all
  have "0 \<le> (?a + ?b) * (1 - eps) * (1 - eps)" using ab by (intro mult_nonneg_nonneg) simp_all
  with 3 have S0: "0 \<le> val ?S" by linarith
  have r: "d_isFinite D r" "nearest20 (val ?S / val ?Q) (val r)"
    using div [OF S(1), of ?Q] Q Q0 unfolding r_def by auto
  then show "d_isFinite D r" by simp
  have q0: "0 \<le> val ?S / val ?Q" using S0 Q0 by simp
  have lo: "(?a + ?b) * (1 - eps) * (1 - eps) / (?q * (1 + eps)) \<le> val ?S / val ?Q"
    using 3(1) Qu Q0 S0 ab by (intro frac_le) simp_all
  have hi: "val ?S / val ?Q \<le> (?a + ?b) * (1 + eps) * (1 + eps) / (?q * (1 - eps))"
    using 3(2) Ql Q0 S0 ab by (intro frac_le) simp_all
  have w0: "0 \<le> w" unfolding w_def using ab by simp
  have "w * (1 - 10 * eps) \<le> w * ((1 - eps) * (1 - eps) / (1 + eps) * (1 - eps))"
    using w0 by (intro mult_left_mono) simp_all
  also have "\<dots> = (?a + ?b) * (1 - eps) * (1 - eps) / (?q * (1 + eps)) * (1 - eps)" unfolding w_def by (rule frac_rearrange)
  also have "\<dots> \<le> val ?S / val ?Q * (1 - eps)" using lo by (rule mult_right_mono) simp
  also have "\<dots> \<le> val r" using nearest20_lower [OF r(2) q0] .
  finally show "w * (1 - 10 * eps) \<le> val r" .
  have "val r \<le> val ?S / val ?Q * (1 + eps)" using nearest20_upper [OF r(2) q0] .
  also have "\<dots> \<le> (?a + ?b) * (1 + eps) * (1 + eps) / (?q * (1 - eps)) * (1 + eps)" using hi by (rule mult_right_mono) simp
  also have "\<dots> = w * ((1 + eps) * (1 + eps) / (1 - eps) * (1 + eps))" unfolding w_def by (rule frac_rearrange [symmetric])
  also have "\<dots> \<le> w * (1 + 10 * eps)" using w0 by (intro mult_left_mono) simp_all
  finally show "val r \<le> w * (1 + 10 * eps)" .
qed

end

section \<open>Properties\<close>

text \<open>
  C14. Selling: for a prior position and a fill whose difference has at most 20 digits, a sell is either
  flattened or leaves exactly the difference, positive and readable from the stored string. It is
  flattened exactly when that remainder cannot be sold: it is not positive, below one lot step,
  or both under one percent of the position and worth less than one minimum order. The lot step is
  judged exactly; the last test may keep, never flatten, a remainder within one unit in the nineteenth digit of
  its boundary.
\<close>
theorem sell_fold_exact:
  assumes L: "decimal_laws D val"
    and prior: "prior_quantity D prior = Some prev" "d_isFinite D prev"
      "prior_field D (Option.bind prior pv_avgEntryPrice) \<noteq> None"
    and fill: "rf_side fill = SELL" "d_isFinite D (rf_quantity fill)" "d_isFinite D (rf_price fill)"
    and bounds: "\<And>s. step = Some s \<Longrightarrow> d_isFinite D s" "\<And>m. mn = Some m \<Longrightarrow> d_isFinite D m \<and> dec20 (val m)"
    and rem: "rem = val prev - val (rf_quantity fill)" "dec20 rem"
    and rest: "rest = (\<lambda>k. unsellable_rest k rem (val prev) (val (rf_price fill)) (map_option val step) (map_option val mn))"
  shows "(resolveFill D prior fill step mn = Some FillEmpty \<longrightarrow> rest 0) \<and>
    (rest eps \<longrightarrow> resolveFill D prior fill step mn = Some FillEmpty) \<and>
    (resolveFill D prior fill step mn \<noteq> Some FillEmpty \<longrightarrow>
           (\<exists>h d. resolveFill D prior fill step mn = Some (FillSellReduce h) \<and>
                  d_new D h = Some d \<and> val d = rem \<and> 0 < rem))"
proof (rule conjI [OF _ conjI])
  let ?r = "d_minus D prev (rf_quantity fill)"
  have r: "d_isFinite D ?r" "val ?r = rem"
    using decimal_laws.minus [OF L prior(2) fill(2)] nearest20_exact rem by auto
  have res: "resolveFill D prior fill step mn =
      Some (if isUnsellableDust D ?r prev (Some (rf_price fill)) step mn then FillEmpty else FillSellReduce (d_toString D ?r))"
    using prior fill(1) by (auto simp: resolveFill_def fold_sell_def Let_def split: option.splits)
  show "resolveFill D prior fill step mn = Some FillEmpty \<longrightarrow> rest 0"
    using decimal_laws.dust_sound [OF L r(1) prior(2) fill(3) bounds] by (simp add: res rest r(2))
  show "rest eps \<longrightarrow> resolveFill D prior fill step mn = Some FillEmpty"
    using decimal_laws.dust_complete [OF L r(1) prior(2) fill(3) bounds(1), where mn = mn] bounds(2) by (simp add: res rest r(2))
  have "\<not> isUnsellableDust D ?r prev (Some (rf_price fill)) step mn \<Longrightarrow> 0 < rem"
    using decimal_laws.lte [OF L r(1) decimal_laws.int_finite [OF L]] decimal_laws.int_val [OF L] r(2)
    by (simp add: isUnsellableDust_def split: if_splits)
  then show "resolveFill D prior fill step mn \<noteq> Some FillEmpty \<longrightarrow>
           (\<exists>h d. resolveFill D prior fill step mn = Some (FillSellReduce h) \<and>
                  d_new D h = Some d \<and> val d = rem \<and> 0 < rem)"
    using decimal_laws.toString [OF L r(1)] r(2) by (auto simp: res)
qed

definition example_prior :: "position_view option" where
  "example_prior = Some \<lparr>pv_avgEntryPrice = Some ''100'', pv_heldQuantity = Some ''10''\<rparr>"

lemma example_prior_fields:
  "prior_quantity dec_js example_prior = Some (Dec 10 0)"
  "prior_field dec_js (Option.bind example_prior pv_avgEntryPrice) = Some (Some (Dec 100 0))"
proof -
  have "plain_parse ''10'' = Some (10, 0)" "plain_parse ''100'' = Some (100, 0)"
    by (simp_all add: plain_parse_def unsigned_parse_def digits_of_def digit_of_def num_of_def)
  then show "prior_quantity dec_js example_prior = Some (Dec 10 0)"
    "prior_field dec_js (Option.bind example_prior pv_avgEntryPrice) = Some (Some (Dec 100 0))"
    by (simp_all add: prior_quantity_def prior_field_def example_prior_def dec_js_def)
qed

theorem sell_fold_exact_witness:
  "\<exists>h d. resolveFill dec_js example_prior \<lparr>rf_side = SELL, rf_price = Dec 90 0, rf_quantity = Dec 4 0\<rparr> (Some (Dec 1 2)) (Some (Dec 5 0))
       = Some (FillSellReduce h) \<and> d_new dec_js h = Some d \<and> dval d = 6"
proof -
  let ?f = "\<lparr>rf_side = SELL, rf_price = Dec 90 0, rf_quantity = Dec 4 0\<rparr>"
  note ex = sell_fold_exact [OF djs.decimal_laws_axioms example_prior_fields(1) _ _ _ _ _ _ _ refl _ refl,
      of ?f "Some (Dec 1 2)" "Some (Dec 5 0)"]
  have d: "dec20 6" "dec20 5" using dec20_int [of 6] dec20_int [of 5] by simp_all
  show ?thesis
    using conjunct1 [OF ex] conjunct2 [OF conjunct2 [OF ex]] d by (auto simp: example_prior_fields(2) unsellable_rest_def)
qed

text \<open>
  Buying: a fresh position takes the fill price as its entry price; adding to a position gives a new
  entry price within a relative 1e-18 of the quantity-weighted average of the old entry and the fill
  price, hence between the two prices up to that error, and the stored strings parse back.
\<close>
lemma buy_fold_average:
  assumes L: "decimal_laws D val"
    and prior: "prior_quantity D prior = Some prev" "d_isFinite D prev"
      "prior_field D (Option.bind prior pv_avgEntryPrice) = Some (Some lbp)" "d_isFinite D lbp"
    and fill: "rf_side fill = BUY" "d_isFinite D (rf_quantity fill)" "d_isFinite D (rf_price fill)"
    and pos: "0 \<le> val lbp" "0 \<le> val prev" "0 \<le> val (rf_price fill)" "0 < val (rf_quantity fill)"
    and w: "w = (val lbp * val prev + val (rf_price fill) * val (rf_quantity fill)) / (val prev + val (rf_quantity fill))"
  shows "(\<exists>a h x y. resolveFill D prior fill step mn = Some (FillBuy a h) \<and>
           d_new D a = Some x \<and> d_new D h = Some y \<and>
           nearest20 (val prev + val (rf_quantity fill)) (val y) \<and>
           w * (1 - 10 * eps) \<le> val x \<and> val x \<le> w * (1 + 10 * eps)) \<and>
    (min (val lbp) (val (rf_price fill)) \<le> w \<and> w \<le> max (val lbp) (val (rf_price fill)))"
proof (rule conjI)
  let ?q2 = "val (rf_quantity fill)" and ?p = "val (rf_price fill)"
  let ?Q = "d_plus D prev (rf_quantity fill)"
  have Q: "d_isFinite D ?Q" "nearest20 (val prev + ?q2) (val ?Q)" using decimal_laws.plus [OF L prior(2) fill(2)] by auto
  have gt: "d_gt D prev (d_int D 0) \<longleftrightarrow> 0 < val prev"
    using decimal_laws.lt [OF L decimal_laws.int_finite [OF L] prior(2)] decimal_laws.int_val [OF L] by simp
  obtain r where r: "resolveFill D prior fill step mn = Some (FillBuy (d_toString D r) (d_toString D ?Q))"
    and rf: "d_isFinite D r" "w * (1 - 10 * eps) \<le> val r" "val r \<le> w * (1 + 10 * eps)"
  proof (cases "0 < val prev")
    case True
    note c = decimal_laws.weighted_average_close [OF L prior(4,2) fill(3,2) pos(1) True pos(3) less_imp_le [OF pos(4)], folded w]
    show ?thesis
      by (rule that [OF _ c]) (use prior fill(1) gt True in \<open>simp add: resolveFill_def fold_buy_def Let_def\<close>)
  next
    case False
    then have "val prev = 0" using pos(2) by simp
    then have "w = ?p" using pos(4) by (simp add: w)
    then have "w * (1 - 10 * eps) \<le> ?p" "?p \<le> w * (1 + 10 * eps)" using pos(3) by simp_all
    then show ?thesis
      by (intro that [OF _ fill(3)]) (use prior fill(1) gt False in \<open>simp_all add: resolveFill_def fold_buy_def Let_def\<close>)
  qed
  show "\<exists>a h x y. resolveFill D prior fill step mn = Some (FillBuy a h) \<and>
           d_new D a = Some x \<and> d_new D h = Some y \<and> nearest20 (val prev + ?q2) (val y) \<and>
           w * (1 - 10 * eps) \<le> val x \<and> val x \<le> w * (1 + 10 * eps)"
    using r rf decimal_laws.toString [OF L rf(1)] decimal_laws.toString [OF L Q(1)] Q(2) by metis
  have "min (val lbp) ?p * (val prev + ?q2) \<le> val lbp * val prev + ?p * ?q2"
    "val lbp * val prev + ?p * ?q2 \<le> max (val lbp) ?p * (val prev + ?q2)"
    unfolding distrib_left using pos by (intro add_mono mult_right_mono; simp)+
  then show "min (val lbp) ?p \<le> w \<and> w \<le> max (val lbp) ?p"
    using pos by (simp add: w pos_le_divide_eq pos_divide_le_eq)
qed

text \<open>
  The cost and the profit of a sell of \<open>sold\<close> coins for \<open>proceeds\<close> out of a position of \<open>held\<close>: only the
  matched quantity counts, and each operation is rounded once.
\<close>

definition pnl_spec :: "rat \<Rightarrow> rat \<Rightarrow> rat \<Rightarrow> rat \<Rightarrow> rat \<Rightarrow> rat \<Rightarrow> bool" where
  "pnl_spec held avg sold proceeds cost pnl \<longleftrightarrow>
     nearest20 (min sold held * avg) cost \<and>
     (\<exists>t m. nearest20 (proceeds * min sold held) t \<and> nearest20 (t / sold) m \<and> nearest20 (m - cost) pnl)"

context decimal_laws
begin

lemma pnl_parts:
  assumes f: "d_isFinite D avg" "d_isFinite D held" "d_isFinite D sold" "d_isFinite D proceeds" and s0: "val sold \<noteq> 0"
  defines "c \<equiv> d_times D (d_min D sold held) avg"
  defines "x \<equiv> d_minus D (d_div D (d_times D proceeds (d_min D sold held)) sold) c"
  shows "d_isFinite D c" "d_isFinite D x" "pnl_spec (val held) (val avg) (val sold) (val proceeds) (val c) (val x)"
proof -
  let ?m = "d_min D sold held"
  have m: "d_isFinite D ?m" "val ?m = min (val sold) (val held)" using min [OF f(3,2)] by auto
  note c = times [OF m(1) f(1), folded c_def] and t = times [OF f(4) m(1)]
  have q: "d_isFinite D (d_div D (d_times D proceeds ?m) sold)"
      "nearest20 (val (d_times D proceeds ?m) / val sold) (val (d_div D (d_times D proceeds ?m) sold))"
    using div [OF _ f(3) s0] t by auto
  have x: "d_isFinite D x" "nearest20 (val (d_div D (d_times D proceeds ?m) sold) - val c) (val x)"
    using minus [OF q(1)] c unfolding x_def by auto
  show "d_isFinite D c" "d_isFinite D x" "pnl_spec (val held) (val avg) (val sold) (val proceeds) (val c) (val x)"
    using c t q x m(2) by (auto simp: pnl_spec_def)
qed

end

text \<open>
  Realised profit: no number is booked without a known cost basis and a positive position and sale;
  otherwise the cost removed is the entry price times the matched quantity, which never exceeds the
  position, and the proceeds are taken pro rata, so coins sold beyond the position add neither cost
  nor proceeds.
\<close>
lemma realized_pnl_capped:
  assumes L: "decimal_laws D val" and fin: "d_isFinite D sold" "d_isFinite D proceeds" "d_isFinite D avg" "d_isFinite D held"
    and prior: "a \<noteq> []" "h \<noteq> []" "d_new D a = Some avg" "d_new D h = Some held"
  shows "((0 < val held \<and> 0 < val sold) \<longrightarrow>
           (\<exists>r c x. realizedPnlOnSell D (Some \<lparr>pv_avgEntryPrice = Some a, pv_heldQuantity = Some h\<rparr>) sold proceeds = Some (Some r) \<and>
              d_new D (rp_costBasisQuote r) = Some c \<and> d_new D (rp_realizedPnl r) = Some x \<and>
              pnl_spec (val held) (val avg) (val sold) (val proceeds) (val c) (val x))) \<and>
    (\<not> (0 < val held \<and> 0 < val sold) \<longrightarrow>
           realizedPnlOnSell D (Some \<lparr>pv_avgEntryPrice = Some a, pv_heldQuantity = Some h\<rparr>) sold proceeds = Some None) \<and>
    ((\<forall>v. prior = Some v \<longrightarrow> pv_avgEntryPrice v \<in> {None, Some []} \<or> pv_heldQuantity v \<in> {None, Some []}) \<longrightarrow>
           realizedPnlOnSell D prior sold proceeds = Some None)"
proof (rule conjI [OF _ conjI])
  note lte = decimal_laws.lte [OF L] and z = decimal_laws.int_finite [OF L] decimal_laws.int_val [OF L]
  note pn = decimal_laws.pnl_parts [OF L fin(3,4,1,2)]
  show "(0 < val held \<and> 0 < val sold) \<longrightarrow>
           (\<exists>r c x. realizedPnlOnSell D (Some \<lparr>pv_avgEntryPrice = Some a, pv_heldQuantity = Some h\<rparr>) sold proceeds = Some (Some r) \<and>
              d_new D (rp_costBasisQuote r) = Some c \<and> d_new D (rp_realizedPnl r) = Some x \<and>
              pnl_spec (val held) (val avg) (val sold) (val proceeds) (val c) (val x))"
    using pn decimal_laws.toString [OF L pn(1)] decimal_laws.toString [OF L pn(2)] prior lte [OF fin(4) z(1)] lte [OF fin(1) z(1)] z(2)
    by (fastforce simp: realizedPnlOnSell_def Let_def)
  show "\<not> (0 < val held \<and> 0 < val sold) \<longrightarrow>
           realizedPnlOnSell D (Some \<lparr>pv_avgEntryPrice = Some a, pv_heldQuantity = Some h\<rparr>) sold proceeds = Some None"
    using prior lte [OF fin(4) z(1)] lte [OF fin(1) z(1)] z(2) by (auto simp: realizedPnlOnSell_def)
  show "(\<forall>v. prior = Some v \<longrightarrow> pv_avgEntryPrice v \<in> {None, Some []} \<or> pv_heldQuantity v \<in> {None, Some []}) \<longrightarrow>
           realizedPnlOnSell D prior sold proceeds = Some None"
    by (cases prior) (auto simp: realizedPnlOnSell_def split: option.splits)
qed

end
