(* ===== verification/Sizing.thy ===== *)
theory Sizing
  imports Money Contract
begin

text \<open>
  Order sizing, \<open>packages/strategy/core/src/sizing.ts\<close>: the exchange filters of a symbol, the shared
  epilogue that rejects an order below the exchange minimums, and the entry gate that refuses a buy
  whose protective stop could not be sold later.

  The outer option of a result is an exception of the grid functions.
\<close>

record 'd size_filters =
  fl_step :: 'd
  fl_minQty :: 'd
  fl_minNotional :: 'd
  fl_tick :: "'d option"

record 'd entry_stop_floor =
  es_distanceFraction :: 'd
  es_limitOffset :: 'd

definition ENTRY_FEE_MARGIN :: "'d decimal_js \<Rightarrow> 'd" where
  "ENTRY_FEE_MARGIN D = dlit D ''0.001''"

definition ONE :: "'d decimal_js \<Rightarrow> 'd" where
  "ONE D = d_int D 1"

definition parseTick :: "'d decimal_js \<Rightarrow> string \<Rightarrow> 'd option" where
  "parseTick D tickSize =
     (case d_new D tickSize of
        None \<Rightarrow> None
      | Some tick \<Rightarrow> if d_gt D tick (d_int D 0) then Some tick else None)"

definition parseFilters :: "'d decimal_js \<Rightarrow> symbol_filters \<Rightarrow> 'd size_filters option" where
  "parseFilters D filters =
     (case (d_new D (sf_stepSize filters), d_new D (sf_minQty filters), d_new D (sf_minNotional filters)) of
        (Some step, Some minQty, Some minNotional) \<Rightarrow>
          if d_lte D step (d_int D 0) then None
          else Some \<lparr>fl_step = step, fl_minQty = minQty, fl_minNotional = minNotional,
                     fl_tick = parseTick D (sf_tickSize filters)\<rparr>
      | _ \<Rightarrow> None)"

datatype finalised = Sized string | SkipMinQty | SkipMinNotional

definition finalise :: "'d decimal_js \<Rightarrow> 'd \<Rightarrow> 'd \<Rightarrow> 'd size_filters \<Rightarrow> finalised" where
  "finalise D quantity price filters =
     (if d_lte D quantity (d_int D 0) \<or> d_lt D quantity (fl_minQty filters) then SkipMinQty
      else if \<not> meetsMinNotional D quantity price (fl_minNotional filters) then SkipMinNotional
      else Sized (toFixedStep D quantity (fl_step filters)))"

definition minSellableQuantityAtStop ::
  "'d decimal_js \<Rightarrow> 'd size_filters \<Rightarrow> 'd \<Rightarrow> 'd option option" where
  "minSellableQuantityAtStop D filters stopPrice =
     (if d_lte D stopPrice (d_int D 0) then Some None
      else map_option Some
        (ceilToStep D
           (d_div D
              (d_plus D (d_max D (fl_minQty filters) (d_div D (fl_minNotional filters) stopPrice)) (fl_step filters))
              (d_minus D (ONE D) (ENTRY_FEE_MARGIN D)))
           (fl_step filters)))"

definition minSellableHeldQuantity ::
  "'d decimal_js \<Rightarrow> 'd size_filters \<Rightarrow> 'd \<Rightarrow> 'd option option" where
  "minSellableHeldQuantity D filters stopPrice =
     (if d_lte D stopPrice (d_int D 0) then Some None
      else map_option (\<lambda>c. Some (d_max D (fl_minQty filters) c))
             (ceilToStep D (d_div D (fl_minNotional filters) stopPrice) (fl_step filters)))"

definition sellableAtStop :: "'d decimal_js \<Rightarrow> 'd \<Rightarrow> 'd \<Rightarrow> 'd size_filters \<Rightarrow> bool option" where
  "sellableAtStop D quantity stopPrice filters =
     (case roundToStep D quantity (fl_step filters) of
        None \<Rightarrow> None
      | Some q \<Rightarrow> Some (case finalise D q stopPrice filters of Sized _ \<Rightarrow> True | _ \<Rightarrow> False))"

datatype 'd entry_gate = EntryQuantity 'd | EntryBelowStopNotional | EntryInvalidFilters

definition applyEntryStopFloor ::
  "'d decimal_js \<Rightarrow> 'd \<Rightarrow> 'd \<Rightarrow> 'd size_filters \<Rightarrow> 'd entry_stop_floor option \<Rightarrow> 'd entry_gate option" where
  "applyEntryStopFloor D quantity price filters stop =
     (case stop of
        None \<Rightarrow> Some (EntryQuantity quantity)
      | Some st \<Rightarrow>
          (case fl_tick filters of
             None \<Rightarrow> Some EntryInvalidFilters
           | Some tick \<Rightarrow>
               if d_lte D tick (d_int D 0) then Some EntryInvalidFilters
               else (case roundToTick D (d_times D price (d_minus D (ONE D) (es_distanceFraction st))) tick of
                       None \<Rightarrow> None
                     | Some trigger \<Rightarrow>
                         (case roundToTick D (d_times D trigger (es_limitOffset st)) tick of
                            None \<Rightarrow> None
                          | Some stopPrice \<Rightarrow>
                              (case minSellableQuantityAtStop D filters stopPrice of
                                 None \<Rightarrow> None
                               | Some None \<Rightarrow> Some EntryInvalidFilters
                               | Some (Some fl) \<Rightarrow>
                                   if d_gte D quantity fl then Some (EntryQuantity quantity)
                                   else Some EntryBelowStopNotional)))))"

text \<open>The stop price the gate checks an entry against.\<close>

definition entry_stop_price ::
  "'d decimal_js \<Rightarrow> 'd \<Rightarrow> 'd \<Rightarrow> 'd entry_stop_floor \<Rightarrow> 'd option" where
  "entry_stop_price D price tick st =
     (case roundToTick D (d_times D price (d_minus D (ONE D) (es_distanceFraction st))) tick of
        None \<Rightarrow> None
      | Some trigger \<Rightarrow> roundToTick D (d_times D trigger (es_limitOffset st)) tick)"

lemma applyEntryStopFloor_price:
  assumes "fl_tick f = Some tick" "\<not> d_lte D tick (d_int D 0)" "entry_stop_price D price tick st = Some p"
  shows "applyEntryStopFloor D q price f (Some st) =
    (case minSellableQuantityAtStop D f p of
       None \<Rightarrow> None
     | Some None \<Rightarrow> Some EntryInvalidFilters
     | Some (Some fl) \<Rightarrow> if d_gte D q fl then Some (EntryQuantity q) else Some EntryBelowStopNotional)"
  using assms by (auto simp: applyEntryStopFloor_def entry_stop_price_def split: option.splits)

section \<open>The entry gate against the later sell\<close>

lemma multiple_gap:
  fixes g :: rat
  assumes "0 < g" "a = of_int i * g" "b = of_int j * g" "b - g < a"
  shows "b \<le> a"
proof -
  from assms(4) have "(of_int j - 1) * g < of_int i * g" unfolding assms(2,3) by (simp add: left_diff_distrib)
  then have "(of_int (j - 1) :: rat) < of_int i" using assms(1) by (simp add: mult_less_cancel_right)
  then have "j \<le> i" unfolding of_int_less_iff by linarith
  then show ?thesis using assms(1) unfolding assms(2,3) by (intro mult_right_mono) simp_all
qed

context decimal_laws
begin

lemma literals:
  shows "d_isFinite D (ONE D)" "val (ONE D) = 1"
    and "d_isFinite D (ENTRY_FEE_MARGIN D)" "val (ENTRY_FEE_MARGIN D) = 1 / 1000"
proof -
  have p: "plain_parse ''0.001'' = Some (1, 3)"
    by (simp add: plain_parse_def unsigned_parse_def digits_of_def digit_of_def num_of_def)
  show "d_isFinite D (ENTRY_FEE_MARGIN D)" "val (ENTRY_FEE_MARGIN D) = 1 / 1000"
    using dlit_val [OF decimal_laws_axioms p] by (simp_all add: ENTRY_FEE_MARGIN_def)
qed (simp_all add: ONE_def int_finite int_val)

lemma surviving_fraction:
  "d_isFinite D (d_minus D (ONE D) (ENTRY_FEE_MARGIN D)) \<and> val (d_minus D (ONE D) (ENTRY_FEE_MARGIN D)) = 999 / 1000"
proof -
  have "dec20 (999 / 1000)" using dec20_div10 [OF dec20_int [of 999], of 3] by simp
  with minus [OF literals(1,3)] nearest20_exact show ?thesis by (fastforce simp: literals)
qed

text \<open>The floor of the gate, from below.\<close>

lemma gate_floor_lower:
  assumes fin: "d_isFinite D p" "d_isFinite D (fl_minQty f)" "d_isFinite D (fl_minNotional f)" "d_isFinite D (fl_step f)"
    and pos: "0 < val p" "0 \<le> val (fl_minQty f)" "0 \<le> val (fl_minNotional f)" and step: "pow10 (val (fl_step f))"
    and fl: "minSellableQuantityAtStop D f p = Some (Some fl)"
  shows "d_isFinite D fl \<and>
    (max (val (fl_minQty f)) (val (fl_minNotional f) / val p) + val (fl_step f)) * (1 - 3 * eps) \<le> 999 / 1000 * val fl"
proof -
  let ?M = "val (fl_minQty f)" and ?X = "max (val (fl_minQty f)) (val (fl_minNotional f) / val p)" and ?s = "val (fl_step f)"
  let ?a = "d_div D (fl_minNotional f) p"
  let ?b = "d_plus D (d_max D (fl_minQty f) ?a) (fl_step f)"
  let ?c = "d_div D ?b (d_minus D (ONE D) (ENTRY_FEE_MARGIN D))"
  have s: "0 < ?s" using step by (rule pow10_pos)
  have a: "d_isFinite D ?a" "nearest20 (val (fl_minNotional f) / val p) (val ?a)" using div [OF fin(3,1)] pos by auto
  have m: "d_isFinite D (d_max D (fl_minQty f) ?a)" "val (d_max D (fl_minQty f) ?a) = max ?M (val ?a)"
    using max [OF fin(2) a(1)] by auto
  have b: "d_isFinite D ?b" "nearest20 (max ?M (val ?a) + ?s) (val ?b)" using plus [OF m(1) fin(4)] m(2) by auto
  have c: "d_isFinite D ?c" "nearest20 (val ?b / (999 / 1000)) (val ?c)"
    using div [OF b(1), of "d_minus D (ONE D) (ENTRY_FEE_MARGIN D)"] surviving_fraction by auto
  obtain r where r: "ceilToStep D ?c (fl_step f) = Some r" "d_isFinite D r" "val r = ceil_to ?s (val ?c)"
    using ceilToStep_val [OF c(1) fin(4) nearest20_dec [OF c(2)] step] by blast
  then have fl': "fl = r" using fl by (auto simp: minSellableQuantityAtStop_def split: if_splits)
  have cr: "val ?c \<le> val fl" using ceil_to_ge [OF s] by (simp add: fl' r)
  have X0: "0 \<le> ?X" using pos by simp
  have "?X * (1 - eps) \<le> max ?M (val ?a)"
  proof (cases "?M \<le> val (fl_minNotional f) / val p")
    case True
    then show ?thesis using nearest20_lower [OF a(2)] pos by (simp add: max_def)
  next
    case False
    then have "?X * (1 - eps) \<le> ?M" using pos by (simp add: max_def right_diff_distrib)
    then show ?thesis by linarith
  qed
  then have 1: "(?X + ?s) * (1 - eps) \<le> max ?M (val ?a) + ?s" using s by (simp add: distrib_right right_diff_distrib) 
  have "0 \<le> (?X + ?s) * (1 - eps)" using X0 s by (intro mult_nonneg_nonneg) simp_all
  with 1 have b0: "0 \<le> max ?M (val ?a) + ?s" by linarith
  have "(?X + ?s) * (1 - eps) * (1 - eps) \<le> (max ?M (val ?a) + ?s) * (1 - eps)" using 1 by (rule mult_right_mono) simp
  also have "\<dots> \<le> val ?b" using nearest20_lower [OF b(2) b0] .
  finally have 2: "(?X + ?s) * (1 - eps) * (1 - eps) \<le> val ?b" .
  have "0 \<le> (?X + ?s) * (1 - eps) * (1 - eps)" using X0 s by (intro mult_nonneg_nonneg) simp_all
  with 2 have bb: "0 \<le> val ?b" by linarith
  have "(?X + ?s) * (1 - 3 * eps) \<le> (?X + ?s) * ((1 - eps) * (1 - eps) * (1 - eps))"
    using X0 s by (intro mult_left_mono) (simp_all add: power_divide)
  also have "\<dots> \<le> val ?b * (1 - eps)" using mult_right_mono [OF 2, of "1 - eps"] by (simp add: mult.assoc)
  also have "\<dots> \<le> 999 / 1000 * val ?c" using nearest20_lower [OF c(2)] bb by simp
  also have "\<dots> \<le> 999 / 1000 * val fl" using cr by simp
  finally show ?thesis using r(2) fl' by simp
qed

lemma finalise_sized:
  assumes "d_isFinite D q" "d_isFinite D p" "d_isFinite D (fl_minQty f)" "d_isFinite D (fl_minNotional f)"
    and "dec20 (val (fl_minNotional f))"
    and "0 < val q" "val (fl_minQty f) \<le> val q" "val (fl_minNotional f) \<le> val q * val p"
  shows "finalise D q p f = Sized (toFixedStep D q (fl_step f))"
proof -
  have "val (fl_minNotional f) \<le> val (d_times D q p)" "d_isFinite D (d_times D q p)"
    using times [OF assms(1,2)] nearest20_ge assms(5,8) by auto
  then show ?thesis
    using assms by (simp add: finalise_def meetsMinNotional_def lt lte int_finite int_val not_less)
qed

text \<open>A quantity rounded down from a base and then sized is backed by that base.\<close>

lemma finalise_backed:
  assumes "d_isFinite D base" "d_isFinite D (fl_step f)" "d_isFinite D (fl_minQty f)" "dec20 (val base)" "pow10 (val (fl_step f))"
    and "roundToStep D base (fl_step f) = Some q" "finalise D q price f = Sized s"
  shows "\<exists>d. d_new D s = Some d \<and> 0 < val d \<and> val d \<le> val base"
proof -
  have q: "d_isFinite D q" "val q = floor_to (val (fl_step f)) (val base)"
    using roundToStep_val [OF assms(1,2,4,5)] assms(6) by auto
  then have m: "val q = of_int \<lfloor>val base / val (fl_step f)\<rfloor> * val (fl_step f)" by (simp add: floor_to_def)
  have "s = toFixedStep D q (fl_step f)" "\<not> d_lte D q (d_int D 0)"
    using assms(7) by (auto simp: finalise_def split: if_splits)
  moreover have "val q \<le> val base" using q(2) floor_to_le [OF pow10_pos [OF assms(5)]] by simp
  ultimately show ?thesis
    using toFixedStep_grid [OF q(1) assms(2,5) m] lte [OF q(1) int_finite] int_val by fastforce
qed

lemma entry_stop_price_grid:
  assumes "d_isFinite D price" "d_isFinite D tick" "d_isFinite D (es_distanceFraction st)" "d_isFinite D (es_limitOffset st)"
    and "pow10 (val tick)"
  shows "\<exists>p k. entry_stop_price D price tick st = Some p \<and> d_isFinite D p \<and> val p = of_int k * val tick"
proof -
  have 1: "d_isFinite D (d_minus D (ONE D) (es_distanceFraction st))" using minus literals assms by blast
  have 2: "d_isFinite D (d_times D price (d_minus D (ONE D) (es_distanceFraction st)))"
    "dec20 (val (d_times D price (d_minus D (ONE D) (es_distanceFraction st))))"
    using times [OF assms(1) 1] nearest20_dec by auto
  obtain t where t: "roundToTick D (d_times D price (d_minus D (ONE D) (es_distanceFraction st))) tick = Some t" "d_isFinite D t"
    using roundToStep_val [OF 2(1) assms(2) 2(2) assms(5)] by (auto simp: roundToTick_eq)
  have 3: "d_isFinite D (d_times D t (es_limitOffset st))" "dec20 (val (d_times D t (es_limitOffset st)))"
    using times [OF t(2) assms(4)] nearest20_dec by auto
  show ?thesis
    using roundToStep_val [OF 3(1) assms(2) 3(2) assms(5)] t(1)
    by (auto simp: entry_stop_price_def roundToTick_eq floor_to_def)
qed

text \<open>
  The step-rounded remainder of an admitted entry after a fee of at most a thousandth: above the
  exchange minimums at a stop price on the tick grid, when the amounts stay clear of the 20-digit
  precision.
\<close>

lemma admitted_remainder:
  fixes f :: "'d size_filters" and p fl h :: 'd and tk :: rat
  defines "X \<equiv> max (val (fl_minQty f)) (val (fl_minNotional f) / val p)"
  assumes fin: "d_isFinite D p" "d_isFinite D (fl_minQty f)" "d_isFinite D (fl_minNotional f)" "d_isFinite D (fl_step f)"
    and pos: "0 < val p" "0 < val (fl_minQty f)" "0 \<le> val (fl_minNotional f)" "0 < tk"
    and step: "pow10 (val (fl_step f))"
    and grid: "val (fl_minQty f) = of_int i * val (fl_step f)" "val p = of_int k * tk"
      "val (fl_minNotional f) = of_int j * (val (fl_step f) * tk)"
    and prec: "3 * (X + val (fl_step f)) * val p \<le> 10 ^ 19 * (val (fl_step f) * tk)"
    and fl: "minSellableQuantityAtStop D f p = Some (Some fl)" and h: "999 / 1000 * val fl \<le> val h"
    and r: "r = floor_to (val (fl_step f)) (val h)"
  shows "val (fl_minQty f) \<le> r" "val (fl_minNotional f) \<le> r * val p" "0 < r"
proof -
  let ?s = "val (fl_step f)"
  have s: "0 < ?s" using step by (rule pow10_pos)
  have lo: "(X + ?s) * (1 - 3 * eps) \<le> val h"
    using gate_floor_lower [OF fin pos(1) less_imp_le [OF pos(2)] pos(3) step fl] h unfolding X_def by linarith
  have "val h - ?s < r" unfolding r by (rule floor_to_gt [OF s])
  moreover have "(X + ?s) * (1 - 3 * eps) = X + ?s - 3 * eps * (X + ?s)"
    unfolding right_diff_distrib mult_1_right by (simp only: mult.commute)
  ultimately have gap: "X - 3 * eps * (X + ?s) < r" using lo by linarith
  have rm: "r = of_int \<lfloor>val h / ?s\<rfloor> * ?s" by (simp add: r floor_to_def)
  have ep: "3 * eps * (X + ?s) * val p \<le> ?s * tk" using prec by simp
  have "(of_int k :: rat) * tk > 0" using pos(1) grid(2) by simp
  then have "0 < k" using pos(4) by (simp add: zero_less_mult_iff)
  then have "(1 :: rat) \<le> of_int k" by simp
  then have "1 * tk \<le> of_int k * tk" using pos(4) by (intro mult_right_mono) simp_all
  then have tp: "tk \<le> val p" by (simp add: grid(2))
  have "3 * eps * (X + ?s) * val p \<le> ?s * val p" using ep mult_left_mono [OF tp, of ?s] s by linarith
  then have es: "3 * eps * (X + ?s) \<le> ?s" using pos(1) by (rule mult_right_le_imp_le)
  have XM: "val (fl_minQty f) \<le> X" and XN: "val (fl_minNotional f) \<le> X * val p"
    using pos(1) by (simp_all add: X_def max_def field_simps)
  show M: "val (fl_minQty f) \<le> r"
    by (rule multiple_gap [OF s rm grid(1)]) (use gap es XM in linarith)
  have "X * val p - 3 * eps * (X + ?s) * val p < r * val p"
    using mult_strict_right_mono [OF gap pos(1)] by (simp only: left_diff_distrib)
  then have "val (fl_minNotional f) - ?s * tk < r * val p" using ep XN by linarith
  moreover have "r * val p = of_int (\<lfloor>val h / ?s\<rfloor> * k) * (?s * tk)" by (simp add: rm grid(2))
  ultimately show "val (fl_minNotional f) \<le> r * val p"
    using multiple_gap [of "?s * tk"] grid(3) s pos(4) by (metis mult_pos_pos)
  show "0 < r" using M pos(2) by linarith
qed

end

section \<open>Properties\<close>

text \<open>
  The epilogue is exact at the exchange minimums: an order is sized only when it is positive and at
  least the minimum quantity, and, for a minimum of at most 20 digits, always when it also reaches
  the minimum value; the string it carries then parses back to the very quantity on the step grid.
\<close>
lemma finalise_exact:
  assumes L: "decimal_laws D val" and fin: "d_isFinite D q" "d_isFinite D p" "d_isFinite D (fl_minQty f)"
      "d_isFinite D (fl_minNotional f)" "d_isFinite D (fl_step f)"
    and "dec20 (val (fl_minNotional f))" "pow10 (val (fl_step f))" "val q = of_int m * val (fl_step f)"
  shows "((0 < val q \<and> val (fl_minQty f) \<le> val q \<and> val (fl_minNotional f) \<le> val q * val p) \<longrightarrow>
           (\<exists>s d. finalise D q p f = Sized s \<and> d_new D s = Some d \<and> val d = val q)) \<and>
    (finalise D q p f = Sized s \<longrightarrow> 0 < val q \<and> val (fl_minQty f) \<le> val q) \<and>
    (finalise D q p f = SkipMinNotional \<longrightarrow> val q * val p < val (fl_minNotional f))"
proof (rule conjI [OF _ conjI])
  show "(0 < val q \<and> val (fl_minQty f) \<le> val q \<and> val (fl_minNotional f) \<le> val q * val p) \<longrightarrow>
           (\<exists>s d. finalise D q p f = Sized s \<and> d_new D s = Some d \<and> val d = val q)"
    using decimal_laws.finalise_sized [OF L fin(1-4) assms(7)]
      decimal_laws.toFixedStep_grid [OF L fin(1,5) assms(8,9)] by metis
  show "finalise D q p f = Sized s \<longrightarrow> 0 < val q \<and> val (fl_minQty f) \<le> val q"
    using fin decimal_laws.lt [OF L] decimal_laws.lte [OF L] decimal_laws.int_finite [OF L] decimal_laws.int_val [OF L]
    by (auto simp: finalise_def not_less split: if_splits)
  show "finalise D q p f = SkipMinNotional \<longrightarrow> val q * val p < val (fl_minNotional f)"
  proof (rule impI, rule ccontr)
    assume s: "finalise D q p f = SkipMinNotional" and "\<not> val q * val p < val (fl_minNotional f)"
    then have "val (fl_minNotional f) \<le> val (d_times D q p)"
      using decimal_laws.times [OF L fin(1,2)] nearest20_ge [OF _ assms(7)] by auto
    with s show False
      using fin decimal_laws.lte [OF L] decimal_laws.times [OF L fin(1,2)]
      by (auto simp: finalise_def meetsMinNotional_def split: if_splits)
  qed
qed

text \<open>
  C13. What the entry gate promises: an entry it admits stays sellable at its protective stop. Whatever the
  buy fee takes, up to a thousandth, the step-rounded remainder passes the exchange minimums at the
  very stop price the gate computed, on the exchange's price grid. Amounts have to stay clear of the
  20-digit precision, which the last hypothesis states.
\<close>
theorem admitted_entry_is_sellable:
  fixes D :: "'d decimal_js"
  assumes L: "decimal_laws D val"
    and gate: "applyEntryStopFloor D quantity price f (Some st) = Some (EntryQuantity q')" and tick: "fl_tick f = Some tick"
    and fin: "d_isFinite D quantity" "d_isFinite D price" "d_isFinite D tick" "d_isFinite D (es_distanceFraction st)"
      "d_isFinite D (es_limitOffset st)" "d_isFinite D (fl_minQty f)" "d_isFinite D (fl_minNotional f)" "d_isFinite D (fl_step f)"
    and grids: "pow10 (val tick)" "pow10 (val (fl_step f))" "val (fl_minQty f) = of_int i * val (fl_step f)"
      "val (fl_minNotional f) = of_int j * (val (fl_step f) * val tick)" "dec20 (val (fl_minNotional f))"
    and pos: "0 < val (fl_minQty f)" "0 \<le> val (fl_minNotional f)"
    and h: "d_isFinite D h" "dec20 (val h)" "999 / 1000 * val quantity \<le> val h"
    and p: "entry_stop_price D price tick st = Some p"
    and prec: "3 * (max (val (fl_minQty f)) (val (fl_minNotional f) / val p) + val (fl_step f)) * val p \<le> 10 ^ 19 * (val (fl_step f) * val tick)"
  shows "sellableAtStop D h p f = Some True"
proof -
  obtain k where pf: "d_isFinite D p" "val p = of_int k * val tick"
    using decimal_laws.entry_stop_price_grid [OF L fin(2,3,4,5) grids(1)] p by auto
  note lte = decimal_laws.lte [OF L] and int = decimal_laws.int_finite [OF L] decimal_laws.int_val [OF L]
  obtain fl where fl: "minSellableQuantityAtStop D f p = Some (Some fl)" and ge: "d_gte D quantity fl"
    using gate p tick by (auto simp: applyEntryStopFloor_def entry_stop_price_def split: option.splits if_splits)
  have p0: "0 < val p" using fl lte [OF pf(1) int(1)] int(2) by (auto simp: minSellableQuantityAtStop_def not_le split: if_splits)
  have "d_isFinite D fl"
    using decimal_laws.gate_floor_lower [OF L pf(1) fin(6,7,8) p0 less_imp_le [OF pos(1)] pos(2) grids(2) fl] by blast
  then have "val fl \<le> val quantity" using ge lte fin(1) by blast
  then have hf: "999 / 1000 * val fl \<le> val h" using h(3) by linarith
  obtain r where r: "roundToStep D h (fl_step f) = Some r" "d_isFinite D r" "val r = floor_to (val (fl_step f)) (val h)"
    using decimal_laws.roundToStep_val [OF L h(1) fin(8) h(2) grids(2)] by blast
  note rem = decimal_laws.admitted_remainder [OF L pf(1) fin(6,7,8) p0 pos pow10_pos [OF grids(1)] grids(2,3) pf(2) grids(4) prec fl hf r(3)]
  show ?thesis
    using decimal_laws.finalise_sized [OF L r(2) pf(1) fin(6,7) grids(5) rem(3,1,2)] r(1)
    by (simp add: sellableAtStop_def)
qed

definition example_filters :: "dec size_filters" where
  "example_filters = \<lparr>fl_step = Dec 1 2, fl_minQty = Dec 1 1, fl_minNotional = Dec 8 0, fl_tick = Some (Dec 1 2)\<rparr>"

definition example_stop :: "dec entry_stop_floor" where
  "example_stop = \<lparr>es_distanceFraction = Dec 2 1, es_limitOffset = Dec 1 0\<rparr>"

lemma example_price: "entry_stop_price dec_js (Dec 100 0) (Dec 1 2) example_stop = Some (Dec 80000000000000000000 18)"
  by code_simp

lemma example_floor:
  "minSellableQuantityAtStop dec_js example_filters (Dec 80000000000000000000 18) = Some (Some (Dec 12000000000000000000 20))"
  by code_simp

theorem admitted_entry_is_sellable_witness:
  "sellableAtStop dec_js (Dec 999 2) (Dec 80000000000000000000 18) example_filters = Some True"
proof (rule admitted_entry_is_sellable [OF djs.decimal_laws_axioms _ _ _ _ _ _ _ _ _ _ _ _ _ _ _ _ _ _ _ _ example_price])
  show "applyEntryStopFloor dec_js (Dec 10 0) (Dec 100 0) example_filters (Some example_stop) = Some (EntryQuantity (Dec 10 0))"
    by (subst applyEntryStopFloor_price [OF _ _ example_price])
       (simp_all add: example_floor, simp_all add: example_filters_def dec_js_def)
  show "dval (fl_minQty example_filters) = of_int 10 * dval (fl_step example_filters)"
    "dval (fl_minNotional example_filters) = of_int 80000 * (dval (fl_step example_filters) * dval (Dec 1 2))"
    by (simp_all add: example_filters_def)
  show "dec20 (dval (Dec 999 2))" by (rule dec20_Dec) simp
  have "dec20 (dval (Dec 8 0))" by (rule dec20_Dec) simp
  then show "dec20 (dval (fl_minNotional example_filters))" by (simp add: example_filters_def)
qed (use pow10_Dec [of 2] in \<open>simp_all add: example_filters_def example_stop_def max_def\<close>)

end
