(* ===== verification/Balances.thy ===== *)
theory Balances
  imports Money Contract
begin

text \<open>
  The strategies' view of the wallet, \<open>packages/strategy/core/src/balances.ts\<close>.

  A balance leg reaches a strategy as a decimal or as the raw wire string, and the code passes both
  through \<open>new Decimal\<close>: \<open>amount\<close> keeps the two apart. Where \<open>new Decimal\<close> may throw, the outer
  option is the exception; the inner option of \<open>freeBalance\<close> is \<open>undefined\<close>.
\<close>

datatype 'd amount = AmountDec 'd | AmountStr string

record 'd balance =
  bl_free :: "'d amount"
  bl_locked :: "'d amount"

record 'd account_snapshot =
  ac_balances :: "string \<Rightarrow> 'd balance option"
  ac_readable :: bool
  ac_deployedQuoteAcrossProfiles :: json

fun amount_dec :: "'d decimal_js \<Rightarrow> 'd amount \<Rightarrow> 'd option" where
  "amount_dec D (AmountDec d) = Some d"
| "amount_dec D (AmountStr s) = d_new D s"

fun decOrNull :: "'d decimal_js \<Rightarrow> json \<Rightarrow> 'd option" where
  "decOrNull D (JStr s) =
     (if s = [] then None
      else case d_new D s of None \<Rightarrow> None | Some d \<Rightarrow> if d_isFinite D d then Some d else None)"
| "decOrNull D (JNum n) = (let d = d_num D n in if d_isFinite D d then Some d else None)"
| "decOrNull D _ = None"

definition equity_cash :: "'d decimal_js \<Rightarrow> 'd balance option \<Rightarrow> 'd" where
  "equity_cash D bal =
     (case bal of
        None \<Rightarrow> d_int D 0
      | Some b \<Rightarrow>
          (case (amount_dec D (bl_free b), amount_dec D (bl_locked b)) of
             (Some f, Some l) \<Rightarrow> d_plus D f l
           | _ \<Rightarrow> d_int D 0))"

definition accountEquity :: "'d decimal_js \<Rightarrow> 'd account_snapshot \<Rightarrow> string \<Rightarrow> 'd" where
  "accountEquity D account quoteAsset =
     d_plus D (equity_cash D (ac_balances account quoteAsset))
       (case decOrNull D (ac_deployedQuoteAcrossProfiles account) of Some d \<Rightarrow> d | None \<Rightarrow> d_int D 0)"

definition freeBalance :: "'d decimal_js \<Rightarrow> 'd account_snapshot \<Rightarrow> string \<Rightarrow> 'd option option" where
  "freeBalance D account asset =
     (if \<not> ac_readable account then Some None
      else case ac_balances account asset of
             None \<Rightarrow> Some (Some (d_int D 0))
           | Some line \<Rightarrow> (case amount_dec D (bl_free line) of None \<Rightarrow> None | Some f \<Rightarrow> Some (Some f)))"

record 'd sizable_base =
  sb_free :: "'d option"
  sb_reclaimable :: 'd

definition sizableBase ::
  "'d decimal_js \<Rightarrow> 'd account_snapshot \<Rightarrow> string \<Rightarrow> 'd \<Rightarrow> 'd sizable_base option" where
  "sizableBase D account asset ownLocked =
     (case freeBalance D account asset of
        None \<Rightarrow> None
      | Some free \<Rightarrow>
          (case (case ac_balances account asset of
                   None \<Rightarrow> Some (d_int D 0)
                 | Some line \<Rightarrow> amount_dec D (bl_locked line)) of
             None \<Rightarrow> None
           | Some walletLocked \<Rightarrow>
               Some \<lparr>sb_free = free, sb_reclaimable = d_min D ownLocked walletLocked\<rparr>))"

text \<open>A finite leg: a finite decimal, or a string that parses to one.\<close>

definition leg_value :: "'d decimal_js \<Rightarrow> ('d \<Rightarrow> rat) \<Rightarrow> 'd amount \<Rightarrow> rat \<Rightarrow> bool" where
  "leg_value D val a x \<longleftrightarrow> (\<exists>d. amount_dec D a = Some d \<and> d_isFinite D d \<and> val d = x)"

section \<open>Properties\<close>

text \<open>
  The base a sell may be sized against: an unreadable wallet is unknown, an absent asset of a readable
  wallet is a known zero, a present one is its free amount; and the credit for the bot's own resting
  order never exceeds what the wallet reports as locked, so an order the wallet no longer backs is
  not credited.
\<close>
lemma sizable_base_trusts_wallet:
  assumes "decimal_laws D val" "d_isFinite D own"
    and "\<And>line. ac_balances acc asset = Some line \<Longrightarrow>
           leg_value D val (bl_free line) free \<and> leg_value D val (bl_locked line) locked"
  shows "\<exists>b. sizableBase D acc asset own = Some b \<and>
           (sb_free b = None \<longleftrightarrow> \<not> ac_readable acc) \<and>
           (\<forall>f. sb_free b = Some f \<longrightarrow> val f = (if ac_balances acc asset = None then 0 else free)) \<and>
           val (sb_reclaimable b) = min (val own) (if ac_balances acc asset = None then 0 else locked)"
  using assms(2,3) decimal_laws.int_finite [OF assms(1)] decimal_laws.int_val [OF assms(1)]
    decimal_laws.min [OF assms(1)]
  by (cases "ac_balances acc asset")
     (auto simp: sizableBase_def freeBalance_def leg_value_def split: option.splits)

end
