(* ===== verification/Protective_Stop.thy ===== *)
theory Protective_Stop
  imports Sizing Balances "HOL-Library.Monad_Syntax"
begin

text \<open>
  The exchange-side protective stop, first half of \<open>packages/strategy/core/src/protective-stop.ts\<close>: which
  of our orders rest, what base a stop may use, whether the exchange's price band and trailing bounds
  accept it, and when a resting stop has to be replaced. The arm that combines them is in the theory
  \<open>Protective_Stop_Arm\<close>.

  The band and the trailing bounds come from an unvalidated cache, so they are \<open>json\<close> values and every
  read of them is defensive, as in the source.
\<close>

definition safeDecimal :: "'d decimal_js \<Rightarrow> string option \<Rightarrow> 'd option" where
  "safeDecimal D v = (case v of None \<Rightarrow> None | Some s \<Rightarrow> d_new D s)"

definition unfilledQuantity :: "'d decimal_js \<Rightarrow> open_order \<Rightarrow> 'd option" where
  "unfilledQuantity D ord =
     (case safeDecimal D (Some (oo_origQty ord)) of
        None \<Rightarrow> None
      | Some orig \<Rightarrow>
          Some (d_minus D orig
            (case safeDecimal D (Some (oo_executedQty ord)) of Some e \<Rightarrow> e | None \<Rightarrow> d_int D 0)))"

definition own_turn :: "'d decimal_js \<Rightarrow> string \<Rightarrow> string \<Rightarrow> 'd \<Rightarrow> open_order \<Rightarrow> 'd" where
  "own_turn D ourClientOrderId symbol acc ord =
     (if oo_symbol ord \<noteq> symbol \<or> oo_clientOrderId ord \<noteq> ourClientOrderId \<or> \<not> isRestingSell ord then acc
      else case unfilledQuantity D ord of
             None \<Rightarrow> acc
           | Some remaining \<Rightarrow> if d_gt D remaining (d_int D 0) then d_plus D acc remaining else acc)"

definition ownRestingSellBase :: "'d decimal_js \<Rightarrow> open_order list \<Rightarrow> string \<Rightarrow> string \<Rightarrow> 'd" where
  "ownRestingSellBase D openOrders ourClientOrderId symbol =
     foldl (own_turn D ourClientOrderId symbol) (d_int D 0) openOrders"

definition findForeignRestingSell :: "open_order list \<Rightarrow> string \<Rightarrow> string \<Rightarrow> open_order option" where
  "findForeignRestingSell openOrders ourClientOrderId symbol =
     List.find (\<lambda>ord. oo_symbol ord = symbol \<and> isRestingSell ord \<and> oo_clientOrderId ord \<noteq> ourClientOrderId) openOrders"

definition armableBaseQuantity :: "'d decimal_js \<Rightarrow> 'd \<Rightarrow> 'd option \<Rightarrow> 'd \<Rightarrow> 'd" where
  "armableBaseQuantity D held free ownLocked =
     (case free of None \<Rightarrow> held | Some f \<Rightarrow> d_min D held (d_plus D f ownLocked))"

section \<open>Refusals\<close>

datatype blocker_reason =
    BaseLockedByForeignOrder
  | BaseBelowExchangeMinimum
  | BaseShortOfTrackedPosition
  | PriceOutsideExchangeBand
  | RestingStopShortOfPosition

record blocker =
  bk_reason :: blocker_reason
  bk_detail :: "(string \<times> json) list"

definition classifyProtectiveStopRefusal ::
  "'d decimal_js \<Rightarrow> string \<Rightarrow> open_order list \<Rightarrow> string \<Rightarrow> 'd \<Rightarrow> string \<Rightarrow> 'd \<Rightarrow> blocker" where
  "classifyProtectiveStopRefusal D symbol openOrders ourClientOrderId free required available =
     (let base = [(''symbol'', JStr symbol), (''required'', JStr required),
                  (''free'', JStr (d_toString D free)), (''available'', JStr (d_toString D available))]
      in case findForeignRestingSell openOrders ourClientOrderId symbol of
           Some foreign \<Rightarrow>
             \<lparr>bk_reason = BaseLockedByForeignOrder,
              bk_detail = base @ [(''foreignClientOrderId'', JStr (oo_clientOrderId foreign)),
                                  (''foreignOrderId'', JNum (JsNum (of_int (oo_orderId foreign))))]\<rparr>
         | None \<Rightarrow>
             if d_lte D available (d_int D 0)
             then \<lparr>bk_reason = BaseShortOfTrackedPosition, bk_detail = base\<rparr>
             else \<lparr>bk_reason = BaseBelowExchangeMinimum, bk_detail = base\<rparr>)"

section \<open>The price band\<close>

fun positiveDecimal :: "'d decimal_js \<Rightarrow> json \<Rightarrow> 'd option" where
  "positiveDecimal D (JStr s) =
     (case safeDecimal D (Some s) of
        None \<Rightarrow> None
      | Some p \<Rightarrow> if d_isFinite D p \<and> d_gt D p (d_int D 0) then Some p else None)"
| "positiveDecimal D _ = None"

definition maxStopDistancePct :: "'d decimal_js \<Rightarrow> json \<Rightarrow> 'd \<Rightarrow> 'd option" where
  "maxStopDistancePct D band limitOffset =
     (if \<not> is_object band then None
      else if \<not> d_isFinite D limitOffset \<or> d_lte D limitOffset (d_int D 0) then None
      else case positiveDecimal D (jget band ''askMultiplierDown'') of
             None \<Rightarrow> None
           | Some down \<Rightarrow> Some (d_minus D (d_int D 1) (d_div D down limitOffset)))"

record desired_stop =
  ds_stopPrice :: string
  ds_price :: string
  ds_quantity :: string

definition opt_str :: "string option \<Rightarrow> json" where
  "opt_str v = (case v of None \<Rightarrow> JNull | Some s \<Rightarrow> JStr s)"

text \<open>\<open>belowFloor\<close> and \<open>aboveCeiling\<close> of one stop.\<close>

definition band_breach ::
  "'d decimal_js \<Rightarrow> 'd option \<Rightarrow> 'd option \<Rightarrow> 'd \<Rightarrow> 'd \<Rightarrow> bool \<times> bool" where
  "band_breach D fl ceil stopPrice price =
     ((case fl of None \<Rightarrow> False | Some f \<Rightarrow> d_lt D price f),
      (case ceil of None \<Rightarrow> False | Some c \<Rightarrow> d_gt D stopPrice c \<or> d_gt D price c))"

definition band_detail ::
  "'d decimal_js \<Rightarrow> string \<Rightarrow> string \<Rightarrow> json \<Rightarrow> desired_stop \<Rightarrow> bool \<Rightarrow> 'd \<Rightarrow> 'd \<Rightarrow> 'd \<Rightarrow> 'd option \<Rightarrow> 'd option
     \<Rightarrow> 'd option \<Rightarrow> bool \<Rightarrow> (string \<times> json) list" where
  "band_detail D symbol reference band desired guarded ref stopPrice price down fl ceil belowFloor =
     (let ratio = d_div D price stopPrice;
          maxDistance = maxStopDistancePct D band ratio;
          required = d_minus D (d_int D 1) (d_div D stopPrice ref)
      in [(''symbol'', JStr symbol), (''stopPrice'', JStr (ds_stopPrice desired)), (''price'', JStr (ds_price desired)),
          (''reference'', JStr reference),
          (''floor'', opt_str (map_option (d_toFixedAll D) fl)),
          (''ceiling'', opt_str (map_option (d_toFixedAll D) ceil)),
          (''askMultiplierDown'', jget band ''askMultiplierDown''),
          (''askMultiplierUp'', jget band ''askMultiplierUp''),
          (''avgPriceMins'', jget band ''avgPriceMins''),
          (''limitOffsetRatio'', JStr (d_toString D (d_toDecimalPlaces D ratio 6))),
          (''maxStopDistancePct'', opt_str (map_option (\<lambda>m. d_toString D (d_toDecimalPlaces D m 6)) maxDistance)),
          (''requiredStopDistancePct'', JStr (d_toString D (d_toDecimalPlaces D required 6))),
          (''terminal'', JBool (belowFloor \<and> (case down of None \<Rightarrow> False | Some d \<Rightarrow> d_lte D ratio d))),
          (''bound'', JStr (if belowFloor then ''floor'' else ''ceiling'')),
          (''guarded'', JBool guarded)])"

definition percentPriceBySideRefusal ::
  "'d decimal_js \<Rightarrow> string \<Rightarrow> string \<Rightarrow> json \<Rightarrow> desired_stop \<Rightarrow> bool \<Rightarrow> blocker option" where
  "percentPriceBySideRefusal D symbol reference band desired guarded =
     (if \<not> is_object band then None
      else case (positiveDecimal D (JStr reference), positiveDecimal D (JStr (ds_stopPrice desired)),
                 positiveDecimal D (JStr (ds_price desired))) of
             (Some ref, Some stopPrice, Some price) \<Rightarrow>
               (let down = positiveDecimal D (jget band ''askMultiplierDown'');
                    up = positiveDecimal D (jget band ''askMultiplierUp'');
                    fl = map_option (d_times D ref) down;
                    ceil = map_option (d_times D ref) up;
                    (belowFloor, aboveCeiling) = band_breach D fl ceil stopPrice price
                in if \<not> belowFloor \<and> \<not> aboveCeiling then None
                   else Some \<lparr>bk_reason = PriceOutsideExchangeBand,
                              bk_detail = band_detail D symbol reference band desired guarded ref stopPrice price
                                            down fl ceil belowFloor\<rparr>)
           | _ \<Rightarrow> None)"

definition EXCHANGE_FLOOR_MARGIN :: "'d decimal_js \<Rightarrow> 'd" where
  "EXCHANGE_FLOOR_MARGIN D = dlit D ''1.01''"

definition clampStopToExchangeFloor ::
  "'d decimal_js \<Rightarrow> 'd option \<Rightarrow> string \<Rightarrow> json \<Rightarrow> 'd \<Rightarrow> 'd option \<times> bool" where
  "clampStopToExchangeFloor D stop reference band limitOffset =
     (case stop of
        None \<Rightarrow> (stop, False)
      | Some s \<Rightarrow>
          if \<not> is_object band then (stop, False)
          else if \<not> d_isFinite D limitOffset \<or> d_lte D limitOffset (d_int D 0) then (stop, False)
          else (case (positiveDecimal D (JStr reference), positiveDecimal D (jget band ''askMultiplierDown'')) of
                  (Some ref, Some down) \<Rightarrow>
                    (let fl = d_times D (d_div D (d_times D ref down) limitOffset) (EXCHANGE_FLOOR_MARGIN D)
                     in if \<not> d_lt D fl ref \<or> d_gte D s fl then (stop, False) else (Some fl, True))
                | _ \<Rightarrow> (stop, False)))"

section \<open>The native trailing stop\<close>

definition BIPS_PER_UNIT :: "'d decimal_js \<Rightarrow> 'd" where
  "BIPS_PER_UNIT D = d_int D 10000"

text \<open>The rounded number of basis points is whole, so it is read as an integer.\<close>

definition nativeTrailingDelta :: "'d decimal_js \<Rightarrow> 'd \<Rightarrow> json \<Rightarrow> int option" where
  "nativeTrailingDelta D stopDistancePct filt =
     (if \<not> is_object filt then None
      else case (json_int (jget filt ''minTrailingBelowDelta''), json_int (jget filt ''maxTrailingBelowDelta'')) of
             (Some mn, Some mx) \<Rightarrow>
               if \<not> d_isFinite D stopDistancePct \<or> d_lte D stopDistancePct (d_int D 0) \<or> d_gte D stopDistancePct (d_int D 1)
               then None
               else (let bips = \<lfloor>d_toNumber D (d_toDecimalPlaces D (d_times D stopDistancePct (BIPS_PER_UNIT D)) 0)\<rfloor>
                     in if mn \<le> bips \<and> bips \<le> mx then Some bips else None)
           | _ \<Rightarrow> None)"

section \<open>Re-arming\<close>

definition MIN_STOP_DRIFT :: "'d decimal_js \<Rightarrow> 'd" where
  "MIN_STOP_DRIFT D = dlit D ''0.001''"

definition MIN_QTY_DRIFT :: "'d decimal_js \<Rightarrow> 'd" where
  "MIN_QTY_DRIFT D = dlit D ''0.01''"

definition CLAMPED_STOP_DRIFT :: "'d decimal_js \<Rightarrow> 'd" where
  "CLAMPED_STOP_DRIFT D = dlit D ''0.01''"

definition clampedStopDrift :: "'d decimal_js \<Rightarrow> 'd option \<Rightarrow> 'd" where
  "clampedStopDrift D operatorBand =
     (case operatorBand of None \<Rightarrow> CLAMPED_STOP_DRIFT D | Some b \<Rightarrow> d_max D b (CLAMPED_STOP_DRIFT D))"

text \<open>The size test, after the order type and the trigger agree.\<close>

definition quantity_drifted :: "'d decimal_js \<Rightarrow> open_order \<Rightarrow> string \<Rightarrow> bool option" where
  "quantity_drifted D resting desiredQuantity =
     (case safeDecimal D (Some (oo_origQty resting)) of
        None \<Rightarrow> Some False
      | Some orig \<Rightarrow>
          (let restingQty = d_minus D orig
             (case safeDecimal D (Some (oo_executedQty resting)) of Some e \<Rightarrow> e | None \<Rightarrow> d_int D 0)
           in do {
             desiredQty \<leftarrow> d_new D desiredQuantity;
             Some (d_gte D (d_abs D (d_minus D restingQty desiredQty)) (d_times D desiredQty (MIN_QTY_DRIFT D)))
           }))"

definition protectiveStopNeedsRearm ::
  "'d decimal_js \<Rightarrow> open_order \<Rightarrow> string \<Rightarrow> string \<Rightarrow> 'd option \<Rightarrow> int option \<Rightarrow> bool option" where
  "protectiveStopNeedsRearm D resting desiredStopPrice desiredQuantity minStopDrift desiredTrailingDelta =
     (let drift = (case minStopDrift of Some d \<Rightarrow> d | None \<Rightarrow> MIN_STOP_DRIFT D)
      in case desiredTrailingDelta of
           Some delta \<Rightarrow>
             if oo_trailingDelta resting \<noteq> Some delta then Some True
             else quantity_drifted D resting desiredQuantity
         | None \<Rightarrow>
             if oo_trailingDelta resting \<noteq> None then Some True
             else (case safeDecimal D (oo_stopPrice resting) of
                     None \<Rightarrow> Some False
                   | Some restingStop \<Rightarrow> do {
                       desiredStop \<leftarrow> d_new D desiredStopPrice;
                       if d_gte D (d_abs D (d_minus D restingStop desiredStop)) (d_times D desiredStop drift)
                       then Some True
                       else quantity_drifted D resting desiredQuantity
                     }))"

definition findRestingProtectiveStop :: "open_order list \<Rightarrow> string \<Rightarrow> open_order option" where
  "findRestingProtectiveStop openOrders ourClientOrderId =
     List.find (\<lambda>ord. oo_clientOrderId ord = ourClientOrderId \<and> isRestingSell ord) openOrders"

definition GUARDING_STATUSES :: "string list" where
  "GUARDING_STATUSES = [''NEW'', ''PARTIALLY_FILLED'']"

definition stillGuarding :: "'d decimal_js \<Rightarrow> open_order option \<Rightarrow> string \<Rightarrow> bool" where
  "stillGuarding D resting desiredQuantity =
     (case resting of
        None \<Rightarrow> False
      | Some ord \<Rightarrow>
          if \<not> List.member GUARDING_STATUSES (toUpperCase (oo_status ord)) then False
          else (case (safeDecimal D (Some (oo_origQty ord)), safeDecimal D (Some desiredQuantity),
                      safeDecimal D (Some (oo_executedQty ord))) of
                  (Some orig, Some desired, Some executed) \<Rightarrow>
                    d_gt D desired (d_int D 0) \<and>
                    d_gte D (d_minus D orig executed)
                      (d_times D desired (d_minus D (d_int D 1) (MIN_QTY_DRIFT D)))
                | _ \<Rightarrow> False))"

section \<open>Values under the laws\<close>

lemma positiveDecimal_Some:
  "positiveDecimal D j = Some p \<longleftrightarrow> (\<exists>s. j = JStr s \<and> d_new D s = Some p \<and> d_isFinite D p \<and> d_gt D p (d_int D 0))"
  by (cases "(D, j)" rule: positiveDecimal.cases) (auto simp: safeDecimal_def split: option.splits)

context decimal_laws
begin

lemma positiveDecimal_pos: "positiveDecimal D j = Some p \<Longrightarrow> d_isFinite D p \<and> 0 < val p"
  using lt [OF int_finite, of p 0] by (auto simp: positiveDecimal_Some int_val)

lemma literals:
  "d_isFinite D (EXCHANGE_FLOOR_MARGIN D)" "val (EXCHANGE_FLOOR_MARGIN D) = 101 / 100"
  "d_isFinite D (MIN_QTY_DRIFT D)" "val (MIN_QTY_DRIFT D) = 1 / 100"
  using dlit_val [OF decimal_laws_axioms, of "''1.01''" 101 2] dlit_val [OF decimal_laws_axioms, of "''0.01''" 1 2]
  by (simp_all add: EXCHANGE_FLOOR_MARGIN_def MIN_QTY_DRIFT_def
        plain_parse_def unsigned_parse_def digits_of_def digit_of_def num_of_def)

text \<open>The raised trigger, and that its limit leg clears the exchange floor.\<close>

lemma raised_floor:
  assumes fin: "d_isFinite D ref" "d_isFinite D down" "d_isFinite D lo" and pos: "0 < val ref" "0 < val down" "0 < val lo"
  defines "f \<equiv> d_times D (d_div D (d_times D ref down) lo) (EXCHANGE_FLOOR_MARGIN D)"
  shows "d_isFinite D f" "val ref * val down \<le> val f * val lo"
proof -
  let ?a = "d_times D ref down" and ?b = "d_div D (d_times D ref down) lo"
  note a = times [OF fin(1,2)]
  have b: "d_isFinite D ?b" "nearest20 (val ?a / val lo) (val ?b)" using div [OF conjunct1 [OF a] fin(3)] pos(3) by auto
  have f: "d_isFinite D f" "nearest20 (val ?b * (101 / 100)) (val f)"
    using times [OF b(1) literals(1)] literals(2) by (auto simp: f_def)
  show "d_isFinite D f" by (rule f(1))
  let ?x = "val ref * val down" and ?k = "1 - eps"
  have k: "0 \<le> ?k" "1 \<le> ?k * ?k * ?k * (101 / 100)" by simp_all
  have x: "0 \<le> ?x" using pos(1,2) by simp
  have a': "?x * ?k \<le> val ?a" by (rule nearest20_lower [OF conjunct2 [OF a] x])
  have a0: "0 \<le> val ?a" using a' mult_nonneg_nonneg [OF x k(1)] by (rule order_trans [rotated])
  have "val ?a / val lo * ?k \<le> val ?b" using a0 pos(3) by (intro nearest20_lower [OF b(2)]) simp
  then have "val ?a / val lo * ?k * val lo \<le> val ?b * val lo" using pos(3) by (intro mult_right_mono) simp_all
  then have b': "val ?a * ?k \<le> val ?b * val lo" using pos(3) by simp
  have b0: "0 \<le> val ?b"
    using b' mult_nonneg_nonneg [OF a0 k(1)] pos(3) by (metis order_trans zero_le_mult_iff not_less)
  have "val ?b * (101 / 100) * ?k \<le> val f" using b0 by (intro nearest20_lower [OF f(2)]) simp
  then have c: "val ?b * (101 / 100) * ?k * val lo \<le> val f * val lo" using pos(3) by (intro mult_right_mono) simp_all
  have "?x \<le> ?x * (?k * ?k * ?k * (101 / 100))" using mult_left_mono [OF k(2) x] by simp
  also have "\<dots> = (?x * ?k) * ?k * (?k * (101 / 100))" by (simp only: mult.assoc)
  also have "\<dots> \<le> val ?a * ?k * (?k * (101 / 100))" using a' by (intro mult_right_mono) simp_all
  also have "\<dots> \<le> val ?b * val lo * (?k * (101 / 100))" using b' by (intro mult_right_mono) simp_all
  also have "\<dots> = val ?b * (101 / 100) * ?k * val lo" by (simp only: mult_ac)
  finally show "val ref * val down \<le> val f * val lo" using c by (rule order_trans)
qed

lemma native_bips:
  assumes "d_isFinite D pct" "0 < val pct" "val pct < 1"
  defines "b \<equiv> d_toNumber D (d_toDecimalPlaces D (d_times D pct (BIPS_PER_UNIT D)) 0)"
  shows "b = of_int (round_up (val (d_times D pct (d_int D 10000))))" "\<bar>b - val pct * 10000\<bar> \<le> 1 / 2 + 1 / 10 ^ 15"
proof -
  let ?t = "d_times D pct (d_int D 10000)"
  have t: "d_isFinite D ?t" "nearest20 (val pct * 10000) (val ?t)"
    using times [OF assms(1) int_finite, of 10000] int_val [of 10000] by auto
  have rel: "\<bar>val ?t - val pct * 10000\<bar> \<le> val pct * 10000 / 10 ^ 19"
    using nearest20_rel [OF t(2)] assms(2) by (simp add: abs_mult)
  then have near: "\<bar>val ?t - val pct * 10000\<bar> \<le> 1 / 10 ^ 15" using assms(3) by simp
  note p = toDecimalPlaces [OF t(1), of 0]
  have v: "val (d_toDecimalPlaces D ?t 0) = of_int (round_up (val ?t))" using p by (simp add: round_places_def)
  have "\<bar>of_int (round_up (val ?t)) - val ?t\<bar> \<le> 1 / 2" by (rule round_up_half)
  note half = this
  have "\<bar>val ?t - val pct * 10000\<bar> \<le> 1" by (rule order_trans [OF near]) simp
  then have "\<bar>of_int (round_up (val ?t)) :: rat\<bar> \<le> 10002" using half assms(2,3) by linarith
  then have "\<bar>of_int (round_up (val ?t)) :: rat\<bar> \<le> 2 ^ 53" by (rule order_trans) simp
  with v p show b: "b = of_int (round_up (val ?t))" using toNumber [of "d_toDecimalPlaces D ?t 0"] by (simp add: b_def BIPS_PER_UNIT_def)
  show "\<bar>b - val pct * 10000\<bar> \<le> 1 / 2 + 1 / 10 ^ 15" unfolding b using near half by linarith
qed

end

section \<open>Properties\<close>

text \<open>
  Raising a stop to the exchange floor. Whatever the inputs, the stop is returned as it is or it is
  replaced; when it is replaced, the new trigger is above the old one and below the reference price,
  and its limit leg, at \<open>limitOffset\<close> times the trigger, is at or above the exchange's floor: the one
  percent of margin more than absorbs the three roundings.
\<close>
lemma clamp_clears_exchange_floor:
  assumes L: "decimal_laws D val" and stop: "d_isFinite D s"
    and run: "clampStopToExchangeFloor D (Some s) reference band limitOffset = (r, clamped)"
  shows "(\<not> clamped \<longrightarrow> r = Some s) \<and>
    (clamped \<longrightarrow>
      (\<exists>f ref down. r = Some f \<and> positiveDecimal D (JStr reference) = Some ref \<and>
         positiveDecimal D (jget band ''askMultiplierDown'') = Some down \<and> d_isFinite D f \<and>
         val s < val f \<and> val f < val ref \<and> val ref * val down \<le> val f * val limitOffset))"
proof (rule conjI)
  show "\<not> clamped \<longrightarrow> r = Some s"
    using run by (auto simp: clampStopToExchangeFloor_def Let_def split: if_splits option.splits)
  show "clamped \<longrightarrow>
      (\<exists>f ref down. r = Some f \<and> positiveDecimal D (JStr reference) = Some ref \<and>
         positiveDecimal D (jget band ''askMultiplierDown'') = Some down \<and> d_isFinite D f \<and>
         val s < val f \<and> val f < val ref \<and> val ref * val down \<le> val f * val limitOffset)"
  proof
    assume clamped
    define f where "f ref down = d_times D (d_div D (d_times D ref down) limitOffset) (EXCHANGE_FLOOR_MARGIN D)" for ref down
    obtain ref down where p: "positiveDecimal D (JStr reference) = Some ref"
        "positiveDecimal D (jget band ''askMultiplierDown'') = Some down"
      and lo: "d_isFinite D limitOffset" "\<not> d_lte D limitOffset (d_int D 0)"
      and f: "r = Some (f ref down)" "d_lt D (f ref down) ref" "\<not> d_gte D s (f ref down)"
      using run \<open>clamped\<close>
      by (auto simp: clampStopToExchangeFloor_def Let_def f_def simp del: positiveDecimal.simps split: if_splits option.splits)
    note pr = decimal_laws.positiveDecimal_pos [OF L p(1)] and pd = decimal_laws.positiveDecimal_pos [OF L p(2)]
    have "0 < val limitOffset"
      using lo decimal_laws.lte [OF L lo(1) decimal_laws.int_finite [OF L], of 0] decimal_laws.int_val [OF L, of 0] by simp
    from decimal_laws.raised_floor [OF L _ _ lo(1) _ _ this, of ref down] pr pd
    have ff: "d_isFinite D (f ref down)" "val ref * val down \<le> val (f ref down) * val limitOffset" by (simp_all add: f_def)
    moreover have "val s < val (f ref down)" "val (f ref down) < val ref"
      using f(2,3) decimal_laws.lt [OF L ff(1), of ref] decimal_laws.lte [OF L ff(1) stop] pr by auto
    ultimately show "\<exists>f ref down. r = Some f \<and> positiveDecimal D (JStr reference) = Some ref \<and>
         positiveDecimal D (jget band ''askMultiplierDown'') = Some down \<and> d_isFinite D f \<and>
         val s < val f \<and> val f < val ref \<and> val ref * val down \<le> val f * val limitOffset"
      using f(1) p by blast
  qed
qed

text \<open>
  The native trailing distance. What is returned is a whole number of basis points within the bounds
  the symbol publishes and within half a basis point of the configured distance (and the rounding of
  one multiplication); a distance outside the open unit interval never yields one.
\<close>
lemma native_delta_bounds:
  assumes L: "decimal_laws D val" and fin: "d_isFinite D pct" and run: "nativeTrailingDelta D pct filt = Some n"
  shows "(\<exists>mn mx. json_int (jget filt ''minTrailingBelowDelta'') = Some mn \<and> json_int (jget filt ''maxTrailingBelowDelta'') = Some mx \<and>
           mn \<le> n \<and> n \<le> mx) \<and>
    (0 < val pct \<and> val pct < 1 \<and> \<bar>of_int n - val pct * 10000\<bar> \<le> 1 / 2 + 1 / 10 ^ 15)"
proof (rule conjI)
  let ?b = "d_toNumber D (d_toDecimalPlaces D (d_times D pct (BIPS_PER_UNIT D)) 0)"
  have n: "n = \<lfloor>?b\<rfloor>" and range: "\<not> d_lte D pct (d_int D 0)" "\<not> d_gte D pct (d_int D 1)"
    using run by (auto simp: nativeTrailingDelta_def Let_def split: if_splits option.splits)
  show "\<exists>mn mx. json_int (jget filt ''minTrailingBelowDelta'') = Some mn \<and> json_int (jget filt ''maxTrailingBelowDelta'') = Some mx \<and>
           mn \<le> n \<and> n \<le> mx"
    using run by (auto simp: nativeTrailingDelta_def Let_def split: if_splits option.splits)
  note i = decimal_laws.int_finite [OF L] and v = decimal_laws.int_val [OF L]
  have pct: "0 < val pct" "val pct < 1"
    using range decimal_laws.lte [OF L fin i, of 0] decimal_laws.lte [OF L i fin, of 1] v [of 0] v [of 1] by auto
  note b = decimal_laws.native_bips [OF L fin pct]
  then have "of_int n = ?b" by (simp add: n)
  with b(2) pct show "0 < val pct \<and> val pct < 1 \<and> \<bar>of_int n - val pct * 10000\<bar> \<le> 1 / 2 + 1 / 10 ^ 15" by simp
qed

text \<open>
  The coverage test against the re-size test. Where the order's figures are exact in twenty digits,
  an order that counts as covering is re-sized for being short of the position at exactly one size:
  a remainder of ninety-nine hundredths of it, where the two tolerances meet. Everything else that
  counts as covering is left alone or is oversized.
\<close>
lemma covering_resize_overlap:
  assumes L: "decimal_laws D val"
    and new: "d_new D (oo_origQty ord) = Some orig" "d_new D (oo_executedQty ord) = Some ex" "d_new D desired = Some des"
    and fin: "d_isFinite D orig" "d_isFinite D ex" "d_isFinite D des"
    and exact: "dec20 (val orig - val ex)" "dec20 (val orig - val ex - val des)"
      "dec20 (val des * (99 / 100))" "dec20 (val des * (1 / 100))"
    and guard: "stillGuarding D (Some ord) desired" and short: "val orig - val ex < val des"
  shows "quantity_drifted D ord desired = Some (val orig - val ex = val des * (99 / 100))"
proof -
  note ex20 = nearest20_exact
  have dec99: "dec20 (99 / 100)"
    unfolding dec20_def by (intro exI [of _ 99] exI [of _ "- 2"]) (simp add: power_int_minus)
  let ?r = "d_minus D orig ex" and ?d = "MIN_QTY_DRIFT D"
  note r = decimal_laws.minus [OF L fin(1,2)]
  have rv: "val ?r = val orig - val ex" using ex20 [OF conjunct2 [OF r] exact(1)] .
  note lit = decimal_laws.literals(3,4) [OF L] and one = decimal_laws.int_finite [OF L, of 1] decimal_laws.int_val [OF L, of 1]
  note m = decimal_laws.minus [OF L one(1) lit(1)]
  have mv: "val (d_minus D (d_int D 1) ?d) = 99 / 100" using ex20 [OF conjunct2 [OF m]] dec99 by (simp add: lit one)
  note t = decimal_laws.times [OF L fin(3) conjunct1 [OF m]]
  have tv: "val (d_times D des (d_minus D (d_int D 1) ?d)) = val des * (99 / 100)"
    using ex20 [OF conjunct2 [OF t]] exact(3) by (simp add: mv)
  have ge: "val des * (99 / 100) \<le> val orig - val ex"
    using guard new decimal_laws.lte [OF L conjunct1 [OF t] conjunct1 [OF r]] by (simp add: stillGuarding_def safeDecimal_def tv rv split: if_splits)
  note q = decimal_laws.minus [OF L conjunct1 [OF r] fin(3)]
  have qv: "val (d_minus D ?r des) = val orig - val ex - val des" using ex20 [OF conjunct2 [OF q]] exact(2) by (simp add: rv)
  note a = decimal_laws.abs [OF L conjunct1 [OF q]]
  note u = decimal_laws.times [OF L fin(3) lit(1)]
  have uv: "val (d_times D des ?d) = val des * (1 / 100)" using ex20 [OF conjunct2 [OF u]] exact(4) by (simp add: lit)
  have "quantity_drifted D ord desired = Some (val des * (1 / 100) \<le> \<bar>val orig - val ex - val des\<bar>)"
    using new decimal_laws.lte [OF L conjunct1 [OF u] conjunct1 [OF a]] a
    by (simp add: quantity_drifted_def safeDecimal_def uv qv)
  also have "val des * (1 / 100) \<le> \<bar>val orig - val ex - val des\<bar> \<longleftrightarrow> val orig - val ex = val des * (99 / 100)"
    using ge short by linarith
  finally show ?thesis .
qed

definition example_resting :: open_order where
  "example_resting = \<lparr>oo_orderId = 7, oo_clientOrderId = ''stop-1'', oo_symbol = ''BTCUSDT'', oo_side = SELL, oo_type = STOP_LOSS_LIMIT,
     oo_status = ''NEW'', oo_price = ''79'', oo_origQty = ''1'', oo_executedQty = ''0.01'', oo_cummulativeQuoteQty = ''0'',
     oo_stopPrice = Some ''70'', oo_trailingDelta = None, oo_timeInForce = Some GTC, oo_transactTimeMs = 0, oo_updateTimeMs = 0\<rparr>"

end
