(* ===== verification/Protective_Stop_Arm.thy ===== *)
theory Protective_Stop_Arm
  imports Protective_Stop
begin

text \<open>
  The protective-stop arm, \<open>evaluateProtectiveStopArm\<close> of
  \<open>packages/strategy/core/src/protective-stop.ts\<close>: from the level a strategy wants, the wallet, the open
  orders and the exchange filters to at most one decision, or to a blocker that says why the
  position has no stop. The stages of the function are one definition each, in its order; the
  builders of the decisions are arguments, as in the source. \<open>None\<close> is an exception.
\<close>

record 'd stop_level =
  lv_stop :: 'd
  lv_limit :: 'd
  lv_held :: 'd
  lv_filters :: "'d size_filters"
  lv_tick :: 'd

record 'd primary_trail =
  pt_desiredDistancePct :: 'd
  pt_markPrice :: 'd
  pt_restingHigh :: "'d option"

record desired_native =
  dn_quantity :: string
  dn_trailingDelta :: int

record 'd native_trail =
  nt_stopDistancePct :: 'd
  nt_build :: "desired_native \<Rightarrow> bool \<Rightarrow> decision"

record 'd arm_params =
  ap_openOrders :: "open_order list"
  ap_account :: "'d account_snapshot"
  ap_symbol :: string
  ap_symbolInfo :: symbol_info
  ap_currentPrice :: string
  ap_enabled :: bool
  ap_level :: "'d stop_level option"
  ap_reclaimableBase :: 'd
  ap_ourClientOrderId :: string
  ap_buildPlace :: "desired_stop \<Rightarrow> bool \<Rightarrow> decision"
  ap_buildCancel :: "open_order \<Rightarrow> decision"
  ap_buildReplace :: "open_order \<Rightarrow> decision \<Rightarrow> decision"
  ap_primaryTrail :: "'d primary_trail option"
  ap_nativeTrail :: "'d native_trail option"
  ap_minStopDrift :: "'d option"

record arm_result =
  ar_decisions :: "decision list"
  ar_blocker :: "blocker option"

definition arm_resting :: "'d arm_params \<Rightarrow> open_order option" where
  "arm_resting P = findRestingProtectiveStop (ap_openOrders P) (ap_ourClientOrderId P)"

definition cancelResting :: "'d arm_params \<Rightarrow> decision list" where
  "cancelResting P = (case arm_resting P of None \<Rightarrow> [] | Some resting \<Rightarrow> [ap_buildCancel P resting])"

definition primaryNativeDelta :: "'d decimal_js \<Rightarrow> 'd arm_params \<Rightarrow> int option" where
  "primaryNativeDelta D P =
     (case (ap_primaryTrail P, ap_nativeTrail P) of
        (Some pt, Some nt) \<Rightarrow>
          nativeTrailingDelta D (pt_desiredDistancePct pt) (sf_trailingDelta (si_filters (ap_symbolInfo P)))
      | _ \<Rightarrow> None)"

definition arm_trailingDelta :: "'d decimal_js \<Rightarrow> 'd arm_params \<Rightarrow> int option" where
  "arm_trailingDelta D P =
     (case ap_nativeTrail P of
        None \<Rightarrow> None
      | Some nt \<Rightarrow> nativeTrailingDelta D (nt_stopDistancePct nt) (sf_trailingDelta (si_filters (ap_symbolInfo P))))"

definition marketReference :: "'d decimal_js \<Rightarrow> 'd arm_params \<Rightarrow> 'd option" where
  "marketReference D P = positiveDecimal D (JStr (ap_currentPrice P))"

definition nativeNotionalPrice :: "'d decimal_js \<Rightarrow> 'd arm_params \<Rightarrow> 'd stop_level \<Rightarrow> 'd option" where
  "nativeNotionalPrice D P lv =
     d_new D (toFixedStep D (case marketReference D P of Some m \<Rightarrow> m | None \<Rightarrow> lv_stop lv) (lv_tick lv))"

definition notionalPrice :: "'d decimal_js \<Rightarrow> 'd arm_params \<Rightarrow> 'd stop_level \<Rightarrow> 'd option" where
  "notionalPrice D P lv =
     (if primaryNativeDelta D P = None then d_new D (toFixedStep D (lv_limit lv) (lv_tick lv))
      else nativeNotionalPrice D P lv)"

definition checkedAtLeg :: "'d decimal_js \<Rightarrow> 'd arm_params \<Rightarrow> string" where
  "checkedAtLeg D P =
     (if primaryNativeDelta D P = None then ''limit''
      else if marketReference D P = None then ''trigger'' else ''market'')"

section \<open>Sizing\<close>

fun skip_name :: "finalised \<Rightarrow> string" where
  "skip_name SkipMinNotional = ''min-notional''"
| "skip_name _ = ''min-qty''"

text \<open>The refusal of a position below the exchange minimums.\<close>

definition minimum_blocker ::
  "'d decimal_js \<Rightarrow> 'd arm_params \<Rightarrow> 'd stop_level \<Rightarrow> 'd \<Rightarrow> 'd sizable_base \<Rightarrow> 'd \<Rightarrow> finalised \<Rightarrow> blocker option" where
  "minimum_blocker D P lv price sb available pricedFull =
     (case minSellableHeldQuantity D (lv_filters lv) price of
        None \<Rightarrow> None
      | Some required \<Rightarrow>
          (let resting = arm_resting P;
               readable = (case resting of
                  None \<Rightarrow> False
                | Some r \<Rightarrow> List.member GUARDING_STATUSES (toUpperCase (oo_status r)) \<and>
                            safeDecimal D (Some (oo_origQty r)) \<noteq> None \<and> safeDecimal D (Some (oo_executedQty r)) \<noteq> None);
               unfilled = (if readable then Option.bind resting (unfilledQuantity D) else None);
               restingQuantity = (case unfilled of
                  None \<Rightarrow> None | Some u \<Rightarrow> if d_gt D u (d_int D 0) then Some (d_toFixedAll D u) else None)
           in Some \<lparr>bk_reason = BaseBelowExchangeMinimum,
                bk_detail =
                  [(''symbol'', JStr (ap_symbol P)),
                   (''required'', opt_str (map_option (\<lambda>q. d_toFixed D q (d_decimalPlaces D (fl_step (lv_filters lv)))) required)),
                   (''free'', opt_str (map_option (d_toFixedAll D) (sb_free sb))),
                   (''available'', JStr (d_toFixedAll D available)),
                   (''held'', JStr (d_toFixedAll D (lv_held lv))),
                   (''stop'', JStr (d_toFixedAll D (lv_stop lv))),
                   (''checkedAt'', JStr (d_toFixedAll D price)),
                   (''checkedAtLeg'', JStr (checkedAtLeg D P)),
                   (''skip'', JStr (skip_name pricedFull)),
                   (''resting'', opt_str restingQuantity),
                   (''guarded'', JBool (stillGuarding D resting (d_toFixedAll D (lv_held lv))))]\<rparr>))"

text \<open>
  Full size: either an early return, or the deferred refusal (if any) and the quantity.
\<close>

definition arm_full_size ::
  "'d decimal_js \<Rightarrow> 'd arm_params \<Rightarrow> 'd stop_level \<Rightarrow> 'd \<Rightarrow> 'd sizable_base \<Rightarrow> 'd \<Rightarrow>
     (arm_result + blocker option \<times> string) option" where
  "arm_full_size D P lv price sb available = do {
     q \<leftarrow> roundToStep D (lv_held lv) (fl_step (lv_filters lv));
     (case finalise D q price (lv_filters lv) of
        Sized s \<Rightarrow> Some (Inr (None, s))
      | skip \<Rightarrow> do {
          bk \<leftarrow> minimum_blocker D P lv price sb available skip;
          if primaryNativeDelta D P = None \<and> skip = SkipMinNotional \<and> ap_nativeTrail P \<noteq> None \<and> arm_trailingDelta D P \<noteq> None
          then do {
            np \<leftarrow> nativeNotionalPrice D P lv;
            (case finalise D q np (lv_filters lv) of
               Sized s \<Rightarrow> Some (Inr (Some bk, s))
             | _ \<Rightarrow> Some (Inl \<lparr>ar_decisions = [], ar_blocker = Some bk\<rparr>))
          }
          else Some (Inl \<lparr>ar_decisions = [], ar_blocker = Some bk\<rparr>)
        })
   }"

text \<open>What is left to arm when the wallet backs less than the position.\<close>

definition arm_partial_size ::
  "'d decimal_js \<Rightarrow> 'd arm_params \<Rightarrow> 'd stop_level \<Rightarrow> 'd \<Rightarrow> 'd sizable_base \<Rightarrow> 'd \<Rightarrow> string \<Rightarrow>
     (arm_result + string) option" where
  "arm_partial_size D P lv sizingPrice sb available fullSized =
     (case sb_free sb of
        None \<Rightarrow> Some (Inr fullSized)
      | Some free \<Rightarrow>
          if \<not> d_lt D available (lv_held lv) then Some (Inr fullSized)
          else do {
            q \<leftarrow> roundToStep D available (fl_step (lv_filters lv));
            (case finalise D q sizingPrice (lv_filters lv) of
               Sized s \<Rightarrow> Some (Inr s)
             | _ \<Rightarrow> Some (Inl \<lparr>ar_decisions = [],
                   ar_blocker = Some (classifyProtectiveStopRefusal D (ap_symbol P) (ap_openOrders P)
                                        (ap_ourClientOrderId P) free fullSized available)\<rparr>))
          })"

section \<open>The native primary mode\<close>

definition trail_guard :: "'d decimal_js \<Rightarrow> 'd primary_trail \<Rightarrow> int \<Rightarrow> int \<Rightarrow> bool" where
  "trail_guard D pt effective restingDelta =
     (let high = d_max D (case pt_restingHigh pt of Some h \<Rightarrow> h | None \<Rightarrow> pt_markPrice pt) (pt_markPrice pt)
      in d_gte D
           (d_times D (pt_markPrice pt) (d_minus D (d_int D 1) (d_div D (d_int D effective) (d_int D 10000))))
           (d_times D high (d_minus D (d_int D 1) (d_div D (d_int D restingDelta) (d_int D 10000)))))"

definition arm_native_primary ::
  "'d decimal_js \<Rightarrow> 'd arm_params \<Rightarrow> 'd stop_level \<Rightarrow> 'd primary_trail \<Rightarrow> 'd native_trail \<Rightarrow> int \<Rightarrow> string \<Rightarrow> arm_result option" where
  "arm_native_primary D P lv pt nt delta sized =
     (case arm_resting P of
        None \<Rightarrow>
          Some \<lparr>ar_decisions = [nt_build nt \<lparr>dn_quantity = sized, dn_trailingDelta = delta\<rparr> False], ar_blocker = None\<rparr>
      | Some resting \<Rightarrow>
          (case oo_trailingDelta resting of
             None \<Rightarrow>
               Some \<lparr>ar_decisions = [ap_buildReplace P resting (nt_build nt \<lparr>dn_quantity = sized, dn_trailingDelta = delta\<rparr> True)],
                     ar_blocker = None\<rparr>
           | Some restingDelta \<Rightarrow> do {
               desiredQuantity \<leftarrow> d_new D sized;
               let tightening = delta < restingDelta;
                   effective = (if tightening then delta else restingDelta);
                   restingQuantity = unfilledQuantity D resting;
                   tolerance = d_times D desiredQuantity (MIN_QTY_DRIFT D);
                   overQty = (case restingQuantity of
                      None \<Rightarrow> False | Some rq \<Rightarrow> d_gte D (d_minus D rq desiredQuantity) tolerance);
                   underQty = (case restingQuantity of
                      None \<Rightarrow> None
                    | Some rq \<Rightarrow> if d_gte D (d_minus D desiredQuantity rq) tolerance then Some rq else None);
                   guard = (\<not> overQty \<and> (tightening \<or> underQty \<noteq> None) \<and> trail_guard D pt effective restingDelta)
               in if overQty \<or> ((tightening \<or> underQty \<noteq> None) \<and> guard)
                  then Some \<lparr>ar_decisions =
                         [ap_buildReplace P resting (nt_build nt \<lparr>dn_quantity = sized, dn_trailingDelta = effective\<rparr> True)],
                       ar_blocker = None\<rparr>
                  else Some \<lparr>ar_decisions = [],
                       ar_blocker = (case underQty of
                          None \<Rightarrow> None
                        | Some uq \<Rightarrow> Some \<lparr>bk_reason = RestingStopShortOfPosition,
                            bk_detail =
                              [(''symbol'', JStr (ap_symbol P)), (''required'', JStr sized),
                               (''resting'', JStr (d_toFixedAll D uq)), (''held'', JStr (d_toFixedAll D (lv_held lv))),
                               (''trailingDelta'', JNum (JsNum (of_int restingDelta))),
                               (''desiredTrailingDelta'', JNum (JsNum (of_int delta)))]\<rparr>)\<rparr>
             }))"

section \<open>The priced stop\<close>

definition restingTrailDelta :: "'d decimal_js \<Rightarrow> 'd arm_params \<Rightarrow> open_order option \<Rightarrow> int option" where
  "restingTrailDelta D P resting =
     (case Option.bind resting oo_trailingDelta of
        None \<Rightarrow> None
      | Some rd \<Rightarrow>
          if ap_nativeTrail P = None then None
          else Some (case arm_trailingDelta D P of Some d \<Rightarrow> d | None \<Rightarrow> rd))"

text \<open>A successor around whatever rests: a bare placement, or one atomic replacement.\<close>

definition place_or_replace :: "'d arm_params \<Rightarrow> open_order option \<Rightarrow> (bool \<Rightarrow> decision) \<Rightarrow> arm_result" where
  "place_or_replace P resting build =
     (case resting of
        None \<Rightarrow> \<lparr>ar_decisions = [build False], ar_blocker = None\<rparr>
      | Some r \<Rightarrow> \<lparr>ar_decisions = [ap_buildReplace P r (build True)], ar_blocker = None\<rparr>)"

definition bound_is_floor :: "blocker \<Rightarrow> bool" where
  "bound_is_floor bk = (map_of (bk_detail bk) ''bound'' = Some (JStr ''floor''))"

definition arm_priced ::
  "'d decimal_js \<Rightarrow> 'd arm_params \<Rightarrow> 'd stop_level \<Rightarrow> blocker option \<Rightarrow> string \<Rightarrow> string \<Rightarrow> arm_result option" where
  "arm_priced D P lv pendingMinNotional fullSized sized =
     (let resting = arm_resting P;
          desired = \<lparr>ds_stopPrice = toFixedStep D (lv_stop lv) (lv_tick lv),
                     ds_price = toFixedStep D (lv_limit lv) (lv_tick lv), ds_quantity = sized\<rparr>
      in do {
        settled \<leftarrow> (case resting of
           None \<Rightarrow> Some False
         | Some r \<Rightarrow> map_option Not
             (protectiveStopNeedsRearm D r (ds_stopPrice desired) (ds_quantity desired) (ap_minStopDrift P)
                (restingTrailDelta D P resting)));
        if settled then Some \<lparr>ar_decisions = [], ar_blocker = None\<rparr>
        else
          (case percentPriceBySideRefusal D (ap_symbol P) (ap_currentPrice P)
                  (sf_percentPriceBySide (si_filters (ap_symbolInfo P))) desired (stillGuarding D resting fullSized) of
             Some outsideBand \<Rightarrow>
               (case (ap_nativeTrail P, arm_trailingDelta D P) of
                  (Some nt, Some delta) \<Rightarrow>
                    if bound_is_floor outsideBand
                    then Some (place_or_replace P resting (nt_build nt \<lparr>dn_quantity = ds_quantity desired, dn_trailingDelta = delta\<rparr>))
                    else Some \<lparr>ar_decisions = [],
                               ar_blocker = Some (case pendingMinNotional of Some b \<Rightarrow> b | None \<Rightarrow> outsideBand)\<rparr>
                | _ \<Rightarrow> Some \<lparr>ar_decisions = [],
                             ar_blocker = Some (case pendingMinNotional of Some b \<Rightarrow> b | None \<Rightarrow> outsideBand)\<rparr>)
           | None \<Rightarrow>
               (case pendingMinNotional of
                  Some b \<Rightarrow> Some \<lparr>ar_decisions = [], ar_blocker = Some b\<rparr>
                | None \<Rightarrow> Some (place_or_replace P resting (ap_buildPlace P desired))))
      })"

text \<open>After sizing: the native primary mode when its delta resolved, the priced stop otherwise.\<close>

definition arm_finish ::
  "'d decimal_js \<Rightarrow> 'd arm_params \<Rightarrow> 'd stop_level \<Rightarrow> blocker option \<Rightarrow> string \<Rightarrow> string \<Rightarrow> arm_result option" where
  "arm_finish D P lv pendingMinNotional fullSized sized =
     (case (ap_primaryTrail P, ap_nativeTrail P, primaryNativeDelta D P) of
        (Some pt, Some nt, Some delta) \<Rightarrow> arm_native_primary D P lv pt nt delta sized
      | _ \<Rightarrow> arm_priced D P lv pendingMinNotional fullSized sized)"

definition arm_size_and_finish ::
  "'d decimal_js \<Rightarrow> 'd arm_params \<Rightarrow> 'd stop_level \<Rightarrow> 'd \<Rightarrow> 'd \<Rightarrow> 'd sizable_base \<Rightarrow> 'd \<Rightarrow> arm_result option" where
  "arm_size_and_finish D P lv nativePrice price sb available =
     (case arm_full_size D P lv price sb available of
        None \<Rightarrow> None
      | Some (Inl early) \<Rightarrow> Some early
      | Some (Inr (pendingMinNotional, fullSized)) \<Rightarrow>
          (case arm_partial_size D P lv (if pendingMinNotional = None then price else nativePrice) sb available fullSized of
             None \<Rightarrow> None
           | Some (Inl early) \<Rightarrow> Some early
           | Some (Inr sized) \<Rightarrow> arm_finish D P lv pendingMinNotional fullSized sized))"

definition arm_level :: "'d decimal_js \<Rightarrow> 'd arm_params \<Rightarrow> 'd stop_level \<Rightarrow> arm_result option" where
  "arm_level D P lv = do {
     nativePrice \<leftarrow> nativeNotionalPrice D P lv;
     price \<leftarrow> notionalPrice D P lv;
     sb \<leftarrow> sizableBase D (ap_account P) (si_baseAsset (ap_symbolInfo P)) (ap_reclaimableBase P);
     arm_size_and_finish D P lv nativePrice price sb
       (armableBaseQuantity D (lv_held lv) (sb_free sb) (sb_reclaimable sb))
   }"

definition evaluateProtectiveStopArm :: "'d decimal_js \<Rightarrow> 'd arm_params \<Rightarrow> arm_result option" where
  "evaluateProtectiveStopArm D P =
     (if \<not> ap_enabled P then Some \<lparr>ar_decisions = [], ar_blocker = None\<rparr>
      else case ap_level P of
             None \<Rightarrow> Some \<lparr>ar_decisions = cancelResting P, ar_blocker = None\<rparr>
           | Some lv \<Rightarrow> arm_level D P lv)"

section \<open>The shape of every outcome\<close>

text \<open>
  A decision built by one of the two placement builders for a quantity with the property \<open>Q\<close>.
\<close>

definition is_successor :: "'d arm_params \<Rightarrow> (string \<Rightarrow> bool) \<Rightarrow> bool \<Rightarrow> decision \<Rightarrow> bool" where
  "is_successor P Q rearm d \<longleftrightarrow>
     (\<exists>x. Q (ds_quantity x) \<and> d = ap_buildPlace P x rearm) \<or>
     (\<exists>nt x. ap_nativeTrail P = Some nt \<and> Q (dn_quantity x) \<and> d = nt_build nt x rearm)"

text \<open>
  The decisions an arm with a level may emit: nothing, a placement when nothing of ours rests, or one
  replacement of what rests around a placement.
\<close>

definition arm_shape :: "'d arm_params \<Rightarrow> (string \<Rightarrow> bool) \<Rightarrow> arm_result \<Rightarrow> bool" where
  "arm_shape P Q r \<longleftrightarrow>
     (case arm_resting P of
        None \<Rightarrow> ar_decisions r = [] \<or> (\<exists>d. ar_decisions r = [d] \<and> is_successor P Q False d)
      | Some resting \<Rightarrow>
          ar_decisions r = [] \<or> (\<exists>d. ar_decisions r = [ap_buildReplace P resting d] \<and> is_successor P Q True d)) \<and>
     (ar_blocker r \<noteq> None \<longrightarrow> ar_decisions r = [])"

text \<open>
  The quantity comes from the position, or from what the readable wallet still backs of it, floored to
  the lot step and past the exchange minimums.
\<close>

definition sized_from :: "'d decimal_js \<Rightarrow> 'd arm_params \<Rightarrow> 'd stop_level \<Rightarrow> string \<Rightarrow> bool" where
  "sized_from D P lv s \<longleftrightarrow>
     (\<exists>sb base q price. sizableBase D (ap_account P) (si_baseAsset (ap_symbolInfo P)) (ap_reclaimableBase P) = Some sb \<and>
        (let available = armableBaseQuantity D (lv_held lv) (sb_free sb) (sb_reclaimable sb)
         in base = (if sb_free sb \<noteq> None \<and> d_lt D available (lv_held lv) then available else lv_held lv)) \<and>
        roundToStep D base (fl_step (lv_filters lv)) = Some q \<and> finalise D q price (lv_filters lv) = Sized s)"

lemma is_successor_mono: "is_successor P Q b d \<Longrightarrow> (\<And>s. Q s \<Longrightarrow> Q' s) \<Longrightarrow> is_successor P Q' b d"
  by (auto simp: is_successor_def)

lemma arm_shape_empty: "ar_decisions r = [] \<Longrightarrow> arm_shape P Q r"
  by (simp add: arm_shape_def split: option.splits)

lemma arm_shape_place:
  "arm_resting P = q \<Longrightarrow> (\<And>b. is_successor P Q b (build b)) \<Longrightarrow> arm_shape P Q (place_or_replace P q build)"
  by (auto simp: arm_shape_def place_or_replace_def split: option.splits)

lemma native_successor: "ap_nativeTrail P = Some nt \<Longrightarrow> Q (dn_quantity x) \<Longrightarrow> is_successor P Q b (nt_build nt x b)"
  by (auto simp: is_successor_def)

lemma priced_successor: "Q (ds_quantity x) \<Longrightarrow> is_successor P Q b (ap_buildPlace P x b)"
  by (auto simp: is_successor_def)

lemma arm_native_primary_shape:
  assumes "arm_native_primary D P lv pt nt delta sized = Some r" "ap_nativeTrail P = Some nt" "Q sized"
  shows "arm_shape P Q r"
  using assms native_successor [OF assms(2), of Q]
  by (auto simp: arm_native_primary_def arm_shape_def Let_def split: option.splits if_splits bind_splits)

lemma arm_priced_shape:
  assumes "arm_priced D P lv pending full sized = Some r" "Q sized"
  shows "arm_shape P Q r"
  using assms
  by (auto simp: arm_priced_def Let_def arm_shape_empty intro!: arm_shape_place native_successor priced_successor
      split: option.splits if_splits bind_splits)

lemma arm_full_size_cases:
  assumes "arm_full_size D P lv price sb av = Some out"
  obtains (Early) r where "out = Inl r" "ar_decisions r = []"
  | (Full) pend s q p where "out = Inr (pend, s)" "roundToStep D (lv_held lv) (fl_step (lv_filters lv)) = Some q"
      "finalise D q p (lv_filters lv) = Sized s"
  using assms by (auto simp: arm_full_size_def split: bind_splits finalised.splits if_splits)

lemma arm_partial_size_cases:
  assumes "arm_partial_size D P lv price sb av full = Some out"
  obtains (Early) r where "out = Inl r" "ar_decisions r = []"
  | (Whole) "out = Inr full" "\<not> (sb_free sb \<noteq> None \<and> d_lt D av (lv_held lv))"
  | (Part) s q where "out = Inr s" "sb_free sb \<noteq> None \<and> d_lt D av (lv_held lv)"
      "roundToStep D av (fl_step (lv_filters lv)) = Some q" "finalise D q price (lv_filters lv) = Sized s"
  using assms by (auto simp: arm_partial_size_def split: bind_splits finalised.splits if_splits option.splits)

lemma arm_finish_shape: "arm_finish D P lv pend full sized = Some r \<Longrightarrow> Q sized \<Longrightarrow> arm_shape P Q r"
  by (auto simp: arm_finish_def split: option.splits intro: arm_native_primary_shape arm_priced_shape)

lemma arm_size_shape:
  assumes run: "arm_size_and_finish D P lv np price sb av = Some r"
    and whole: "\<And>q p s. \<not> (sb_free sb \<noteq> None \<and> d_lt D av (lv_held lv)) \<Longrightarrow>
      roundToStep D (lv_held lv) (fl_step (lv_filters lv)) = Some q \<Longrightarrow> finalise D q p (lv_filters lv) = Sized s \<Longrightarrow> Q s"
    and part: "\<And>q p s. sb_free sb \<noteq> None \<and> d_lt D av (lv_held lv) \<Longrightarrow>
      roundToStep D av (fl_step (lv_filters lv)) = Some q \<Longrightarrow> finalise D q p (lv_filters lv) = Sized s \<Longrightarrow> Q s"
  shows "arm_shape P Q r"
proof -
  from run obtain full where f: "arm_full_size D P lv price sb av = Some full"
    by (auto simp: arm_size_and_finish_def split: option.splits)
  from f show ?thesis
  proof (cases rule: arm_full_size_cases)
    case (Early r')
    with run f show ?thesis by (simp add: arm_size_and_finish_def arm_shape_empty)
  next
    case (Full pend s q p)
    with run f obtain pt where pt: "arm_partial_size D P lv (if pend = None then price else np) sb av s = Some pt"
      by (simp add: arm_size_and_finish_def split: option.splits)
    from pt show ?thesis
    proof (cases rule: arm_partial_size_cases)
      case (Early r')
      with run f Full(1) pt show ?thesis by (simp add: arm_size_and_finish_def arm_shape_empty)
    next
      case Whole
      with run f Full(1) pt have "arm_finish D P lv pend s s = Some r" by (simp add: arm_size_and_finish_def)
      then show ?thesis by (rule arm_finish_shape) (rule whole [OF Whole(2) Full(2,3)])
    next
      case (Part z q')
      with run f Full(1) pt have "arm_finish D P lv pend s z = Some r" by (simp add: arm_size_and_finish_def)
      then show ?thesis by (rule arm_finish_shape) (rule part [OF Part(2-4)])
    qed
  qed
qed

lemma arm_level_shape:
  assumes "arm_level D P lv = Some r"
  shows "arm_shape P (sized_from D P lv) r"
proof -
  from assms obtain np price sb where sb: "sizableBase D (ap_account P) (si_baseAsset (ap_symbolInfo P)) (ap_reclaimableBase P) = Some sb"
    and run: "arm_size_and_finish D P lv np price sb (armableBaseQuantity D (lv_held lv) (sb_free sb) (sb_reclaimable sb)) = Some r"
    by (auto simp: arm_level_def split: bind_splits)
  show ?thesis
    by (rule arm_size_shape [OF run]) (use sb in \<open>auto simp: sized_from_def Let_def\<close>)
qed

lemma arm_shape_mono: "arm_shape P Q r \<Longrightarrow> (\<And>s. Q s \<Longrightarrow> Q' s) \<Longrightarrow> arm_shape P Q' r"
  using is_successor_mono [of P Q _ _ Q'] unfolding arm_shape_def by (cases "arm_resting P") (simp_all, blast+)

text \<open>
  A quantity string that is at most the position and, when the wallet is readable, at most its free
  base plus what our own resting order still locks there.
\<close>

definition backed ::
  "'d decimal_js \<Rightarrow> ('d \<Rightarrow> rat) \<Rightarrow> rat \<Rightarrow> bool \<Rightarrow> rat \<Rightarrow> string \<Rightarrow> bool" where
  "backed D val held readable wallet s \<longleftrightarrow>
     (\<exists>d. d_new D s = Some d \<and> 0 < val d \<and> val d \<le> held \<and>
          (readable \<longrightarrow> (\<exists>t. nearest20 wallet t \<and> val d \<le> t)))"

context decimal_laws
begin

lemma armable_unreadable: "armableBaseQuantity D held None recl = held"
  by (simp add: armableBaseQuantity_def)

lemma armable_readable:
  assumes "d_isFinite D held" "d_isFinite D f" "d_isFinite D recl"
  shows "d_isFinite D (armableBaseQuantity D held (Some f) recl)"
    and "\<exists>t. nearest20 (val f + val recl) t \<and> val (armableBaseQuantity D held (Some f) recl) = min (val held) t"
proof -
  note p = plus [OF assms(2,3)]
  note m = min [OF assms(1) conjunct1 [OF p]]
  show "d_isFinite D (armableBaseQuantity D held (Some f) recl)"
    using m by (simp add: armableBaseQuantity_def)
  show "\<exists>t. nearest20 (val f + val recl) t \<and> val (armableBaseQuantity D held (Some f) recl) = min (val held) t"
    using m p by (intro exI [of _ "val (d_plus D f recl)"]) (simp add: armableBaseQuantity_def)
qed

definition arm_base :: "'d \<Rightarrow> 'd option \<Rightarrow> 'd \<Rightarrow> 'd" where
  "arm_base held free recl =
     (let av = armableBaseQuantity D held free recl in if free \<noteq> None \<and> d_lt D av held then av else held)"

lemma arm_base_unreadable: "arm_base held None recl = held"
  by (simp add: arm_base_def)

lemma arm_base_readable:
  assumes "d_isFinite D held" "dec20 (val held)" "d_isFinite D f" "d_isFinite D recl"
  shows "d_isFinite D (arm_base held (Some f) recl)" "dec20 (val (arm_base held (Some f) recl))"
    "val (arm_base held (Some f) recl) \<le> val held" "\<exists>t. nearest20 (val f + val recl) t \<and> val (arm_base held (Some f) recl) \<le> t"
proof -
  let ?av = "armableBaseQuantity D held (Some f) recl"
  have av: "d_isFinite D ?av" by (rule armable_readable(1) [OF assms(1,3,4)])
  obtain t where t: "nearest20 (val f + val recl) t" "val ?av = min (val held) t"
    using armable_readable(2) [OF assms(1,3,4)] by blast
  have eq: "arm_base held (Some f) recl = (if val ?av < val held then ?av else held)"
    using lt [OF av assms(1)] by (simp add: arm_base_def Let_def)
  have le: "val (arm_base held (Some f) recl) = min (val held) t"
    unfolding eq t(2) by (simp add: t(2) min_def)
  show "d_isFinite D (arm_base held (Some f) recl)" using av assms(1) by (simp add: eq)
  show "dec20 (val (arm_base held (Some f) recl))"
    unfolding le using assms(2) nearest20_dec [OF t(1)] by (simp add: min_def)
  show "val (arm_base held (Some f) recl) \<le> val held" unfolding le by simp
  show "\<exists>t. nearest20 (val f + val recl) t \<and> val (arm_base held (Some f) recl) \<le> t"
    using t(1) unfolding le by (intro exI [of _ t]) simp
qed

lemma sized_from_base:
  assumes "sized_from D P lv s"
    and "sizableBase D (ap_account P) (si_baseAsset (ap_symbolInfo P)) (ap_reclaimableBase P) = Some sb"
  obtains q price where "roundToStep D (arm_base (lv_held lv) (sb_free sb) (sb_reclaimable sb)) (fl_step (lv_filters lv)) = Some q"
    "finalise D q price (lv_filters lv) = Sized s"
  using assms unfolding sized_from_def arm_base_def Let_def by fastforce

lemma sized_from_backed:
  assumes fin: "d_isFinite D (lv_held lv)" "d_isFinite D (fl_step (lv_filters lv))" "d_isFinite D (fl_minQty (lv_filters lv))"
      "d_isFinite D (ap_reclaimableBase P)"
    and held: "dec20 (val (lv_held lv))" and step: "pow10 (val (fl_step (lv_filters lv)))"
    and base: "sizableBase D (ap_account P) (si_baseAsset (ap_symbolInfo P)) (ap_reclaimableBase P) = Some sb"
      "\<And>f. sb_free sb = Some f \<Longrightarrow> d_isFinite D f" "d_isFinite D (sb_reclaimable sb)" "sb_free sb = None \<longleftrightarrow> \<not> readable"
    and wallet: "\<And>f. sb_free sb = Some f \<Longrightarrow> wallet = val f + val (sb_reclaimable sb)"
    and s: "sized_from D P lv s"
  shows "backed D val (val (lv_held lv)) readable wallet s"
proof (cases "sb_free sb")
  case None
  obtain q price where q: "roundToStep D (lv_held lv) (fl_step (lv_filters lv)) = Some q" "finalise D q price (lv_filters lv) = Sized s"
    using sized_from_base [OF s base(1)] unfolding None arm_base_unreadable by blast
  have "\<not> readable" using base(4) None by simp
  then show ?thesis unfolding backed_def using finalise_backed [OF fin(1-3) held step q] by blast
next
  case (Some f)
  let ?b = "arm_base (lv_held lv) (Some f) (sb_reclaimable sb)"
  note b = arm_base_readable [OF fin(1) held base(2) [OF Some] base(3)]
  obtain q price where q: "roundToStep D ?b (fl_step (lv_filters lv)) = Some q" "finalise D q price (lv_filters lv) = Sized s"
    using sized_from_base [OF s base(1)] unfolding Some by blast
  obtain d where d: "d_new D s = Some d" "0 < val d" "val d \<le> val ?b"
    using finalise_backed [OF b(1) fin(2,3) b(2) step q] by blast
  obtain t where "nearest20 wallet t" "val ?b \<le> t" using b(4) wallet [OF Some] by auto
  then show ?thesis
    unfolding backed_def using d order_trans [OF d(3) b(3)] order_trans [OF d(3)] by blast
qed

end

section \<open>Properties\<close>


definition example_arm :: "open_order list \<Rightarrow> dec arm_params" where
  "example_arm os =
     \<lparr>ap_openOrders = os,
      ap_account = \<lparr>ac_balances = [''BTC'' \<mapsto> \<lparr>bl_free = AmountDec (Dec 2 0), bl_locked = AmountDec (Dec 1 0)\<rparr>],
             ac_readable = True, ac_deployedQuoteAcrossProfiles = JUndefined\<rparr>,
      ap_symbol = ''BTCUSDT'',
      ap_symbolInfo = \<lparr>si_symbol = ''BTCUSDT'', si_baseAsset = ''BTC'', si_quoteAsset = ''USDT'', si_status = ''TRADING'',
        si_filters = \<lparr>sf_minNotional = ''8'', sf_tickSize = ''0.01'', sf_stepSize = ''0.01'', sf_minQty = ''0.1'', sf_maxQty = ''9'',
          sf_minPrice = ''0'', sf_maxPrice = ''0'', sf_percentPriceBySide = JUndefined, sf_trailingDelta = JUndefined\<rparr>\<rparr>,
      ap_currentPrice = ''100'', ap_enabled = True,
      ap_level = Some \<lparr>lv_stop = Dec 80 0, lv_limit = Dec 79 0, lv_held = Dec 3 0,
         lv_filters = \<lparr>fl_step = Dec 1 2, fl_minQty = Dec 1 1, fl_minNotional = Dec 8 0, fl_tick = Some (Dec 1 2)\<rparr>, lv_tick = Dec 1 2\<rparr>,
      ap_reclaimableBase = Dec 1 0, ap_ourClientOrderId = ''stop-1'',
      ap_buildPlace = (\<lambda>x b. SetKv (ds_quantity x) (JBool b)),
      ap_buildCancel = (\<lambda>old. DeleteKv (oo_clientOrderId old)),
      ap_buildReplace = (\<lambda>old d. d),
      ap_primaryTrail = None, ap_nativeTrail = None, ap_minStopDrift = None\<rparr>"




end
