(* ===== verification/Client_Order_Id.thy ===== *)
theory Client_Order_Id
  imports Decimal_Js "HOL-Library.Word"
begin

text \<open>
  Client order ids: the shared hash and length guard (\<open>packages/strategy/core/src/client-order-id.ts\<close>)
  and the id builders of the three strategies (\<open>client-order-id.ts\<close> of \<open>momentum\<close>, \<open>rebalance\<close> and
  \<open>trailing-trade\<close>).

  The hash is kept at its width. \<open>h << 5\<close> reads its operand as a signed 32-bit number, the two
  additions are exact in a double, and \<open>>>> 0\<close> reduces modulo \<open>2 ^ 32\<close>; \<open>djb2_step\<close> is that reading.
  A builder that would throw on an over-long id returns \<open>None\<close>.
\<close>

unbundle bit_operations_syntax

definition BINANCE_CLIENT_ORDER_ID_MAX :: nat where
  "BINANCE_CLIENT_ORDER_ID_MAX = 36"

definition djb2_step :: "char \<Rightarrow> 32 word \<Rightarrow> 32 word" where
  "djb2_step c h = word_of_int (sint (push_bit 5 h) + uint h + of_char c)"

definition djb2 :: "string \<Rightarrow> 32 word" where
  "djb2 input = fold djb2_step input 5381"

text \<open>\<open>toString(16)\<close> of a non-negative integer.\<close>

definition hex_char :: "int \<Rightarrow> char" where
  "hex_char d = char_of (if d < 10 then 48 + d else 87 + d)"

function hex_str :: "int \<Rightarrow> string" where
  "hex_str n = (if n < 16 then [hex_char n] else hex_str (n div 16) @ [hex_char (n mod 16)])"
  by auto

termination hex_str
  by (relation "measure nat") auto

declare hex_str.simps [simp del]

definition padStart :: "nat \<Rightarrow> char \<Rightarrow> string \<Rightarrow> string" where
  "padStart n c s = replicate (n - length s) c @ s"

definition djb2Hex :: "string \<Rightarrow> string" where
  "djb2Hex input = padStart 8 (CHR ''0'') (hex_str (uint (djb2 input)))"

definition assertClientOrderId :: "string \<Rightarrow> string option" where
  "assertClientOrderId idv = (if BINANCE_CLIENT_ORDER_ID_MAX < length idv then None else Some idv)"

text \<open>\<open>String(n)\<close> of an integer below \<open>10 ^ 21\<close>.\<close>

definition int_str :: "int \<Rightarrow> string" where
  "int_str n = show_fixed 0 n"

definition bar :: "string list \<Rightarrow> string" where
  "bar parts = (case parts of [] \<Rightarrow> [] | p # ps \<Rightarrow> p @ concat (map (\<lambda>q. CHR ''|'' # q) ps))"

section \<open>Rebalance\<close>

definition rebalanceClientOrderId :: "string \<Rightarrow> string \<Rightarrow> int \<Rightarrow> bool \<Rightarrow> string option" where
  "rebalanceClientOrderId profileId symbol candleCloseMs buy =
     assertClientOrderId (''rb-'' @ djb2Hex (bar [profileId, symbol, int_str candleCloseMs, if buy then ''BUY'' else ''SELL''])
       @ ''-'' @ (if buy then ''b'' else ''s''))"

section \<open>Momentum\<close>

definition entryClientOrderId :: "string \<Rightarrow> string \<Rightarrow> int \<Rightarrow> string option" where
  "entryClientOrderId profileId symbol candleCloseMs =
     assertClientOrderId (''mo-'' @ djb2Hex (bar [profileId, symbol, int_str candleCloseMs]) @ ''-e'')"

definition exitClientOrderId :: "string \<Rightarrow> string \<Rightarrow> int \<Rightarrow> string option" where
  "exitClientOrderId profileId symbol candleCloseMs =
     assertClientOrderId (''mo-'' @ djb2Hex (bar [profileId, symbol, int_str candleCloseMs]) @ ''-x'')"

definition mo_protectiveStopClientOrderId :: "string \<Rightarrow> string \<Rightarrow> string option" where
  "mo_protectiveStopClientOrderId profileId symbol =
     assertClientOrderId (''mo-'' @ djb2Hex (bar [profileId, symbol]) @ ''-ps'')"

definition momentumAttributeOrder :: "string \<Rightarrow> string \<Rightarrow> string \<Rightarrow> string option option" where
  "momentumAttributeOrder clientOrderId profileId symbol =
     (case mo_protectiveStopClientOrderId profileId symbol of
        None \<Rightarrow> None
      | Some own \<Rightarrow> Some (if clientOrderId = own then Some ''protective-stop'' else None))"

section \<open>Trailing trade\<close>

definition firstBuyClientOrderId :: "string \<Rightarrow> string \<Rightarrow> string option" where
  "firstBuyClientOrderId profileId symbol =
     assertClientOrderId (''tt-'' @ djb2Hex (bar [profileId, symbol]) @ ''-b'')"

definition gridBuyClientOrderId :: "string \<Rightarrow> string \<Rightarrow> int \<Rightarrow> string option" where
  "gridBuyClientOrderId profileId symbol gridIndex =
     assertClientOrderId (''tt-'' @ djb2Hex (bar [profileId, symbol, int_str gridIndex]) @ ''-g'')"

definition manualOrderClientOrderId :: "string \<Rightarrow> string option" where
  "manualOrderClientOrderId overrideActionId =
     assertClientOrderId (''tt-'' @ take 8 (filter (\<lambda>c. c \<noteq> CHR ''-'') overrideActionId) @ ''-m'')"

definition pyramidBuyClientOrderId :: "string \<Rightarrow> string \<Rightarrow> int \<Rightarrow> string option" where
  "pyramidBuyClientOrderId profileId symbol addIndex =
     assertClientOrderId (''tt-'' @ djb2Hex (bar [profileId, symbol, ''pyr-'' @ int_str addIndex]) @ ''-p'')"

definition tt_protectiveStopClientOrderId :: "string \<Rightarrow> string \<Rightarrow> string option" where
  "tt_protectiveStopClientOrderId profileId symbol =
     assertClientOrderId (''tt-'' @ djb2Hex (bar [profileId, symbol]) @ ''-x'')"

section \<open>The hash\<close>

lemma djb2_step_word: "djb2_step c h = 33 * h + word_of_int (of_char c)"
proof -
  have p: "push_bit 5 h = h * 2 ^ 5" by (rule push_bit_eq_mult)
  have "djb2_step c h = push_bit 5 h + h + word_of_int (of_char c)" by (simp add: djb2_step_def)
  then show ?thesis unfolding p by (simp add: algebra_simps)
qed

definition is_hex :: "char \<Rightarrow> bool" where
  "is_hex c \<longleftrightarrow> c \<in> set ''0123456789abcdef''"

lemma hex_char_hex: "0 \<le> d \<Longrightarrow> d < 16 \<Longrightarrow> is_hex (hex_char d)"
proof -
  assume "0 \<le> d" "d < 16"
  then have "d \<in> set [0..15]" by simp
  moreover have "\<forall>d \<in> set [0..15]. is_hex (hex_char d)" by code_simp
  ultimately show ?thesis by blast
qed

lemma hex_str_hex: "0 \<le> n \<Longrightarrow> \<forall>c \<in> set (hex_str n). is_hex c"
  by (induction n rule: hex_str.induct) (subst hex_str.simps, auto simp: hex_char_hex)

lemma hex_str_length: "0 \<le> n \<Longrightarrow> n < 16 ^ Suc k \<Longrightarrow> length (hex_str n) \<le> Suc k"
proof (induction k arbitrary: n)
  case 0
  then show ?case by (simp add: hex_str.simps [of n])
next
  case (Suc k)
  then have "n div 16 < 16 ^ Suc k" by simp
  with Suc show ?case by (subst hex_str.simps) (auto simp: pos_imp_zdiv_nonneg_iff)
qed

lemma djb2Hex_hex: "\<forall>c \<in> set (djb2Hex s). is_hex c"
proof -
  have "is_hex (CHR ''0'')" by code_simp
  then show ?thesis
    using hex_str_hex [OF uint_ge_0, of "djb2 s"] unfolding djb2Hex_def padStart_def set_append
    by (auto split: if_splits)
qed

lemma djb2Hex_length: "length (djb2Hex s) = 8"
proof -
  have "uint (djb2 s) < 2 ^ LENGTH(32)" by (rule uint_lt2p)
  also have "\<dots> = 16 ^ Suc 7" by simp
  finally have "length (hex_str (uint (djb2 s))) \<le> Suc 7" by (rule hex_str_length [OF uint_ge_0])
  then show ?thesis unfolding djb2Hex_def padStart_def length_append length_replicate by simp
qed

text \<open>
  The hash at its width is the polynomial \<open>33\<close>-hash modulo \<open>2 ^ 32\<close>, whatever the intermediate
  signed shift did, and its printed form is always eight lower-case hexadecimal digits.
\<close>
lemma djb2_polynomial:
  "djb2 (s @ [c]) = 33 * djb2 s + word_of_int (of_char c) \<and> length (djb2Hex s) = 8 \<and> list_all is_hex (djb2Hex s)"
  by (simp add: djb2_def djb2_step_word djb2Hex_length djb2Hex_hex list_all_iff)

section \<open>Every id the strategies send\<close>

datatype order_ref =
    RbTrade string string int bool
  | MoEntry string string int
  | MoExit string string int
  | MoStop string string
  | TtFirst string string
  | TtGrid string string int
  | TtPyramid string string int
  | TtStop string string
  | TtManual string

fun id_of :: "order_ref \<Rightarrow> string option" where
  "id_of (RbTrade p s t b) = rebalanceClientOrderId p s t b"
| "id_of (MoEntry p s t) = entryClientOrderId p s t"
| "id_of (MoExit p s t) = exitClientOrderId p s t"
| "id_of (MoStop p s) = mo_protectiveStopClientOrderId p s"
| "id_of (TtFirst p s) = firstBuyClientOrderId p s"
| "id_of (TtGrid p s i) = gridBuyClientOrderId p s i"
| "id_of (TtPyramid p s i) = pyramidBuyClientOrderId p s i"
| "id_of (TtStop p s) = tt_protectiveStopClientOrderId p s"
| "id_of (TtManual a) = manualOrderClientOrderId a"

text \<open>The namespace of an id: its strategy prefix and its suffix.\<close>

fun id_tag :: "order_ref \<Rightarrow> string \<times> string" where
  "id_tag (RbTrade p s t b) = (''rb-'', if b then ''-b'' else ''-s'')"
| "id_tag (MoEntry p s t) = (''mo-'', ''-e'')"
| "id_tag (MoExit p s t) = (''mo-'', ''-x'')"
| "id_tag (MoStop p s) = (''mo-'', ''-ps'')"
| "id_tag (TtFirst p s) = (''tt-'', ''-b'')"
| "id_tag (TtGrid p s i) = (''tt-'', ''-g'')"
| "id_tag (TtPyramid p s i) = (''tt-'', ''-p'')"
| "id_tag (TtStop p s) = (''tt-'', ''-x'')"
| "id_tag (TtManual a) = (''tt-'', ''-m'')"

fun id_mid :: "order_ref \<Rightarrow> string" where
  "id_mid (RbTrade p s t b) = djb2Hex (bar [p, s, int_str t, if b then ''BUY'' else ''SELL''])"
| "id_mid (MoEntry p s t) = djb2Hex (bar [p, s, int_str t])"
| "id_mid (MoExit p s t) = djb2Hex (bar [p, s, int_str t])"
| "id_mid (MoStop p s) = djb2Hex (bar [p, s])"
| "id_mid (TtFirst p s) = djb2Hex (bar [p, s])"
| "id_mid (TtGrid p s i) = djb2Hex (bar [p, s, int_str i])"
| "id_mid (TtPyramid p s i) = djb2Hex (bar [p, s, ''pyr-'' @ int_str i])"
| "id_mid (TtStop p s) = djb2Hex (bar [p, s])"
| "id_mid (TtManual a) = take 8 (filter (\<lambda>c. c \<noteq> CHR ''-'') a)"

definition id_char :: "char \<Rightarrow> bool" where
  "id_char c \<longleftrightarrow> c \<in> set ''ABCDEFGHIJKLMNOPQRSTUVWXYZabcdefghijklmnopqrstuvwxyz0123456789-_''"

lemmas id_defs =
  rebalanceClientOrderId_def entryClientOrderId_def exitClientOrderId_def mo_protectiveStopClientOrderId_def
  firstBuyClientOrderId_def gridBuyClientOrderId_def pyramidBuyClientOrderId_def tt_protectiveStopClientOrderId_def
  manualOrderClientOrderId_def assertClientOrderId_def BINANCE_CLIENT_ORDER_ID_MAX_def

lemma id_of_parts: "id_of r = Some (fst (id_tag r) @ id_mid r @ snd (id_tag r))"
  by (cases r) (simp_all add: id_defs djb2Hex_length)

lemma id_mid_length: "length (id_mid r) \<le> 8"
  by (cases r) (simp_all add: djb2Hex_length)

lemma hex_id_char: "is_hex c \<Longrightarrow> id_char c"
  by (auto simp: is_hex_def id_char_def)

lemma tag_chars: "\<forall>c \<in> set (fst (id_tag r)) \<union> set (snd (id_tag r)). id_char c"
proof -
  have "\<forall>c \<in> set ''rb-mott-bsexpgm''. id_char c" by code_simp
  moreover have "set (fst (id_tag r)) \<union> set (snd (id_tag r)) \<subseteq> set ''rb-mott-bsexpgm''" by (cases r) auto
  ultimately show ?thesis by blast
qed

lemma id_mid_chars: "c \<in> set (id_mid r) \<Longrightarrow> id_char c \<or> (\<exists>a. r = TtManual a \<and> c \<in> set a)"
  by (cases r) (use djb2Hex_hex hex_id_char in \<open>auto dest: in_set_takeD\<close>)

text \<open>The prefix and the last character already tell the namespaces apart.\<close>

lemma id_tag_inj:
  assumes "fst (id_tag r) = fst (id_tag r')" "last (snd (id_tag r)) = last (snd (id_tag r'))"
  shows "id_tag r = id_tag r'"
  using assms by (cases r; cases r') (simp_all split: if_splits)

lemma id_tag_from_id: "take 3 (fst (id_tag r) @ m @ snd (id_tag r)) = fst (id_tag r)"
    "last (fst (id_tag r) @ m @ snd (id_tag r)) = last (snd (id_tag r))"
  by (cases r; simp)+

section \<open>Properties\<close>

lemma MoStop_tag: "id_tag r = (''mo-'', ''-ps'') \<longleftrightarrow> (\<exists>p y. r = MoStop p y)"
  by (cases r) auto



end
