(* ===== verification/Position_Adapter.thy ===== *)
theory Position_Adapter
  imports Contract
begin

text \<open>
  Position adapters: the body guards of \<open>packages/strategy/core/src/state-body.ts\<close>, the
  position-scoped fields of \<open>position-scope.ts\<close>, and the \<open>PositionStateAdapter\<close> of the three
  strategies (\<open>position-adapter.ts\<close> of \<open>rebalance\<close>, \<open>momentum\<close> and \<open>trailing-trade\<close>).

  A persisted body is a \<open>json\<close> value of any shape; a method that declines to write returns \<open>None\<close>
  (the code's \<open>null\<close>). The contract the worker relies on is the locale \<open>position_adapter\<close>; each
  strategy is an interpretation of it, and the refinement of a plain position by any sequence of
  adopted fills is proved once, inside the locale.
\<close>

section \<open>Bodies\<close>

definition currentSchemaBody :: "string \<Rightarrow> json \<Rightarrow> json option" where
  "currentSchemaBody schemaVersion state =
     (if \<not> is_object state then None
      else if jget state ''schemaVersion'' = JStr schemaVersion then Some state else None)"

text \<open>\<open>Some\<close> of a string or null; \<open>None\<close> is the code's \<open>undefined\<close>, a malformed value.\<close>

fun asStringOrNull :: "json \<Rightarrow> string option option" where
  "asStringOrNull JNull = Some None"
| "asStringOrNull JUndefined = Some None"
| "asStringOrNull (JStr s) = Some (Some s)"
| "asStringOrNull _ = None"

text \<open>The object literal \<open>{ ...body, k: v, ... }\<close> of a body that passed the schema guard.\<close>

fun obj_fields :: "json \<Rightarrow> (string \<times> json) list" where
  "obj_fields (JObj kvs) = kvs"
| "obj_fields _ = []"

definition spread :: "json \<Rightarrow> (string \<times> json) list \<Rightarrow> json" where
  "spread body kvs = JObj (fold (\<lambda>(k, v). map_set k v) kvs (obj_fields body))"

definition nullable :: "string option \<Rightarrow> json" where
  "nullable v = (case v of None \<Rightarrow> JNull | Some s \<Rightarrow> JStr s)"

definition nullish :: "json \<Rightarrow> bool" where
  "nullish v \<longleftrightarrow> v = JNull \<or> v = JUndefined"

section \<open>Position-scoped fields\<close>

definition POSITION_SCOPED_STATE_FIELDS :: "string list" where
  "POSITION_SCOPED_STATE_FIELDS = [''protectiveStopBlocker'', ''exitBlocker'']"

definition hasPositionScopedFieldSet :: "json \<Rightarrow> bool" where
  "hasPositionScopedFieldSet state =
     list_ex (\<lambda>field. field \<in> fst ` set (obj_fields state) \<and> \<not> nullish (jget state field)) POSITION_SCOPED_STATE_FIELDS"

definition clearPositionScopedFields :: "json \<Rightarrow> json" where
  "clearPositionScopedFields state =
     (if \<not> hasPositionScopedFieldSet state then state
      else JObj (fold (\<lambda>field kvs. if field \<in> fst ` set kvs then map_set field JNull kvs else kvs)
                   POSITION_SCOPED_STATE_FIELDS (obj_fields state)))"

section \<open>Rebalance\<close>

definition REBALANCE_STATE_SCHEMA_VERSION :: string where
  "REBALANCE_STATE_SCHEMA_VERSION = ''1.0.0''"

definition rb_asCurrentBody :: "json \<Rightarrow> json option" where
  "rb_asCurrentBody = currentSchemaBody REBALANCE_STATE_SCHEMA_VERSION"

definition rb_readPosition :: "json \<Rightarrow> position_view option" where
  "rb_readPosition state =
     (case rb_asCurrentBody state of
        None \<Rightarrow> None
      | Some body \<Rightarrow>
          (case (asStringOrNull (jget body ''avgEntryPrice''), asStringOrNull (jget body ''heldQuantity'')) of
             (Some a, Some h) \<Rightarrow> Some \<lparr>pv_avgEntryPrice = a, pv_heldQuantity = h\<rparr>
           | _ \<Rightarrow> None))"

definition rb_applyFill :: "json \<Rightarrow> adopted_fill \<Rightarrow> json option" where
  "rb_applyFill state fill =
     (case rb_asCurrentBody state of
        None \<Rightarrow> None
      | Some body \<Rightarrow>
          (case fill of
             FillBuy a h \<Rightarrow> Some (spread body [(''avgEntryPrice'', JStr a), (''heldQuantity'', JStr h)])
           | FillSellReduce h \<Rightarrow> Some (spread body [(''heldQuantity'', JStr h)])
           | FillEmpty \<Rightarrow>
               if jget body ''avgEntryPrice'' = JNull \<and> nullish (jget body ''heldQuantity'') then None
               else Some (spread body [(''avgEntryPrice'', JNull), (''heldQuantity'', JNull)])))"

definition rb_setHeldQuantity :: "json \<Rightarrow> string option \<Rightarrow> json option" where
  "rb_setHeldQuantity state q = map_option (\<lambda>body. spread body [(''heldQuantity'', nullable q)]) (rb_asCurrentBody state)"

definition rb_setAvgEntryPrice :: "json \<Rightarrow> string \<Rightarrow> json option" where
  "rb_setAvgEntryPrice state a = map_option (\<lambda>body. spread body [(''avgEntryPrice'', JStr a)]) (rb_asCurrentBody state)"

definition rb_clearPosition :: "json \<Rightarrow> bool \<Rightarrow> json option" where
  "rb_clearPosition state resetGridIndex =
     map_option (\<lambda>body. spread body [(''avgEntryPrice'', JNull)]) (rb_asCurrentBody state)"

section \<open>Momentum\<close>

definition MOMENTUM_STATE_SCHEMA_VERSION :: string where
  "MOMENTUM_STATE_SCHEMA_VERSION = ''1.0.0''"

definition mo_asCurrentBody :: "json \<Rightarrow> json option" where
  "mo_asCurrentBody = currentSchemaBody MOMENTUM_STATE_SCHEMA_VERSION"

definition mo_readPosition :: "json \<Rightarrow> position_view option" where
  "mo_readPosition state =
     (case mo_asCurrentBody state of
        None \<Rightarrow> None
      | Some body \<Rightarrow>
          (case (asStringOrNull (jget body ''entryPrice''), asStringOrNull (jget body ''heldQuantity'')) of
             (Some a, Some h) \<Rightarrow> Some \<lparr>pv_avgEntryPrice = a, pv_heldQuantity = h\<rparr>
           | _ \<Rightarrow> None))"

definition mo_applyFill :: "json \<Rightarrow> adopted_fill \<Rightarrow> json option" where
  "mo_applyFill state fill =
     (case mo_asCurrentBody state of
        None \<Rightarrow> None
      | Some body \<Rightarrow>
          (case fill of
             FillBuy a h \<Rightarrow>
               Some (spread body [(''entryPrice'', JStr a), (''heldQuantity'', JStr h), (''highSinceEntry'', JNull),
                                  (''profitHigh'', JNull), (''profitTrailSinceMs'', JNull)])
           | FillSellReduce h \<Rightarrow> Some (spread body [(''heldQuantity'', JStr h)])
           | FillEmpty \<Rightarrow>
               if jget body ''entryPrice'' = JNull \<and> jget body ''highSinceEntry'' = JNull \<and>
                  nullish (jget body ''heldQuantity'') \<and> \<not> hasPositionScopedFieldSet body
               then None
               else Some (clearPositionScopedFields
                      (spread body [(''entryPrice'', JNull), (''heldQuantity'', JNull), (''highSinceEntry'', JNull),
                                    (''profitHigh'', JNull), (''profitTrailSinceMs'', JNull), (''entryLayer'', JNull)]))))"

definition mo_setHeldQuantity :: "json \<Rightarrow> string option \<Rightarrow> json option" where
  "mo_setHeldQuantity state q = map_option (\<lambda>body. spread body [(''heldQuantity'', nullable q)]) (mo_asCurrentBody state)"

definition mo_setAvgEntryPrice :: "json \<Rightarrow> string \<Rightarrow> json option" where
  "mo_setAvgEntryPrice state a = map_option (\<lambda>body. spread body [(''entryPrice'', JStr a)]) (mo_asCurrentBody state)"

definition mo_clearPosition :: "json \<Rightarrow> bool \<Rightarrow> json option" where
  "mo_clearPosition state resetGridIndex =
     (case mo_asCurrentBody state of
        None \<Rightarrow> None
      | Some body \<Rightarrow>
          (let flattened = spread body [(''entryPrice'', JNull), (''highSinceEntry'', JNull), (''profitHigh'', JNull),
                                        (''profitTrailSinceMs'', JNull), (''entryLayer'', JNull)]
           in Some (if asStringOrNull (jget body ''heldQuantity'') = Some None
                    then clearPositionScopedFields flattened else flattened)))"

section \<open>Trailing trade\<close>

definition TT_STATE_SCHEMA_VERSION :: string where
  "TT_STATE_SCHEMA_VERSION = ''2.0.0''"

definition tt_asCurrentBody :: "json \<Rightarrow> json option" where
  "tt_asCurrentBody = currentSchemaBody TT_STATE_SCHEMA_VERSION"

definition clearedAddTracking :: "(string \<times> json) list" where
  "clearedAddTracking = [(''bullAddCount'', JNull), (''lastBullAddPrice'', JNull), (''discoveryEntry'', JBool False), (''entryAtMs'', JNull)]"

definition tt_readPosition :: "json \<Rightarrow> position_view option" where
  "tt_readPosition state =
     (case tt_asCurrentBody state of
        None \<Rightarrow> None
      | Some body \<Rightarrow>
          (case (asStringOrNull (jget body ''avgEntryPrice''), asStringOrNull (jget body ''heldQuantity'')) of
             (Some a, Some h) \<Rightarrow> Some \<lparr>pv_avgEntryPrice = a, pv_heldQuantity = h\<rparr>
           | _ \<Rightarrow> None))"

definition tt_applyFill :: "json \<Rightarrow> adopted_fill \<Rightarrow> json option" where
  "tt_applyFill state fill =
     (case tt_asCurrentBody state of
        None \<Rightarrow> None
      | Some body \<Rightarrow>
          (case fill of
             FillBuy a h \<Rightarrow>
               Some (spread body [(''avgEntryPrice'', JStr a), (''heldQuantity'', JStr h), (''highSinceBuy'', JNull),
                                  (''breakEvenArmed'', JBool False)])
           | FillSellReduce h \<Rightarrow> Some (spread body [(''heldQuantity'', JStr h)])
           | FillEmpty \<Rightarrow>
               if jget body ''avgEntryPrice'' = JNull \<and> jget body ''highSinceBuy'' = JNull \<and>
                  nullish (jget body ''heldQuantity'') \<and> \<not> hasPositionScopedFieldSet body
               then None
               else Some (clearPositionScopedFields
                      (spread body ([(''avgEntryPrice'', JNull), (''heldQuantity'', JNull), (''highSinceBuy'', JNull),
                                     (''breakEvenArmed'', JBool False), (''currentGridTradeIndex'', JNull)] @ clearedAddTracking)))))"

definition tt_setHeldQuantity :: "json \<Rightarrow> string option \<Rightarrow> json option" where
  "tt_setHeldQuantity state q = map_option (\<lambda>body. spread body [(''heldQuantity'', nullable q)]) (tt_asCurrentBody state)"

definition tt_setAvgEntryPrice :: "json \<Rightarrow> string \<Rightarrow> json option" where
  "tt_setAvgEntryPrice state a = map_option (\<lambda>body. spread body [(''avgEntryPrice'', JStr a)]) (tt_asCurrentBody state)"

definition tt_clearPosition :: "json \<Rightarrow> bool \<Rightarrow> json option" where
  "tt_clearPosition state resetGridIndex =
     (case tt_asCurrentBody state of
        None \<Rightarrow> None
      | Some body \<Rightarrow>
          (let flattened = spread body ([(''avgEntryPrice'', JNull), (''highSinceBuy'', JNull), (''breakEvenArmed'', JBool False)]
                                          @ clearedAddTracking);
               cleared = (if asStringOrNull (jget body ''heldQuantity'') = Some None
                          then clearPositionScopedFields flattened else flattened)
           in Some (if resetGridIndex then spread cleared [(''currentGridTradeIndex'', JNull)] else cleared)))"

section \<open>Reading an updated body\<close>

lemma jget_obj: "jget b k = (case map_of (obj_fields b) k of Some v \<Rightarrow> v | None \<Rightarrow> JUndefined)"
  by (cases b) simp_all

lemma map_of_fold_map_set: "map_of (fold (\<lambda>(k, v). map_set k v) kvs xs) = map_of xs ++ map_of (rev kvs)"
  by (induction kvs arbitrary: xs) (auto simp: map_add_def fun_eq_iff split: option.splits)

lemma jget_spread: "jget (spread b kvs) k = (case map_of (rev kvs) k of Some v \<Rightarrow> v | None \<Rightarrow> jget b k)"
  by (simp add: spread_def jget_obj map_of_fold_map_set map_add_def split: option.splits)

lemma is_object_spread [simp]: "is_object (spread b kvs)"
  by (simp add: spread_def)

lemma clear_fold:
  defines "step \<equiv> \<lambda>field kvs. if field \<in> fst ` set kvs then map_set field JNull kvs else kvs"
  shows "fst ` set (fold step fs kvs) = fst ` set kvs"
    and "map_of (fold step fs kvs) k = (if k \<in> set fs \<and> k \<in> fst ` set kvs then Some JNull else map_of kvs k)"
proof (induction fs arbitrary: kvs)
  case (Cons f fs)
  { case 1 show ?case using Cons(1) [of "step f kvs"] by (auto simp: step_def insert_absorb) }
  { case 2 show ?case using Cons(2) [of "step f kvs"] by (auto simp: step_def) }
qed simp_all

lemma jget_clear:
  "k \<notin> set POSITION_SCOPED_STATE_FIELDS \<Longrightarrow> jget (clearPositionScopedFields b) k = jget b k"
  by (simp add: clearPositionScopedFields_def jget_obj clear_fold)

lemma is_object_clear: "is_object (clearPositionScopedFields b) = is_object b"
proof (cases "hasPositionScopedFieldSet b")
  case True
  then have "obj_fields b \<noteq> []" by (auto simp: hasPositionScopedFieldSet_def POSITION_SCOPED_STATE_FIELDS_def)
  then have "is_object b" by (cases b) simp_all
  with True show ?thesis by (simp add: clearPositionScopedFields_def)
qed (simp add: clearPositionScopedFields_def)

lemma clear_clears: "\<not> hasPositionScopedFieldSet (clearPositionScopedFields b)"
proof (cases "hasPositionScopedFieldSet b")
  case True
  then show ?thesis
    by (auto simp: clearPositionScopedFields_def hasPositionScopedFieldSet_def [of "JObj kvs" for kvs]
        list_ex_iff nullish_def clear_fold simp flip: image_set)
qed (simp add: clearPositionScopedFields_def)

lemma currentSchemaBody_Some: "currentSchemaBody v s = Some b \<longleftrightarrow> b = s \<and> is_object s \<and> jget s ''schemaVersion'' = JStr v"
  by (auto simp: currentSchemaBody_def)

section \<open>The contract of an adapter\<close>

record position_state_adapter =
  readPosition :: "json \<Rightarrow> position_view option"
  applyFill :: "json \<Rightarrow> adopted_fill \<Rightarrow> json option"
  setHeldQuantity :: "json \<Rightarrow> string option \<Rightarrow> json option"
  setAvgEntryPrice :: "json \<Rightarrow> string \<Rightarrow> json option"
  clearPosition :: "json \<Rightarrow> bool \<Rightarrow> json option"

definition rebalancePositionAdapter :: position_state_adapter where
  "rebalancePositionAdapter = \<lparr>readPosition = rb_readPosition, applyFill = rb_applyFill, setHeldQuantity = rb_setHeldQuantity,
     setAvgEntryPrice = rb_setAvgEntryPrice, clearPosition = rb_clearPosition\<rparr>"

definition momentumPositionAdapter :: position_state_adapter where
  "momentumPositionAdapter = \<lparr>readPosition = mo_readPosition, applyFill = mo_applyFill, setHeldQuantity = mo_setHeldQuantity,
     setAvgEntryPrice = mo_setAvgEntryPrice, clearPosition = mo_clearPosition\<rparr>"

definition trailingTradePositionAdapter :: position_state_adapter where
  "trailingTradePositionAdapter = \<lparr>readPosition = tt_readPosition, applyFill = tt_applyFill, setHeldQuantity = tt_setHeldQuantity,
     setAvgEntryPrice = tt_setAvgEntryPrice, clearPosition = tt_clearPosition\<rparr>"

text \<open>What the worker asks of an adapter; a method that declines leaves the body as it is.\<close>

datatype adapter_op = Fill adopted_fill | PinHeld "string option" | ReviveEntry string | ClearCycle bool

definition adapter_step :: "position_state_adapter \<Rightarrow> adapter_op \<Rightarrow> json \<Rightarrow> json" where
  "adapter_step A ask s =
     (case (case ask of Fill f \<Rightarrow> applyFill A s f | PinHeld q \<Rightarrow> setHeldQuantity A s q
                      | ReviveEntry a \<Rightarrow> setAvgEntryPrice A s a | ClearCycle r \<Rightarrow> clearPosition A s r) of
        None \<Rightarrow> s
      | Some s' \<Rightarrow> s')"

text \<open>The same requests on a plain position.\<close>

fun view_fill :: "adopted_fill \<Rightarrow> position_view \<Rightarrow> position_view" where
  "view_fill (FillBuy a h) v = \<lparr>pv_avgEntryPrice = Some a, pv_heldQuantity = Some h\<rparr>"
| "view_fill (FillSellReduce h) v = v\<lparr>pv_heldQuantity := Some h\<rparr>"
| "view_fill FillEmpty v = \<lparr>pv_avgEntryPrice = None, pv_heldQuantity = None\<rparr>"

fun view_op :: "adapter_op \<Rightarrow> position_view \<Rightarrow> position_view" where
  "view_op (Fill f) v = view_fill f v"
| "view_op (PinHeld q) v = v\<lparr>pv_heldQuantity := q\<rparr>"
| "view_op (ReviveEntry a) v = v\<lparr>pv_avgEntryPrice := Some a\<rparr>"
| "view_op (ClearCycle r) v = v\<lparr>pv_avgEntryPrice := None\<rparr>"

locale position_adapter =
  fixes A :: position_state_adapter and usable :: "json \<Rightarrow> bool"
  assumes read_usable: "readPosition A s = Some v \<Longrightarrow> usable s"
    and foreign: "\<not> usable s \<Longrightarrow> applyFill A s f = None \<and> setHeldQuantity A s q = None \<and> setAvgEntryPrice A s a = None \<and> clearPosition A s r = None"
    and fill_Some: "usable s \<Longrightarrow> applyFill A s f = Some s' \<Longrightarrow>
      usable s' \<and> (readPosition A s = Some v \<or> (\<forall>h. f \<noteq> FillSellReduce h) \<longrightarrow> readPosition A s' = Some (view_fill f v))"
    and fill_None: "usable s \<Longrightarrow> applyFill A s f = None \<Longrightarrow>
      f = FillEmpty \<and> readPosition A s = Some \<lparr>pv_avgEntryPrice = None, pv_heldQuantity = None\<rparr>"
    and empty_once: "applyFill A s FillEmpty = Some s' \<Longrightarrow> applyFill A s' FillEmpty = None"
    and held: "usable s \<Longrightarrow> \<exists>s'. setHeldQuantity A s q = Some s' \<and> usable s' \<and>
      (readPosition A s = Some v \<longrightarrow> readPosition A s' = Some (v\<lparr>pv_heldQuantity := q\<rparr>))"
    and entry: "usable s \<Longrightarrow> \<exists>s'. setAvgEntryPrice A s a = Some s' \<and> usable s' \<and>
      (readPosition A s = Some v \<longrightarrow> readPosition A s' = Some (v\<lparr>pv_avgEntryPrice := Some a\<rparr>))"
    and clear: "usable s \<Longrightarrow> \<exists>s'. clearPosition A s r = Some s' \<and> usable s' \<and>
      (readPosition A s = Some v \<longrightarrow> readPosition A s' = Some (v\<lparr>pv_avgEntryPrice := None\<rparr>))"
begin

lemma step_refines:
  assumes "readPosition A s = Some v"
  shows "readPosition A (adapter_step A ask s) = Some (view_op ask v)"
proof (cases ask)
  case (Fill f)
  then show ?thesis
    using fill_Some [OF read_usable [OF assms], of f] fill_None [OF read_usable [OF assms], of f] assms
    by (cases "applyFill A s f") (auto simp: adapter_step_def)
next
  case (PinHeld q)
  with held [OF read_usable [OF assms], of q v] assms show ?thesis by (auto simp: adapter_step_def)
next
  case (ReviveEntry a)
  with entry [OF read_usable [OF assms], of a v] assms show ?thesis by (auto simp: adapter_step_def)
next
  case (ClearCycle r)
  with clear [OF read_usable [OF assms], of r v] assms show ?thesis by (auto simp: adapter_step_def)
qed

lemma run_refines: "readPosition A s = Some v \<Longrightarrow> readPosition A (fold (adapter_step A) asks s) = Some (fold view_op asks v)"
  by (induction asks arbitrary: s v) (simp_all add: step_refines)

lemma foreign_untouched: "\<not> usable s \<Longrightarrow> fold (adapter_step A) asks s = s"
proof (induction asks)
  case (Cons ask asks)
  then have "adapter_step A ask s = s" using foreign [of s] by (cases ask) (simp_all add: adapter_step_def)
  with Cons show ?case by simp
qed simp

lemma empty_idempotent: "adapter_step A (Fill FillEmpty) (adapter_step A (Fill FillEmpty) s) = adapter_step A (Fill FillEmpty) s"
  using empty_once [of s] by (cases "applyFill A s FillEmpty") (auto simp: adapter_step_def)

end

definition at_version :: "string \<Rightarrow> json \<Rightarrow> bool" where
  "at_version v s \<longleftrightarrow> is_object s \<and> jget s ''schemaVersion'' = JStr v"

lemma currentSchemaBody_eq: "currentSchemaBody v s = (if at_version v s then Some s else None)"
  by (simp add: currentSchemaBody_def at_version_def)

lemma asStringOrNull_nullable [simp]: "asStringOrNull (nullable q) = Some q"
  by (cases q) (simp_all add: nullable_def)

lemma asStringOrNull_nullish: "nullish j \<Longrightarrow> asStringOrNull j = Some None"
  by (auto simp: nullish_def)

lemmas body_simps = currentSchemaBody_eq at_version_def jget_spread jget_clear is_object_clear POSITION_SCOPED_STATE_FIELDS_def
  asStringOrNull_nullish

interpretation rb: position_adapter rebalancePositionAdapter "at_version REBALANCE_STATE_SCHEMA_VERSION"
  by unfold_locales
     (auto simp: rebalancePositionAdapter_def rb_readPosition_def rb_applyFill_def rb_setHeldQuantity_def
        rb_setAvgEntryPrice_def rb_clearPosition_def rb_asCurrentBody_def body_simps nullish_def
        split: adopted_fill.splits option.splits if_splits)

lemmas mo_defs = momentumPositionAdapter_def mo_readPosition_def mo_applyFill_def mo_setHeldQuantity_def
  mo_setAvgEntryPrice_def mo_clearPosition_def mo_asCurrentBody_def

lemmas tt_defs = trailingTradePositionAdapter_def tt_readPosition_def tt_applyFill_def tt_setHeldQuantity_def
  tt_setAvgEntryPrice_def tt_clearPosition_def tt_asCurrentBody_def clearedAddTracking_def

interpretation mo: position_adapter momentumPositionAdapter "at_version MOMENTUM_STATE_SCHEMA_VERSION"
proof (unfold_locales, goal_cases)
  case (5 s s')
  then show ?case
    by (auto simp: mo_defs body_simps clear_clears nullish_def split: if_splits)
qed (auto simp: mo_defs body_simps Let_def split: adopted_fill.splits option.splits if_splits)

lemma tt_read:
  "tt_readPosition s =
     (if at_version TT_STATE_SCHEMA_VERSION s
      then case (asStringOrNull (jget s ''avgEntryPrice''), asStringOrNull (jget s ''heldQuantity'')) of
             (Some a, Some h) \<Rightarrow> Some \<lparr>pv_avgEntryPrice = a, pv_heldQuantity = h\<rparr> | _ \<Rightarrow> None
      else None)"
  by (simp add: tt_readPosition_def tt_asCurrentBody_def currentSchemaBody_eq)

interpretation tt: position_adapter trailingTradePositionAdapter "at_version TT_STATE_SCHEMA_VERSION"
proof (unfold_locales, goal_cases)
  case (1 s v)
  then show ?case by (simp add: trailingTradePositionAdapter_def tt_read split: if_splits)
next
  case (2 s f q a r)
  then show ?case by (simp add: tt_defs currentSchemaBody_eq)
next
  case (3 s f s' v)
  then show ?case
    by (cases f) (auto simp: tt_defs body_simps split: option.splits if_splits)
next
  case (4 s f)
  then show ?case by (cases f) (auto simp: tt_defs body_simps split: if_splits)
next
  case (5 s s')
  then show ?case
    by (auto simp: tt_defs body_simps clear_clears nullish_def split: if_splits)
next
  case (6 s q v)
  then show ?case by (auto simp: tt_defs body_simps split: option.splits)
next
  case (7 s a v)
  then show ?case by (auto simp: tt_defs body_simps split: option.splits)
next
  case (8 s r v)
  then show ?case by (auto simp: tt_defs body_simps Let_def split: option.splits)
qed

section \<open>Properties\<close>

text \<open>
  C18. Every adapter refines a plain position. Whatever sequence of adopted fills, wallet pins, entry
  revivals and cycle clears the worker sends, the position read back from the body is the one the
  same requests give on a bare pair of entry price and held quantity; a body of another schema is
  never touched; and a repeated full exit writes nothing the second time.
\<close>
theorem adapters_refine_position:
  assumes "(A, ver) \<in> {(rebalancePositionAdapter, REBALANCE_STATE_SCHEMA_VERSION),
     (momentumPositionAdapter, MOMENTUM_STATE_SCHEMA_VERSION), (trailingTradePositionAdapter, TT_STATE_SCHEMA_VERSION)}"
  shows "(readPosition A s = Some v \<longrightarrow> readPosition A (fold (adapter_step A) asks s) = Some (fold view_op asks v)) \<and>
    (\<not> at_version ver s \<longrightarrow> fold (adapter_step A) asks s = s) \<and>
    applyFill A (adapter_step A (Fill FillEmpty) s) FillEmpty = None"
proof -
  have settled: "applyFill B (adapter_step B (Fill FillEmpty) s) FillEmpty = None" if "position_adapter B u" for B u
    using position_adapter.empty_once [OF that, of s] by (cases "applyFill B s FillEmpty") (auto simp: adapter_step_def)
  from assms show ?thesis
    using rb.run_refines mo.run_refines tt.run_refines rb.foreign_untouched mo.foreign_untouched tt.foreign_untouched
      settled [OF rb.position_adapter_axioms] settled [OF mo.position_adapter_axioms] settled [OF tt.position_adapter_axioms]
    by auto
qed

theorem adapters_refine_position_witness:
  "readPosition trailingTradePositionAdapter
     (fold (adapter_step trailingTradePositionAdapter) [Fill (FillBuy ''100'' ''2''), Fill (FillSellReduce ''1''), ClearCycle True]
        (JObj [(''schemaVersion'', JStr ''2.0.0''), (''avgEntryPrice'', JNull)]))
     = Some \<lparr>pv_avgEntryPrice = None, pv_heldQuantity = Some ''1''\<rparr>"
proof -
  let ?s = "JObj [(''schemaVersion'', JStr ''2.0.0''), (''avgEntryPrice'', JNull)]"
  let ?asks = "[Fill (FillBuy ''100'' ''2''), Fill (FillSellReduce ''1''), ClearCycle True]"
  have "readPosition trailingTradePositionAdapter ?s = Some \<lparr>pv_avgEntryPrice = None, pv_heldQuantity = None\<rparr>"
    by (simp add: tt_defs currentSchemaBody_def TT_STATE_SCHEMA_VERSION_def)
  with adapters_refine_position [of trailingTradePositionAdapter TT_STATE_SCHEMA_VERSION ?s
    "\<lparr>pv_avgEntryPrice = None, pv_heldQuantity = None\<rparr>" ?asks]
  show ?thesis by simp
qed

end
