(* ===== verification/Rebalance.thy ===== *)
theory Rebalance
  imports Balances Money Client_Order_Id "HOL-Library.Monad_Syntax" "HOL-Library.Multiset"
begin

text \<open>
  The rebalance strategy (\<open>packages/strategy/rebalance/src\<close>): the order engine of \<open>rebalance.ts\<close>, the
  cross-sectional momentum of \<open>momentum.ts\<close>, and the tick of \<open>tick.ts\<close> with the log and metric
  constructors of \<open>core/src/emit.ts\<close>.

  The configuration and the key-value snapshot reach the tick unparsed and are \<open>json\<close>. ECMAScript's
  \<open>Number(string)\<close> and \<open>String(value)\<close>, which round and print doubles, are the parameters \<open>toNumber\<close>
  and \<open>toStr\<close>. An exception is \<open>None\<close>.
\<close>

section \<open>The order engine\<close>

datatype plan_reason =
    Disabled | NoTarget | NoBasketValue | WithinDrift | BelowMinTrade | NoQuote | BelowStep | RotateExit | Rebalanced

record rebalance_plan =
  rp_ownValueQuote :: string
  rp_trade :: "(order_side \<times> string) option"
  rp_reason :: plan_reason

record 'd rebalance_input =
  ri_currentPrice :: 'd
  ri_heldQty :: 'd
  ri_targetWeight :: 'd
  ri_siblingValuesQuote :: "'d list"
  ri_driftThreshold :: 'd
  ri_minTradeQuote :: 'd
  ri_basketBudgetQuote :: 'd
  ri_availableQuote :: 'd
  ri_stepSize :: 'd
  ri_enabled :: bool
  ri_exitWhenZeroWeight :: bool

definition floorToStep :: "'d decimal_js \<Rightarrow> 'd \<Rightarrow> 'd \<Rightarrow> 'd" where
  "floorToStep D qty step =
     (if d_lte D step (d_int D 0) then qty else d_times D (d_floor D (d_div D qty step)) step)"

definition hold_plan :: "string \<Rightarrow> plan_reason \<Rightarrow> rebalance_plan" where
  "hold_plan own reason = \<lparr>rp_ownValueQuote = own, rp_trade = None, rp_reason = reason\<rparr>"

text \<open>A trade of a floored quantity, or a hold when nothing is left of it.\<close>

definition trade_plan :: "'d decimal_js \<Rightarrow> string \<Rightarrow> order_side \<Rightarrow> 'd \<Rightarrow> plan_reason \<Rightarrow> rebalance_plan" where
  "trade_plan D own side qty reason =
     (if d_lte D qty (d_int D 0) then hold_plan own BelowStep
      else \<lparr>rp_ownValueQuote = own, rp_trade = Some (side, d_toString D qty), rp_reason = reason\<rparr>)"

definition rotate_plan :: "'d decimal_js \<Rightarrow> 'd rebalance_input \<Rightarrow> 'd \<Rightarrow> rebalance_plan" where
  "rotate_plan D i ownValue =
     (let own = d_toString D ownValue
      in if ri_exitWhenZeroWeight i \<and> d_gt D (ri_heldQty i) (d_int D 0)
         then if d_lt D ownValue (ri_minTradeQuote i) then hold_plan own BelowMinTrade
              else trade_plan D own SELL (floorToStep D (ri_heldQty i) (ri_stepSize i)) RotateExit
         else hold_plan own NoTarget)"

definition buy_plan :: "'d decimal_js \<Rightarrow> 'd rebalance_input \<Rightarrow> string \<Rightarrow> 'd \<Rightarrow> rebalance_plan" where
  "buy_plan D i own delta =
     (let notional = d_min D delta (ri_availableQuote i)
      in if d_lt D notional (ri_minTradeQuote i)
         then hold_plan own (if d_lt D (ri_availableQuote i) (ri_minTradeQuote i) then NoQuote else BelowMinTrade)
         else trade_plan D own BUY (floorToStep D (d_div D notional (ri_currentPrice i)) (ri_stepSize i)) Rebalanced)"

definition sell_plan :: "'d decimal_js \<Rightarrow> 'd rebalance_input \<Rightarrow> string \<Rightarrow> 'd \<Rightarrow> rebalance_plan" where
  "sell_plan D i own delta =
     (let sellNotional = d_abs D delta
      in if d_lt D sellNotional (ri_minTradeQuote i) then hold_plan own BelowMinTrade
         else trade_plan D own SELL
                (floorToStep D (d_min D (d_div D sellNotional (ri_currentPrice i)) (ri_heldQty i)) (ri_stepSize i)) Rebalanced)"

definition basket_total :: "'d decimal_js \<Rightarrow> 'd rebalance_input \<Rightarrow> 'd \<Rightarrow> 'd" where
  "basket_total D i ownValue =
     (let basketValue = fold (\<lambda>v acc. d_plus D acc v) (ri_siblingValuesQuote i) ownValue;
          headroom = d_max D (d_int D 0) (d_minus D (ri_basketBudgetQuote i) basketValue);
          deployable = d_min D (ri_availableQuote i) headroom
      in d_plus D basketValue deployable)"

definition computeRebalance :: "'d decimal_js \<Rightarrow> 'd rebalance_input \<Rightarrow> rebalance_plan" where
  "computeRebalance D i =
     (let ownValue = d_times D (ri_currentPrice i) (ri_heldQty i); own = d_toString D ownValue
      in if \<not> ri_enabled i then hold_plan own Disabled
         else if d_lte D (ri_targetWeight i) (d_int D 0) then rotate_plan D i ownValue
         else (let total = basket_total D i ownValue
               in if d_lte D total (d_int D 0) \<or> d_lte D (ri_currentPrice i) (d_int D 0) then hold_plan own NoBasketValue
                  else if d_lt D (d_abs D (d_minus D (d_div D ownValue total) (ri_targetWeight i))) (ri_driftThreshold i)
                  then hold_plan own WithinDrift
                  else (let delta = d_minus D (d_times D (ri_targetWeight i) total) ownValue
                        in if d_gt D delta (d_int D 0) then buy_plan D i own delta else sell_plan D i own delta)))"

section \<open>Momentum ranking\<close>

definition at_index :: "'a list \<Rightarrow> int \<Rightarrow> 'a option" where
  "at_index xs i = (if 0 \<le> i \<and> i < int (length xs) then Some (xs ! nat i) else None)"

definition momentumScore :: "'d decimal_js \<Rightarrow> string list \<Rightarrow> int \<Rightarrow> 'd option" where
  "momentumScore D closes lookbackCandles =
     (if int (length closes) \<le> lookbackCandles then None
      else do {
        lastC \<leftarrow> at_index closes (int (length closes) - 1);
        past \<leftarrow> at_index closes (int (length closes) - 1 - lookbackCandles);
        lastClose \<leftarrow> d_new D lastC;
        pastClose \<leftarrow> d_new D past;
        if d_lte D pastClose (d_int D 0) \<or> d_lte D lastClose (d_int D 0) then None
        else Some (d_minus D (d_div D lastClose pastClose) (d_int D 1))
      })"

record 'd momentum_entry =
  me_symbol :: string
  me_score :: 'd

text \<open>Strings compare by code units, left to right.\<close>

fun str_less :: "string \<Rightarrow> string \<Rightarrow> bool" where
  "str_less [] ys = (ys \<noteq> [])"
| "str_less (x # xs) [] = False"
| "str_less (x # xs) (y # ys) =
     ((of_char x :: nat) < of_char y \<or> x = y \<and> str_less xs ys)"

text \<open>The comparator: the score descending, then the symbol ascending.\<close>

definition ranks_before :: "'d decimal_js \<Rightarrow> 'd momentum_entry \<Rightarrow> 'd momentum_entry \<Rightarrow> bool" where
  "ranks_before D a b =
     (if d_lt D (me_score b) (me_score a) then True
      else if d_lt D (me_score a) (me_score b) then False
      else str_less (me_symbol a) (me_symbol b))"

text \<open>\<open>Array.prototype.sort\<close>: a stable sort by the comparator.\<close>

fun sort_insert :: "('a \<Rightarrow> 'a \<Rightarrow> bool) \<Rightarrow> 'a \<Rightarrow> 'a list \<Rightarrow> 'a list" where
  "sort_insert lt x [] = [x]"
| "sort_insert lt x (y # ys) = (if lt y x then y # sort_insert lt x ys else x # y # ys)"

definition js_sort :: "('a \<Rightarrow> 'a \<Rightarrow> bool) \<Rightarrow> 'a list \<Rightarrow> 'a list" where
  "js_sort lt xs = foldr (sort_insert lt) xs []"

fun findIndex :: "('a \<Rightarrow> bool) \<Rightarrow> 'a list \<Rightarrow> int" where
  "findIndex P [] = -1"
| "findIndex P (x # xs) = (if P x then 0 else let i = findIndex P xs in if i < 0 then i else i + 1)"

definition momentumTargetWeight :: "'d decimal_js \<Rightarrow> 'd momentum_entry \<Rightarrow> 'd momentum_entry list \<Rightarrow> int \<Rightarrow> 'd" where
  "momentumTargetWeight D self siblings topK =
     (let ranked = js_sort (ranks_before D) (self # siblings);
          held = (if topK < int (length ranked) then topK else int (length ranked));
          rank = findIndex (\<lambda>e. me_symbol e = me_symbol self) ranked
      in if held \<le> rank then d_int D 0 else d_div D (d_int D 1) (d_int D held))"

section \<open>Reading the configuration and the store\<close>

definition KV_VALUE_PREFIX :: string where "KV_VALUE_PREFIX = ''rebalance:value:''"

definition KV_MOMENTUM_PREFIX :: string where "KV_MOMENTUM_PREFIX = ''rebalance:momentum:''"

definition rb_dec :: "'d decimal_js \<Rightarrow> json \<Rightarrow> string \<Rightarrow> 'd" where
  "rb_dec D v fallback =
     (case v of
        JStr s \<Rightarrow> (case d_new D s of Some d \<Rightarrow> d | None \<Rightarrow> dlit D fallback)
      | _ \<Rightarrow> dlit D fallback)"

definition config_targets :: "json \<Rightarrow> json list" where
  "config_targets config = (case jget config ''targets'' of JArr ts \<Rightarrow> ts | _ \<Rightarrow> [])"

definition targetWeightFor :: "'d decimal_js \<Rightarrow> json \<Rightarrow> string \<Rightarrow> 'd" where
  "targetWeightFor D config symbol =
     (case List.find (\<lambda>t. jget t ''symbol'' = JStr symbol) (config_targets config) of
        Some hit \<Rightarrow> rb_dec D (jget hit ''weight'') ''0''
      | None \<Rightarrow> d_int D 0)"

definition starts_with :: "string \<Rightarrow> string \<Rightarrow> bool" where
  "starts_with s p = (take (length p) s = p)"

definition siblingValues :: "'d decimal_js \<Rightarrow> (string \<times> json) list \<Rightarrow> string \<Rightarrow> 'd list" where
  "siblingValues D profileKv symbol =
     map (\<lambda>(k, v). rb_dec D v ''0'')
       (filter (\<lambda>(k, v). starts_with k KV_VALUE_PREFIX \<and> drop (length KV_VALUE_PREFIX) k \<noteq> symbol) profileKv)"

definition sibling_entry :: "'d decimal_js \<Rightarrow> (json \<Rightarrow> string) \<Rightarrow> string \<Rightarrow> string \<times> json \<Rightarrow> 'd momentum_entry option" where
  "sibling_entry D toStr symbol kv =
     (let (k, v) = kv; sib = drop (length KV_MOMENTUM_PREFIX) k
      in if \<not> starts_with k KV_MOMENTUM_PREFIX \<or> sib = symbol then None
         else case d_new D (case v of JStr s \<Rightarrow> s | _ \<Rightarrow> toStr v) of
                None \<Rightarrow> None
              | Some score \<Rightarrow> if d_isFinite D score then Some \<lparr>me_symbol = sib, me_score = score\<rparr> else None)"

definition siblingMomentum :: "'d decimal_js \<Rightarrow> (json \<Rightarrow> string) \<Rightarrow> (string \<times> json) list \<Rightarrow> string \<Rightarrow> 'd momentum_entry list" where
  "siblingMomentum D toStr profileKv symbol = List.map_filter (sibling_entry D toStr symbol) profileKv"

definition intField :: "(string \<Rightarrow> js_number) \<Rightarrow> json \<Rightarrow> int \<Rightarrow> int" where
  "intField toNumber v fallback =
     (let n = (case v of JNum n \<Rightarrow> n | JStr s \<Rightarrow> toNumber s | _ \<Rightarrow> JsNaN)
      in case json_int (JNum n) of Some i \<Rightarrow> if 0 < i then i else fallback | None \<Rightarrow> fallback)"

definition momentumOf :: "json \<Rightarrow> json" where
  "momentumOf config = (let m = jget config ''momentum'' in if is_object m then m else JObj [])"

section \<open>The tick\<close>

record 'd rebalance_tick_input =
  ti_profileId :: string
  ti_symbol :: string
  ti_currentPrice :: string
  ti_symbolInfo :: symbol_info
  ti_candlesByInterval :: "string \<Rightarrow> candle list option"
  ti_config :: json
  ti_state :: json
  ti_account :: "'d account_snapshot"
  ti_profileKv :: "(string \<times> json) list"

fun reason_str :: "plan_reason \<Rightarrow> string" where
  "reason_str Disabled = ''disabled''"
| "reason_str NoTarget = ''no-target''"
| "reason_str NoBasketValue = ''no-basket-value''"
| "reason_str WithinDrift = ''within-drift''"
| "reason_str BelowMinTrade = ''below-min-trade''"
| "reason_str NoQuote = ''no-quote''"
| "reason_str BelowStep = ''below-step''"
| "reason_str RotateExit = ''rotate-exit''"
| "reason_str Rebalanced = ''rebalance''"

definition tick_window :: "'d rebalance_tick_input \<Rightarrow> candle list" where
  "tick_window ti =
     (case jget (ti_config ti) ''candleInterval'' of
        JStr k \<Rightarrow> (case ti_candlesByInterval ti k of Some w \<Rightarrow> w | None \<Rightarrow> [])
      | _ \<Rightarrow> [])"

text \<open>The momentum branch: the decisions it pushes, the weight, and whether a ranked-out symbol exits.\<close>

definition momentum_target ::
  "'d decimal_js \<Rightarrow> (string \<Rightarrow> js_number) \<Rightarrow> (json \<Rightarrow> string) \<Rightarrow> 'd rebalance_tick_input \<Rightarrow> decision list \<times> 'd \<times> bool" where
  "momentum_target D toNumber toStr ti =
     (let m = momentumOf (ti_config ti); symbol = ti_symbol ti; key = KV_MOMENTUM_PREFIX @ symbol
      in case momentumScore D (map cd_close (tick_window ti)) (intField toNumber (jget m ''lookbackCandles'') 30) of
           None \<Rightarrow> ([DeleteKv key], d_int D 0, False)
         | Some selfScore \<Rightarrow>
             (let siblings = siblingMomentum D toStr (ti_profileKv ti) symbol;
                  scoredCount = int (length siblings) + 1;
                  universeSize = int (length (config_targets (ti_config ti)));
                  topK = intField toNumber (jget m ''topK'') 3;
                  needed = (if topK < universeSize then topK else universeSize);
                  publish = [SetKv key (JStr (d_toString D selfScore))]
              in if scoredCount < needed then (publish, d_int D 0, False)
                 else (publish, momentumTargetWeight D \<lparr>me_symbol = symbol, me_score = selfScore\<rparr> siblings topK, True)))"

definition available_quote :: "'d decimal_js \<Rightarrow> 'd balance option \<Rightarrow> 'd option" where
  "available_quote D bal =
     (case bal of None \<Rightarrow> Some (d_int D 0)
                | Some b \<Rightarrow> (case bl_free b of AmountDec d \<Rightarrow> Some d | AmountStr _ \<Rightarrow> None))"

definition rebalance_order :: "'d rebalance_tick_input \<Rightarrow> order_side \<Rightarrow> string \<Rightarrow> decision option" where
  "rebalance_order ti side quantity =
     (let w = tick_window ti; candleCloseMs = (if w = [] then 0 else cd_closeTimeMs (last w))
      in map_option (\<lambda>cid.
           PlaceOrder
             \<lparr>oi_symbol = ti_symbol ti, oi_side = side, oi_reason = ''rebalance'', oi_clientOrderId = cid,
              oi_meta = None, oi_overrideActionId = None, oi_deferrable = None\<rparr>
             \<lparr>op_type = MARKET, op_price = None, op_stopPrice = None, op_quantity = quantity,
              op_trailingDelta = None, op_timeInForce = None\<rparr>)
         (rebalanceClientOrderId (ti_profileId ti) (ti_symbol ti) candleCloseMs (side = BUY)))"

definition tick_target ::
  "'d decimal_js \<Rightarrow> (string \<Rightarrow> js_number) \<Rightarrow> (json \<Rightarrow> string) \<Rightarrow> 'd rebalance_tick_input \<Rightarrow> decision list \<times> 'd \<times> bool" where
  "tick_target D toNumber toStr ti =
     (if jget (ti_config ti) ''weightMode'' = JStr ''momentum'' then momentum_target D toNumber toStr ti
      else ([], targetWeightFor D (ti_config ti) (ti_symbol ti), False))"

definition tick_plan_input :: "'d decimal_js \<Rightarrow> 'd rebalance_tick_input \<Rightarrow> 'd \<Rightarrow> 'd \<Rightarrow> 'd \<Rightarrow> bool \<Rightarrow> 'd rebalance_input" where
  "tick_plan_input D ti price available targetWeight exitZero =
     \<lparr>ri_currentPrice = price,
      ri_heldQty = (if truthy (jget (ti_state ti) ''heldQuantity'') then rb_dec D (jget (ti_state ti) ''heldQuantity'') ''0'' else d_int D 0),
      ri_targetWeight = targetWeight,
      ri_siblingValuesQuote = siblingValues D (ti_profileKv ti) (ti_symbol ti),
      ri_driftThreshold = rb_dec D (jget (ti_config ti) ''driftThreshold'') ''0.05'',
      ri_minTradeQuote = rb_dec D (jget (ti_config ti) ''minTradeQuote'') ''10'',
      ri_basketBudgetQuote = rb_dec D (jget (ti_config ti) ''basketBudgetQuote'') ''0'',
      ri_availableQuote = available,
      ri_stepSize = rb_dec D (JStr (sf_stepSize (si_filters (ti_symbolInfo ti)))) ''0'',
      ri_enabled = (jget (ti_config ti) ''enabled'' = JBool True),
      ri_exitWhenZeroWeight = exitZero\<rparr>"

definition computeTick ::
  "'d decimal_js \<Rightarrow> (string \<Rightarrow> js_number) \<Rightarrow> (json \<Rightarrow> string) \<Rightarrow> 'd rebalance_tick_input \<Rightarrow> tick_output option" where
  "computeTick D toNumber toStr ti = do {
     price \<leftarrow> d_new D (ti_currentPrice ti);
     available \<leftarrow> available_quote D (ac_balances (ti_account ti) (si_quoteAsset (ti_symbolInfo ti)));
     let (pushed, targetWeight, exitZero) = tick_target D toNumber toStr ti;
         plan = computeRebalance D (tick_plan_input D ti price available targetWeight exitZero);
         published = pushed @ [SetKv (KV_VALUE_PREFIX @ ti_symbol ti) (JStr (rp_ownValueQuote plan))];
         metrics = [metric_of ''rebalance.decision''
                     (Some (JObj [(''symbol'', JStr (ti_symbol ti)), (''reason'', JStr (reason_str (rp_reason plan)))])) 1]
     in case rp_trade plan of
          None \<Rightarrow> Some \<lparr>to_nextState = ti_state ti, to_decisions = published, to_logs = [], to_metrics = metrics\<rparr>
        | Some (side, quantity) \<Rightarrow> do {
            ord \<leftarrow> rebalance_order ti side quantity;
            Some \<lparr>to_nextState = ti_state ti, to_decisions = published @ [ord],
                  to_logs = [log_of ''info'' ''rebalance: trading toward target''
                     (Some (JObj [(''symbol'', JStr (ti_symbol ti)),
                                  (''side'', JStr (case side of BUY \<Rightarrow> ''BUY'' | SELL \<Rightarrow> ''SELL'')),
                                  (''quantity'', JStr quantity)]))],
                  to_metrics = metrics\<rparr>
          }
   }"

section \<open>Bounds on a trade\<close>

lemma trade_plan_Some:
  "rp_trade (trade_plan D own side qty reason) = Some (sd, q) \<longleftrightarrow> sd = side \<and> q = d_toString D qty \<and> \<not> d_lte D qty (d_int D 0)"
  by (auto simp: trade_plan_def hold_plan_def)

lemma hold_plan_None [simp]: "rp_trade (hold_plan own reason) = None"
  by (simp add: hold_plan_def)

lemma floorToStep_roundToStep:
  "floorToStep D qty step = (case roundToStep D qty step of Some r \<Rightarrow> r | None \<Rightarrow> qty)"
  by (simp add: floorToStep_def roundToStep_def)

text \<open>Every trade is a floored quantity of one of three kinds.\<close>

lemma computeRebalance_trade:
  assumes "rp_trade (computeRebalance D i) = Some (sd, q)"
  shows "ri_enabled i"
    and "\<exists>x. q = d_toString D (floorToStep D x (ri_stepSize i)) \<and> \<not> d_lte D (floorToStep D x (ri_stepSize i)) (d_int D 0) \<and>
      (sd = SELL \<and> d_lte D (ri_targetWeight i) (d_int D 0) \<and> ri_exitWhenZeroWeight i \<and> x = ri_heldQty i \<or>
       sd = SELL \<and> (\<exists>y. x = d_min D (d_div D (d_abs D y) (ri_currentPrice i)) (ri_heldQty i) \<and>
          y = d_minus D (d_times D (ri_targetWeight i) (basket_total D i (d_times D (ri_currentPrice i) (ri_heldQty i))))
                (d_times D (ri_currentPrice i) (ri_heldQty i)) \<and> \<not> d_lte D (ri_currentPrice i) (d_int D 0)) \<or>
       sd = BUY \<and> (\<exists>y. x = d_div D (d_min D y (ri_availableQuote i)) (ri_currentPrice i) \<and>
          y = d_minus D (d_times D (ri_targetWeight i) (basket_total D i (d_times D (ri_currentPrice i) (ri_heldQty i))))
                (d_times D (ri_currentPrice i) (ri_heldQty i)) \<and> \<not> d_lte D (ri_currentPrice i) (d_int D 0)))"
  using assms
  by (auto simp: computeRebalance_def rotate_plan_def buy_plan_def sell_plan_def Let_def trade_plan_Some split: if_splits)

context decimal_laws
begin

lemma floorToStep_val:
  assumes "d_isFinite D v" "d_isFinite D step" "dec20 (val v)" "pow10 (val step)"
  shows "d_isFinite D (floorToStep D v step)" "val (floorToStep D v step) = floor_to (val step) (val v)"
  using roundToStep_val [OF assms] by (auto simp: floorToStep_roundToStep)

lemma basket_value_finite:
  "d_isFinite D own \<Longrightarrow> \<forall>v \<in> set vs. d_isFinite D v \<Longrightarrow> d_isFinite D (fold (\<lambda>v acc. d_plus D acc v) vs own)"
  by (induction vs arbitrary: own) (simp_all add: plus)

lemma basket_total_finite:
  assumes "d_isFinite D own" "\<forall>v \<in> set (ri_siblingValuesQuote i). d_isFinite D v"
    "d_isFinite D (ri_basketBudgetQuote i)" "d_isFinite D (ri_availableQuote i)"
  shows "d_isFinite D (basket_total D i own)"
  using basket_value_finite [OF assms(1,2)] assms(3,4)
  by (simp add: basket_total_def Let_def plus min max minus int_finite)

lemma delta_finite:
  assumes "d_isFinite D (ri_currentPrice i)" "d_isFinite D (ri_heldQty i)" "d_isFinite D (ri_targetWeight i)"
    "\<forall>v \<in> set (ri_siblingValuesQuote i). d_isFinite D v" "d_isFinite D (ri_basketBudgetQuote i)" "d_isFinite D (ri_availableQuote i)"
  shows "d_isFinite D (d_minus D (d_times D (ri_targetWeight i) (basket_total D i (d_times D (ri_currentPrice i) (ri_heldQty i))))
                (d_times D (ri_currentPrice i) (ri_heldQty i)))"
proof -
  have o: "d_isFinite D (d_times D (ri_currentPrice i) (ri_heldQty i))" using assms by (simp add: times)
  show ?thesis using basket_total_finite [OF o assms(4-6)] o assms(3) by (simp add: minus times)
qed

text \<open>The quotient a purchase floors costs at most the cash it was cut to.\<close>

lemma buy_quotient:
  assumes "d_isFinite D y" "d_isFinite D cash" "d_isFinite D price" "0 < val price"
  defines "x \<equiv> d_div D (d_min D y cash) price"
  shows "d_isFinite D x" "dec20 (val x)" "0 < val x \<Longrightarrow> val x * val price \<le> val cash * (1 + eps)"
proof -
  note m = min [OF assms(1,2)]
  note c = quotient_cost [OF conjunct1 [OF m] assms(3,4), folded x_def]
  show "d_isFinite D x" "dec20 (val x)" by (rule c)+
  assume "0 < val x"
  then have "val x * val price \<le> val (d_min D y cash) * (1 + eps)" by (rule c(3))
  also have "\<dots> \<le> val cash * (1 + eps)" using m by (intro mult_right_mono) simp_all
  finally show "val x * val price \<le> val cash * (1 + eps)" .
qed

lemma sell_quotient:
  assumes "d_isFinite D y" "d_isFinite D held" "dec20 (val held)" "d_isFinite D price" "0 < val price"
  defines "x \<equiv> d_min D (d_div D (d_abs D y) price) held"
  shows "d_isFinite D x" "dec20 (val x)" "val x \<le> val held"
proof -
  have a: "d_isFinite D (d_div D (d_abs D y) price)" "dec20 (val (d_div D (d_abs D y) price))"
    using div [OF conjunct1 [OF abs [OF assms(1)]] assms(4)] assms(5) nearest20_dec by auto
  with min [OF a(1) assms(2)] assms(3) show "d_isFinite D x" "dec20 (val x)" "val x \<le> val held"
    by (simp_all add: x_def min_def)
qed

text \<open>A floored, positive quantity prints a value on the grid.\<close>

lemma floored_trade:
  assumes "d_isFinite D x" "d_isFinite D step" "dec20 (val x)" "pow10 (val step)" "\<not> d_lte D (floorToStep D x step) (d_int D 0)"
  shows "\<exists>d n. d_new D (d_toString D (floorToStep D x step)) = Some d \<and> val d = of_int n * val step \<and> 0 < val d \<and> val d \<le> val x"
proof -
  note f = floorToStep_val [OF assms(1-4)]
  obtain d where d: "d_new D (d_toString D (floorToStep D x step)) = Some d" "val d = floor_to (val step) (val x)"
    using toString [OF f(1)] f(2) by auto
  moreover have "0 < val d" using assms(5) lte [OF f(1) int_finite, of 0] int_val [of 0] f(2) d(2) by simp
  ultimately show ?thesis
    using floor_to_le [OF pow10_pos [OF assms(4)]] by (auto simp: floor_to_def)
qed

end

section \<open>The ranking\<close>

lemma str_less_irrefl: "\<not> str_less s s"
  by (induction s) simp_all

lemma str_less_Nil [simp]: "\<not> str_less a []"
  by (cases a) simp_all

lemma str_less_trans: "str_less a b \<Longrightarrow> str_less b c \<Longrightarrow> str_less a c"
proof (induction a arbitrary: b c)
  case Nil
  then show ?case by (cases c) simp_all
next
  case (Cons x xs)
  then show ?case by (cases b; cases c) auto
qed

lemma str_less_total: "a \<noteq> b \<Longrightarrow> str_less a b \<or> str_less b a"
  by (induction a b rule: str_less.induct) (auto simp: neq_Nil_conv less_linear dest: linorder_neqE_nat)

lemma mset_sort_insert [simp]: "mset (sort_insert lt x ys) = add_mset x (mset ys)"
  by (induction ys) auto

lemma mset_js_sort [simp]: "mset (js_sort lt xs) = mset xs"
  by (induction xs) (simp_all add: js_sort_def)

lemma set_sort_insert: "set (sort_insert lt x ys) = insert x (set ys)"
  by (metis mset_sort_insert set_mset_add_mset_insert set_mset_mset)

lemma set_js_sort: "set (js_sort lt xs) = set xs"
  by (metis mset_js_sort set_mset_mset)

lemma length_js_sort: "length (js_sort lt xs) = length xs"
  by (metis mset_js_sort size_mset)

lemma sorted_sort_insert:
  assumes tr: "\<And>a b c. a \<in> S \<Longrightarrow> b \<in> S \<Longrightarrow> c \<in> S \<Longrightarrow> lt a b \<Longrightarrow> lt b c \<Longrightarrow> lt a c"
    and tot: "\<And>a b. a \<in> S \<Longrightarrow> b \<in> S \<Longrightarrow> a \<noteq> b \<Longrightarrow> lt a b \<or> lt b a"
  shows "x \<in> S \<Longrightarrow> set ys \<subseteq> S \<Longrightarrow> x \<notin> set ys \<Longrightarrow> sorted_wrt lt ys \<Longrightarrow> sorted_wrt lt (sort_insert lt x ys)"
proof (induction ys)
  case (Cons y ys)
  have elems: "set (sort_insert lt x ys) = insert x (set ys)" by (rule set_sort_insert)
  show ?case
  proof (cases "lt y x")
    case True
    with Cons elems show ?thesis by auto
  next
    case False
    then have "lt x y" using tot [of x y] Cons.prems by auto
    with Cons.prems False show ?thesis by (auto intro: tr [of x y])
  qed
qed simp

lemma sorted_js_sort:
  assumes tr: "\<And>a b c. a \<in> S \<Longrightarrow> b \<in> S \<Longrightarrow> c \<in> S \<Longrightarrow> lt a b \<Longrightarrow> lt b c \<Longrightarrow> lt a c"
    and tot: "\<And>a b. a \<in> S \<Longrightarrow> b \<in> S \<Longrightarrow> a \<noteq> b \<Longrightarrow> lt a b \<or> lt b a"
  shows "set xs \<subseteq> S \<Longrightarrow> distinct xs \<Longrightarrow> sorted_wrt lt (js_sort lt xs)"
proof (induction xs)
  case (Cons x xs)
  then have "sorted_wrt lt (sort_insert lt x (js_sort lt xs))"
    by (intro sorted_sort_insert [OF tr tot]) (auto simp: set_js_sort)
  then show ?case by (simp add: js_sort_def)
qed (simp add: js_sort_def)

text \<open>In a strictly sorted list, an element's index is the number of elements before it.\<close>

lemma findIndex_prefix: "\<forall>x \<in> set as. \<not> P x \<Longrightarrow> P e \<Longrightarrow> findIndex P (as @ e # bs) = int (length as)"
  by (induction as) simp_all

lemma filter_before:
  assumes "sorted_wrt lt (as @ e # bs)" and "\<And>x. x \<in> set bs \<Longrightarrow> \<not> lt x e" and "\<not> lt e e"
  shows "filter (\<lambda>x. lt x e) (as @ e # bs) = as"
  using assms by (auto simp: sorted_wrt_append filter_empty_conv)

context decimal_laws
begin

definition ranking :: "'d momentum_entry list \<Rightarrow> bool" where
  "ranking es \<longleftrightarrow> distinct (map me_symbol es) \<and> (\<forall>e \<in> set es. d_isFinite D (me_score e))"

lemma ranks_before_val:
  "d_isFinite D (me_score a) \<Longrightarrow> d_isFinite D (me_score b) \<Longrightarrow>
     ranks_before D a b \<longleftrightarrow> val (me_score b) < val (me_score a) \<or>
       val (me_score b) = val (me_score a) \<and> str_less (me_symbol a) (me_symbol b)"
  by (auto simp: ranks_before_def lt)

lemma ranks_before_irrefl: "d_isFinite D (me_score a) \<Longrightarrow> \<not> ranks_before D a a"
  by (simp add: ranks_before_val str_less_irrefl)

lemma ranks_before_trans:
  assumes "d_isFinite D (me_score a)" "d_isFinite D (me_score b)" "d_isFinite D (me_score c)" "ranks_before D a b" "ranks_before D b c"
  shows "ranks_before D a c"
  using assms str_less_trans [of "me_symbol a" "me_symbol b" "me_symbol c"] by (auto simp: ranks_before_val)

lemma ranks_before_asym: "d_isFinite D (me_score a) \<Longrightarrow> d_isFinite D (me_score b) \<Longrightarrow> ranks_before D a b \<Longrightarrow> \<not> ranks_before D b a"
  using ranks_before_trans [of a b a] ranks_before_irrefl by blast

lemma ranking_symbols: "ranking es \<Longrightarrow> a \<in> set es \<Longrightarrow> b \<in> set es \<Longrightarrow> me_symbol a = me_symbol b \<Longrightarrow> a = b"
  unfolding ranking_def distinct_map by (auto dest: inj_onD)

lemma ranking_sorted:
  assumes "ranking es"
  shows "sorted_wrt (ranks_before D) (js_sort (ranks_before D) es)"
proof (rule sorted_js_sort [of "set es"])
  fix a b c assume "a \<in> set es" "b \<in> set es" "c \<in> set es" "ranks_before D a b" "ranks_before D b c"
  then show "ranks_before D a c"
    using assms ranks_before_trans unfolding ranking_def by blast
next
  fix a b assume ab: "a \<in> set es" "b \<in> set es" "a \<noteq> b"
  then have "me_symbol a \<noteq> me_symbol b" using ranking_symbols [OF assms] by blast
  with ab show "ranks_before D a b \<or> ranks_before D b a"
    using assms str_less_total [of "me_symbol a" "me_symbol b"] by (auto simp: ranks_before_val ranking_def)
next
  show "distinct es" using assms by (simp add: ranking_def distinct_map)
qed simp

lemma rank_is_count:
  assumes r: "ranking es" and e: "e \<in> set es"
  shows "findIndex (\<lambda>x. me_symbol x = me_symbol e) (js_sort (ranks_before D) es) = int (length (filter (\<lambda>x. ranks_before D x e) es))"
proof -
  let ?S = "js_sort (ranks_before D) es"
  have m: "mset ?S = mset es" by simp
  have set: "set ?S = set es" by (rule set_js_sort)
  then obtain as bs where S: "?S = as @ e # bs" using e by (metis split_list)
  have so: "sorted_wrt (ranks_before D) (as @ e # bs)" using ranking_sorted [OF r] S by simp
  have fin: "d_isFinite D (me_score x)" if "x \<in> set (as @ e # bs)" for x
    using r that S set by (metis ranking_def)
  have d: "distinct (as @ e # bs)" using r S m by (metis distinct_map mset_eq_imp_distinct_iff ranking_def)
  have "\<forall>x \<in> set as. me_symbol x \<noteq> me_symbol e"
    using d ranking_symbols [OF r _ e] S set by (metis Un_iff disjoint_iff list.set_intros(1) set_append distinct_append)
  then have "findIndex (\<lambda>x. me_symbol x = me_symbol e) ?S = int (length as)" unfolding S by (intro findIndex_prefix) auto
  moreover have "filter (\<lambda>x. ranks_before D x e) ?S = as"
    unfolding S
  proof (rule filter_before [OF so])
    show "\<not> ranks_before D x e" if "x \<in> set bs" for x
      using so that fin by (intro ranks_before_asym) (auto simp: sorted_wrt_append)
    show "\<not> ranks_before D e e" using fin by (simp add: ranks_before_irrefl)
  qed
  moreover have "length (filter (\<lambda>x. ranks_before D x e) ?S) = length (filter (\<lambda>x. ranks_before D x e) es)"
    by (metis m mset_filter size_mset)
  ultimately show ?thesis by simp
qed

lemma reciprocal_nonzero:
  assumes "0 < h"
  shows "d_div D (d_int D 1) (d_int D h) \<noteq> d_int D 0"
proof -
  have "nearest20 (1 / of_int h) (val (d_div D (d_int D 1) (d_int D h)))"
    using div [OF int_finite int_finite, of h 1] assms int_val [of h] int_val [of 1] by simp
  then have "1 / of_int h * (1 - eps) \<le> val (d_div D (d_int D 1) (d_int D h))" using assms by (intro nearest20_lower) simp_all
  moreover have "0 < 1 / of_int h * (1 - eps :: rat)" using assms by (intro mult_pos_pos) simp_all
  ultimately have "0 < val (d_div D (d_int D 1) (d_int D h))" by (rule less_le_trans [rotated])
  then show ?thesis using int_val [of 0] by auto
qed

lemma ranking_perm: "mset es = mset es' \<Longrightarrow> ranking es \<Longrightarrow> ranking es'"
  unfolding ranking_def by (metis mset_eq_imp_distinct_iff mset_map set_mset_mset)

lemma weight_by_count:
  assumes "ranking (self # sibs)"
  shows "momentumTargetWeight D self sibs topK =
    (let h = min topK (int (length sibs) + 1)
     in if int (length (filter (\<lambda>x. ranks_before D x self) sibs)) < h then d_div D (d_int D 1) (d_int D h) else d_int D 0)"
proof -
  have rank: "findIndex (\<lambda>x. me_symbol x = me_symbol self) (js_sort (ranks_before D) (self # sibs))
      = int (length (filter (\<lambda>x. ranks_before D x self) sibs))"
    using rank_is_count [OF assms, of self] assms by (simp add: ranking_def ranks_before_irrefl)
  have len: "int (length (js_sort (ranks_before D) (self # sibs))) = int (length sibs) + 1" by (simp add: length_js_sort)
  have held: "(if topK < int (length sibs) + 1 then topK else int (length sibs) + 1) = min topK (int (length sibs) + 1)" by simp
  show ?thesis unfolding momentumTargetWeight_def Let_def rank len held by (simp only: not_less [symmetric] if_not_P cong: if_cong) simp
qed

text \<open>The ranks in a universe are the numbers below its size, each once.\<close>

lemma rank_below_count:
  assumes r: "ranking es" and k: "k \<le> length es"
  shows "length (filter (\<lambda>e. length (filter (\<lambda>x. ranks_before D x e) es) < k) es) = k"
proof -
  let ?lt = "ranks_before D" and ?rank = "\<lambda>e. length (filter (\<lambda>x. ranks_before D x e) es)"
  let ?S = "js_sort ?lt es"
  have m: "mset ?S = mset es" by simp
  note S = set_js_sort [of ?lt es] length_js_sort [of ?lt es]
  have rank: "?rank (?S ! i) = i" if i: "i < length es" for i
  proof -
    have e: "?S ! i \<in> set es" using i S by (metis nth_mem)
    have so: "sorted_wrt ?lt (take i ?S @ ?S ! i # drop (Suc i) ?S)"
      using ranking_sorted [OF r] i S(2) by (metis id_take_nth_drop)
    have fin: "d_isFinite D (me_score x)" if "x \<in> set es" for x using r that by (simp add: ranking_def)
    have "filter (\<lambda>x. ?lt x (?S ! i)) (take i ?S @ ?S ! i # drop (Suc i) ?S) = take i ?S"
    proof (rule filter_before [OF so])
      show "\<not> ?lt x (?S ! i)" if "x \<in> set (drop (Suc i) ?S)" for x
        using so that fin e in_set_dropD [OF that] S(1) by (intro ranks_before_asym) (auto simp: sorted_wrt_append)
      show "\<not> ?lt (?S ! i) (?S ! i)" using fin [OF e] by (rule ranks_before_irrefl)
    qed
    then have "filter (\<lambda>x. ?lt x (?S ! i)) ?S = take i ?S" using i S(2) by (metis id_take_nth_drop)
    moreover have "length (filter (\<lambda>x. ?lt x (?S ! i)) ?S) = ?rank (?S ! i)" by (metis m mset_filter size_mset)
    ultimately show ?thesis using i S(2) by simp
  qed
  have "length (filter (\<lambda>e. ?rank e < k) es) = length (filter (\<lambda>e. ?rank e < k) ?S)" by (metis m mset_filter size_mset)
  also have "\<dots> = card {i. i < length ?S \<and> ?rank (?S ! i) < k}" by (rule length_filter_conv_card)
  also have "{i. i < length ?S \<and> ?rank (?S ! i) < k} = {..<k}" using rank S(2) k by auto
  finally show ?thesis by simp
qed

end

section \<open>The shape of a tick\<close>

fun is_order :: "decision \<Rightarrow> bool" where
  "is_order (PlaceOrder _ _) = True"
| "is_order (ReplaceOrder _ _ _ _) = True"
| "is_order _ = False"

lemma no_target_no_trade:
  "d_lte D (ri_targetWeight i) (d_int D 0) \<Longrightarrow> \<not> ri_exitWhenZeroWeight i \<Longrightarrow> rp_trade (computeRebalance D i) = None"
  by (simp add: computeRebalance_def rotate_plan_def Let_def)

lemma tick_target_pushes_kv:
  "tick_target D toNumber toStr ti = (pushed, w, ez) \<Longrightarrow> d \<in> set pushed \<Longrightarrow> \<not> is_order d"
  by (auto simp: tick_target_def momentum_target_def Let_def split: if_splits option.splits)

lemma momentum_hold:
  assumes t: "tick_target D toNumber toStr ti = (pushed, w, ez)" and m: "jget (ti_config ti) ''weightMode'' = JStr ''momentum''"
    and gap: "momentumScore D (map cd_close (tick_window ti)) (intField toNumber (jget (momentumOf (ti_config ti)) ''lookbackCandles'') 30) = None \<or>
        int (length (siblingMomentum D toStr (ti_profileKv ti) (ti_symbol ti))) + 1
          < min (intField toNumber (jget (momentumOf (ti_config ti)) ''topK'') 3) (int (length (config_targets (ti_config ti))))"
  shows "w = d_int D 0" "\<not> ez"
proof -
  have mt: "momentum_target D toNumber toStr ti = (pushed, w, ez)" using t m by (simp add: tick_target_def)
  show "w = d_int D 0"
  proof (cases "momentumScore D (map cd_close (tick_window ti)) (intField toNumber (jget (momentumOf (ti_config ti)) ''lookbackCandles'') 30)")
    case None
    with mt show ?thesis by (simp add: momentum_target_def Let_def)
  next
    case (Some sc)
    with gap mt show ?thesis by (simp add: momentum_target_def Let_def min_def split: if_splits)
  qed
  show "\<not> ez"
  proof (cases "momentumScore D (map cd_close (tick_window ti)) (intField toNumber (jget (momentumOf (ti_config ti)) ''lookbackCandles'') 30)")
    case None
    with mt show ?thesis by (simp add: momentum_target_def Let_def)
  next
    case (Some sc)
    with gap mt show ?thesis by (simp add: momentum_target_def Let_def min_def split: if_splits)
  qed
qed

lemma computeTick_cases:
  assumes "computeTick D toNumber toStr ti = Some out"
  obtains price available pushed w ez where
    "d_new D (ti_currentPrice ti) = Some price" "tick_target D toNumber toStr ti = (pushed, w, ez)"
    "to_nextState out = ti_state ti"
    "to_decisions out =
       pushed @ [SetKv (KV_VALUE_PREFIX @ ti_symbol ti)
         (JStr (rp_ownValueQuote (computeRebalance D (tick_plan_input D ti price available w ez))))] @
       (case rp_trade (computeRebalance D (tick_plan_input D ti price available w ez)) of
          None \<Rightarrow> [] | Some (sd, q) \<Rightarrow> [the (rebalance_order ti sd q)])"
  using assms
  by (fastforce simp: computeTick_def Let_def split: prod.splits option.splits bind_splits)

section \<open>Properties\<close>

text \<open>
  C19. What a rebalance may trade. A trade happens only when the strategy is enabled, and its quantity is
  a positive multiple of the lot step; a sale never exceeds the held quantity; a purchase never costs
  more than the free quote balance (up to the rounding of one division).
\<close>
theorem rebalance_trade_bounded:
  assumes L: "decimal_laws D val" and run: "rp_trade (computeRebalance D i) = Some (sd, q)"
    and fin: "d_isFinite D (ri_currentPrice i)" "d_isFinite D (ri_heldQty i)" "d_isFinite D (ri_targetWeight i)"
      "\<forall>v \<in> set (ri_siblingValuesQuote i). d_isFinite D v" "d_isFinite D (ri_basketBudgetQuote i)" "d_isFinite D (ri_availableQuote i)"
      "d_isFinite D (ri_stepSize i)"
    and held: "dec20 (val (ri_heldQty i))" and step: "pow10 (val (ri_stepSize i))"
  shows "ri_enabled i \<and>
    (\<exists>d n. d_new D q = Some d \<and> val d = of_int n * val (ri_stepSize i) \<and> 0 < val d \<and>
       (sd = SELL \<longrightarrow> val d \<le> val (ri_heldQty i)) \<and>
       (sd = BUY \<longrightarrow> val d * val (ri_currentPrice i) \<le> val (ri_availableQuote i) * (1 + eps)))"
proof (rule conjI)
  show "ri_enabled i" by (rule computeRebalance_trade(1) [OF run])
  let ?own = "d_times D (ri_currentPrice i) (ri_heldQty i)"
  define y where "y = d_minus D (d_times D (ri_targetWeight i) (basket_total D i ?own)) ?own"
  have y: "d_isFinite D y" unfolding y_def by (rule decimal_laws.delta_finite [OF L fin(1-6)])
  have z: "val (d_int D 0) = 0" "d_isFinite D (d_int D 0)" using decimal_laws.int_val [OF L, of 0] decimal_laws.int_finite [OF L] by simp_all
  have price: "0 < val (ri_currentPrice i)" if "\<not> d_lte D (ri_currentPrice i) (d_int D 0)"
    using that decimal_laws.lte [OF L fin(1) z(2)] z(1) by simp
  obtain x where x: "q = d_toString D (floorToStep D x (ri_stepSize i))" "\<not> d_lte D (floorToStep D x (ri_stepSize i)) (d_int D 0)"
    and k: "sd = SELL \<and> x = ri_heldQty i \<or>
       sd = SELL \<and> x = d_min D (d_div D (d_abs D y) (ri_currentPrice i)) (ri_heldQty i) \<and> \<not> d_lte D (ri_currentPrice i) (d_int D 0) \<or>
       sd = BUY \<and> x = d_div D (d_min D y (ri_availableQuote i)) (ri_currentPrice i) \<and> \<not> d_lte D (ri_currentPrice i) (d_int D 0)"
    using computeRebalance_trade(2) [OF run] unfolding y_def by blast
  have bound: "d_isFinite D x" "dec20 (val x)" "sd = SELL \<Longrightarrow> val x \<le> val (ri_heldQty i)"
      "sd = BUY \<Longrightarrow> 0 < val (ri_currentPrice i) \<and> (0 < val x \<longrightarrow> val x * val (ri_currentPrice i) \<le> val (ri_availableQuote i) * (1 + eps))"
    using k fin(2) held decimal_laws.sell_quotient [OF L y fin(2) held fin(1) price]
      decimal_laws.buy_quotient [OF L y fin(6,1) price] price by auto
  obtain d n where d: "d_new D q = Some d" "val d = of_int n * val (ri_stepSize i)" "0 < val d" "val d \<le> val x"
    using decimal_laws.floored_trade [OF L bound(1) fin(7) bound(2) step x(2)] unfolding x(1) by blast
  have "val d * val (ri_currentPrice i) \<le> val (ri_availableQuote i) * (1 + eps)" if "sd = BUY"
  proof -
    have "0 < val x" using d(3,4) by (rule less_le_trans)
    with bound(4) [OF that] have "val x * val (ri_currentPrice i) \<le> val (ri_availableQuote i) * (1 + eps)" "0 < val (ri_currentPrice i)" by blast+
    then show ?thesis using order_trans [OF mult_right_mono [OF d(4), of "val (ri_currentPrice i)"]] less_imp_le by blast
  qed
  with d bound show "\<exists>d n. d_new D q = Some d \<and> val d = of_int n * val (ri_stepSize i) \<and> 0 < val d \<and>
       (sd = SELL \<longrightarrow> val d \<le> val (ri_heldQty i)) \<and>
       (sd = BUY \<longrightarrow> val d * val (ri_currentPrice i) \<le> val (ri_availableQuote i) * (1 + eps))"
    using order_trans [OF d(4)] by blast
qed

theorem rebalance_trade_bounded_witness:
  "rp_trade (computeRebalance dec_js
      \<lparr>ri_currentPrice = Dec 10 0, ri_heldQty = Dec 0 0, ri_targetWeight = Dec 5 1, ri_siblingValuesQuote = [Dec 100 0],
       ri_driftThreshold = Dec 5 2, ri_minTradeQuote = Dec 10 0, ri_basketBudgetQuote = Dec 1000 0, ri_availableQuote = Dec 300 0,
       ri_stepSize = Dec 1 2, ri_enabled = True, ri_exitWhenZeroWeight = False\<rparr>) = Some (BUY, ''20.000000000000000000'') \<and>
   (\<exists>d n. d_new dec_js ''20.000000000000000000'' = Some d \<and> dval d = of_int n * (1 / 100) \<and> dval d * 10 \<le> 300 * (1 + eps))"
proof -
  let ?i = "\<lparr>ri_currentPrice = Dec 10 0, ri_heldQty = Dec 0 0, ri_targetWeight = Dec 5 1, ri_siblingValuesQuote = [Dec 100 0],
       ri_driftThreshold = Dec 5 2, ri_minTradeQuote = Dec 10 0, ri_basketBudgetQuote = Dec 1000 0, ri_availableQuote = Dec 300 0,
       ri_stepSize = Dec 1 2, ri_enabled = True, ri_exitWhenZeroWeight = False\<rparr>"
  have run: "rp_trade (computeRebalance dec_js ?i) = Some (BUY, ''20.000000000000000000'')" by code_simp
  have "dec20 (dval (Dec 0 0))" "pow10 (dval (Dec 1 2))" by (rule dec20_Dec, simp) (rule pow10_Dec)
  with rebalance_trade_bounded [OF djs.decimal_laws_axioms run] run show ?thesis by (auto simp: dec_js_finite)
qed

text \<open>
  The budget is not a bound on spending. With a budget of zero, a basket already worth a thousand
  and an underweight symbol, the engine buys half the basket's value from the free balance, so the
  invested amount grows past the budget: only the deployable part is cut to the headroom, the
  purchase itself is cut to the free balance.
\<close>
lemma rebalance_spends_past_budget:
  "\<exists>q d. rp_trade (computeRebalance dec_js
      \<lparr>ri_currentPrice = Dec 1 0, ri_heldQty = Dec 0 0, ri_targetWeight = Dec 5 1, ri_siblingValuesQuote = [Dec 1000 0],
       ri_driftThreshold = Dec 5 2, ri_minTradeQuote = Dec 10 0, ri_basketBudgetQuote = Dec 0 0, ri_availableQuote = Dec 800 0,
       ri_stepSize = Dec 1 2, ri_enabled = True, ri_exitWhenZeroWeight = False\<rparr>) = Some (BUY, q) \<and>
     d_new dec_js q = Some d \<and> dval d = 500"
proof -
  have "rp_trade (computeRebalance dec_js
      \<lparr>ri_currentPrice = Dec 1 0, ri_heldQty = Dec 0 0, ri_targetWeight = Dec 5 1, ri_siblingValuesQuote = [Dec 1000 0],
       ri_driftThreshold = Dec 5 2, ri_minTradeQuote = Dec 10 0, ri_basketBudgetQuote = Dec 0 0, ri_availableQuote = Dec 800 0,
       ri_stepSize = Dec 1 2, ri_enabled = True, ri_exitWhenZeroWeight = False\<rparr>) = Some (BUY, ''500.00000000000000000'')" by code_simp
  moreover have "map_option dval (d_new dec_js ''500.00000000000000000'') = Some 500" by code_simp
  ultimately show ?thesis by auto
qed

text \<open>
  Ranking without a coordinator. Every symbol of the universe computes its own weight from its score
  and the published scores of the others, in whatever order the store lists them. Exactly
  \<open>min(topK, count)\<close> symbols then get a positive weight, each that count's reciprocal, and all others
  get zero: the weights held across the universe never exceed the whole.
\<close>
lemma momentum_holders_exact:
  assumes L: "decimal_laws D val" and uni: "distinct (map me_symbol es)" "\<forall>e \<in> set es. d_isFinite D (me_score e)"
    and sibs: "\<forall>e \<in> set es. mset (e # sib e) = mset es" and k: "0 < topK"
  shows "length (filter (\<lambda>e. momentumTargetWeight D e (sib e) topK = d_div D (d_int D 1) (d_int D (min topK (int (length es))))) es)
      = nat (min topK (int (length es))) \<and>
    (\<forall>e \<in> set es. momentumTargetWeight D e (sib e) topK \<in> {d_div D (d_int D 1) (d_int D (min topK (int (length es)))), d_int D 0})"
proof (rule conjI)
  let ?h = "min topK (int (length es))"
  let ?w = "d_div D (d_int D 1) (d_int D ?h)"
  let ?rank = "\<lambda>e. length (filter (\<lambda>x. ranks_before D x e) es)"
  have r: "decimal_laws.ranking D es" using uni by (simp add: decimal_laws.ranking_def [OF L])
  have weight: "momentumTargetWeight D e (sib e) topK = (if int (?rank e) < ?h then ?w else d_int D 0)" if e: "e \<in> set es" for e
  proof -
    have m: "mset (e # sib e) = mset es" using sibs e by blast
    have r': "decimal_laws.ranking D (e # sib e)" by (rule decimal_laws.ranking_perm [OF L m [symmetric] r])
    have "length (filter (\<lambda>x. ranks_before D x e) (e # sib e)) = ?rank e" by (metis m mset_filter size_mset)
    moreover have "\<not> ranks_before D e e" using uni(2) e decimal_laws.ranks_before_irrefl [OF L] by blast
    moreover have "int (length (sib e)) + 1 = int (length es)" using arg_cong [OF m, of size] by simp
    ultimately show ?thesis using decimal_laws.weight_by_count [OF L r', of topK] by (simp add: Let_def)
  qed
  then show "\<forall>e \<in> set es. momentumTargetWeight D e (sib e) topK \<in> {?w, d_int D 0}" by simp
  show "length (filter (\<lambda>e. momentumTargetWeight D e (sib e) topK = ?w) es) = nat ?h"
  proof (cases "es = []")
    case False
    then have h: "0 < ?h" using k by (simp add: Suc_le_eq)
    have "?w \<noteq> d_int D 0" by (rule decimal_laws.reciprocal_nonzero [OF L h])
    then have "filter (\<lambda>e. momentumTargetWeight D e (sib e) topK = ?w) es = filter (\<lambda>e. ?rank e < nat ?h) es"
      using weight h by (intro filter_cong) auto
    then show ?thesis using decimal_laws.rank_below_count [OF L r, of "nat ?h"] by simp
  qed simp
qed

definition example_scores :: "dec momentum_entry list" where
  "example_scores = [\<lparr>me_symbol = ''A'', me_score = Dec 1 1\<rparr>, \<lparr>me_symbol = ''B'', me_score = Dec 1 1\<rparr>, \<lparr>me_symbol = ''C'', me_score = Dec 3 1\<rparr>]"

text \<open>
  One tick of the strategy. It never changes the state; it always publishes the symbol's value for
  its siblings; it emits at most one order, and none unless the configuration enables it; and in
  momentum mode a symbol that cannot be scored, or a store in which too few symbols have been scored,
  trades nothing: a gap in the data never sells a held position.
\<close>
lemma rebalance_tick_contract:
  assumes L: "decimal_laws D val" and run: "computeTick D toNumber toStr ti = Some out"
  shows "to_nextState out = ti_state ti \<and>
    (\<exists>own. SetKv (KV_VALUE_PREFIX @ ti_symbol ti) (JStr own) \<in> set (to_decisions out)) \<and>
    length (filter is_order (to_decisions out)) \<le> 1 \<and>
    (jget (ti_config ti) ''enabled'' \<noteq> JBool True \<longrightarrow> filter is_order (to_decisions out) = []) \<and>
    (jget (ti_config ti) ''weightMode'' = JStr ''momentum'' \<and>
       (momentumScore D (map cd_close (tick_window ti)) (intField toNumber (jget (momentumOf (ti_config ti)) ''lookbackCandles'') 30) = None \<or>
        int (length (siblingMomentum D toStr (ti_profileKv ti) (ti_symbol ti))) + 1
          < min (intField toNumber (jget (momentumOf (ti_config ti)) ''topK'') 3) (int (length (config_targets (ti_config ti)))))
       \<longrightarrow> filter is_order (to_decisions out) = [])"
proof -
  obtain price available pushed w ez where price: "d_new D (ti_currentPrice ti) = Some price"
    and t: "tick_target D toNumber toStr ti = (pushed, w, ez)"
    and st: "to_nextState out = ti_state ti"
    and dec: "to_decisions out =
       pushed @ [SetKv (KV_VALUE_PREFIX @ ti_symbol ti)
         (JStr (rp_ownValueQuote (computeRebalance D (tick_plan_input D ti price available w ez))))] @
       (case rp_trade (computeRebalance D (tick_plan_input D ti price available w ez)) of
          None \<Rightarrow> [] | Some (sd, q) \<Rightarrow> [the (rebalance_order ti sd q)])"
    by (rule computeTick_cases [OF run])
  let ?i = "tick_plan_input D ti price available w ez"
  have kv: "filter is_order pushed = []" using tick_target_pushes_kv [OF t] by (auto simp: filter_empty_conv)
  have pub: "\<exists>own. SetKv (KV_VALUE_PREFIX @ ti_symbol ti) (JStr own) \<in> set (to_decisions out)" unfolding dec by auto
  have one: "length (filter is_order (to_decisions out)) \<le> 1" unfolding dec using kv by (simp split: option.splits)
  have quiet: "filter is_order (to_decisions out) = []" if "rp_trade (computeRebalance D ?i) = None" unfolding dec using kv that by simp
  have off: "filter is_order (to_decisions out) = []" if "jget (ti_config ti) ''enabled'' \<noteq> JBool True"
  proof (rule quiet)
    have "\<not> ri_enabled ?i" using that by (simp add: tick_plan_input_def)
    then show "rp_trade (computeRebalance D ?i) = None" using computeRebalance_trade(1) [of D ?i] by (metis option.exhaust surj_pair)
  qed
  have zero: "d_lte D (d_int D 0) (d_int D 0)"
    using decimal_laws.lte [OF L decimal_laws.int_finite [OF L] decimal_laws.int_finite [OF L]] by simp
  have gap: "filter is_order (to_decisions out) = []" if "w = d_int D 0" "\<not> ez"
  proof (rule quiet, rule no_target_no_trade)
    show "d_lte D (ri_targetWeight ?i) (d_int D 0)" using that zero by (simp add: tick_plan_input_def)
    show "\<not> ri_exitWhenZeroWeight ?i" using that by (simp add: tick_plan_input_def)
  qed
  show ?thesis
    by (intro conjI impI st pub one) (rule off, assumption, elim conjE, rule gap, (erule (1) momentum_hold [OF t])+)
qed

definition example_tick :: "dec rebalance_tick_input" where
  "example_tick =
     \<lparr>ti_profileId = ''p1'', ti_symbol = ''BTCUSDT'', ti_currentPrice = ''10'',
      ti_symbolInfo = \<lparr>si_symbol = ''BTCUSDT'', si_baseAsset = ''BTC'', si_quoteAsset = ''USDT'', si_status = ''TRADING'',
        si_filters = \<lparr>sf_minNotional = ''8'', sf_tickSize = ''0.01'', sf_stepSize = ''0.01'', sf_minQty = ''0.1'', sf_maxQty = ''9'',
          sf_minPrice = ''0'', sf_maxPrice = ''0'', sf_percentPriceBySide = JUndefined, sf_trailingDelta = JUndefined\<rparr>\<rparr>,
      ti_candlesByInterval = (\<lambda>_. None),
      ti_config = JObj [(''enabled'', JBool True), (''weightMode'', JStr ''momentum'')],
      ti_state = JObj [(''heldQuantity'', JStr ''3'')],
      ti_account = \<lparr>ac_balances = (\<lambda>_. None), ac_readable = True, ac_deployedQuoteAcrossProfiles = JUndefined\<rparr>,
      ti_profileKv = []\<rparr>"

end
