(* ===== verification/Tt_Sizing.thy ===== *)
theory Tt_Sizing
  imports Protective_Stop Position_Adapter
begin

text \<open>
  How the trailing-trade strategy sizes and limits its orders
  (\<open>packages/strategy/trailing-trade/src\<close>): fees (\<open>fees.ts\<close>), the re-entry cooldowns
  (\<open>loss-cooldown.ts\<close>, \<open>force-sell-cooldown.ts\<close>), the merge of exit latches after a lost commit
  (\<open>merge-concurrent.ts\<close>), the force-sell guards (\<open>force-sell-guards.ts\<close>), the entry budget (\<open>sizing.ts\<close>),
  order quantities (\<open>quantity.ts\<close>), the maker price (\<open>execution.ts\<close>), the stop level (\<open>stop-level.ts\<close>)
  and the risk caps (\<open>branches/risk-caps.ts\<close>).

  Configuration and state reach these functions unparsed and are \<open>json\<close>; both are objects with their
  \<open>buy\<close> and \<open>sell\<close> blocks. An exception is \<open>None\<close>.
\<close>

section \<open>Reading raw values\<close>

text \<open>\<open>new Decimal(v)\<close> of an unparsed value; anything but a string or a number throws.\<close>

fun decimal_of :: "'d decimal_js \<Rightarrow> json \<Rightarrow> 'd option" where
  "decimal_of D (JStr s) = d_new D s"
| "decimal_of D (JNum n) = Some (d_num D n)"
| "decimal_of D _ = None"

fun json_rat :: "json \<Rightarrow> rat option" where
  "json_rat (JNum (JsNum r)) = Some r"
| "json_rat _ = None"

definition buy_field :: "json \<Rightarrow> string \<Rightarrow> json" where
  "buy_field config k = jget (jget config ''buy'') k"

definition sell_field :: "json \<Rightarrow> string \<Rightarrow> json" where
  "sell_field config k = jget (jget config ''sell'') k"

section \<open>Fees\<close>

definition positive_or_zero :: "'d decimal_js \<Rightarrow> 'd option \<Rightarrow> 'd" where
  "positive_or_zero D v = (case v of Some d \<Rightarrow> if d_gt D d (d_int D 0) then d else d_int D 0 | None \<Rightarrow> d_int D 0)"

definition roundTripFeeFraction :: "'d decimal_js \<Rightarrow> json \<Rightarrow> 'd" where
  "roundTripFeeFraction D config =
     (let fees = jget config ''fees'';
          taker = decimal_of D (jcoalesce (jget fees ''takerBps'') (JStr ''0''))
      in if jget (jget config ''execution'') ''entryMode'' = JStr ''maker''
         then (let makerLeg = decimal_of D (jcoalesce (jget fees ''makerBps'') (JStr ''0''))
               in d_div D (d_plus D (positive_or_zero D makerLeg) (positive_or_zero D taker)) (d_int D 10000))
         else (case taker of
                 None \<Rightarrow> d_int D 0
               | Some t \<Rightarrow> if d_lte D t (d_int D 0) then d_int D 0 else d_div D (d_times D t (d_int D 2)) (d_int D 10000)))"

definition roundTripFeePercent :: "'d decimal_js \<Rightarrow> json \<Rightarrow> 'd" where
  "roundTripFeePercent D config = d_times D (roundTripFeeFraction D config) (d_int D 100)"

definition effectiveForceSellMinProfitPercent :: "'d decimal_js \<Rightarrow> json \<Rightarrow> string" where
  "effectiveForceSellMinProfitPercent D config =
     d_toFixedAll D (d_max D
       (case decimal_of D (sell_field config ''forceSellMinProfitPercent'') of Some c \<Rightarrow> c | None \<Rightarrow> d_int D 0)
       (roundTripFeePercent D config))"

section \<open>Cooldowns\<close>

text \<open>
  Both deadlines compare as numbers; a comparison with an absent one is false. The stamps come from a JSON
  column and the duration from a validated configuration, so an infinity or a null duration is not met.
\<close>

definition loss_deadline :: "json \<Rightarrow> json \<Rightarrow> rat option" where
  "loss_deadline state config =
     (case (json_rat (jget state ''lastLossExitAt''), json_rat (buy_field config ''lossCooldownMinutes'')) of
        (Some stamp, Some minutes) \<Rightarrow> Some (stamp + minutes * 60000)
      | _ \<Rightarrow> None)"

definition lossExitCooldownActive :: "json \<Rightarrow> json \<Rightarrow> rat \<Rightarrow> bool" where
  "lossExitCooldownActive state config now =
     (jget state ''lastLossExitAt'' \<noteq> JNull \<and>
      (case loss_deadline state config of Some t \<Rightarrow> now < t | None \<Rightarrow> False))"

text \<open>\<open>x % 60000\<close> of a positive number.\<close>

definition js_mod :: "rat \<Rightarrow> rat \<Rightarrow> rat" where
  "js_mod x m = x - m * of_int \<lfloor>x / m\<rfloor>"

definition lossCooldownMinutesLeft :: "json \<Rightarrow> json \<Rightarrow> rat \<Rightarrow> rat option" where
  "lossCooldownMinutesLeft state config now =
     (if jget state ''lastLossExitAt'' = JNull then Some 0
      else case loss_deadline state config of
             None \<Rightarrow> None
           | Some deadline \<Rightarrow>
               (let remainingMs = deadline - now
                in if remainingMs \<le> 0 then Some 0
                   else (let remainder = js_mod remainingMs 60000; wholeMinutes = (remainingMs - remainder) / 60000
                         in Some (if 0 < remainder then wholeMinutes + 1 else wholeMinutes))))"

definition forceSellCooldownActive :: "json \<Rightarrow> rat \<Rightarrow> bool" where
  "forceSellCooldownActive state now =
     (jget state ''forceSellCooldownUntilMs'' \<noteq> JNull \<and>
      (case json_rat (jget state ''forceSellCooldownUntilMs'') of Some t \<Rightarrow> now < t | None \<Rightarrow> False))"

text \<open>What a blocked entry reports.\<close>

definition lossCooldownBlock :: "string \<Rightarrow> json \<Rightarrow> log_entry \<times> metric_entry" where
  "lossCooldownBlock symbol state =
     (log_of ''info'' ''tt-loss-cooldown-blocked''
        (Some (JObj [(''symbol'', JStr symbol), (''lastLossExitAt'', jget state ''lastLossExitAt''),
                     (''lastLossExitReason'', jget state ''lastLossExitReason'')])),
      metric_of ''tt_loss_cooldown_blocked'' (Some (JObj [(''symbol'', JStr symbol)])) 1)"

definition forceSellCooldownBlock :: "string \<Rightarrow> json \<Rightarrow> log_entry \<times> metric_entry" where
  "forceSellCooldownBlock symbol state =
     (log_of ''info'' ''tt-force-sell-cooldown-blocked''
        (Some (JObj [(''symbol'', JStr symbol), (''cooldownUntilMs'', jget state ''forceSellCooldownUntilMs'')])),
      metric_of ''tt_force_sell_cooldown_blocked'' (Some (JObj [(''symbol'', JStr symbol)])) 1)"

section \<open>Merging exit latches\<close>

definition num_ge :: "json \<Rightarrow> json \<Rightarrow> bool" where
  "num_ge a b = (case (json_rat a, json_rat b) of (Some x, Some y) \<Rightarrow> y \<le> x | _ \<Rightarrow> False)"

definition laterMs :: "json \<Rightarrow> json \<Rightarrow> json" where
  "laterMs a b = (if a = JNull then b else if b = JNull then a else if num_ge a b then a else b)"

definition mergeTTLatchFields :: "json \<Rightarrow> json \<Rightarrow> json" where
  "mergeTTLatchFields base latchSource =
     (let lastLossExitAt = laterMs (jget base ''lastLossExitAt'') (jget latchSource ''lastLossExitAt'');
          lastLossExitReason =
            (if lastLossExitAt \<noteq> JNull \<and> lastLossExitAt = jget latchSource ''lastLossExitAt'' then jget latchSource ''lastLossExitReason''
             else if lastLossExitAt \<noteq> JNull \<and> lastLossExitAt = jget base ''lastLossExitAt'' then jget base ''lastLossExitReason''
             else JNull)
      in spread base
           [(''lastLossExitAt'', lastLossExitAt), (''lastLossExitReason'', lastLossExitReason),
            (''forceSellCooldownUntilMs'', laterMs (jget base ''forceSellCooldownUntilMs'') (jget latchSource ''forceSellCooldownUntilMs'')),
            (''autoTriggerBuyAtMs'', laterMs (jget base ''autoTriggerBuyAtMs'') (jget latchSource ''autoTriggerBuyAtMs''))])"

section \<open>Force-sell guards\<close>

record guard_interval =
  gi_interval :: "string option"
  gi_whenSell :: bool
  gi_whenStrongSell :: bool
  gi_whenNeutral :: bool

record force_sell_guards =
  fg_confirmMinutes :: rat
  fg_cooldownMinutes :: rat

definition SUB_HOUR_INTERVAL_MINUTES :: "string \<Rightarrow> rat option" where
  "SUB_HOUR_INTERVAL_MINUTES k = map_of [(''1m'', 1), (''5m'', 5), (''15m'', 15), (''30m'', 30)] k"

definition resolveForceSellGuards :: "guard_interval list \<Rightarrow> rat option \<Rightarrow> rat option \<Rightarrow> force_sell_guards" where
  "resolveForceSellGuards intervals confirm cooldown =
     (let subHourMinutes = List.map_filter (\<lambda>row. Option.bind (gi_interval row) SUB_HOUR_INTERVAL_MINUTES)
            (filter (\<lambda>row. gi_whenSell row \<or> gi_whenStrongSell row \<or> gi_whenNeutral row) intervals);
          shortest = (case subHourMinutes of [] \<Rightarrow> 0 | m # ms \<Rightarrow> foldl (\<lambda>mn m. if m < mn then m else mn) m ms)
      in \<lparr>fg_confirmMinutes = (case confirm of Some c \<Rightarrow> c | None \<Rightarrow> shortest),
          fg_cooldownMinutes = (case cooldown of Some c \<Rightarrow> c | None \<Rightarrow> if subHourMinutes \<noteq> [] then 60 else 0)\<rparr>)"

section \<open>The entry budget\<close>

definition MAX_DEPLOY_FRACTION :: "'d decimal_js \<Rightarrow> 'd" where
  "MAX_DEPLOY_FRACTION D = dlit D ''0.5''"

datatype entry_budget = Budget string | SizingUnconfigured | CapReached

definition resolveAccountCapQuote :: "'d decimal_js \<Rightarrow> json \<Rightarrow> 'd \<Rightarrow> 'd option" where
  "resolveAccountCapQuote D cap equity =
     (if jget cap ''mode'' = JStr ''amount'' then decOrNull D (jget cap ''amount'')
      else if jget cap ''mode'' = JStr ''percent''
      then map_option (\<lambda>pct. d_times D pct equity) (decOrNull D (jget cap ''percent''))
      else None)"

definition stopDistanceFraction :: "'d decimal_js \<Rightarrow> json \<Rightarrow> 'd option" where
  "stopDistanceFraction D config =
     (if sell_field config ''enabled'' \<noteq> JBool True then None
      else case decOrNull D (sell_field config ''stopLossPercentage'') of
             None \<Rightarrow> None
           | Some stop \<Rightarrow> if \<not> d_gt D stop (d_int D 0) \<or> \<not> d_lt D stop (d_int D 1) then None
                          else Some (d_minus D (d_int D 1) stop))"

text \<open>The desired size and whether it is risk-based.\<close>

definition desired_budget :: "'d decimal_js \<Rightarrow> json \<Rightarrow> 'd \<Rightarrow> ('d \<times> bool) option" where
  "desired_budget D config equity =
     (let sizing = buy_field config ''entrySizing''
      in if jget sizing ''mode'' = JStr ''fixed'' then map_option (\<lambda>a. (a, False)) (decOrNull D (jget sizing ''amount''))
         else if jget sizing ''mode'' = JStr ''percentOfAccount''
         then (case decOrNull D (jget sizing ''percent'') of
                 None \<Rightarrow> None
               | Some pct \<Rightarrow>
                   (case stopDistanceFraction D config of
                      None \<Rightarrow> Some (d_times D pct equity, False)
                    | Some distance \<Rightarrow> Some (d_div D (d_times D pct equity) distance, True)))
         else None)"

definition cash_clamp :: "'d decimal_js \<Rightarrow> json \<Rightarrow> 'd account_snapshot \<Rightarrow> string \<Rightarrow> 'd \<Rightarrow> bool \<Rightarrow> 'd \<Rightarrow> 'd option" where
  "cash_clamp D config account quoteAsset equity riskBased budget =
     (if jget (buy_field config ''entrySizing'') ''mode'' \<noteq> JStr ''percentOfAccount'' then Some budget
      else map_option (\<lambda>free.
             let freeCash = (if d_gt D free (d_int D 0) then free else d_int D 0);
                 b = d_min D budget freeCash
             in if riskBased then d_min D b (d_times D equity (MAX_DEPLOY_FRACTION D)) else b)
           (case ac_balances account quoteAsset of None \<Rightarrow> Some (d_int D 0) | Some bal \<Rightarrow> amount_dec D (bl_free bal)))"

definition resolveEntryBudget ::
  "'d decimal_js \<Rightarrow> json \<Rightarrow> 'd account_snapshot \<Rightarrow> string \<Rightarrow> string \<Rightarrow> entry_budget option" where
  "resolveEntryBudget D config account quoteAsset accountDeployedQuote =
     (let equity = accountEquity D account quoteAsset
      in case desired_budget D config equity of
           None \<Rightarrow> Some SizingUnconfigured
         | Some (desired, riskBased) \<Rightarrow>
             (case cash_clamp D config account quoteAsset equity riskBased (d_max D desired (d_int D 0)) of
                None \<Rightarrow> None
              | Some budget \<Rightarrow>
                  (case resolveAccountCapQuote D (buy_field config ''accountCap'') equity of
                     None \<Rightarrow> Some (Budget (d_toString D budget))
                   | Some capQuote \<Rightarrow>
                       (let deployed = (case decOrNull D (JStr accountDeployedQuote) of Some d \<Rightarrow> d | None \<Rightarrow> d_int D 0);
                            headroom = d_minus D capQuote deployed
                        in if d_lte D headroom (d_int D 0) then Some CapReached
                           else Some (Budget (d_toString D (d_min D budget headroom)))))))"

section \<open>The stop level\<close>

definition DEFAULT_LIMIT_OFFSET :: string where "DEFAULT_LIMIT_OFFSET = ''0.995''"

definition narrowProtectiveStop :: "json \<Rightarrow> json option" where
  "narrowProtectiveStop raw = (if is_object raw then Some raw else None)"

definition ttStopLimitOffset :: "'d decimal_js \<Rightarrow> json \<Rightarrow> 'd" where
  "ttStopLimitOffset D protectiveStop =
     (if jget protectiveStop ''enabled'' \<noteq> JBool True then d_int D 1
      else case jget protectiveStop ''limitOffsetPercentage'' of
             JStr raw \<Rightarrow>
               (case d_new D raw of
                  Some lo \<Rightarrow> if d_gt D lo (d_int D 0) \<and> d_lte D lo (d_int D 1) then lo else d_int D 1
                | None \<Rightarrow> d_int D 1)
           | _ \<Rightarrow> d_int D 1)"

definition resolveTTStopLevel :: "'d decimal_js \<Rightarrow> 'd \<Rightarrow> 'd \<Rightarrow> json \<Rightarrow> string \<Rightarrow> json \<Rightarrow> 'd \<times> bool" where
  "resolveTTStopLevel D avgEntry stopPct protectiveStop reference band =
     (let stop = d_times D avgEntry stopPct
      in case narrowProtectiveStop protectiveStop of
           None \<Rightarrow> (stop, False)
         | Some ps \<Rightarrow>
             if jget ps ''enabled'' \<noteq> JBool True \<or> jget ps ''onBandBlock'' \<noteq> JStr ''clamp'' then (stop, False)
             else case decOrNull D (jcoalesce (jget ps ''limitOffsetPercentage'') (JStr DEFAULT_LIMIT_OFFSET)) of
                    None \<Rightarrow> (stop, False)
                  | Some limitOffset \<Rightarrow>
                      (case clampStopToExchangeFloor D (Some stop) reference band limitOffset of
                         (Some s, clamped) \<Rightarrow> (s, clamped)
                       | (None, clamped) \<Rightarrow> (stop, clamped)))"

definition ttStopSellPrice :: "'d decimal_js \<Rightarrow> json \<Rightarrow> json \<Rightarrow> string \<Rightarrow> symbol_info \<Rightarrow> 'd option option" where
  "ttStopSellPrice D config state currentPrice info =
     (case (decOrNull D (jget state ''avgEntryPrice''), decOrNull D (sell_field config ''stopLossPercentage''),
            decOrNull D (JStr (sf_tickSize (si_filters info)))) of
        (Some avgEntry, Some stopPct, Some tick) \<Rightarrow>
          if \<not> d_gt D avgEntry (d_int D 0) \<or> \<not> d_gt D stopPct (d_int D 0) \<or> \<not> d_lte D stopPct (d_int D 1) \<or> \<not> d_gt D tick (d_int D 0)
          then Some None
          else (let (stop, clamped) = resolveTTStopLevel D avgEntry stopPct (sell_field config ''protectiveStop'') currentPrice
                      (sf_percentPriceBySide (si_filters info))
                in do {
                  trigger \<leftarrow> roundToTick D stop tick;
                  sellPrice \<leftarrow> roundToTick D (d_times D trigger (ttStopLimitOffset D (sell_field config ''protectiveStop''))) tick;
                  Some (if d_gt D sellPrice (d_int D 0) then Some sellPrice else None)
                })
      | _ \<Rightarrow> Some None)"

record 'd band_settings =
  bs_stopDistancePct :: 'd
  bs_limitOffsetPct :: 'd
  bs_onBandBlock :: json
  bs_path :: "string list"

definition ttStopBandSettings :: "'d decimal_js \<Rightarrow> json \<Rightarrow> 'd band_settings option" where
  "ttStopBandSettings D config =
     (let ps = sell_field config ''protectiveStop''
      in if jget ps ''enabled'' \<noteq> JBool True then None
         else case decOrNull D (sell_field config ''stopLossPercentage'') of
                None \<Rightarrow> None
              | Some stopPct \<Rightarrow>
                  if d_lte D stopPct (d_int D 0) \<or> d_gte D stopPct (d_int D 1) then None
                  else case decOrNull D (jcoalesce (jget ps ''limitOffsetPercentage'') (JStr DEFAULT_LIMIT_OFFSET)) of
                         None \<Rightarrow> None
                       | Some lo \<Rightarrow>
                           if d_lte D lo (d_int D 0) then None
                           else Some \<lparr>bs_stopDistancePct = d_minus D (d_int D 1) stopPct, bs_limitOffsetPct = lo,
                                      bs_onBandBlock = jcoalesce (jget ps ''onBandBlock'') (JStr ''notify''),
                                      bs_path = [''sell'', ''stopLossPercentage'']\<rparr>)"

section \<open>Quantities\<close>

datatype quantity_result =
    Quantity string
  | QMinQty | QMinNotional | QMinPurchase | QInvalidFilters | QEntryBelowStopNotional
  | QMissingAmount | QMissingPrice | QUnsupportedType | QNoBalance

fun of_finalised :: "finalised \<Rightarrow> quantity_result" where
  "of_finalised (Sized s) = Quantity s"
| "of_finalised SkipMinQty = QMinQty"
| "of_finalised SkipMinNotional = QMinNotional"

definition below_min_purchase :: "'d decimal_js \<Rightarrow> string \<Rightarrow> 'd \<Rightarrow> 'd \<Rightarrow> finalised \<Rightarrow> quantity_result" where
  "below_min_purchase D minPurchaseAmount quantity price sized =
     (if minPurchaseAmount = [] then of_finalised sized
      else case d_new D minPurchaseAmount of
             None \<Rightarrow> QInvalidFilters
           | Some minSpend \<Rightarrow>
               if d_gt D minSpend (d_int D 0) \<and> d_lt D (d_times D quantity price) minSpend then QMinPurchase
               else of_finalised sized)"

definition computeFirstBuyQuantity ::
  "'d decimal_js \<Rightarrow> string \<Rightarrow> string \<Rightarrow> symbol_filters \<Rightarrow> string \<Rightarrow> 'd entry_stop_floor option \<Rightarrow> quantity_result option" where
  "computeFirstBuyQuantity D maxPurchaseAmount currentPrice filters minPurchaseAmount stop =
     (case parseFilters D filters of
        None \<Rightarrow> Some QInvalidFilters
      | Some parsed \<Rightarrow>
          (case (d_new D currentPrice, d_new D maxPurchaseAmount) of
             (Some price, Some budget) \<Rightarrow>
               if d_lte D price (d_int D 0) then Some QInvalidFilters
               else do {
                 quantity \<leftarrow> roundToStep D (d_div D budget price) (fl_step parsed);
                 (case finalise D quantity price parsed of
                    Sized s \<Rightarrow> do {
                      gate \<leftarrow> applyEntryStopFloor D quantity price parsed stop;
                      (case gate of
                         EntryBelowStopNotional \<Rightarrow> Some QEntryBelowStopNotional
                       | EntryInvalidFilters \<Rightarrow> Some QInvalidFilters
                       | EntryQuantity _ \<Rightarrow> Some (below_min_purchase D minPurchaseAmount quantity price (Sized s)))
                    }
                  | skip \<Rightarrow> Some (of_finalised skip))
               }
           | _ \<Rightarrow> Some QInvalidFilters))"

definition ttEntryStopFloor :: "'d decimal_js \<Rightarrow> json \<Rightarrow> 'd entry_stop_floor option" where
  "ttEntryStopFloor D config =
     (if sell_field config ''enabled'' \<noteq> JBool True then None
      else case decOrNull D (sell_field config ''stopLossPercentage'') of
             None \<Rightarrow> None
           | Some stopPct \<Rightarrow>
               if \<not> d_gt D stopPct (d_int D 0) \<or> d_gt D stopPct (d_int D 1) then None
               else Some \<lparr>es_distanceFraction = d_minus D (d_int D 1) stopPct,
                          es_limitOffset = ttStopLimitOffset D (sell_field config ''protectiveStop'')\<rparr>)"

record manual_order =
  mo_side :: order_side
  mo_quantity :: "string option"
  mo_quoteAmount :: "string option"
  mo_price :: "string option"
  mo_type :: string

text \<open>\<open>s.trim()\<close> of a string, on the white space a decimal field may carry.\<close>

definition trim :: "string \<Rightarrow> string" where
  "trim s = (let ws = (\<lambda>c. c \<in> {CHR '' '', CHR 0x09, CHR 0x0A, CHR 0x0B, CHR 0x0C, CHR 0x0D, CHR 0xA0})
             in rev (dropWhile ws (rev (dropWhile ws s))))"

definition given :: "string option \<Rightarrow> string option" where
  "given v = (case v of Some s \<Rightarrow> if trim s = [] then None else Some s | None \<Rightarrow> None)"

definition manual_amount :: "'d decimal_js \<Rightarrow> manual_order \<Rightarrow> 'd \<Rightarrow> 'd size_filters \<Rightarrow> 'd + quantity_result" where
  "manual_amount D payload refPrice parsed =
     (case given (mo_quantity payload) of
        Some q \<Rightarrow>
          (case Option.bind (d_new D q) (\<lambda>x. roundToStep D x (fl_step parsed)) of
             Some r \<Rightarrow> Inl r | None \<Rightarrow> Inr QInvalidFilters)
      | None \<Rightarrow>
          (case given (mo_quoteAmount payload) of
             Some q \<Rightarrow>
               (case Option.bind (d_new D q) (\<lambda>x. roundToStep D (d_div D x refPrice) (fl_step parsed)) of
                  Some r \<Rightarrow> Inl r | None \<Rightarrow> Inr QInvalidFilters)
           | None \<Rightarrow> Inr QMissingAmount))"

definition computeManualOrderQuantity ::
  "'d decimal_js \<Rightarrow> manual_order \<Rightarrow> string \<Rightarrow> symbol_filters \<Rightarrow> quantity_result" where
  "computeManualOrderQuantity D payload marketPrice filters =
     (if mo_type payload \<noteq> ''MARKET'' \<and> mo_type payload \<noteq> ''LIMIT'' then QUnsupportedType
      else if mo_type payload = ''LIMIT'' \<and> given (mo_price payload) = None then QMissingPrice
      else case d_new D (if mo_type payload = ''LIMIT'' then the (mo_price payload) else marketPrice) of
             None \<Rightarrow> QInvalidFilters
           | Some refPrice \<Rightarrow>
               if d_lte D refPrice (d_int D 0) then QInvalidFilters
               else case parseFilters D filters of
                      None \<Rightarrow> QInvalidFilters
                    | Some parsed \<Rightarrow>
                        (case manual_amount D payload refPrice parsed of
                           Inr skip \<Rightarrow> skip
                         | Inl quantity \<Rightarrow> of_finalised (finalise D quantity refPrice parsed)))"

definition computeSellQuantity :: "'d decimal_js \<Rightarrow> string \<Rightarrow> string \<Rightarrow> symbol_filters \<Rightarrow> quantity_result option" where
  "computeSellQuantity D freeBase currentPrice filters =
     (case parseFilters D filters of
        None \<Rightarrow> Some QInvalidFilters
      | Some parsed \<Rightarrow>
          (case (d_new D freeBase, d_new D currentPrice) of
             (Some free, Some price) \<Rightarrow>
               if d_lte D price (d_int D 0) then Some QInvalidFilters
               else if d_lte D free (d_int D 0) then Some QNoBalance
               else map_option (\<lambda>quantity. of_finalised (finalise D quantity price parsed)) (roundToStep D free (fl_step parsed))
           | _ \<Rightarrow> Some QInvalidFilters))"

section \<open>The maker price\<close>

definition resolveMakerEntryLimit :: "'d decimal_js \<Rightarrow> json \<Rightarrow> string \<Rightarrow> symbol_filters \<Rightarrow> string option option" where
  "resolveMakerEntryLimit D config currentPrice filters =
     (if jget (jget config ''execution'') ''entryMode'' \<noteq> JStr ''maker'' then Some None
      else case (d_new D currentPrice, decimal_of D (jcoalesce (jget (jget config ''execution'') ''makerOffsetBps'') (JStr ''0'')),
                 d_new D (sf_tickSize filters)) of
             (Some price, Some offsetBps, Some tick) \<Rightarrow>
               if d_lte D tick (d_int D 0) then Some None
               else map_option (\<lambda>rounded.
                      let low = (case d_new D (sf_minPrice filters) of
                                   Some mp \<Rightarrow> d_gt D mp (d_int D 0) \<and> d_lt D rounded mp | None \<Rightarrow> False)
                      in if d_lte D rounded (d_int D 0) \<or> low then None else Some (toFixedStep D rounded tick))
                    (roundToStep D (d_times D price (d_minus D (d_int D 1) (d_div D offsetBps (d_int D 10000)))) tick)
           | _ \<Rightarrow> Some None)"

section \<open>Risk caps\<close>

datatype risk_cap = ExposureCap | LossBudget | AccountExposureCap

record risk_veto =
  rv_cap :: risk_cap
  rv_capQuote :: json
  rv_projectedDeployed :: string
  rv_projectedWorstCaseLoss :: "string option"

definition armed :: "json \<Rightarrow> bool" where
  "armed raw \<longleftrightarrow> raw \<noteq> JStr [] \<and> raw \<noteq> JStr ''0''"

definition deployed_so_far :: "'d decimal_js \<Rightarrow> json \<Rightarrow> 'd" where
  "deployed_so_far D state =
     (case (decimal_of D (jcoalesce (jget state ''avgEntryPrice'') (JStr [])), decimal_of D (jcoalesce (jget state ''heldQuantity'') (JStr []))) of
        (Some avg, Some heldQty) \<Rightarrow> d_times D avg heldQty
      | _ \<Rightarrow> d_int D 0)"

text \<open>The fraction of the deployed quote a fired stop loses.\<close>

definition loss_fraction :: "'d decimal_js \<Rightarrow> json \<Rightarrow> 'd" where
  "loss_fraction D config =
     (case (if truthy (sell_field config ''enabled'') then decimal_of D (sell_field config ''stopLossPercentage'') else None) of
        Some stop \<Rightarrow> if d_gt D stop (d_int D 0) \<and> d_lte D stop (d_int D 1) then d_minus D (d_int D 1) stop else d_int D 1
      | None \<Rightarrow> d_int D 1)"

definition exposure_veto :: "'d decimal_js \<Rightarrow> json \<Rightarrow> 'd \<Rightarrow> risk_veto option" where
  "exposure_veto D maxExposure projected =
     (if \<not> armed maxExposure then None
      else case decimal_of D maxExposure of
             Some cap \<Rightarrow>
               if d_gt D projected cap
               then Some \<lparr>rv_cap = ExposureCap, rv_capQuote = maxExposure, rv_projectedDeployed = d_toString D projected,
                          rv_projectedWorstCaseLoss = None\<rparr>
               else None
           | None \<Rightarrow> None)"

definition loss_veto :: "'d decimal_js \<Rightarrow> json \<Rightarrow> 'd \<Rightarrow> 'd \<Rightarrow> risk_veto option" where
  "loss_veto D maxLoss projected lossFraction =
     (if \<not> armed maxLoss then None
      else case decimal_of D maxLoss of
             Some cap \<Rightarrow>
               (let worst = d_times D projected lossFraction
                in if d_gt D worst cap
                   then Some \<lparr>rv_cap = LossBudget, rv_capQuote = maxLoss, rv_projectedDeployed = d_toString D projected,
                              rv_projectedWorstCaseLoss = Some (d_toString D worst)\<rparr>
                   else None)
           | None \<Rightarrow> None)"

definition account_veto :: "'d decimal_js \<Rightarrow> 'd option \<Rightarrow> 'd \<Rightarrow> 'd \<Rightarrow> risk_veto option" where
  "account_veto D accountCapQuote accountDeployed addNotional =
     (case accountCapQuote of
        None \<Rightarrow> None
      | Some cap \<Rightarrow>
          (let projected = d_plus D accountDeployed addNotional
           in if d_gt D projected cap
              then Some \<lparr>rv_cap = AccountExposureCap, rv_capQuote = JStr (d_toString D cap), rv_projectedDeployed = d_toString D projected,
                         rv_projectedWorstCaseLoss = None\<rparr>
              else None))"

definition evaluateRiskCaps ::
  "'d decimal_js \<Rightarrow> json \<Rightarrow> json \<Rightarrow> string \<Rightarrow> string \<Rightarrow> string \<Rightarrow> string \<Rightarrow> risk_veto option" where
  "evaluateRiskCaps D config state addQuantity currentPrice accountDeployedQuote accountEquityQuote =
     (let maxExposure = buy_field config ''maxSymbolExposureQuote''; maxLoss = buy_field config ''maxPositionLossQuote'';
          accountCapQuote = resolveAccountCapQuote D (buy_field config ''accountCap'')
            (case d_new D accountEquityQuote of Some e \<Rightarrow> e | None \<Rightarrow> d_int D 0)
      in if \<not> armed maxExposure \<and> \<not> armed maxLoss \<and> accountCapQuote = None then None
         else case (d_new D currentPrice, d_new D addQuantity) of
                (Some price, Some addQty) \<Rightarrow>
                  (let addNotional = d_times D addQty price;
                       projected = d_plus D (deployed_so_far D state) addNotional
                   in case exposure_veto D maxExposure projected of
                        Some v \<Rightarrow> Some v
                      | None \<Rightarrow>
                          (case loss_veto D maxLoss projected (loss_fraction D config) of
                             Some v \<Rightarrow> Some v
                           | None \<Rightarrow>
                               account_veto D accountCapQuote
                                 (case d_new D accountDeployedQuote of Some d \<Rightarrow> d | None \<Rightarrow> d_int D 0) addNotional))
              | _ \<Rightarrow> None)"

section \<open>Latches\<close>

text \<open>A latch stamp: null or a finite number of milliseconds.\<close>

definition ms_stamp :: "json \<Rightarrow> bool" where
  "ms_stamp v \<longleftrightarrow> v = JNull \<or> json_rat v \<noteq> None"

lemma ms_stamp_cases:
  assumes "ms_stamp v"
  obtains "v = JNull" | r where "v = JNum (JsNum r)"
proof (cases "v = JNull")
  case False
  then obtain r where "json_rat v = Some r" using assms by (auto simp: ms_stamp_def)
  then have "v = JNum (JsNum r)" by (cases v rule: json_rat.cases) simp_all
  then show ?thesis by (rule that(2))
qed (rule that(1))

text \<open>The later of two stamps, and a deadline a fixed span after it.\<close>

definition running :: "json \<Rightarrow> rat \<Rightarrow> rat \<Rightarrow> bool" where
  "running v dur now \<longleftrightarrow> (case json_rat v of Some t \<Rightarrow> now < t + dur | None \<Rightarrow> False)"

lemma running_laterMs:
  assumes "ms_stamp a" "ms_stamp b"
  shows "running (laterMs a b) w now \<longleftrightarrow> running a w now \<or> running b w now"
  by (rule ms_stamp_cases [OF assms(1)]; rule ms_stamp_cases [OF assms(2)])
     (auto simp: laterMs_def num_ge_def running_def)

lemma loss_running:
  "lossExitCooldownActive state config now \<longleftrightarrow>
     (\<exists>m. json_rat (buy_field config ''lossCooldownMinutes'') = Some m \<and> running (jget state ''lastLossExitAt'') (m * 60000) now)"
  by (auto simp: lossExitCooldownActive_def loss_deadline_def running_def split: option.splits)

lemma force_running:
  "forceSellCooldownActive state now \<longleftrightarrow> running (jget state ''forceSellCooldownUntilMs'') 0 now"
  by (auto simp: forceSellCooldownActive_def running_def split: option.splits)

lemma jget_merge:
  "jget (mergeTTLatchFields b l) ''lastLossExitAt'' = laterMs (jget b ''lastLossExitAt'') (jget l ''lastLossExitAt'')"
  "jget (mergeTTLatchFields b l) ''forceSellCooldownUntilMs'' =
     laterMs (jget b ''forceSellCooldownUntilMs'') (jget l ''forceSellCooldownUntilMs'')"
  "k \<notin> {''lastLossExitAt'', ''lastLossExitReason'', ''forceSellCooldownUntilMs'', ''autoTriggerBuyAtMs''} \<Longrightarrow>
     jget (mergeTTLatchFields b l) k = jget b k"
  by (simp_all add: mergeTTLatchFields_def jget_spread Let_def)

lemma merge_position:
  assumes "is_object b"
  shows "tt_readPosition (mergeTTLatchFields b l) = tt_readPosition b"
proof -
  have "is_object (mergeTTLatchFields b l)" by (simp add: mergeTTLatchFields_def Let_def)
  then show ?thesis using assms by (simp add: tt_readPosition_def tt_asCurrentBody_def currentSchemaBody_def jget_merge)
qed

text \<open>
  The minutes shown for a loss cooldown: the remaining time rounded up to whole minutes.
\<close>
lemma minutes_left_ceiling:
  assumes "loss_deadline state config = Some t" "jget state ''lastLossExitAt'' \<noteq> JNull"
  shows "lossCooldownMinutesLeft state config now = Some (of_int (max 0 \<lceil>(t - now) / 60000\<rceil>))"
proof (cases "t - now \<le> 0")
  case True
  then have "\<lceil>(t - now) / 60000\<rceil> \<le> 0" by (simp add: ceiling_le_zero divide_nonpos_pos)
  then show ?thesis using True assms by (simp add: lossCooldownMinutesLeft_def)
next
  case False
  let ?x = "(t - now) / 60000"
  have "0 < ?x" using False by simp
  then have "0 \<le> \<lceil>?x\<rceil>" by (simp add: less_imp_le)
  moreover have "(if 0 < js_mod (t - now) 60000 then (t - now - js_mod (t - now) 60000) / 60000 + 1
      else (t - now - js_mod (t - now) 60000) / 60000) = of_int \<lceil>?x\<rceil>"
    using of_int_floor_le [of ?x]
    by (cases "?x = of_int \<lfloor>?x\<rfloor>") (simp_all add: js_mod_def ceiling_altdef field_simps)
  ultimately show ?thesis using False assms by (simp add: lossCooldownMinutesLeft_def Let_def)
qed

section \<open>What the entry budget bounds\<close>

lemma decOrNull_finite: "decOrNull D v = Some d \<Longrightarrow> d_isFinite D d"
  by (cases v) (auto simp: Let_def split: if_splits option.splits)

definition entry_mode :: "json \<Rightarrow> json" where
  "entry_mode config = jget (buy_field config ''entrySizing'') ''mode''"

definition entry_percent :: "'d decimal_js \<Rightarrow> json \<Rightarrow> 'd option" where
  "entry_percent D config = decOrNull D (jget (buy_field config ''entrySizing'') ''percent'')"

lemma of_finalised_Quantity: "of_finalised z = Quantity s \<longleftrightarrow> z = Sized s"
  by (cases z) simp_all

lemma below_min_purchase_Quantity: "below_min_purchase D least q p z = Quantity s \<Longrightarrow> z = Sized s"
  by (auto simp: below_min_purchase_def of_finalised_Quantity split: if_splits option.splits)

text \<open>A first buy that is sized is the floored quotient of its budget, finalised at the price.\<close>

lemma first_buy_sized:
  fixes D :: "'d decimal_js"
  assumes "computeFirstBuyQuantity D b price filters least stop = Some (Quantity s)"
    and "d_new D price = Some p" "parseFilters D filters = Some f" "d_new D b = Some n"
  obtains q where "roundToStep D (d_div D n p) (fl_step f) = Some q" "finalise D q p f = Sized s" "\<not> d_lte D p (d_int D 0)"
proof -
  have p: "\<not> d_lte D p (d_int D 0)" using assms by (auto simp: computeFirstBuyQuantity_def)
  with assms obtain q where q: "roundToStep D (d_div D n p) (fl_step f) = Some q"
    by (auto simp: computeFirstBuyQuantity_def bind_eq_Some_conv)
  have "finalise D q p f = Sized s"
  proof (cases "finalise D q p f")
    case (Sized x)
    have run: "Option.bind (applyEntryStopFloor D q p f stop) (\<lambda>gate. case gate of
        EntryQuantity _ \<Rightarrow> Some (below_min_purchase D least q p (Sized x))
      | EntryBelowStopNotional \<Rightarrow> Some QEntryBelowStopNotional
      | EntryInvalidFilters \<Rightarrow> Some QInvalidFilters) = Some (Quantity s)"
      using assms p q Sized by (simp add: computeFirstBuyQuantity_def)
    then obtain gate :: "'d entry_gate" where "(case gate of EntryQuantity _ \<Rightarrow> Some (below_min_purchase D least q p (Sized x))
        | EntryBelowStopNotional \<Rightarrow> Some QEntryBelowStopNotional | EntryInvalidFilters \<Rightarrow> Some QInvalidFilters) = Some (Quantity s)"
      by (auto simp only: bind_eq_Some_conv)
    then have "below_min_purchase D least q p (Sized x) = Quantity s" by (cases gate) simp_all
    from below_min_purchase_Quantity [OF this] show ?thesis using Sized by simp
  qed (use assms p q in \<open>simp_all add: computeFirstBuyQuantity_def\<close>)
  with p q show ?thesis by (rule that [rotated -1])
qed

context decimal_laws
begin

lemmas arith_finite = plus [THEN conjunct1] minus [THEN conjunct1] times [THEN conjunct1] int_finite

lemma half_literal: "d_isFinite D (MAX_DEPLOY_FRACTION D)" "val (MAX_DEPLOY_FRACTION D) = 1 / 2"
proof -
  have p: "plain_parse ''0.5'' = Some (5, 1)"
    by (simp add: plain_parse_def unsigned_parse_def digits_of_def digit_of_def num_of_def)
  show "d_isFinite D (MAX_DEPLOY_FRACTION D)" "val (MAX_DEPLOY_FRACTION D) = 1 / 2"
    using dlit_val [OF decimal_laws_axioms p] by (simp_all add: MAX_DEPLOY_FRACTION_def)
qed

lemma equity_finite:
  assumes "\<And>line. ac_balances account asset = Some line \<Longrightarrow>
    leg_value D val (bl_free line) free \<and> leg_value D val (bl_locked line) locked"
  shows "d_isFinite D (accountEquity D account asset)"
proof -
  have "d_isFinite D (equity_cash D (ac_balances account asset))"
    using assms plus int_finite by (cases "ac_balances account asset") (auto simp: equity_cash_def leg_value_def)
  then show ?thesis
    unfolding accountEquity_def by (auto intro!: arith_finite dest: decOrNull_finite split: option.splits)
qed

lemma cap_finite: "resolveAccountCapQuote D cap e = Some c \<Longrightarrow> d_isFinite D e \<Longrightarrow> d_isFinite D c"
  by (auto simp: resolveAccountCapQuote_def intro: arith_finite dest: decOrNull_finite split: if_splits)

lemma stopDistance_positive:
  assumes "stopDistanceFraction D config = Some w"
  shows "d_isFinite D w" "0 < val w"
proof -
  obtain s where s: "d_isFinite D s" "d_lt D s (d_int D 1)" "w = d_minus D (d_int D 1) s"
    using assms by (auto simp: stopDistanceFraction_def dest: decOrNull_finite split: if_splits option.splits)
  have m: "d_isFinite D w" "nearest20 (1 - val s) (val w)" using minus [OF int_finite s(1), of 1] by (simp_all add: s(3) int_val)
  have "val s < 1" using s(2) lt [OF s(1) int_finite] int_val by simp
  then have "0 < (1 - val s) * (1 - eps)" "(1 - val s) * (1 - eps) \<le> val w" using nearest20_lower [OF m(2)] by simp_all
  then show "d_isFinite D w" "0 < val w" using m(1) by simp_all
qed

lemma desired_finite:
  assumes "desired_budget D config e = Some (x, r)" "d_isFinite D e"
  shows "d_isFinite D x"
  using assms
  by (auto simp: desired_budget_def Let_def intro!: arith_finite div [THEN conjunct1]
      dest: decOrNull_finite stopDistance_positive split: if_splits option.splits)

lemma desired_risk:
  assumes "desired_budget D config e = Some (x, r)" "entry_mode config = JStr ''percentOfAccount''"
    and "stopDistanceFraction D config = Some w"
  shows "r" "\<exists>pct. entry_percent D config = Some pct \<and> x = d_div D (d_times D pct e) w"
  using assms by (auto simp: desired_budget_def entry_mode_def entry_percent_def Let_def split: option.splits)

text \<open>The clamp to the free cash and, for a risk-based size, to half of the equity.\<close>

lemma cash_clamp_bounds:
  assumes clamp: "cash_clamp D config account asset e r x = Some m" and mode: "entry_mode config = JStr ''percentOfAccount''"
    and fin: "d_isFinite D e" "d_isFinite D x"
    and wallet: "\<And>line. ac_balances account asset = Some line \<Longrightarrow> leg_value D val (bl_free line) free"
  shows "d_isFinite D m" "val m \<le> val x" "val m \<le> (if ac_balances account asset = None then 0 else max 0 free)"
    and "r \<Longrightarrow> val m \<le> val (d_times D e (MAX_DEPLOY_FRACTION D))"
proof -
  obtain c where c: "(case ac_balances account asset of None \<Rightarrow> Some (d_int D 0) | Some bal \<Rightarrow> amount_dec D (bl_free bal)) = Some c"
    and m: "m = (let b = d_min D x (if d_gt D c (d_int D 0) then c else d_int D 0)
                 in if r then d_min D b (d_times D e (MAX_DEPLOY_FRACTION D)) else b)"
    using clamp mode by (auto simp: cash_clamp_def entry_mode_def Let_def)
  define k where "k = (if d_gt D c (d_int D 0) then c else d_int D 0)"
  let ?h = "d_times D e (MAX_DEPLOY_FRACTION D)"
  have cf: "d_isFinite D c" "val c = (if ac_balances account asset = None then 0 else free)"
    using c wallet by (auto simp: leg_value_def int_finite int_val split: option.splits)
  have f: "d_isFinite D k" "val k = max 0 (val c)"
    using cf(1) lt [OF int_finite cf(1)] by (simp_all add: k_def int_finite int_val max_def)
  note b = min [OF fin(2) f(1)]
  note n = min [OF conjunct1 [OF b] arith_finite(3) [OF fin(1) half_literal(1)]]
  have mk: "m = (if r then d_min D (d_min D x k) ?h else d_min D x k)" unfolding m k_def Let_def ..
  show "d_isFinite D m" using b n by (simp add: mk)
  have "val m \<le> min (val x) (val k)" using b n by (cases r) (simp_all add: mk min_le_iff_disj)
  then show "val m \<le> val x" "val m \<le> (if ac_balances account asset = None then 0 else max 0 free)"
    unfolding f(2) cf(2) by (auto split: if_splits)
  show "val m \<le> val ?h" if r using that b n by (simp add: mk)
qed

text \<open>Every limit a resolved budget keeps.\<close>

lemma budget_bounds:
  fixes config account asset
  defines "e \<equiv> accountEquity D account asset"
  assumes run: "resolveEntryBudget D config account asset deployed = Some (Budget b)"
    and mode: "entry_mode config = JStr ''percentOfAccount''"
    and wallet: "\<And>line. ac_balances account asset = Some line \<Longrightarrow>
      leg_value D val (bl_free line) free \<and> leg_value D val (bl_locked line) locked"
  obtains m where "d_isFinite D m" "b = d_toString D m"
    "val m \<le> (if ac_balances account asset = None then 0 else max 0 free)"
    "\<And>c. resolveAccountCapQuote D (buy_field config ''accountCap'') e = Some c \<Longrightarrow>
       val m \<le> val (d_minus D c (case decOrNull D (JStr deployed) of Some d \<Rightarrow> d | None \<Rightarrow> d_int D 0))"
    "\<And>w pct. stopDistanceFraction D config = Some w \<Longrightarrow> entry_percent D config = Some pct \<Longrightarrow>
       val m \<le> val (d_times D e (MAX_DEPLOY_FRACTION D)) \<and> val m \<le> max 0 (val (d_div D (d_times D pct e) w))"
proof -
  have ef: "d_isFinite D e" unfolding e_def using wallet by (rule equity_finite)
  obtain x r n where x: "desired_budget D config e = Some (x, r)"
    and n: "cash_clamp D config account asset e r (d_max D x (d_int D 0)) = Some n"
    using run unfolding resolveEntryBudget_def Let_def e_def [symmetric]
    by (auto split: option.splits prod.splits)
  have xf: "d_isFinite D x" by (rule desired_finite [OF x ef])
  have mx: "d_isFinite D (d_max D x (d_int D 0))" "val (d_max D x (d_int D 0)) = max (val x) 0"
    using max [OF xf int_finite] int_val by auto
  note cl = cash_clamp_bounds [OF n mode ef mx(1), where free = free]
  let ?d = "case decOrNull D (JStr deployed) of Some d \<Rightarrow> d | None \<Rightarrow> d_int D 0"
  have df: "d_isFinite D ?d" using int_finite decOrNull_finite [of D "JStr deployed"] by (simp split: option.splits del: decOrNull.simps)
  obtain m where m: "b = d_toString D m" "d_isFinite D m" "val m \<le> val n"
    and cap: "\<And>c. resolveAccountCapQuote D (buy_field config ''accountCap'') e = Some c \<Longrightarrow> val m \<le> val (d_minus D c ?d)"
  proof (cases "resolveAccountCapQuote D (buy_field config ''accountCap'') e")
    case None
    then show ?thesis using that [of n] cl(1) wallet run x n by (simp add: resolveEntryBudget_def Let_def e_def)
  next
    case (Some c)
    have hf: "d_isFinite D (d_minus D c ?d)" using minus [OF cap_finite [OF Some ef] df] by blast
    have "b = d_toString D (d_min D n (d_minus D c ?d))"
      using run x n Some by (simp add: resolveEntryBudget_def Let_def e_def del: decOrNull.simps split: if_splits)
    then show ?thesis using that [of "d_min D n (d_minus D c ?d)"] min [OF cl(1) hf] wallet Some by auto
  qed
  show ?thesis
  proof (rule that [OF m(2,1) _ cap])
    show "val m \<le> (if ac_balances account asset = None then 0 else max 0 free)" using m(3) cl(3) wallet by (meson order_trans)
    fix w pct assume w: "stopDistanceFraction D config = Some w" "entry_percent D config = Some pct"
    show "val m \<le> val (d_times D e (MAX_DEPLOY_FRACTION D)) \<and> val m \<le> max 0 (val (d_div D (d_times D pct e) w))"
      using m(3) cl(2,4) wallet mx(2) desired_risk [OF x mode w(1)] w(2) by (auto simp: max.commute)
  qed
qed

text \<open>A sized first buy costs at most its budget, up to one rounding.\<close>

lemma first_buy_cost:
  assumes "computeFirstBuyQuantity D b price filters minSpend stop = Some (Quantity s)"
    and "b = d_toString D m" "d_isFinite D m" "d_new D price = Some p" "d_isFinite D p"
    and "parseFilters D filters = Some f" "d_isFinite D (fl_step f)" "d_isFinite D (fl_minQty f)" "pow10 (val (fl_step f))"
  obtains q where "d_new D s = Some q" "0 < val q" "0 < val p" "val q * val p \<le> val m * (1 + eps)"
proof -
  obtain n where n: "d_new D b = Some n" "d_isFinite D n" "val n = val m" using toString [OF assms(3)] assms(2) by auto
  obtain q where q: "roundToStep D (d_div D n p) (fl_step f) = Some q" "finalise D q p f = Sized s" and p: "\<not> d_lte D p (d_int D 0)"
    by (rule first_buy_sized [OF assms(1,4,6) n(1)])
  have p0: "0 < val p" using p lte [OF assms(5) int_finite] int_val by simp
  note c = quotient_cost [OF n(2) assms(5) p0]
  obtain d where d: "d_new D s = Some d" "0 < val d" "val d \<le> val (d_div D n p)"
    using finalise_backed [OF c(1) assms(7,8) c(2) assms(9) q] by blast
  have "val d * val p \<le> val (d_div D n p) * val p" using d(3) p0 by (intro mult_right_mono) simp_all
  also have "\<dots> \<le> val m * (1 + eps)" using c(3) d(2,3) n(3) by simp
  finally show ?thesis using that d p0 by blast
qed

text \<open>A positive amount under a rounded limit stays under the exact limit, up to one more rounding.\<close>

lemma under_rounded:
  assumes "nearest20 x t" "val m \<le> t" "0 < val m" "cost \<le> val m * (1 + eps)"
  shows "cost \<le> x * (1 + eps) ^ 2"
proof -
  have "val m \<le> x * (1 + eps)" using nearest20_pos(2) [OF assms(1)] assms(2,3) by linarith
  then have "val m * (1 + eps) \<le> x * (1 + eps) * (1 + eps)" by (intro mult_right_mono) simp_all
  then show ?thesis using assms(4) unfolding power2_eq_square mult.assoc by linarith
qed

lemma under_risk:
  assumes "d_isFinite D pct" "d_isFinite D e" "d_isFinite D w" "0 < val w"
    and "val m \<le> max 0 (val (d_div D (d_times D pct e) w))" "0 < val m" "cost \<le> val m * (1 + eps)"
  shows "cost * val w \<le> val pct * val e * (1 + eps) ^ 3"
proof -
  let ?t = "d_times D pct e" and ?k = "1 + eps"
  have t: "d_isFinite D ?t" "nearest20 (val pct * val e) (val ?t)" using times [OF assms(1,2)] by auto
  have x: "val m \<le> val (d_div D ?t w)" "0 < val (d_div D ?t w)" using assms(5,6) by linarith+
  have "val (d_div D ?t w) * val w \<le> val ?t * ?k" by (rule quotient_cost(3) [OF t(1) assms(3,4) x(2)])
  moreover have "0 < val (d_div D ?t w) * val w" using x(2) assms(4) by simp
  ultimately have "0 < val ?t * ?k" by linarith
  then have t0: "0 < val ?t" by (simp add: zero_less_mult_iff)
  have "cost * val w \<le> val m * ?k * val w" using assms(4,7) by (intro mult_right_mono) simp_all
  also have "\<dots> \<le> val (d_div D ?t w) * ?k * val w" using x(1) assms(4) by (intro mult_right_mono) simp_all
  also have "\<dots> = val (d_div D ?t w) * val w * ?k" by (simp only: mult_ac)
  also have "\<dots> \<le> val ?t * ?k * ?k" by (intro mult_right_mono quotient_cost(3) [OF t(1) assms(3,4) x(2)]) simp_all
  also have "\<dots> \<le> val pct * val e * ?k * ?k * ?k" by (intro mult_right_mono nearest20_pos(2) [OF t(2) t0]) simp_all
  finally show ?thesis unfolding power3_eq_cube mult.assoc .
qed

end

section \<open>What the risk caps bound\<close>

text \<open>The cost basis of the tracked position, and the share of it that a fired stop loses.\<close>

definition cost_basis :: "'d decimal_js \<Rightarrow> ('d \<Rightarrow> rat) \<Rightarrow> json \<Rightarrow> rat" where
  "cost_basis D val state =
     (case (decimal_of D (jcoalesce (jget state ''avgEntryPrice'') (JStr [])), decimal_of D (jcoalesce (jget state ''heldQuantity'') (JStr []))) of
        (Some avg, Some heldQty) \<Rightarrow> val avg * val heldQty
      | _ \<Rightarrow> 0)"

definition share_at_risk :: "'d decimal_js \<Rightarrow> ('d \<Rightarrow> rat) \<Rightarrow> json \<Rightarrow> rat" where
  "share_at_risk D val config =
     (case (if truthy (sell_field config ''enabled'') then decimal_of D (sell_field config ''stopLossPercentage'') else None) of
        Some stop \<Rightarrow> if 0 < val stop \<and> val stop \<le> 1 then 1 - val stop else 1
      | None \<Rightarrow> 1)"

definition finite_or_absent :: "'d decimal_js \<Rightarrow> 'd option \<Rightarrow> bool" where
  "finite_or_absent D v \<longleftrightarrow> (case v of Some d \<Rightarrow> d_isFinite D d | None \<Rightarrow> True)"

text \<open>A run without a veto has passed all three tests.\<close>

lemma no_veto:
  assumes "evaluateRiskCaps D config state addQuantity currentPrice dep eq = None"
    and "d_new D currentPrice = Some p" "d_new D addQuantity = Some a"
  shows "exposure_veto D (buy_field config ''maxSymbolExposureQuote'') (d_plus D (deployed_so_far D state) (d_times D a p)) = None"
    and "loss_veto D (buy_field config ''maxPositionLossQuote'') (d_plus D (deployed_so_far D state) (d_times D a p)) (loss_fraction D config) = None"
    and "account_veto D (resolveAccountCapQuote D (buy_field config ''accountCap'') (case d_new D eq of Some e \<Rightarrow> e | None \<Rightarrow> d_int D 0))
      (case d_new D dep of Some d \<Rightarrow> d | None \<Rightarrow> d_int D 0) (d_times D a p) = None"
  using assms
  by (auto simp: evaluateRiskCaps_def Let_def exposure_veto_def loss_veto_def account_veto_def split: if_splits option.splits)

context decimal_laws
begin

lemma sum_lower:
  assumes "d_isFinite D u" "d_isFinite D v" "x * (1 - eps) \<le> val u" "y * (1 - eps) \<le> val v" "0 \<le> x" "0 \<le> y"
  shows "d_isFinite D (d_plus D u v)" "(x + y) * (1 - eps) ^ 2 \<le> val (d_plus D u v)"
proof -
  have p: "d_isFinite D (d_plus D u v)" "nearest20 (val u + val v) (val (d_plus D u v))" using plus [OF assms(1,2)] by auto
  have s: "(x + y) * (1 - eps) \<le> val u + val v" using assms(3,4) by (simp only: distrib_right)
  moreover have "0 \<le> (x + y) * (1 - eps)" using assms(5,6) by (intro mult_nonneg_nonneg) simp_all
  ultimately have "0 \<le> val u + val v" by linarith
  then have "(val u + val v) * (1 - eps) \<le> val (d_plus D u v)" by (rule nearest20_lower [OF p(2)])
  moreover have "(x + y) * (1 - eps) * (1 - eps) \<le> (val u + val v) * (1 - eps)" using s by (intro mult_right_mono) simp_all
  ultimately show "(x + y) * (1 - eps) ^ 2 \<le> val (d_plus D u v)" unfolding power2_eq_square mult.assoc by linarith
  show "d_isFinite D (d_plus D u v)" by (rule p(1))
qed

lemma product_lower:
  assumes "d_isFinite D u" "d_isFinite D v" "x \<le> val u * val v" "0 \<le> x"
  shows "d_isFinite D (d_times D u v)" "x * (1 - eps) \<le> val (d_times D u v)"
proof -
  have p: "d_isFinite D (d_times D u v)" "nearest20 (val u * val v) (val (d_times D u v))" using times [OF assms(1,2)] by auto
  have "x * (1 - eps) \<le> val u * val v * (1 - eps)" using assms(3) by (intro mult_right_mono) simp_all
  also have "\<dots> \<le> val (d_times D u v)" using assms(3,4) by (intro nearest20_lower [OF p(2)]) linarith
  finally show "x * (1 - eps) \<le> val (d_times D u v)" .
  show "d_isFinite D (d_times D u v)" by (rule p(1))
qed

lemma deployed_lower:
  assumes "finite_or_absent D (decimal_of D (jcoalesce (jget state ''avgEntryPrice'') (JStr [])))"
    and "finite_or_absent D (decimal_of D (jcoalesce (jget state ''heldQuantity'') (JStr [])))" and "0 \<le> cost_basis D val state"
  shows "d_isFinite D (deployed_so_far D state)" "cost_basis D val state * (1 - eps) \<le> val (deployed_so_far D state)"
  using assms product_lower [OF _ _ order_refl] int_finite int_val
  by (auto simp: deployed_so_far_def cost_basis_def finite_or_absent_def split: option.splits)

lemma loss_fraction_lower:
  assumes "finite_or_absent D (decimal_of D (sell_field config ''stopLossPercentage''))"
  shows "d_isFinite D (loss_fraction D config)" "0 \<le> share_at_risk D val config"
    "share_at_risk D val config * (1 - eps) \<le> val (loss_fraction D config)"
proof -
  let ?k = "share_at_risk D val config"
  have "d_isFinite D (loss_fraction D config) \<and> 0 \<le> ?k \<and> ?k * (1 - eps) \<le> val (loss_fraction D config)"
  proof (cases "if truthy (sell_field config ''enabled'') then decimal_of D (sell_field config ''stopLossPercentage'') else None")
    case None
    then show ?thesis using int_finite int_val by (simp add: loss_fraction_def share_at_risk_def)
  next
    case (Some s)
    then have f: "d_isFinite D s" using assms by (auto simp: finite_or_absent_def split: if_splits)
    have c: "d_gt D s (d_int D 0) \<longleftrightarrow> 0 < val s" "d_lte D s (d_int D 1) \<longleftrightarrow> val s \<le> 1"
      using lt [OF int_finite f] lte [OF f int_finite] int_val by simp_all
    have m: "d_isFinite D (d_minus D (d_int D 1) s)" "nearest20 (1 - val s) (val (d_minus D (d_int D 1) s))"
      using minus [OF int_finite f, of 1] by (simp_all add: int_val)
    show ?thesis
      using m(1) nearest20_lower [OF m(2)] int_finite int_val by (simp add: loss_fraction_def share_at_risk_def Some c)
  qed
  then show "d_isFinite D (loss_fraction D config)" "0 \<le> ?k" "?k * (1 - eps) \<le> val (loss_fraction D config)" by blast+
qed

end

section \<open>Properties\<close>

text \<open>
  A lost commit race never shortens a cooldown. The tick's exit latches are merged onto the row that
  won: a re-entry cooldown (after a loss exit, after a force sell) runs on the merged state exactly
  when it runs on the winning row or on the tick's state, while the winner's position, which came
  from a fill, is untouched.
\<close>
lemma latch_merge_keeps_cooldowns:
  assumes "ms_stamp (jget base ''lastLossExitAt'')" "ms_stamp (jget latch ''lastLossExitAt'')"
    and "ms_stamp (jget base ''forceSellCooldownUntilMs'')" "ms_stamp (jget latch ''forceSellCooldownUntilMs'')"
    and "is_object base"
  shows "(lossExitCooldownActive (mergeTTLatchFields base latch) config now \<longleftrightarrow>
            lossExitCooldownActive base config now \<or> lossExitCooldownActive latch config now) \<and>
    (forceSellCooldownActive (mergeTTLatchFields base latch) now \<longleftrightarrow>
       forceSellCooldownActive base now \<or> forceSellCooldownActive latch now) \<and>
    tt_readPosition (mergeTTLatchFields base latch) = tt_readPosition base"
  using running_laterMs [OF assms(1,2)] running_laterMs [OF assms(3,4)] merge_position [OF assms(5)]
  by (auto simp: loss_running force_running jget_merge)

text \<open>A concrete configuration, wallet and symbol.\<close>

definition example_config :: json where
  "example_config = JObj
     [(''buy'', JObj [(''entrySizing'', JObj [(''mode'', JStr ''percentOfAccount''), (''percent'', JStr ''0.01'')]),
        (''accountCap'', JObj [(''mode'', JStr ''amount''), (''amount'', JStr ''500'')]),
        (''maxSymbolExposureQuote'', JStr ''400''), (''maxPositionLossQuote'', JStr ''30''),
        (''lossCooldownMinutes'', JNum (JsNum 30))]),
      (''sell'', JObj [(''enabled'', JBool True), (''stopLossPercentage'', JStr ''0.95'')])]"

definition example_account :: "dec account_snapshot" where
  "example_account = \<lparr>ac_balances = (\<lambda>a. if a = ''USDT'' then Some \<lparr>bl_free = AmountStr ''900'', bl_locked = AmountStr ''0''\<rparr> else None),
     ac_readable = True, ac_deployedQuoteAcrossProfiles = JStr ''100''\<rparr>"

definition example_lot :: symbol_filters where
  "example_lot = \<lparr>sf_minNotional = ''5'', sf_tickSize = ''0.01'', sf_stepSize = ''0.01'', sf_minQty = ''0.01'', sf_maxQty = ''9000'',
     sf_minPrice = ''0.01'', sf_maxPrice = ''100000'', sf_percentPriceBySide = JUndefined, sf_trailingDelta = JUndefined\<rparr>"

definition example_position :: json where
  "example_position = JObj [(''avgEntryPrice'', JStr ''100''), (''heldQuantity'', JStr ''1'')]"

definition example_row :: "json \<Rightarrow> json" where
  "example_row stamp = JObj [(''schemaVersion'', JStr TT_STATE_SCHEMA_VERSION), (''avgEntryPrice'', JNull), (''heldQuantity'', JNull),
     (''lastLossExitAt'', stamp), (''lastLossExitReason'', JNull), (''forceSellCooldownUntilMs'', JNull), (''autoTriggerBuyAtMs'', JNull)]"

text \<open>
  C20. A sized entry keeps every limit at once. When the budget of a percent-of-account entry is turned
  into a first buy, the order is positive and its cost stays within the free quote balance and within
  the headroom the account cap leaves over what all profiles have deployed. When a stop distance resolves
  from the configuration, the cost also stays within half of the equity and what it loses down to the
  stop is at most the configured percentage of the equity; without one the code deliberately leaves the
  entry uncapped by risk, and only the first two limits hold. Each bound is up to the rounding of the decimal library, one unit in the
  nineteenth digit per operation.
\<close>
theorem entry_order_within_limits:
  fixes D :: "'d decimal_js" and account asset
  defines "e \<equiv> accountEquity D account asset"
  assumes L: "decimal_laws D val"
    and budget: "resolveEntryBudget D config account asset deployed = Some (Budget b)"
    and order: "computeFirstBuyQuantity D b price filters minSpend stop = Some (Quantity s)"
    and mode: "entry_mode config = JStr ''percentOfAccount''"
    and wallet: "\<And>line. ac_balances account asset = Some line \<Longrightarrow>
      leg_value D val (bl_free line) free \<and> leg_value D val (bl_locked line) locked"
    and p: "d_new D price = Some p" "d_isFinite D p"
    and f: "parseFilters D filters = Some f" "d_isFinite D (fl_step f)" "d_isFinite D (fl_minQty f)" "pow10 (val (fl_step f))"
  shows "\<exists>q. d_new D s = Some q \<and> 0 < val q \<and>
    val q * val p \<le> (if ac_balances account asset = None then 0 else max 0 free) * (1 + eps) \<and>
    (\<forall>c. resolveAccountCapQuote D (buy_field config ''accountCap'') e = Some c \<longrightarrow>
       val q * val p \<le> (val c - (case decOrNull D (JStr deployed) of Some d \<Rightarrow> val d | None \<Rightarrow> 0)) * (1 + eps) ^ 2) \<and>
    (\<forall>w pct. stopDistanceFraction D config = Some w \<and> entry_percent D config = Some pct \<longrightarrow>
       val q * val p \<le> val e / 2 * (1 + eps) ^ 2 \<and> val q * val p * val w \<le> val pct * val e * (1 + eps) ^ 3)"
proof -
  have ef: "d_isFinite D e" unfolding e_def using wallet by (rule decimal_laws.equity_finite [OF L])
  obtain m where m: "d_isFinite D m" "b = d_toString D m"
    and free: "val m \<le> (if ac_balances account asset = None then 0 else max 0 free)"
    and cap: "\<And>c. resolveAccountCapQuote D (buy_field config ''accountCap'') e = Some c \<Longrightarrow>
       val m \<le> val (d_minus D c (case decOrNull D (JStr deployed) of Some d \<Rightarrow> d | None \<Rightarrow> d_int D 0))"
    and risk: "\<And>w pct. stopDistanceFraction D config = Some w \<Longrightarrow> entry_percent D config = Some pct \<Longrightarrow>
       val m \<le> val (d_times D e (MAX_DEPLOY_FRACTION D)) \<and> val m \<le> max 0 (val (d_div D (d_times D pct e) w))"
    unfolding e_def by (rule decimal_laws.budget_bounds [OF L budget mode wallet]) blast+
  obtain q where q: "d_new D s = Some q" "0 < val q" "0 < val p" "val q * val p \<le> val m * (1 + eps)"
    by (rule decimal_laws.first_buy_cost [OF L order m(2,1) p f])
  have "0 < val q * val p" using q(2,3) by simp
  with q(4) have "0 < val m * (1 + eps)" by linarith
  then have m0: "0 < val m" by (simp add: zero_less_mult_iff)
  note round = decimal_laws.under_rounded [OF L _ _ m0 q(4)]
  have "val q * val p \<le> (if ac_balances account asset = None then 0 else max 0 free) * (1 + eps)"
    by (rule order_trans [OF q(4) mult_right_mono [OF free]]) simp
  moreover have "val q * val p \<le> (val c - (case decOrNull D (JStr deployed) of Some d \<Rightarrow> val d | None \<Rightarrow> 0)) * (1 + eps) ^ 2"
    if c: "resolveAccountCapQuote D (buy_field config ''accountCap'') e = Some c" for c
  proof -
    let ?d = "case decOrNull D (JStr deployed) of Some d \<Rightarrow> d | None \<Rightarrow> d_int D 0"
    have d: "d_isFinite D ?d" "val ?d = (case decOrNull D (JStr deployed) of Some d \<Rightarrow> val d | None \<Rightarrow> 0)"
      using decimal_laws.int_finite [OF L] decimal_laws.int_val [OF L] decOrNull_finite [of D "JStr deployed"]
      by (simp_all split: option.splits del: decOrNull.simps)
    have "nearest20 (val c - val ?d) (val (d_minus D c ?d))"
      using decimal_laws.minus [OF L decimal_laws.cap_finite [OF L c ef] d(1)] by blast
    from round [OF this cap [OF c]] show ?thesis unfolding d(2) .
  qed
  moreover have "val q * val p \<le> val e / 2 * (1 + eps) ^ 2 \<and> val q * val p * val w \<le> val pct * val e * (1 + eps) ^ 3"
    if w: "stopDistanceFraction D config = Some w" "entry_percent D config = Some pct" for w pct
  proof (rule conjI)
    have "nearest20 (val e / 2) (val (d_times D e (MAX_DEPLOY_FRACTION D)))"
      using decimal_laws.times [OF L ef decimal_laws.half_literal(1) [OF L]] decimal_laws.half_literal(2) [OF L] by auto
    from round [OF this] risk [OF w] show "val q * val p \<le> val e / 2 * (1 + eps) ^ 2" by blast
    have "d_isFinite D pct" using w(2) decOrNull_finite by (auto simp: entry_percent_def)
    from decimal_laws.under_risk [OF L this ef decimal_laws.stopDistance_positive [OF L w(1)] conjunct2 [OF risk [OF w]] m0 q(4)]
    show "val q * val p * val w \<le> val pct * val e * (1 + eps) ^ 3" .
  qed
  ultimately show ?thesis using q(1,2) by blast
qed

lemma example_budget:
  "resolveEntryBudget dec_js example_config example_account ''USDT'' ''100'' = Some (Budget ''200.00000000000000000'')"
  by code_simp

lemma example_first_buy:
  "computeFirstBuyQuantity dec_js ''200.00000000000000000'' ''100'' example_lot [] None = Some (Quantity ''2.00'')"
  by code_simp

lemma example_parsed:
  "parseFilters dec_js example_lot = Some \<lparr>fl_step = Dec 1 2, fl_minQty = Dec 1 2, fl_minNotional = Dec 5 0, fl_tick = Some (Dec 1 2)\<rparr>"
  by code_simp

lemma example_price_parsed: "d_new dec_js ''100'' = Some (Dec 100 0)"
  by code_simp

theorem entry_order_within_limits_witness:
  "\<exists>q. d_new dec_js ''2.00'' = Some q \<and> 0 < dval q \<and> dval q * 100 \<le> 900 * (1 + eps)"
proof -
  have m: "entry_mode example_config = JStr ''percentOfAccount''" by (simp add: entry_mode_def buy_field_def example_config_def)
  have l: "amount_dec dec_js (AmountStr ''900'') = Some (Dec 900 0)" "amount_dec dec_js (AmountStr ''0'') = Some (Dec 0 0)" by code_simp+
  have w: "leg_value dec_js dval (bl_free line) 900 \<and> leg_value dec_js dval (bl_locked line) 0"
    if "ac_balances example_account ''USDT'' = Some line" for line
    using that l by (auto simp: example_account_def leg_value_def)
  let ?f = "\<lparr>fl_step = Dec 1 2, fl_minQty = Dec 1 2, fl_minNotional = Dec 5 0, fl_tick = Some (Dec 1 2)\<rparr>"
  have f: "d_isFinite dec_js (fl_step ?f)" "d_isFinite dec_js (fl_minQty ?f)" "pow10 (dval (fl_step ?f))"
    unfolding size_filters.simps by (rule dec_js_finite dec_js_finite pow10_Dec)+
  obtain q where "d_new dec_js ''2.00'' = Some q" "0 < dval q"
    "dval q * dval (Dec 100 0) \<le> (if ac_balances example_account ''USDT'' = None then 0 else max 0 900) * (1 + eps)"
    using entry_order_within_limits [OF djs.decimal_laws_axioms example_budget example_first_buy m _ example_price_parsed
      dec_js_finite example_parsed f, of 900 0] w by blast
  moreover have "ac_balances example_account ''USDT'' \<noteq> None" "dval (Dec 100 0) = 100" by (simp_all add: example_account_def)
  ultimately show ?thesis by (intro exI [of _ q]) (simp only: if_False max_def, simp)
qed

text \<open>
  What a passed risk check guarantees. When the caps raise no veto, the position after the addition
  (cost basis plus the new notional) is within the symbol's exposure cap; the loss of a fired stop,
  counting the whole position when the sell side is off or has no usable stop, is within the loss
  budget; and what all profiles have deployed plus the new notional is within the account cap. Bounds
  hold up to the rounding of the decimal library.
\<close>
lemma risk_caps_enforced:
  fixes D :: "'d decimal_js"
  assumes L: "decimal_laws D val"
    and run: "evaluateRiskCaps D config state addQuantity currentPrice dep equity = None"
    and p: "d_new D currentPrice = Some p" "d_isFinite D p" "0 \<le> val p"
    and a: "d_new D addQuantity = Some a" "d_isFinite D a" "0 \<le> val a"
    and pos: "finite_or_absent D (decimal_of D (jcoalesce (jget state ''avgEntryPrice'') (JStr [])))"
      "finite_or_absent D (decimal_of D (jcoalesce (jget state ''heldQuantity'') (JStr [])))" "0 \<le> cost_basis D val state"
    and stop: "finite_or_absent D (decimal_of D (sell_field config ''stopLossPercentage''))"
    and d: "d_new D dep = Some d" "d_isFinite D d" "0 \<le> val d" and e: "d_new D equity = Some e"
  shows "(\<forall>cap. armed (buy_field config ''maxSymbolExposureQuote'') \<and>
            decimal_of D (buy_field config ''maxSymbolExposureQuote'') = Some cap \<and> d_isFinite D cap \<longrightarrow>
            (cost_basis D val state + val a * val p) * (1 - eps) ^ 2 \<le> val cap) \<and>
    (\<forall>cap. armed (buy_field config ''maxPositionLossQuote'') \<and>
            decimal_of D (buy_field config ''maxPositionLossQuote'') = Some cap \<and> d_isFinite D cap \<longrightarrow>
            (cost_basis D val state + val a * val p) * share_at_risk D val config * (1 - eps) ^ 4 \<le> val cap) \<and>
    (\<forall>cap. resolveAccountCapQuote D (buy_field config ''accountCap'') e = Some cap \<and> d_isFinite D cap \<longrightarrow>
            (val d + val a * val p) * (1 - eps) ^ 2 \<le> val cap)"
proof -
  let ?n = "d_times D a p" and ?B = "cost_basis D val state" and ?k = "share_at_risk D val config"
  let ?x = "d_plus D (deployed_so_far D state) ?n"
  note veto = no_veto [OF run p(1) a(1)] and lt = decimal_laws.lt [OF L]
  have ap: "0 \<le> val a * val p" using a(3) p(3) by simp
  note n = decimal_laws.product_lower [OF L a(2) p(2) order_refl ap] and b = decimal_laws.deployed_lower [OF L pos]
  note x = decimal_laws.sum_lower [OF L b(1) n(1) b(2) n(2) pos(3) ap]
  have "val d * (1 - eps) \<le> val d" using d(3) by (simp add: right_diff_distrib)
  note y = decimal_laws.sum_lower [OF L d(2) n(1) this n(2) d(3) ap]
  note l = decimal_laws.loss_fraction_lower [OF L stop]
  have X0: "0 \<le> (?B + val a * val p) * (1 - eps) ^ 2" "0 \<le> ?k * (1 - eps)"
    using pos(3) ap l(2) by (auto intro!: mult_nonneg_nonneg add_nonneg_nonneg)
  have prod: "(?B + val a * val p) * (1 - eps) ^ 2 * (?k * (1 - eps)) \<le> val ?x * val (loss_fraction D config)"
    using X0 x(2) l(3) by (intro mult_mono) linarith+
  note w = decimal_laws.product_lower [OF L x(1) l(1) prod mult_nonneg_nonneg [OF X0]]
  have w4: "(?B + val a * val p) * ?k * (1 - eps) ^ 4 \<le> val (d_times D ?x (loss_fraction D config))"
    using w(2) by (simp add: power4_eq_xxxx power2_eq_square mult_ac)
  show ?thesis
  proof (intro conjI allI impI; elim conjE)
    fix cap assume "armed (buy_field config ''maxSymbolExposureQuote'')"
      "decimal_of D (buy_field config ''maxSymbolExposureQuote'') = Some cap" "d_isFinite D cap"
    then show "(?B + val a * val p) * (1 - eps) ^ 2 \<le> val cap"
      using veto(1) x lt [OF _ x(1), of cap] by (simp add: exposure_veto_def split: if_splits)
  next
    fix cap assume "armed (buy_field config ''maxPositionLossQuote'')"
      "decimal_of D (buy_field config ''maxPositionLossQuote'') = Some cap" "d_isFinite D cap"
    then show "(?B + val a * val p) * ?k * (1 - eps) ^ 4 \<le> val cap"
      using veto(2) w4 lt [OF _ w(1), of cap] by (simp add: loss_veto_def Let_def split: if_splits)
  next
    fix cap assume "resolveAccountCapQuote D (buy_field config ''accountCap'') e = Some cap" "d_isFinite D cap"
    then show "(val d + val a * val p) * (1 - eps) ^ 2 \<le> val cap"
      using veto(3) y lt [OF _ y(1), of cap] by (simp add: account_veto_def Let_def d(1) e split: if_splits)
  qed
qed

end
