(* ===== verification/Tt_Orders.thy ===== *)
theory Tt_Orders
  imports Tt_Sizing Protective_Stop_Arm Client_Order_Id
begin

text \<open>
  The orders of the trailing-trade strategy (\<open>packages/strategy/trailing-trade/src\<close>): the decision
  builders (\<open>decisions.ts\<close>), the binding of the shared protective-stop arm
  (\<open>branches/protective-stop.ts\<close>) and the sizing and emission of an exit (the last part of
  \<open>branches/sell-gate.ts\<close>). \<open>None\<close> is an exception.
\<close>

text \<open>
  What a tick reads: \<open>tn_decimalError\<close> is the message of the exception \<open>new Decimal\<close> raises on a value.
\<close>

record 'd tt_input =
  tn_profileId :: string
  tn_symbol :: string
  tn_currentPrice :: string
  tn_symbolInfo :: symbol_info
  tn_candlesByInterval :: "string \<Rightarrow> candle list option"
  tn_account :: "'d account_snapshot"
  tn_openOrders :: "open_order list"
  tn_config :: json
  tn_decimalError :: "json \<Rightarrow> string"

abbreviation tn_filters :: "'d tt_input \<Rightarrow> symbol_filters" where
  "tn_filters inp \<equiv> si_filters (tn_symbolInfo inp)"

section \<open>Decision builders\<close>

definition TT_INTENTS :: "string list" where
  "TT_INTENTS = [''grid-buy'', ''bull-pyramid'', ''grid-sell'', ''grid-stop-loss'', ''protective-stop'',
     ''technicals-force-sell'', ''regime-exit'', ''discovery-time-stop'', ''break-even-stop'', ''time-stop'', ''manual'']"

definition hasOpenBuyForSymbol :: "open_order list \<Rightarrow> string \<Rightarrow> bool" where
  "hasOpenBuyForSymbol orders symbol = list_ex (\<lambda>ord. oo_symbol ord = symbol \<and> oo_side ord = BUY) orders"

definition tt_intent :: "'d tt_input \<Rightarrow> order_side \<Rightarrow> string \<Rightarrow> string \<Rightarrow> json option \<Rightarrow> order_intent" where
  "tt_intent inp side reason cid meta =
     \<lparr>oi_symbol = tn_symbol inp, oi_side = side, oi_reason = reason, oi_clientOrderId = cid, oi_meta = meta,
      oi_overrideActionId = None, oi_deferrable = None\<rparr>"

definition market_params :: "string \<Rightarrow> order_params" where
  "market_params quantity =
     \<lparr>op_type = MARKET, op_price = None, op_stopPrice = None, op_quantity = quantity, op_trailingDelta = None, op_timeInForce = None\<rparr>"

definition limit_params :: "string \<Rightarrow> string \<Rightarrow> order_params" where
  "limit_params quantity price =
     \<lparr>op_type = LIMIT, op_price = Some price, op_stopPrice = None, op_quantity = quantity, op_trailingDelta = None, op_timeInForce = Some GTC\<rparr>"

definition stop_limit_params :: "string \<Rightarrow> string \<times> string \<Rightarrow> order_params" where
  "stop_limit_params quantity stopLimit =
     \<lparr>op_type = STOP_LOSS_LIMIT, op_price = Some (snd stopLimit), op_stopPrice = Some (fst stopLimit), op_quantity = quantity,
      op_trailingDelta = None, op_timeInForce = Some GTC\<rparr>"

definition maker_or_market :: "string \<Rightarrow> string option \<Rightarrow> order_params" where
  "maker_or_market quantity makerLimit =
     (case makerLimit of Some price \<Rightarrow> limit_params quantity price | None \<Rightarrow> market_params quantity)"

definition buildFirstBuyDecision :: "'d decimal_js \<Rightarrow> 'd tt_input \<Rightarrow> string \<Rightarrow> decision option" where
  "buildFirstBuyDecision D inp quantity = do {
     cid \<leftarrow> firstBuyClientOrderId (tn_profileId inp) (tn_symbol inp);
     makerLimit \<leftarrow> resolveMakerEntryLimit D (tn_config inp) (tn_currentPrice inp) (tn_filters inp);
     Some (PlaceOrder (tt_intent inp BUY ''grid-buy'' cid None) (maker_or_market quantity makerLimit))
   }"

text \<open>A stop-limit pair is \<open>(stopPrice, price)\<close>.\<close>

definition buildGridBuyDecision ::
  "'d decimal_js \<Rightarrow> 'd tt_input \<Rightarrow> string \<Rightarrow> int \<Rightarrow> (string \<times> string) option \<Rightarrow> decision option" where
  "buildGridBuyDecision D inp quantity gridIndex stopLimit = do {
     cid \<leftarrow> gridBuyClientOrderId (tn_profileId inp) (tn_symbol inp) gridIndex;
     params \<leftarrow> (case stopLimit of
        Some sl \<Rightarrow> Some (stop_limit_params quantity sl)
      | None \<Rightarrow> map_option (maker_or_market quantity)
                 (resolveMakerEntryLimit D (tn_config inp) (tn_currentPrice inp) (tn_filters inp)));
     Some (PlaceOrder (tt_intent inp BUY ''grid-buy'' cid
             (Some (JObj [(''gridTradeIndex'', JNum (JsNum (of_int gridIndex)))]))) params)
   }"

definition buildPyramidBuyDecision :: "'d tt_input \<Rightarrow> string \<Rightarrow> int \<Rightarrow> decision option" where
  "buildPyramidBuyDecision inp quantity addIndex =
     map_option (\<lambda>cid. PlaceOrder (tt_intent inp BUY ''bull-pyramid'' cid
                   (Some (JObj [(''bullAddIndex'', JNum (JsNum (of_int addIndex)))]))) (market_params quantity))
       (pyramidBuyClientOrderId (tn_profileId inp) (tn_symbol inp) addIndex)"

definition buildManualOrderDecision :: "'d tt_input \<Rightarrow> manual_order \<Rightarrow> string \<Rightarrow> string \<Rightarrow> decision option" where
  "buildManualOrderDecision inp payload quantity overrideActionId =
     map_option (\<lambda>cid. PlaceOrder (tt_intent inp (mo_side payload) ''manual'' cid None)
                   (if mo_type payload = ''LIMIT''
                    then limit_params quantity (case mo_price payload of Some p \<Rightarrow> p | None \<Rightarrow> ''0'')
                    else market_params quantity))
       (manualOrderClientOrderId overrideActionId)"

definition hasOpenSellForSymbol :: "open_order list \<Rightarrow> string \<Rightarrow> string \<Rightarrow> bool option" where
  "hasOpenSellForSymbol orders symbol profileId =
     map_option (\<lambda>protectiveId. list_ex (\<lambda>ord. oo_symbol ord = symbol \<and> oo_side ord = SELL \<and> oo_clientOrderId ord \<noteq> protectiveId) orders)
       (tt_protectiveStopClientOrderId profileId symbol)"

definition sellClientOrderId :: "string \<Rightarrow> string \<Rightarrow> string \<Rightarrow> string option" where
  "sellClientOrderId profileId symbol seed = assertClientOrderId (''tt-'' @ djb2Hex (bar [profileId, symbol, seed]) @ ''-s'')"

record sell_opts =
  so_stopLimit :: "(string \<times> string) option"
  so_trailingDelta :: "int option"
  so_clientOrderId :: "string option"
  so_deferrable :: bool

definition no_sell_opts :: sell_opts where
  "no_sell_opts = \<lparr>so_stopLimit = None, so_trailingDelta = None, so_clientOrderId = None, so_deferrable = False\<rparr>"

definition sell_params :: "string \<Rightarrow> sell_opts \<Rightarrow> order_params" where
  "sell_params quantity opts =
     (case so_stopLimit opts of
        Some sl \<Rightarrow> stop_limit_params quantity sl
      | None \<Rightarrow>
          (case so_trailingDelta opts of
             Some d \<Rightarrow> (market_params quantity)\<lparr>op_type := STOP_LOSS, op_trailingDelta := Some d\<rparr>
           | None \<Rightarrow> market_params quantity))"

definition sell_decision :: "'d tt_input \<Rightarrow> string \<Rightarrow> string \<Rightarrow> sell_opts \<Rightarrow> string \<Rightarrow> decision" where
  "sell_decision inp reason quantity opts cid =
     PlaceOrder ((tt_intent inp SELL reason cid None)\<lparr>oi_deferrable := (if so_deferrable opts then Some True else None)\<rparr>)
       (sell_params quantity opts)"

definition buildSellDecision :: "'d tt_input \<Rightarrow> string \<Rightarrow> string \<Rightarrow> string \<Rightarrow> sell_opts \<Rightarrow> decision option" where
  "buildSellDecision inp reason quantity clientOrderIdSeed opts =
     map_option (sell_decision inp reason quantity opts)
       (case so_clientOrderId opts of
          Some cid \<Rightarrow> Some cid
        | None \<Rightarrow> sellClientOrderId (tn_profileId inp) (tn_symbol inp) clientOrderIdSeed)"

definition buildProtectiveStopCancel :: "open_order \<Rightarrow> string \<Rightarrow> decision" where
  "buildProtectiveStopCancel ord reason = CancelOrder (oo_orderId ord) reason (Some (oo_symbol ord))"

fun buildProtectiveStopReplace :: "open_order \<Rightarrow> decision \<Rightarrow> string \<Rightarrow> decision option" where
  "buildProtectiveStopReplace resting (PlaceOrder i p) reason = Some (ReplaceOrder (oo_orderId resting) reason i p)"
| "buildProtectiveStopReplace resting _ reason = None"

section \<open>The protective stop\<close>

definition tt_findRestingProtectiveStop :: "open_order list \<Rightarrow> string \<Rightarrow> string \<Rightarrow> open_order option option" where
  "tt_findRestingProtectiveStop openOrders profileId symbol =
     map_option (findRestingProtectiveStop openOrders) (tt_protectiveStopClientOrderId profileId symbol)"

definition computeProtectiveStopLevel :: "'d decimal_js \<Rightarrow> 'd tt_input \<Rightarrow> json \<Rightarrow> ('d stop_level option \<times> bool) option" where
  "computeProtectiveStopLevel D inp state =
     (let none = (None, False); zero = d_int D 0; one = d_int D 1;
          protectiveStop = sell_field (tn_config inp) ''protectiveStop''
      in case decimal_of D (jget state ''avgEntryPrice'') of
           None \<Rightarrow> Some none
         | Some avgEntry \<Rightarrow>
             if d_lte D avgEntry zero then Some none
             else case decimal_of D (jget state ''heldQuantity'') of
                    None \<Rightarrow> Some none
                  | Some held \<Rightarrow>
                      if d_lte D held zero then Some none
                      else case decimal_of D (sell_field (tn_config inp) ''stopLossPercentage'') of
                             None \<Rightarrow> Some none
                           | Some stopPct \<Rightarrow>
                               if d_lte D stopPct zero \<or> d_gte D stopPct one then Some none
                               else (case (d_new D (sf_tickSize (tn_filters inp)), decimal_of D (jget protectiveStop ''limitOffsetPercentage''),
                                           parseFilters D (tn_filters inp)) of
                                       (Some tick, Some offset, Some filters) \<Rightarrow>
                                         if d_lte D tick zero then Some none
                                         else do {
                                           let (rawStop, floorClamped) = resolveTTStopLevel D avgEntry stopPct protectiveStop
                                                 (tn_currentPrice inp) (sf_percentPriceBySide (tn_filters inp));
                                           stop \<leftarrow> roundToTick D rawStop tick;
                                           limit \<leftarrow> roundToTick D (d_times D stop offset) tick;
                                           Some (if d_lte D stop zero \<or> d_lte D limit zero then none
                                                 else (Some \<lparr>lv_stop = stop, lv_limit = limit, lv_held = held, lv_filters = filters, lv_tick = tick\<rparr>,
                                                       floorClamped))
                                         }
                                     | _ \<Rightarrow> Some none))"

definition reclaimableOwnSellBase :: "'d decimal_js \<Rightarrow> 'd tt_input \<Rightarrow> 'd option" where
  "reclaimableOwnSellBase D inp =
     map_option (\<lambda>cid. ownRestingSellBase D (tn_openOrders inp) cid (tn_symbol inp))
       (tt_protectiveStopClientOrderId (tn_profileId inp) (tn_symbol inp))"

record tt_arm =
  ta_arm :: arm_result
  ta_floorClamped :: bool
  ta_nativeTrailed :: bool

fun carries_trail :: "decision \<Rightarrow> bool" where
  "carries_trail (PlaceOrder i p) = (op_trailingDelta p \<noteq> None)"
| "carries_trail (ReplaceOrder c r i p) = (op_trailingDelta p \<noteq> None)"
| "carries_trail _ = False"

definition SUPERSEDED :: string where "SUPERSEDED = ''tt-protective-stop-superseded''"

text \<open>
  The seams handed to the shared arm. Its successor is always one of our own placements, on which the
  replacement builder does not throw.
\<close>

definition tt_arm_params ::
  "'d decimal_js \<Rightarrow> 'd tt_input \<Rightarrow> string \<Rightarrow> 'd \<Rightarrow> bool \<Rightarrow> 'd stop_level option \<Rightarrow> bool \<Rightarrow> 'd arm_params" where
  "tt_arm_params D inp ourId reclaimable enabled level floorClamped =
     \<lparr>ap_openOrders = tn_openOrders inp, ap_account = tn_account inp, ap_symbol = tn_symbol inp, ap_symbolInfo = tn_symbolInfo inp,
      ap_currentPrice = tn_currentPrice inp, ap_enabled = enabled, ap_level = level, ap_reclaimableBase = reclaimable,
      ap_ourClientOrderId = ourId,
      ap_buildPlace = (\<lambda>desired rearm. sell_decision inp ''protective-stop'' (ds_quantity desired)
         \<lparr>so_stopLimit = Some (ds_stopPrice desired, ds_price desired), so_trailingDelta = None, so_clientOrderId = Some ourId, so_deferrable = rearm\<rparr> ourId),
      ap_buildCancel = (\<lambda>resting. buildProtectiveStopCancel resting SUPERSEDED),
      ap_buildReplace = (\<lambda>resting place. case buildProtectiveStopReplace resting place SUPERSEDED of Some d \<Rightarrow> d | None \<Rightarrow> Noop),
      ap_primaryTrail = None,
      ap_nativeTrail =
        (case ttStopBandSettings D (tn_config inp) of
           None \<Rightarrow> None
         | Some bs \<Rightarrow>
             if bs_onBandBlock bs = JStr ''native-trail''
             then Some \<lparr>nt_stopDistancePct = bs_stopDistancePct bs,
                        nt_build = (\<lambda>desired rearm. sell_decision inp ''protective-stop'' (dn_quantity desired)
                          \<lparr>so_stopLimit = None, so_trailingDelta = Some (dn_trailingDelta desired), so_clientOrderId = Some ourId,
                           so_deferrable = rearm\<rparr> ourId)\<rparr>
             else None),
      ap_minStopDrift = (if floorClamped then Some (clampedStopDrift D None) else None)\<rparr>"

text \<open>
  \<open>nativeTrailed\<close> is set when the trail builder runs; the arm emits what the builder returns, so that is
  whether an emitted order trails.
\<close>

definition evaluateProtectiveStop :: "'d decimal_js \<Rightarrow> 'd tt_input \<Rightarrow> json \<Rightarrow> tt_arm option" where
  "evaluateProtectiveStop D inp state = do {
     ourId \<leftarrow> tt_protectiveStopClientOrderId (tn_profileId inp) (tn_symbol inp);
     let enabled = (jget (sell_field (tn_config inp) ''protectiveStop'') ''enabled'' = JBool True);
     (level, floorClamped) \<leftarrow> (if enabled then computeProtectiveStopLevel D inp state else Some (None, False));
     reclaimable \<leftarrow> reclaimableOwnSellBase D inp;
     arm \<leftarrow> evaluateProtectiveStopArm D (tt_arm_params D inp ourId reclaimable enabled level floorClamped);
     Some \<lparr>ta_arm = arm, ta_floorClamped = floorClamped, ta_nativeTrailed = list_ex carries_trail (ar_decisions arm)\<rparr>
   }"

definition tt_evaluateProtectiveStopArm :: "'d decimal_js \<Rightarrow> 'd tt_input \<Rightarrow> json \<Rightarrow> decision list option" where
  "tt_evaluateProtectiveStopArm D inp state = map_option (ar_decisions \<circ> ta_arm) (evaluateProtectiveStop D inp state)"

definition closingSellDecisions :: "'d tt_input \<Rightarrow> decision \<Rightarrow> decision list option" where
  "closingSellDecisions inp sell =
     (case tt_findRestingProtectiveStop (tn_openOrders inp) (tn_profileId inp) (tn_symbol inp) of
        None \<Rightarrow> None
      | Some None \<Rightarrow> Some [sell]
      | Some (Some resting) \<Rightarrow> map_option (\<lambda>d. [d]) (buildProtectiveStopReplace resting sell SUPERSEDED))"

section \<open>Sizing and emitting an exit\<close>

definition technicalsForceSellTriggerPriceOf :: "'d decimal_js \<Rightarrow> json \<Rightarrow> json \<Rightarrow> string \<times> bool" where
  "technicalsForceSellTriggerPriceOf D config state =
     (let lbp = jget state ''avgEntryPrice''; trigger = sell_field config ''triggerPercentage''
      in if lbp = JNull \<or> trigger = JStr [] \<or> trigger = JStr ''0'' then (''0'', False)
         else case (decimal_of D lbp, decimal_of D trigger) of
                (Some l, Some t) \<Rightarrow> if \<not> d_gt D t (d_int D 0) then (''0'', False) else (d_toFixedAll D (d_times D l t), False)
              | _ \<Rightarrow> (''0'', True))"

definition tracked_quantity :: "'d decimal_js \<Rightarrow> json \<Rightarrow> 'd option" where
  "tracked_quantity D state =
     (case decimal_of D (jget state ''heldQuantity'') of
        Some parsed \<Rightarrow> if d_gt D parsed (d_int D 0) then Some parsed else None
      | None \<Rightarrow> None)"

definition resolveHeldForSell :: "'d decimal_js \<Rightarrow> json \<Rightarrow> string \<Rightarrow> 'd account_snapshot \<Rightarrow> 'd \<Rightarrow> string option" where
  "resolveHeldForSell D state baseAsset account reclaimable =
     map_option (\<lambda>wallet.
        let tracked = tracked_quantity D state
        in case sb_free wallet of
             None \<Rightarrow> (case tracked of None \<Rightarrow> ''0'' | Some t \<Rightarrow> d_toFixedAll D t)
           | Some f \<Rightarrow>
               (let free = d_plus D f (sb_reclaimable wallet)
                in case tracked of None \<Rightarrow> d_toFixedAll D free | Some t \<Rightarrow> d_toFixedAll D (d_min D t free)))
       (sizableBase D account baseAsset reclaimable)"

record exit_blocker =
  eb_reason :: string
  eb_changeKey :: string
  eb_detail :: json

datatype sell_gate_result =
    SellEmit decision log_entry string
  | SellBumpHigh json "exit_blocker option"
  | SellSkip log_entry "string option" "string option" "exit_blocker option"
  | SellNoop "exit_blocker option"

fun sell_skip_reason :: "quantity_result \<Rightarrow> string" where
  "sell_skip_reason QNoBalance = ''no-balance''"
| "sell_skip_reason QMinQty = ''min-qty''"
| "sell_skip_reason QMinNotional = ''min-notional''"
| "sell_skip_reason _ = ''invalid-filters''"

definition sellSkipLogLevel :: "string \<Rightarrow> string" where
  "sellSkipLogLevel reason =
     (if reason = ''no-balance'' then ''debug''
      else if reason = ''min-qty'' \<or> reason = ''min-notional'' then ''info'' else ''warn'')"

definition emit_metric :: "string \<Rightarrow> string" where
  "emit_metric reason = ''tt_'' @ map (\<lambda>c. if c = CHR ''-'' then CHR ''_'' else c) reason @ ''_emit''"

text \<open>A skip here is a sizing rejection: no invalid field and no blocker yet.\<close>

definition sellEmissionOrSkip ::
  "'d decimal_js \<Rightarrow> 'd tt_input \<Rightarrow> json \<Rightarrow> string \<Rightarrow> string \<Rightarrow> string \<Rightarrow> (string \<times> json) list \<Rightarrow> sell_gate_result option" where
  "sellEmissionOrSkip D inp state reason messagePrefix clientOrderIdSeed extraLog = do {
     reclaimable \<leftarrow> reclaimableOwnSellBase D inp;
     free \<leftarrow> resolveHeldForSell D state (si_baseAsset (tn_symbolInfo inp)) (tn_account inp) reclaimable;
     wallet \<leftarrow> freeBalance D (tn_account inp) (si_baseAsset (tn_symbolInfo inp));
     let trace = (if wallet = None then [(''walletUnreadable'', JBool True)] else []);
     result \<leftarrow> computeSellQuantity D free (tn_currentPrice inp) (tn_filters inp);
     (case result of
        Quantity quantity \<Rightarrow>
          map_option (\<lambda>decision. SellEmit decision
             (log_of ''info'' messagePrefix (Some (JObj ([(''symbol'', JStr (tn_symbol inp)), (''quantity'', JStr quantity),
                (''freeBase'', JStr free), (''currentPrice'', JStr (tn_currentPrice inp))] @ trace @ extraLog))))
             (emit_metric reason))
            (buildSellDecision inp reason quantity clientOrderIdSeed no_sell_opts)
      | skip \<Rightarrow>
          Some (SellSkip (log_of (sellSkipLogLevel (sell_skip_reason skip)) (messagePrefix @ ''-skipped'')
                  (Some (JObj ([(''symbol'', JStr (tn_symbol inp)), (''reason'', JStr (sell_skip_reason skip)),
                                (''freeBase'', JStr free)] @ trace))))
                (Some (sell_skip_reason skip)) None None))
   }"

section \<open>Our own stop\<close>

text \<open>An order for our resting slot: a priced stop, or an exchange-side trail.\<close>

definition own_stop_order :: "'d tt_input \<Rightarrow> string \<Rightarrow> order_intent \<Rightarrow> order_params \<Rightarrow> bool" where
  "own_stop_order inp cid i p \<longleftrightarrow>
     oi_symbol i = tn_symbol inp \<and> oi_side i = SELL \<and> oi_reason i = ''protective-stop'' \<and> oi_clientOrderId i = cid \<and>
     (op_type p = STOP_LOSS_LIMIT \<and> op_stopPrice p \<noteq> None \<and> op_price p \<noteq> None \<and> op_trailingDelta p = None \<or>
      op_type p = STOP_LOSS \<and> op_stopPrice p = None \<and> op_price p = None \<and> op_trailingDelta p \<noteq> None)"

fun own_stop_decision :: "'d tt_input \<Rightarrow> string \<Rightarrow> decision \<Rightarrow> bool" where
  "own_stop_decision inp cid (PlaceOrder i p) \<longleftrightarrow>
     own_stop_order inp cid i p \<and> findRestingProtectiveStop (tn_openOrders inp) cid = None"
| "own_stop_decision inp cid (ReplaceOrder oid r i p) \<longleftrightarrow>
     own_stop_order inp cid i p \<and> map_option oo_orderId (findRestingProtectiveStop (tn_openOrders inp) cid) = Some oid"
| "own_stop_decision inp cid (CancelOrder oid r s) \<longleftrightarrow>
     map_option oo_orderId (findRestingProtectiveStop (tn_openOrders inp) cid) = Some oid"
| "own_stop_decision inp cid _ \<longleftrightarrow> False"

lemma resting_is_ours:
  assumes "findRestingProtectiveStop orders cid = Some ord"
  shows "ord \<in> set orders" "oo_clientOrderId ord = cid" "oo_side ord = SELL"
  using assms by (auto simp: findRestingProtectiveStop_def find_Some_iff isRestingSell_def)

lemma tt_successor:
  assumes "is_successor (tt_arm_params D inp cid recl en lv cl) Q rearm d"
  shows "\<exists>i p. d = PlaceOrder i p \<and> own_stop_order inp cid i p"
  using assms
  by (auto simp: is_successor_def tt_arm_params_def sell_decision_def sell_params_def own_stop_order_def stop_limit_params_def
      market_params_def tt_intent_def split: option.splits if_splits)

lemma tt_arm_resting: "arm_resting (tt_arm_params D inp cid recl en lv cl) = findRestingProtectiveStop (tn_openOrders inp) cid"
  by (simp add: arm_resting_def tt_arm_params_def)

lemma tt_arm_fields:
  "ap_enabled (tt_arm_params D inp cid recl en lv cl) = en" "ap_level (tt_arm_params D inp cid recl en lv cl) = lv"
  "ap_buildCancel (tt_arm_params D inp cid recl en lv cl) r = buildProtectiveStopCancel r SUPERSEDED"
  "ap_buildReplace (tt_arm_params D inp cid recl en lv cl) r (PlaceOrder i p) = ReplaceOrder (oo_orderId r) SUPERSEDED i p"
  by (simp_all add: tt_arm_params_def)

lemma tt_arm_decisions:
  assumes "arm_shape (tt_arm_params D inp cid recl en lv cl) Q r"
  shows "list_all (own_stop_decision inp cid) (ar_decisions r)"
proof (cases "findRestingProtectiveStop (tn_openOrders inp) cid")
  case None
  then show ?thesis using assms by (auto simp: arm_shape_def tt_arm_resting dest!: tt_successor)
next
  case (Some resting)
  then show ?thesis using assms by (auto simp: arm_shape_def tt_arm_resting tt_arm_fields dest!: tt_successor)
qed

text \<open>A level exists only for a tracked position.\<close>

lemma level_needs_position:
  assumes "computeProtectiveStopLevel D inp state = Some (Some lv, cl)"
  shows "decimal_of D (jget state ''heldQuantity'') = Some (lv_held lv)" "\<not> d_lte D (lv_held lv) (d_int D 0)"
  using assms by (auto simp: computeProtectiveStopLevel_def Let_def split: option.splits if_splits prod.splits bind_splits)

lemma evaluateProtectiveStop_cases:
  assumes "evaluateProtectiveStop D inp state = Some r"
  obtains (Off) cid where "tt_protectiveStopClientOrderId (tn_profileId inp) (tn_symbol inp) = Some cid" "ar_decisions (ta_arm r) = []"
  | (Flat) cid where "tt_protectiveStopClientOrderId (tn_profileId inp) (tn_symbol inp) = Some cid"
      "jget (sell_field (tn_config inp) ''protectiveStop'') ''enabled'' = JBool True"
      "list_all (own_stop_decision inp cid) (ar_decisions (ta_arm r))" "length (ar_decisions (ta_arm r)) \<le> 1"
      "\<forall>d \<in> set (ar_decisions (ta_arm r)). \<exists>oid s z. d = CancelOrder oid s z"
  | (Armed) cid held where "tt_protectiveStopClientOrderId (tn_profileId inp) (tn_symbol inp) = Some cid"
      "jget (sell_field (tn_config inp) ''protectiveStop'') ''enabled'' = JBool True"
      "list_all (own_stop_decision inp cid) (ar_decisions (ta_arm r))" "length (ar_decisions (ta_arm r)) \<le> 1"
      "decimal_of D (jget state ''heldQuantity'') = Some held" "\<not> d_lte D held (d_int D 0)"
proof -
  let ?on = "jget (sell_field (tn_config inp) ''protectiveStop'') ''enabled'' = JBool True"
  obtain cid level cl recl arm where cid: "tt_protectiveStopClientOrderId (tn_profileId inp) (tn_symbol inp) = Some cid"
    and lv: "(if ?on then computeProtectiveStopLevel D inp state else Some (None, False)) = Some (level, cl)"
    and arm: "evaluateProtectiveStopArm D (tt_arm_params D inp cid recl ?on level cl) = Some arm" and r: "ta_arm r = arm"
    using assms by (auto simp: evaluateProtectiveStop_def Let_def bind_eq_Some_conv split: prod.splits)
  consider (off) "\<not> ?on" | (flat) "?on" "level = None" | (armed) lv' where "?on" "level = Some lv'" by (cases level) blast+
  then show ?thesis
  proof cases
    case off
    then have "ar_decisions arm = []" using arm by (auto simp: evaluateProtectiveStopArm_def tt_arm_fields)
    then show ?thesis using Off [OF cid] r by simp
  next
    case flat
    then have ds: "ar_decisions arm = cancelResting (tt_arm_params D inp cid recl ?on level cl)"
      using arm by (auto simp: evaluateProtectiveStopArm_def tt_arm_fields)
    show ?thesis
      by (rule Flat [OF cid flat(1)])
         (auto simp: r ds cancelResting_def tt_arm_resting tt_arm_fields buildProtectiveStopCancel_def split: option.splits)
  next
    case armed
    then have "arm_level D (tt_arm_params D inp cid recl ?on level cl) lv' = Some arm"
      using arm by (simp add: evaluateProtectiveStopArm_def tt_arm_fields)
    then have shape: "arm_shape (tt_arm_params D inp cid recl ?on level cl) (sized_from D (tt_arm_params D inp cid recl ?on level cl) lv') arm"
      by (rule arm_level_shape)
    then have len: "length (ar_decisions arm) \<le> 1" by (auto simp: arm_shape_def split: option.splits)
    have "computeProtectiveStopLevel D inp state = Some (Some lv', cl)" using lv armed by simp
    from Armed [OF cid armed(1) _ _ level_needs_position [OF this]] show ?thesis
      using tt_arm_decisions [OF shape] len r by simp
  qed
qed

section \<open>What an exit sells\<close>

lemma sell_quantity_sized:
  assumes "computeSellQuantity D s price filters = Some (Quantity z)" "parseFilters D filters = Some f" "d_new D s = Some b"
  obtains q p where "roundToStep D b (fl_step f) = Some q" "finalise D q p f = Sized z"
  using assms by (auto simp: computeSellQuantity_def of_finalised_Quantity split: option.splits if_splits)

text \<open>Every emission is a market sell of a sized quantity.\<close>

lemma emission_cases:
  assumes "sellEmissionOrSkip D inp state reason prefix seed extra = Some res"
  obtains (Emit) recl free q cid l where "reclaimableOwnSellBase D inp = Some recl"
      "resolveHeldForSell D state (si_baseAsset (tn_symbolInfo inp)) (tn_account inp) recl = Some free"
      "computeSellQuantity D free (tn_currentPrice inp) (tn_filters inp) = Some (Quantity q)"
      "sellClientOrderId (tn_profileId inp) (tn_symbol inp) seed = Some cid"
      "res = SellEmit (sell_decision inp reason q no_sell_opts cid) l (emit_metric reason)"
  | (Skip) l skip where "res = SellSkip l (Some skip) None None"
proof -
  obtain recl free w out where r: "reclaimableOwnSellBase D inp = Some recl"
      "resolveHeldForSell D state (si_baseAsset (tn_symbolInfo inp)) (tn_account inp) recl = Some free"
      "freeBalance D (tn_account inp) (si_baseAsset (tn_symbolInfo inp)) = Some w"
      "computeSellQuantity D free (tn_currentPrice inp) (tn_filters inp) = Some out"
    using assms by (auto simp: sellEmissionOrSkip_def Let_def split: bind_splits)
  show ?thesis
  proof (cases out)
    case (Quantity q)
    then show ?thesis
      using assms r Emit [OF r(1,2)] by (auto simp: sellEmissionOrSkip_def buildSellDecision_def no_sell_opts_def Let_def)
  qed (use assms r Skip in \<open>auto simp: sellEmissionOrSkip_def Let_def\<close>)
qed

context decimal_laws
begin

lemma held_for_sell:
  assumes run: "resolveHeldForSell D state asset account recl = Some s"
    and h: "\<And>h. tracked_quantity D state = Some h \<Longrightarrow> d_isFinite D h \<and> dec20 (val h)"
    and recl: "d_isFinite D recl"
    and line: "ac_balances account asset = Some line" "leg_value D val (bl_free line) free" "leg_value D val (bl_locked line) locked"
  shows "\<exists>b. d_new D s = Some b \<and> d_isFinite D b \<and> dec20 (val b) \<and> (\<forall>h. tracked_quantity D state = Some h \<longrightarrow> val b \<le> val h) \<and>
    (ac_readable account \<longrightarrow> (\<exists>t. nearest20 (free + min (val recl) locked) t \<and> val b \<le> t)) \<and>
    (tracked_quantity D state = None \<and> \<not> ac_readable account \<longrightarrow> val b = 0)"
proof -
  obtain f l where fl: "amount_dec D (bl_free line) = Some f" "d_isFinite D f" "val f = free"
      "amount_dec D (bl_locked line) = Some l" "d_isFinite D l" "val l = locked"
    using line(2,3) by (auto simp: leg_value_def)
  have m: "d_isFinite D (d_min D recl l)" "val (d_min D recl l) = min (val recl) locked" using min [OF recl fl(5)] fl(6) by auto
  let ?w = "d_plus D f (d_min D recl l)" and ?t = "tracked_quantity D state"
  have w: "d_isFinite D ?w" "nearest20 (free + min (val recl) locked) (val ?w)" using plus [OF fl(2) m(1)] fl(3) m(2) by auto
  note run' = run line(1) fl
  consider (both) h where "?t = Some h" "ac_readable account" | (wallet) "?t = None" "ac_readable account"
    | (tracked) h where "?t = Some h" "\<not> ac_readable account" | (neither) "?t = None" "\<not> ac_readable account" by (cases ?t) blast+
  then show ?thesis
  proof cases
    case (both h)
    then have s: "s = d_toFixedAll D (d_min D h ?w)" using run' by (simp add: resolveHeldForSell_def sizableBase_def freeBalance_def)
    have b: "d_isFinite D (d_min D h ?w)" "val (d_min D h ?w) = min (val h) (val ?w)" using min [OF _ w(1)] h [OF both(1)] by auto
    have d: "dec20 (min (val h) (val ?w))" using h [OF both(1)] nearest20_dec [OF w(2)] by (simp add: min_def)
    show ?thesis using toFixedAll [OF b(1)] d w(2) both unfolding s b(2) by fastforce
  next
    case wallet
    then have "s = d_toFixedAll D ?w" using run' by (simp add: resolveHeldForSell_def sizableBase_def freeBalance_def)
    then show ?thesis using toFixedAll [OF w(1)] w(2) nearest20_dec [OF w(2)] wallet by fastforce
  next
    case (tracked h)
    then have "s = d_toFixedAll D h" using run' by (simp add: resolveHeldForSell_def sizableBase_def freeBalance_def)
    then show ?thesis using toFixedAll [of h] h [OF tracked(1)] tracked by fastforce
  next
    case neither
    then have s: "s = ''0''" using run' by (simp add: resolveHeldForSell_def sizableBase_def freeBalance_def)
    have "plain_parse ''0'' = Some (0, 0)" by (simp add: plain_parse_def unsigned_parse_def digits_of_def digit_of_def num_of_def)
    from new_plain [OF this] show ?thesis using neither dec20_int [of 0] unfolding s by auto
  qed
qed

end

text \<open>A concrete tick.\<close>

definition example_tt_config :: json where
  "example_tt_config = JObj [(''buy'', JObj []),
     (''sell'', JObj [(''enabled'', JBool True), (''stopLossPercentage'', JStr ''0.9''),
        (''protectiveStop'', JObj [(''enabled'', JBool True), (''limitOffsetPercentage'', JStr ''0.99''), (''onBandBlock'', JStr ''notify'')])])]"

definition example_tt_input :: "dec tt_input" where
  "example_tt_input = \<lparr>tn_profileId = ''p'', tn_symbol = ''BTC'', tn_currentPrice = ''100'',
     tn_symbolInfo = \<lparr>si_symbol = ''BTC'', si_baseAsset = ''B'', si_quoteAsset = ''T'', si_status = ''TRADING'', si_filters = example_lot\<rparr>,
     tn_candlesByInterval = (\<lambda>_. None),
     tn_account = \<lparr>ac_balances = (\<lambda>a. if a = ''B'' then Some \<lparr>bl_free = AmountDec (Dec 2 0), bl_locked = AmountDec (Dec 1 0)\<rparr> else None),
       ac_readable = True, ac_deployedQuoteAcrossProfiles = JUndefined\<rparr>,
     tn_openOrders = [], tn_config = example_tt_config, tn_decimalError = (\<lambda>_. [])\<rparr>"

definition example_tt_state :: json where
  "example_tt_state = JObj [(''avgEntryPrice'', JStr ''100''), (''heldQuantity'', JStr ''2'')]"

section \<open>Properties\<close>

text \<open>
  The binding of the shared stop arm acts on our own stop only. Whatever the configuration, the market
  and the open orders are, at most one decision comes out, and it is a SELL under our protective-stop
  id (priced or trailing) when nothing of ours rests, one atomic replacement of our resting stop by
  such an order, or the cancellation of that stop; it never touches another order and never buys. An
  order is placed only while a positive position is tracked, and a disabled stop emits nothing.
\<close>
lemma own_stop_orders_only:
  assumes "evaluateProtectiveStop D inp state = Some r"
  shows "\<exists>cid. tt_protectiveStopClientOrderId (tn_profileId inp) (tn_symbol inp) = Some cid \<and>
    length (ar_decisions (ta_arm r)) \<le> 1 \<and> list_all (own_stop_decision inp cid) (ar_decisions (ta_arm r)) \<and>
    (jget (sell_field (tn_config inp) ''protectiveStop'') ''enabled'' \<noteq> JBool True \<longrightarrow> ar_decisions (ta_arm r) = []) \<and>
    ((\<exists>d \<in> set (ar_decisions (ta_arm r)). \<not> (\<exists>oid s z. d = CancelOrder oid s z)) \<longrightarrow>
       (\<exists>held. decimal_of D (jget state ''heldQuantity'') = Some held \<and> \<not> d_lte D held (d_int D 0)))"
  using assms by (cases rule: evaluateProtectiveStop_cases) auto

lemma example_tt_id: "tt_protectiveStopClientOrderId ''p'' ''BTC'' = Some ''tt-102edb6a-x''"
  by code_simp

definition example_tt_stranded :: "dec tt_input" where
  "example_tt_stranded = example_tt_input\<lparr>tn_openOrders := [example_resting\<lparr>oo_clientOrderId := ''tt-102edb6a-x'', oo_symbol := ''BTC''\<rparr>]\<rparr>"

lemma example_tt_stop:
  "map_option (length \<circ> ar_decisions \<circ> ta_arm) (evaluateProtectiveStop dec_js example_tt_stranded (JObj [(''avgEntryPrice'', JNull), (''heldQuantity'', JNull)])) = Some 1"
  by code_simp

text \<open>
  A quantity an exit may sell: at most the tracked position when one is tracked, and at most what the
  wallet has free plus what our own resting stop still locks there when the wallet could be read. One of
  the two always stands behind it.
\<close>

definition funded ::
  "'d decimal_js \<Rightarrow> ('d \<Rightarrow> rat) \<Rightarrow> 'd option \<Rightarrow> bool \<Rightarrow> rat \<Rightarrow> string \<Rightarrow> bool" where
  "funded D val tracked readable wallet s \<longleftrightarrow>
     (\<exists>d. d_new D s = Some d \<and> 0 < val d \<and> (\<forall>h. tracked = Some h \<longrightarrow> val d \<le> val h) \<and>
          (readable \<longrightarrow> (\<exists>t. nearest20 wallet t \<and> val d \<le> t)) \<and> (tracked \<noteq> None \<or> readable))"


lemma example_tt_exit:
  "sellEmissionOrSkip dec_js example_tt_input example_tt_state ''grid-stop-loss'' ''tt-stop-loss'' ''s'' [] =
     Some (SellEmit (sell_decision example_tt_input ''grid-stop-loss'' ''2.00'' no_sell_opts ''tt-d7536e59-s'')
       \<lparr>le_level = ''info'', le_message = ''tt-stop-loss'',
        le_context = Some (JObj [(''symbol'', JStr ''BTC''), (''quantity'', JStr ''2.00''), (''freeBase'', JStr ''2''), (''currentPrice'', JStr ''100'')])\<rparr>
       ''tt_grid_stop_loss_emit'')"
  by code_simp

lemma example_tt_account: "ac_balances (tn_account example_tt_input) (si_baseAsset (tn_symbolInfo example_tt_input)) =
    Some \<lparr>bl_free = AmountDec (Dec 2 0), bl_locked = AmountDec (Dec 1 0)\<rparr>"
  by (simp add: example_tt_input_def)


end
