(* ===== verification/Indicators.thy ===== *)
theory Indicators
  imports Money Contract
begin

text \<open>
  Price indicators over a window of candles, \<open>packages/indicators/src/index.ts\<close>: extremes, simple and
  exponential moving averages, Wilder's RSI and ATR. A period is the JavaScript number it is in the
  source; a bad period, a short window and a price that does not parse throw, which is \<open>None\<close>. The
  square root of the decimal library is a parameter of the two functions that take one.
\<close>

definition requireNonEmpty :: "candle list \<Rightarrow> unit option" where
  "requireNonEmpty w = (if w = [] then None else Some ())"

definition requirePeriod :: "candle list \<Rightarrow> rat \<Rightarrow> nat option" where
  "requirePeriod w period =
     (if period \<noteq> of_int \<lfloor>period\<rfloor> \<or> period \<le> 0 then None
      else if of_nat (length w) < period then None
      else Some (nat \<lfloor>period\<rfloor>))"

definition is_zero :: "'d decimal_js \<Rightarrow> 'd \<Rightarrow> bool" where
  "is_zero D a \<longleftrightarrow> d_lte D a (d_int D 0) \<and> d_gte D a (d_int D 0)"

definition dmax :: "'d decimal_js \<Rightarrow> 'd \<Rightarrow> 'd \<Rightarrow> 'd" where
  "dmax D a b = (if d_gt D a b then a else b)"

definition dmin :: "'d decimal_js \<Rightarrow> 'd \<Rightarrow> 'd \<Rightarrow> 'd" where
  "dmin D a b = (if d_lt D a b then a else b)"

text \<open>The absolute value; the source negates a number below zero.\<close>

definition dabs :: "'d decimal_js \<Rightarrow> 'd \<Rightarrow> 'd" where
  "dabs D a = d_abs D a"

definition prices :: "'d decimal_js \<Rightarrow> (candle \<Rightarrow> string) \<Rightarrow> candle list \<Rightarrow> 'd list option" where
  "prices D f w = those (map (\<lambda>c. d_new D (f c)) w)"

fun extreme :: "('d \<Rightarrow> 'd \<Rightarrow> 'd) \<Rightarrow> 'd list \<Rightarrow> 'd option" where
  "extreme f [] = None"
| "extreme f (v # vs) = Some (foldl f v vs)"

definition lowestLow :: "'d decimal_js \<Rightarrow> candle list \<Rightarrow> 'd option" where
  "lowestLow D w = Option.bind (requireNonEmpty w) (\<lambda>_. Option.bind (prices D cd_low w) (extreme (dmin D)))"

definition highestHigh :: "'d decimal_js \<Rightarrow> candle list \<Rightarrow> 'd option" where
  "highestHigh D w = Option.bind (requireNonEmpty w) (\<lambda>_. Option.bind (prices D cd_high w) (extreme (dmax D)))"

definition ath :: "'d decimal_js \<Rightarrow> candle list \<Rightarrow> 'd option" where
  "ath D w = highestHigh D w"

definition sma :: "'d decimal_js \<Rightarrow> candle list \<Rightarrow> rat \<Rightarrow> 'd option" where
  "sma D w period =
     Option.bind (requirePeriod w period) (\<lambda>n.
       map_option (\<lambda>closes. d_div D (foldl (d_plus D) (d_int D 0) closes) (d_int D (int n)))
         (prices D cd_close (drop (length w - n) w)))"

definition ema :: "'d decimal_js \<Rightarrow> candle list \<Rightarrow> rat \<Rightarrow> 'd option" where
  "ema D w period =
     Option.bind (requirePeriod w period) (\<lambda>n.
       let k = d_div D (d_int D 2) (d_int D (int n + 1))
       in Option.bind (sma D (take n w) period) (\<lambda>seed.
            map_option (foldl (\<lambda>v close. d_plus D (d_times D (d_minus D close v) k) v) seed)
              (prices D cd_close (drop n w))))"

text \<open>Differences of consecutive closes, and Wilder's smoothing of the values after the seed.\<close>

definition deltas :: "'d decimal_js \<Rightarrow> 'd list \<Rightarrow> 'd list" where
  "deltas D closes = map2 (d_minus D) (tl closes) closes"

definition wilder :: "'d decimal_js \<Rightarrow> nat \<Rightarrow> 'd \<Rightarrow> 'd list \<Rightarrow> 'd" where
  "wilder D n seed vs = foldl (\<lambda>v x. d_div D (d_plus D (d_times D v (d_int D (int n - 1))) x) (d_int D (int n))) seed vs"

definition gain_of :: "'d decimal_js \<Rightarrow> 'd \<Rightarrow> 'd" where
  "gain_of D delta = (if d_gt D delta (d_int D 0) then delta else d_int D 0)"

definition loss_of :: "'d decimal_js \<Rightarrow> 'd \<Rightarrow> 'd" where
  "loss_of D delta = (if d_lt D delta (d_int D 0) then d_abs D delta else d_int D 0)"

definition seed_gains :: "'d decimal_js \<Rightarrow> 'd list \<Rightarrow> 'd" where
  "seed_gains D ds = foldl (\<lambda>g delta. if d_gt D delta (d_int D 0) then d_plus D g delta else g) (d_int D 0) ds"

definition seed_losses :: "'d decimal_js \<Rightarrow> 'd list \<Rightarrow> 'd" where
  "seed_losses D ds = foldl (\<lambda>l delta. if d_gt D delta (d_int D 0) then l else d_plus D l (d_abs D delta)) (d_int D 0) ds"

definition rsi_of :: "'d decimal_js \<Rightarrow> 'd \<Rightarrow> 'd \<Rightarrow> 'd" where
  "rsi_of D avgGain avgLoss =
     (if is_zero D avgLoss then d_int D 100
      else d_minus D (d_int D 100) (d_div D (d_int D 100) (d_plus D (d_div D avgGain avgLoss) (d_int D 1))))"

definition rsi :: "'d decimal_js \<Rightarrow> candle list \<Rightarrow> rat \<Rightarrow> 'd option" where
  "rsi D w period =
     Option.bind (requirePeriod w (period + 1)) (\<lambda>m.
       map_option (\<lambda>closes.
         let n = m - 1; ds = deltas D closes;
             avgGain = wilder D n (d_div D (seed_gains D (take n ds)) (d_int D (int n))) (map (gain_of D) (drop n ds));
             avgLoss = wilder D n (d_div D (seed_losses D (take n ds)) (d_int D (int n))) (map (loss_of D) (drop n ds))
         in rsi_of D avgGain avgLoss)
       (prices D cd_close w))"

definition trueRange :: "'d decimal_js \<Rightarrow> candle \<Rightarrow> candle \<Rightarrow> 'd option" where
  "trueRange D cur prev =
     (case (d_new D (cd_high cur), d_new D (cd_low cur), d_new D (cd_close prev)) of
        (Some high, Some low, Some prevClose) \<Rightarrow>
          Some (dmax D (d_minus D high low) (dmax D (dabs D (d_minus D high prevClose)) (dabs D (d_minus D low prevClose))))
      | _ \<Rightarrow> None)"

definition atr :: "'d decimal_js \<Rightarrow> candle list \<Rightarrow> rat \<Rightarrow> 'd option" where
  "atr D w period =
     Option.bind (requirePeriod w (period + 1)) (\<lambda>m.
       map_option (\<lambda>trs. let n = m - 1
                         in wilder D n (d_div D (foldl (d_plus D) (d_int D 0) (take n trs)) (d_int D (int n))) (drop n trs))
         (those (map2 (trueRange D) (tl w) w)))"

definition stddev :: "'d decimal_js \<Rightarrow> ('d \<Rightarrow> 'd) \<Rightarrow> candle list \<Rightarrow> rat \<Rightarrow> 'd option" where
  "stddev D sqrt_d w period =
     Option.bind (requirePeriod w period) (\<lambda>n.
       Option.bind (sma D w period) (\<lambda>mean.
         map_option (\<lambda>closes.
           let sumSq = foldl (\<lambda>acc c. let d = d_minus D c mean in d_plus D acc (d_times D d d)) (d_int D 0) closes
           in sqrt_d (d_div D sumSq (d_int D (int n))))
         (prices D cd_close (drop (length w - n) w))))"

definition triggerPrice :: "'d decimal_js \<Rightarrow> 'd \<Rightarrow> 'd \<Rightarrow> 'd" where
  "triggerPrice D lowest triggerPct = d_times D lowest triggerPct"

definition limitPrice :: "'d decimal_js \<Rightarrow> 'd \<Rightarrow> 'd \<Rightarrow> 'd" where
  "limitPrice D price limitPct = d_times D price limitPct"

definition profit :: "'d decimal_js \<Rightarrow> 'd \<Rightarrow> 'd \<Rightarrow> 'd \<Rightarrow> 'd" where
  "profit D lastBuy current qty = d_times D (d_minus D current lastBuy) qty"

text \<open>The centred products of two series: covariance, or a variance when the series coincide.\<close>

definition centred_products :: "'d decimal_js \<Rightarrow> 'd \<Rightarrow> 'd \<Rightarrow> 'd list \<Rightarrow> 'd list \<Rightarrow> 'd" where
  "centred_products D meanA meanB a b =
     foldl (\<lambda>acc (x, y). d_plus D acc (d_times D (d_minus D x meanA) (d_minus D y meanB))) (d_int D 0) (zip a b)"

definition pearsonCorrelation :: "'d decimal_js \<Rightarrow> ('d \<Rightarrow> 'd) \<Rightarrow> 'd list \<Rightarrow> 'd list \<Rightarrow> 'd option option" where
  "pearsonCorrelation D sqrt_d a b =
     (if length a \<noteq> length b then None
      else if length a < 2 then Some None
      else let nd = d_int D (int (length a));
               meanA = d_div D (foldl (d_plus D) (d_int D 0) a) nd; meanB = d_div D (foldl (d_plus D) (d_int D 0) b) nd;
               cov = centred_products D meanA meanB a b;
               varA = centred_products D meanA meanA a a; varB = centred_products D meanB meanB b b
           in if is_zero D varA \<or> is_zero D varB then Some None
              else Some (Some (d_div D cov (sqrt_d (d_times D varA varB)))))"

section \<open>Bounds\<close>

lemma prices_Some:
  assumes "prices D f w = Some vs"
  shows "length vs = length w" "set vs = {v. \<exists>c \<in> set w. d_new D (f c) = Some v}"
proof -
  have "length vs = length w \<and> set vs = {v. \<exists>c \<in> set w. d_new D (f c) = Some v}"
    using assms by (induction w arbitrary: vs) (force simp: prices_def split: option.splits)+
  then show "length vs = length w" "set vs = {v. \<exists>c \<in> set w. d_new D (f c) = Some v}" by blast+
qed

lemma those_all: "those xs = Some ys \<Longrightarrow> y \<in> set ys \<Longrightarrow> Some y \<in> set xs"
  by (induction xs arbitrary: ys) (auto split: option.splits)

lemma consecutive: "(a, b) \<in> set (zip (tl xs) xs) \<Longrightarrow> a \<in> set xs \<and> b \<in> set xs"
  by (cases xs) (auto dest: set_zip_leftD set_zip_rightD)

context decimal_laws
begin

text \<open>Finite and not negative: kept by every operation the indicators use.\<close>

definition nonneg :: "'d \<Rightarrow> bool" where
  "nonneg a \<longleftrightarrow> d_isFinite D a \<and> 0 \<le> val a"

lemma nonneg_int [simp]: "0 \<le> n \<Longrightarrow> nonneg (d_int D n)"
  by (simp add: nonneg_def int_finite int_val)

lemma nonneg_plus: "nonneg a \<Longrightarrow> nonneg b \<Longrightarrow> nonneg (d_plus D a b)"
  using plus [of a b] nearest20_ge [OF _ dec20_0] by (auto simp: nonneg_def)

lemma nonneg_times: "nonneg a \<Longrightarrow> nonneg b \<Longrightarrow> nonneg (d_times D a b)"
  using times [of a b] nearest20_ge [OF _ dec20_0] by (auto simp: nonneg_def)

lemma nonneg_div: "nonneg a \<Longrightarrow> nonneg b \<Longrightarrow> val b \<noteq> 0 \<Longrightarrow> nonneg (d_div D a b)"
  using div [of a b] nearest20_ge [OF _ dec20_0] by (auto simp: nonneg_def)

lemma nonneg_abs: "d_isFinite D a \<Longrightarrow> nonneg (d_abs D a)"
  using abs [of a] by (simp add: nonneg_def)

lemma nonneg_dmax: "d_isFinite D a \<Longrightarrow> nonneg b \<Longrightarrow> nonneg (dmax D a b)"
  using lt [of b a] by (auto simp: dmax_def nonneg_def)

lemma nonneg_foldl: "nonneg s \<Longrightarrow> (\<And>x. x \<in> set xs \<Longrightarrow> nonneg x) \<Longrightarrow> nonneg (foldl (d_plus D) s xs)"
  by (induction xs arbitrary: s) (auto intro: nonneg_plus)

lemma nonneg_wilder:
  assumes "0 < n" "nonneg s" "\<And>x. x \<in> set xs \<Longrightarrow> nonneg x"
  shows "nonneg (wilder D n s xs)"
  using assms(2,3)
proof (induction xs arbitrary: s)
  case (Cons x xs)
  have "nonneg (d_div D (d_plus D (d_times D s (d_int D (int n - 1))) x) (d_int D (int n)))"
    using Cons.prems assms(1) by (intro nonneg_div nonneg_plus nonneg_times nonneg_int) (auto simp: int_val)
  then show ?case using Cons.IH Cons.prems by (simp add: wilder_def)
qed (simp add: wilder_def)

lemma nonneg_pos: "d_isFinite D a \<Longrightarrow> d_gt D a (d_int D 0) \<Longrightarrow> nonneg a"
  by (simp add: nonneg_def lt int_finite int_val)

lemma nonneg_parts:
  assumes "d_isFinite D a"
  shows "nonneg (gain_of D a)" "nonneg (loss_of D a)"
  using assms nonneg_abs [OF assms] lt [OF int_finite assms, of 0] nonneg_int [of 0] by (auto simp: gain_of_def loss_of_def nonneg_def int_val)

lemma seed_nonneg:
  assumes "\<And>x. x \<in> set ds \<Longrightarrow> d_isFinite D x"
  shows "nonneg (seed_gains D ds)" "nonneg (seed_losses D ds)"
proof -
  have g: "nonneg s \<Longrightarrow> nonneg (foldl (\<lambda>g delta. if d_gt D delta (d_int D 0) then d_plus D g delta else g) s ds)" for s
    using assms by (induction ds arbitrary: s) (auto intro: nonneg_plus nonneg_pos)
  have l: "nonneg s \<Longrightarrow> nonneg (foldl (\<lambda>l delta. if d_gt D delta (d_int D 0) then l else d_plus D l (d_abs D delta)) s ds)" for s
    using assms by (induction ds arbitrary: s) (auto intro!: nonneg_plus nonneg_abs)
  show "nonneg (seed_gains D ds)" "nonneg (seed_losses D ds)" using g l by (simp_all add: seed_gains_def seed_losses_def)
qed

lemma deltas_finite: "(\<And>x. x \<in> set cs \<Longrightarrow> d_isFinite D x) \<Longrightarrow> x \<in> set (deltas D cs) \<Longrightarrow> d_isFinite D x"
  using minus [THEN conjunct1] by (auto simp: deltas_def dest: consecutive)

lemma dec20_100 [simp]: "dec20 100"
  using dec20_int [of 100] by simp

lemma rsi_of_range:
  assumes "nonneg g" "nonneg l"
  shows "0 \<le> val (rsi_of D g l) \<and> val (rsi_of D g l) \<le> 100"
proof (cases "val l = 0")
  case True
  then show ?thesis using assms(2) by (simp add: rsi_of_def is_zero_def nonneg_def lte int_finite int_val)
next
  case False
  let ?s = "d_plus D (d_div D g l) (d_int D 1)" and ?h = "d_int D 100"
  have rs: "nonneg (d_div D g l)" using assms False by (intro nonneg_div)
  then have s: "d_isFinite D ?s" "nearest20 (val (d_div D g l) + 1) (val ?s)"
    using plus [OF _ int_finite, of "d_div D g l" 1] by (auto simp: nonneg_def int_val)
  have s1: "1 \<le> val ?s" using nearest20_ge [OF s(2) dec20_1] rs by (simp add: nonneg_def)
  have q: "d_isFinite D (d_div D ?h ?s)" "nearest20 (100 / val ?s) (val (d_div D ?h ?s))"
    using div [OF int_finite s(1), of 100] s1 by (auto simp: int_val)
  have qb: "0 \<le> val (d_div D ?h ?s)" "val (d_div D ?h ?s) \<le> 100"
    using nearest20_ge [OF q(2) dec20_0] nearest20_le [OF q(2) dec20_100] s1 by (simp_all add: divide_le_eq)
  have m: "nearest20 (100 - val (d_div D ?h ?s)) (val (d_minus D ?h (d_div D ?h ?s)))"
    using minus [OF int_finite q(1), of 100] by (simp add: int_val)
  have "rsi_of D g l = d_minus D ?h (d_div D ?h ?s)"
    using False assms(2) by (simp add: rsi_of_def is_zero_def nonneg_def lte int_finite int_val)
  then show ?thesis using nearest20_ge [OF m dec20_0] nearest20_le [OF m dec20_100] qb by simp
qed

lemma trueRange_nonneg:
  assumes "trueRange D c p = Some x"
    and "\<And>d. d_new D (cd_high c) = Some d \<Longrightarrow> d_isFinite D d" "\<And>d. d_new D (cd_low c) = Some d \<Longrightarrow> d_isFinite D d"
      "\<And>d. d_new D (cd_close p) = Some d \<Longrightarrow> d_isFinite D d"
  shows "nonneg x"
proof -
  obtain h l q where p: "d_new D (cd_high c) = Some h" "d_new D (cd_low c) = Some l" "d_new D (cd_close p) = Some q"
    and x: "x = dmax D (d_minus D h l) (dmax D (dabs D (d_minus D h q)) (dabs D (d_minus D l q)))"
    using assms(1) by (auto simp: trueRange_def split: option.splits)
  have f: "d_isFinite D h" "d_isFinite D l" "d_isFinite D q" using assms(2-4) p by blast+
  have "nonneg (dabs D (d_minus D h q))" "nonneg (dabs D (d_minus D l q))"
    using nonneg_abs minus f by (simp_all add: dabs_def)
  then show ?thesis using minus [OF f(1,2)] unfolding x by (intro nonneg_dmax) (auto simp: nonneg_def)
qed

lemma extreme_dmax:
  assumes "\<And>x. x \<in> set (v # vs) \<Longrightarrow> d_isFinite D x"
  shows "foldl (dmax D) v vs \<in> set (v # vs) \<and> (\<forall>x \<in> set (v # vs). val x \<le> val (foldl (dmax D) v vs))"
  using assms
proof (induction vs arbitrary: v)
  case (Cons y ys)
  have y: "dmax D v y \<in> {v, y}" "val v \<le> val (dmax D v y)" "val y \<le> val (dmax D v y)"
    using lt [of y v] Cons.prems by (auto simp: dmax_def)
  have "\<And>x. x \<in> set (dmax D v y # ys) \<Longrightarrow> d_isFinite D x" using Cons.prems y(1) by auto
  from Cons.IH [OF this] y show ?case by fastforce
qed simp

lemma period_pos: "1 \<le> period \<Longrightarrow> requirePeriod w (period + 1) = Some m \<Longrightarrow> 0 < m - 1"
  by (auto simp: requirePeriod_def le_floor_iff split: if_splits)

lemma seed_mean_nonneg: "0 < n \<Longrightarrow> nonneg s \<Longrightarrow> nonneg (d_div D s (d_int D (int n)))"
  by (rule nonneg_div) (simp_all add: int_val)

lemma rsi_range:
  assumes run: "rsi D w period = Some x" and n: "1 \<le> period"
    and fin: "\<And>c d. c \<in> set w \<Longrightarrow> d_new D (cd_close c) = Some d \<Longrightarrow> d_isFinite D d"
  shows "0 \<le> val x \<and> val x \<le> 100"
proof -
  obtain m cs where m: "requirePeriod w (period + 1) = Some m" and cs: "prices D cd_close w = Some cs"
    and x: "x = rsi_of D
        (wilder D (m - 1) (d_div D (seed_gains D (take (m - 1) (deltas D cs))) (d_int D (int (m - 1)))) (map (gain_of D) (drop (m - 1) (deltas D cs))))
        (wilder D (m - 1) (d_div D (seed_losses D (take (m - 1) (deltas D cs))) (d_int D (int (m - 1)))) (map (loss_of D) (drop (m - 1) (deltas D cs))))"
    using run by (auto simp: rsi_def Let_def bind_eq_Some_conv)
  have "d_isFinite D c" if "c \<in> set cs" for c using that prices_Some(2) [OF cs] fin by auto
  then have d: "d_isFinite D y" if "y \<in> set (deltas D cs)" for y using deltas_finite that by blast
  show ?thesis
    unfolding x
    by (intro rsi_of_range nonneg_wilder seed_mean_nonneg period_pos [OF n m] seed_nonneg)
       (auto intro!: nonneg_parts d dest: in_set_takeD in_set_dropD)
qed

lemma atr_nonneg:
  assumes run: "atr D w period = Some x" and n: "1 \<le> period"
    and fin: "\<And>c d. c \<in> set w \<Longrightarrow> d_new D (cd_close c) = Some d \<or> d_new D (cd_high c) = Some d \<or> d_new D (cd_low c) = Some d \<Longrightarrow> d_isFinite D d"
  shows "nonneg x"
proof -
  obtain m trs where m: "requirePeriod w (period + 1) = Some m" and trs: "those (map2 (trueRange D) (tl w) w) = Some trs"
    and x: "x = wilder D (m - 1) (d_div D (foldl (d_plus D) (d_int D 0) (take (m - 1) trs)) (d_int D (int (m - 1)))) (drop (m - 1) trs)"
    using run by (auto simp: atr_def Let_def bind_eq_Some_conv)
  have "nonneg y" if y: "y \<in> set trs" for y
  proof -
    obtain c p where "(c, p) \<in> set (zip (tl w) w)" and tr: "trueRange D c p = Some y" using those_all [OF trs y] by auto
    then have "c \<in> set w" "p \<in> set w" by (auto dest: consecutive)
    then show ?thesis using trueRange_nonneg [OF tr] fin by blast
  qed
  then show ?thesis
    unfolding x by (intro nonneg_wilder seed_mean_nonneg nonneg_foldl period_pos [OF n m]) (auto dest: in_set_takeD in_set_dropD)
qed

lemma highestHigh_max:
  assumes run: "highestHigh D w = Some x" and fin: "\<And>c d. c \<in> set w \<Longrightarrow> d_new D (cd_high c) = Some d \<Longrightarrow> d_isFinite D d"
  shows "(\<exists>c \<in> set w. d_new D (cd_high c) = Some x) \<and> (\<forall>c \<in> set w. \<forall>d. d_new D (cd_high c) = Some d \<longrightarrow> val d \<le> val x)"
proof -
  obtain vs where vs: "prices D cd_high w = Some vs" "extreme (dmax D) vs = Some x"
    using run by (auto simp: highestHigh_def bind_eq_Some_conv)
  then obtain v vs' where v: "vs = v # vs'" "x = foldl (dmax D) v vs'" by (cases vs) auto
  have "d_isFinite D y" if "y \<in> set (v # vs')" for y using that prices_Some(2) [OF vs(1)] fin v(1) by auto
  from extreme_dmax [OF this] show ?thesis using prices_Some(2) [OF vs(1)] v by blast
qed

end

section \<open>Properties\<close>

text \<open>
  C21. The indicators stay in their range under the twenty-digit arithmetic. Over finite prices and a period
  of at least one, the relative strength index lies between 0 and 100, the average true range is
  never negative, and the highest high is the high of some candle and below none.
\<close>
theorem indicators_in_range:
  assumes L: "decimal_laws D val" and n: "1 \<le> period"
    and fin: "\<And>c d. c \<in> set w \<Longrightarrow> d_new D (cd_close c) = Some d \<or> d_new D (cd_high c) = Some d \<or> d_new D (cd_low c) = Some d \<Longrightarrow> d_isFinite D d"
  shows "(\<forall>x. rsi D w period = Some x \<longrightarrow> 0 \<le> val x \<and> val x \<le> 100) \<and>
    (\<forall>x. atr D w period = Some x \<longrightarrow> 0 \<le> val x) \<and>
    (\<forall>x. highestHigh D w = Some x \<longrightarrow>
       (\<exists>c \<in> set w. d_new D (cd_high c) = Some x) \<and> (\<forall>c \<in> set w. \<forall>d. d_new D (cd_high c) = Some d \<longrightarrow> val d \<le> val x))"
proof (rule conjI [OF _ conjI])
  show "\<forall>x. rsi D w period = Some x \<longrightarrow> 0 \<le> val x \<and> val x \<le> 100"
  proof (intro allI impI)
    fix x assume "rsi D w period = Some x"
    then show "0 \<le> val x \<and> val x \<le> 100" by (rule decimal_laws.rsi_range [OF L _ n]) (rule fin, assumption, rule disjI1)
  qed
  show "\<forall>x. atr D w period = Some x \<longrightarrow> 0 \<le> val x"
  proof (intro allI impI)
    fix x assume "atr D w period = Some x"
    then have "decimal_laws.nonneg D val x" by (rule decimal_laws.atr_nonneg [OF L _ n]) (rule fin)
    then show "0 \<le> val x" by (simp add: decimal_laws.nonneg_def [OF L])
  qed
  show "\<forall>x. highestHigh D w = Some x \<longrightarrow>
      (\<exists>c \<in> set w. d_new D (cd_high c) = Some x) \<and> (\<forall>c \<in> set w. \<forall>d. d_new D (cd_high c) = Some d \<longrightarrow> val d \<le> val x)"
  proof (intro allI impI)
    fix x assume "highestHigh D w = Some x"
    then show "(\<exists>c \<in> set w. d_new D (cd_high c) = Some x) \<and> (\<forall>c \<in> set w. \<forall>d. d_new D (cd_high c) = Some d \<longrightarrow> val d \<le> val x)"
      by (rule decimal_laws.highestHigh_max [OF L]) (rule fin, assumption, rule disjI2, rule disjI1)
  qed
qed

definition example_candle :: "string \<Rightarrow> candle" where
  "example_candle close = \<lparr>cd_openTimeMs = 0, cd_closeTimeMs = 1, cd_open = close, cd_high = close, cd_low = close, cd_close = close,
     cd_volume = ''1'', cd_isClosed = True\<rparr>"

lemma example_rsi: "\<exists>x. rsi dec_js (map example_candle [''10'', ''12'', ''11'']) 2 = Some x"
proof -
  have "prices dec_js cd_close (map example_candle [''10'', ''12'', ''11'']) \<noteq> None" by code_simp
  then obtain cs where "prices dec_js cd_close (map example_candle [''10'', ''12'', ''11'']) = Some cs" by blast
  moreover have "requirePeriod (map example_candle [''10'', ''12'', ''11'']) (2 + 1) = Some 3" by code_simp
  ultimately show ?thesis by (simp add: rsi_def)
qed

theorem indicators_in_range_witness:
  "\<exists>x. rsi dec_js (map example_candle [''10'', ''12'', ''11'']) 2 = Some x \<and> 0 \<le> dval x \<and> dval x \<le> 100"
proof -
  obtain x where x: "rsi dec_js (map example_candle [''10'', ''12'', ''11'']) 2 = Some x" using example_rsi by blast
  have fin: "d_isFinite dec_js d" if "d_new dec_js s = Some d" for s d using that by (auto simp: dec_js_def)
  have "\<forall>x. rsi dec_js (map example_candle [''10'', ''12'', ''11'']) 2 = Some x \<longrightarrow> 0 \<le> dval x \<and> dval x \<le> 100"
  proof (rule indicators_in_range [OF djs.decimal_laws_axioms, THEN conjunct1])
    show "(1::rat) \<le> 2" by simp
  qed (elim disjE; rule fin)
  with x show ?thesis by blast
qed

end
