(* ===== verification/Tt_Sell_Gate.thy ===== *)
theory Tt_Sell_Gate
  imports Tt_Orders Indicators
begin

text \<open>
  The exit ladder of the trailing-trade strategy (\<open>packages/strategy/trailing-trade/src\<close>): the daily
  regime (\<open>branches/regime.ts\<close>), the reason a held position did not exit (\<open>exit-blocker.ts\<close>) and the
  ladder itself (\<open>branches/sell-gate.ts\<close>).

  The ladder is a list of rungs in the order of the source. A rung returns a result, or falls through
  to the next one; the candidates it fills on the way are the mutable record the source threads
  through. \<open>None\<close> is an exception.
\<close>

section \<open>The daily regime\<close>

datatype regime = Bull | Bear | Neutral | Unavailable

record regime_params =
  rg_ma :: json
  rg_period :: json
  rg_confirmBars :: json

record regime_reading =
  rr_regime :: regime
  rr_context :: json

definition REGIME_INTERVAL :: string where "REGIME_INTERVAL = ''1d''"

text \<open>\<open>xs.slice(start)\<close>; \<open>None\<close> is a start that is not a number.\<close>

definition slice_from :: "'a list \<Rightarrow> rat option \<Rightarrow> 'a list" where
  "slice_from xs start =
     (case start of
        None \<Rightarrow> xs
      | Some r \<Rightarrow>
          (let k = (if 0 \<le> r then \<lfloor>r\<rfloor> else \<lceil>r\<rceil>)
           in if k < 0 then drop (nat (max 0 (int (length xs) + k))) xs else drop (nat k) xs))"

definition num_gt :: "json \<Rightarrow> json \<Rightarrow> bool" where
  "num_gt a b = (case (json_rat a, json_rat b) of (Some x, Some y) \<Rightarrow> y < x | _ \<Rightarrow> False)"

definition moving_average :: "'d decimal_js \<Rightarrow> candle list \<Rightarrow> regime_params \<Rightarrow> 'd option" where
  "moving_average D candles params =
     Option.bind (json_rat (rg_period params))
       (if rg_ma params = JStr ''sma'' then sma D candles else ema D candles)"

definition classifyRegimeFromDaily :: "'d decimal_js \<Rightarrow> candle list \<Rightarrow> string \<Rightarrow> regime_params \<Rightarrow> regime_reading" where
  "classifyRegimeFromDaily D dailyCandles currentPrice params =
     (let candles = filter cd_isClosed dailyCandles;
          have_n = JNum (JsNum (of_nat (length candles)));
          need = (if num_gt (rg_period params) (rg_confirmBars params) then rg_period params else rg_confirmBars params);
          missing = (\<lambda>what. \<lparr>rr_regime = Unavailable,
                              rr_context = JObj [(''interval'', JStr REGIME_INTERVAL), (''missing'', JStr what)]\<rparr>)
      in if num_gt need have_n
         then \<lparr>rr_regime = Unavailable,
               rr_context = JObj [(''interval'', JStr REGIME_INTERVAL), (''have'', have_n), (''need'', need)]\<rparr>
         else case prices D cd_close (slice_from candles (map_option (\<lambda>c. of_nat (length candles) - c) (json_rat (rg_confirmBars params)))) of
                None \<Rightarrow> missing ''close''
              | Some closes \<Rightarrow>
                  (case moving_average D candles params of
                     None \<Rightarrow> missing ''compute''
                   | Some maValue \<Rightarrow>
                       \<lparr>rr_regime = (if list_all (\<lambda>close. d_lt D close maValue) closes then Bear
                                     else if list_all (\<lambda>close. d_gt D close maValue) closes then Bull else Neutral),
                        rr_context = JObj [(''interval'', JStr REGIME_INTERVAL), (''ma'', JStr (d_toString D maValue)),
                          (''maType'', rg_ma params), (''period'', rg_period params), (''confirmBars'', rg_confirmBars params),
                          (''price'', JStr currentPrice)]\<rparr>))"

definition candles_of :: "'d tt_input \<Rightarrow> string \<Rightarrow> candle list" where
  "candles_of inp k = (case tn_candlesByInterval inp k of Some w \<Rightarrow> w | None \<Rightarrow> [])"

definition classifyRegime :: "'d decimal_js \<Rightarrow> 'd tt_input \<Rightarrow> regime_params \<Rightarrow> regime_reading" where
  "classifyRegime D inp params = classifyRegimeFromDaily D (candles_of inp REGIME_INTERVAL) (tn_currentPrice inp) params"

section \<open>Why a position did not exit\<close>

datatype trail_source = TrailAtr | TrailFixed

record 'd exit_candidates =
  ec_unsellable :: "string option"
  ec_configInvalid :: "string option"
  ec_trailHighRaised :: "'d option"
  ec_armedTrail :: "(trail_source \<times> 'd \<times> 'd) option"
  ec_awaitingArm :: "'d option"
  ec_breakEvenFloor :: "'d option"
  ec_breakEvenArm :: "'d option"
  ec_stopLoss :: "'d option"
  ec_timeStop :: "(nat \<times> json) option"

definition noExitCandidates :: "'d exit_candidates" where
  "noExitCandidates = \<lparr>ec_unsellable = None, ec_configInvalid = None, ec_trailHighRaised = None, ec_armedTrail = None,
     ec_awaitingArm = None, ec_breakEvenFloor = None, ec_breakEvenArm = None, ec_stopLoss = None, ec_timeStop = None\<rparr>"

record 'd exit_context =
  ex_cand :: "'d exit_candidates"
  ex_sellDisabled :: bool
  ex_openSellOrder :: bool
  ex_currentPrice :: "'d option"
  ex_hasDownsideExit :: bool
  ex_stopInfeasible :: "(string \<times> string \<times> string) option"

definition hasDownsideExitConfigured :: "json \<Rightarrow> bool \<Rightarrow> bool" where
  "hasDownsideExitConfigured config discoveryEntry \<longleftrightarrow>
     (let stopLoss = sell_field config ''stopLossPercentage''; on = (\<lambda>k. jget (sell_field config k) ''enabled'' = JBool True);
          bars = (\<lambda>k. num_gt (sell_field config k) (JNum (JsNum 0)))
      in (stopLoss \<noteq> JUndefined \<and> stopLoss \<noteq> JStr [] \<and> stopLoss \<noteq> JStr ''0'') \<or> on ''breakEven'' \<or> on ''atrTrailing'' \<or>
         on ''protectiveStop'' \<or> (if discoveryEntry then bars ''discoveryTimeStopBars'' else bars ''timeStopBars''))"

definition assessDownsideExit ::
  "'d decimal_js \<Rightarrow> json \<Rightarrow> bool \<Rightarrow> 'd option \<Rightarrow> 'd option \<Rightarrow> 'd size_filters option \<Rightarrow> (bool \<times> (string \<times> string \<times> string) option) option" where
  "assessDownsideExit D config discoveryEntry held stopSellPrice filters =
     (let has = hasDownsideExitConfigured config discoveryEntry
      in case (held, stopSellPrice, filters) of
           (Some h, Some p, Some f) \<Rightarrow>
             if \<not> has \<or> \<not> d_gt D h (d_int D 0) \<or> \<not> d_gt D p (d_int D 0) then Some (has, None)
             else map_option (\<lambda>ok. (has, if ok then None
                     else Some (d_toFixedAll D h, d_toFixedAll D p, d_toFixedAll D (fl_minNotional f))))
                   (sellableAtStop D h p f)
         | _ \<Rightarrow> Some (has, None))"

definition assessHeldDownsideExit :: "'d decimal_js \<Rightarrow> 'd tt_input \<Rightarrow> json \<Rightarrow> (bool \<times> (string \<times> string \<times> string) option) option" where
  "assessHeldDownsideExit D inp state =
     Option.bind (ttStopSellPrice D (tn_config inp) state (tn_currentPrice inp) (tn_symbolInfo inp)) (\<lambda>stopPrice.
       assessDownsideExit D (tn_config inp) (jget state ''discoveryEntry'' = JBool True)
         (decimal_of D (jget state ''heldQuantity'')) stopPrice (parseFilters D (tn_filters inp)))"

text \<open>\<open>String(v)\<close> of the strings and integers printed here.\<close>

fun js_str :: "json \<Rightarrow> string" where
  "js_str (JStr s) = s"
| "js_str (JNum (JsNum r)) = int_str \<lfloor>r\<rfloor>"
| "js_str JNull = ''null''"
| "js_str _ = ''undefined''"

definition blocker_at :: "'d decimal_js \<Rightarrow> 'd exit_context \<Rightarrow> string \<Rightarrow> (string \<times> json) list \<Rightarrow> exit_blocker" where
  "blocker_at D ctx reason threshold =
     \<lparr>eb_reason = reason,
      eb_changeKey = reason @ concat (map (\<lambda>(k, v). ''|'' @ k @ ''='' @ js_str v) threshold),
      eb_detail = JObj (threshold @ (case ex_currentPrice ctx of None \<Rightarrow> [] | Some p \<Rightarrow> [(''currentPrice'', JStr (d_toFixedAll D p))])
                        @ [(''hasDownsideExit'', JBool (ex_hasDownsideExit ctx))])\<rparr>"

text \<open>The first reason that is present, in the order of the source's early returns.\<close>

fun first_some :: "'a option list \<Rightarrow> 'a \<Rightarrow> 'a" where
  "first_some [] d = d"
| "first_some (Some b # xs) d = b"
| "first_some (None # xs) d = first_some xs d"

definition infeasible_threshold :: "string \<times> string \<times> string \<Rightarrow> (string \<times> json) list" where
  "infeasible_threshold x = [(''heldQuantity'', JStr (fst x)), (''stopPrice'', JStr (fst (snd x))), (''minNotional'', JStr (snd (snd x)))]"

definition resolveExitBlocker :: "'d decimal_js \<Rightarrow> 'd exit_context \<Rightarrow> exit_blocker" where
  "resolveExitBlocker D ctx =
     (let c = ex_cand ctx; show_d = (\<lambda>d. JStr (d_toFixedAll D d)); rung = blocker_at D ctx
      in first_some
        [if ex_sellDisabled ctx then Some (rung ''sell-disabled'' []) else None,
         if ex_openSellOrder ctx then Some (rung ''exit-order-open'' []) else None,
         map_option (\<lambda>skip. rung ''exit-unsellable'' [(''skip'', JStr skip)]) (ec_unsellable c),
         map_option (\<lambda>f. rung ''exit-config-invalid'' [(''field'', JStr f)]) (ec_configInvalid c),
         map_option (\<lambda>x. rung ''stop-infeasible-dust'' (infeasible_threshold x)) (ex_stopInfeasible ctx),
         map_option (\<lambda>high. rung ''trail-high-raised'' [(''highSinceBuy'', show_d high)]) (ec_trailHighRaised c),
         map_option (\<lambda>x. rung (if fst x = TrailAtr then ''atr-trail-above-price'' else ''trail-above-price'')
                            [(''trailPrice'', show_d (fst (snd x))), (''highSinceBuy'', show_d (snd (snd x)))]) (ec_armedTrail c),
         map_option (\<lambda>p. rung ''awaiting-sell-arm'' [(''armPrice'', show_d p)]) (ec_awaitingArm c),
         map_option (\<lambda>p. rung ''break-even-floor-not-hit'' [(''floorPrice'', show_d p)]) (ec_breakEvenFloor c),
         map_option (\<lambda>p. rung ''break-even-not-armed'' [(''armPrice'', show_d p)]) (ec_breakEvenArm c),
         map_option (\<lambda>p. rung ''stop-loss-not-hit'' [(''stopPrice'', show_d p)]) (ec_stopLoss c),
         map_option (\<lambda>x. rung ''time-stop-pending'' [(''closedBars'', JNum (JsNum (of_nat (fst x)))), (''requiredBars'', snd x)]) (ec_timeStop c)]
        (rung ''no-exit-configured'' []))"

section \<open>The ladder\<close>

definition BULL_HOLD_MULTIPLIER :: "json \<Rightarrow> string" where
  "BULL_HOLD_MULTIPLIER room = (if room = JStr ''tight'' then ''2'' else if room = JStr ''loose'' then ''4'' else ''3'')"

definition bullHoldMultiplier :: "'d decimal_js \<Rightarrow> 'd tt_input \<Rightarrow> string option" where
  "bullHoldMultiplier D inp =
     (let r = jget (tn_config inp) ''regime''; hold = jget (jget r ''onBull'') ''hold''
      in if r = JUndefined \<or> jget hold ''enabled'' \<noteq> JBool True then None
         else if rr_regime (classifyRegime D inp \<lparr>rg_ma = jget r ''ma'', rg_period = jget r ''period'', rg_confirmBars = jget r ''confirmBars''\<rparr>) \<noteq> Bull
         then None
         else Some (BULL_HOLD_MULTIPLIER (jget hold ''room'')))"

definition selectTrailMultiplier :: "'d decimal_js \<Rightarrow> json \<Rightarrow> string option \<Rightarrow> 'd option" where
  "selectTrailMultiplier D atrCfg bullMult =
     (let bull = Option.bind bullMult (d_new D)
      in if \<not> truthy (jget atrCfg ''enabled'') then bull
         else case decimal_of D (jget atrCfg ''multiplier'') of
                None \<Rightarrow> None
              | Some base \<Rightarrow> Some (case bull of None \<Rightarrow> base | Some b \<Rightarrow> d_max D base b))"

definition trading_candles :: "'d tt_input \<Rightarrow> candle list" where
  "trading_candles inp =
     filter cd_isClosed (case jget (tn_config inp) ''candleInterval'' of JStr k \<Rightarrow> candles_of inp k | _ \<Rightarrow> [])"

definition computeAtr :: "'d decimal_js \<Rightarrow> 'd tt_input \<Rightarrow> json \<Rightarrow> 'd option" where
  "computeAtr D inp period =
     (let candles = trading_candles inp
      in case json_rat period of
           None \<Rightarrow> None
         | Some p \<Rightarrow> if of_nat (length candles) < p + 1 then None else atr D candles p)"

definition later_candle :: "candle option \<Rightarrow> candle \<Rightarrow> candle option" where
  "later_candle best c = (case best of None \<Rightarrow> Some c | Some b \<Rightarrow> if cd_closeTimeMs b < cd_closeTimeMs c then Some c else Some b)"

definition latestClosedClose :: "'d decimal_js \<Rightarrow> 'd tt_input \<Rightarrow> 'd option" where
  "latestClosedClose D inp = Option.bind (foldl later_candle None (trading_candles inp)) (\<lambda>c. d_new D (cd_close c))"

definition closedBarsSinceEntry :: "'d tt_input \<Rightarrow> json \<Rightarrow> nat" where
  "closedBarsSinceEntry inp sinceMs =
     (case json_rat sinceMs of
        None \<Rightarrow> 0
      | Some t \<Rightarrow> length (filter (\<lambda>c. t < of_int (cd_closeTimeMs c)) (trading_candles inp)))"

definition parse_failed :: "(string \<times> json) list \<Rightarrow> string option \<Rightarrow> sell_gate_result" where
  "parse_failed ctx field = SellSkip (log_of ''warn'' ''tt-sell-gate-parse-failed'' (Some (JObj ctx))) None field None"

definition parseFieldOrSkip :: "'d decimal_js \<Rightarrow> 'd tt_input \<Rightarrow> json \<Rightarrow> string \<Rightarrow> sell_gate_result + 'd" where
  "parseFieldOrSkip D inp value field =
     (case decimal_of D value of
        Some d \<Rightarrow> Inr d
      | None \<Rightarrow> Inl (parse_failed [(''field'', JStr field), (''value'', value), (''err'', JStr (tn_decimalError inp value))] (Some field)))"

datatype 'd rung_outcome = Returned sell_gate_result "'d exit_candidates" | FallThrough "'d exit_candidates"

type_synonym 'd rung = "'d exit_candidates \<Rightarrow> 'd rung_outcome option"

fun run_rungs :: "'d rung list \<Rightarrow> 'd exit_candidates \<Rightarrow> (sell_gate_result \<times> 'd exit_candidates) option" where
  "run_rungs [] c = Some (SellNoop None, c)"
| "run_rungs (r # rs) c =
     (case r c of
        None \<Rightarrow> None
      | Some (Returned res c') \<Rightarrow> Some (res, c')
      | Some (FallThrough c') \<Rightarrow> run_rungs rs c')"

definition returned :: "'d exit_candidates \<Rightarrow> sell_gate_result option \<Rightarrow> 'd rung_outcome option" where
  "returned c res = map_option (\<lambda>r. Returned r c) res"

definition configured :: "json \<Rightarrow> bool" where
  "configured v \<longleftrightarrow> v \<noteq> JStr [] \<and> v \<noteq> JStr ''0''"

definition stop_loss_rung :: "'d decimal_js \<Rightarrow> 'd tt_input \<Rightarrow> json \<Rightarrow> 'd \<Rightarrow> 'd \<Rightarrow> 'd rung" where
  "stop_loss_rung D inp state lbp price c =
     (let v = sell_field (tn_config inp) ''stopLossPercentage''
      in if \<not> configured v then Some (FallThrough c)
         else case parseFieldOrSkip D inp v ''stopLossPercentage'' of
                Inl skip \<Rightarrow> Some (Returned skip c)
              | Inr stopLoss \<Rightarrow>
                  if d_gt D stopLoss (d_int D 0) \<and> d_lte D stopLoss (d_int D 1)
                  then (let stopPrice = fst (resolveTTStopLevel D lbp stopLoss (sell_field (tn_config inp) ''protectiveStop'')
                                          (tn_currentPrice inp) (sf_percentPriceBySide (tn_filters inp)))
                        in if d_lte D price stopPrice
                           then returned c (sellEmissionOrSkip D inp state ''grid-stop-loss'' ''tt-stop-loss''
                                  (''stop-'' @ js_str (jget state ''avgEntryPrice'')) [])
                           else Some (FallThrough (c\<lparr>ec_stopLoss := Some stopPrice\<rparr>)))
                  else Some (FallThrough (c\<lparr>ec_configInvalid := Some ''stopLossPercentage''\<rparr>)))"

text \<open>The armed floor, and the arming of it.\<close>

definition break_even_armed :: "'d decimal_js \<Rightarrow> 'd tt_input \<Rightarrow> json \<Rightarrow> 'd \<Rightarrow> 'd option \<Rightarrow> 'd rung" where
  "break_even_armed D inp state price floorPrice c =
     (case floorPrice of
        Some fl \<Rightarrow>
          if jget state ''highSinceBuy'' \<noteq> JNull then Some (FallThrough c)
          else if d_lte D price fl
          then returned c (sellEmissionOrSkip D inp state ''break-even-stop'' ''tt-break-even-stop''
                 (''break-even-'' @ js_str (jget state ''avgEntryPrice'')) [])
          else Some (FallThrough (c\<lparr>ec_breakEvenFloor := Some fl\<rparr>))
      | None \<Rightarrow> Some (FallThrough c))"

definition break_even_arm :: "'d decimal_js \<Rightarrow> 'd tt_input \<Rightarrow> json \<Rightarrow> 'd \<Rightarrow> 'd \<Rightarrow> 'd option \<Rightarrow> json \<Rightarrow> 'd rung" where
  "break_even_arm D inp state lbp ratchetPrice floorPrice breakEven c =
     (case parseFieldOrSkip D inp (jget breakEven ''armAtPercentage'') ''breakEven.armAtPercentage'' of
        Inl skip \<Rightarrow> Some (Returned skip c)
      | Inr armAt \<Rightarrow>
          if \<not> d_gt D armAt (d_int D 1) then Some (FallThrough (c\<lparr>ec_configInvalid := Some ''breakEven.armAtPercentage''\<rparr>))
          else (let armPrice = d_times D lbp armAt
                in if \<not> d_gte D ratchetPrice armPrice then Some (FallThrough (c\<lparr>ec_breakEvenArm := Some armPrice\<rparr>))
                   else Some (Returned (SellBumpHigh (spread state [(''breakEvenArmed'', JBool True)]) None)
                          (case floorPrice of Some fl \<Rightarrow> c\<lparr>ec_breakEvenFloor := Some fl\<rparr> | None \<Rightarrow> c))))"

definition break_even_rung :: "'d decimal_js \<Rightarrow> 'd tt_input \<Rightarrow> json \<Rightarrow> 'd \<Rightarrow> 'd \<Rightarrow> 'd \<Rightarrow> 'd rung" where
  "break_even_rung D inp state lbp price ratchetPrice c =
     (let breakEven = sell_field (tn_config inp) ''breakEven''
      in if jget breakEven ''enabled'' \<noteq> JBool True then Some (FallThrough c)
         else case parseFieldOrSkip D inp (jget breakEven ''floorPercentage'') ''breakEven.floorPercentage'' of
                Inl skip \<Rightarrow> Some (Returned skip c)
              | Inr fl \<Rightarrow>
                  (let floorPrice = (if d_gte D fl (d_int D 1) then Some (d_times D lbp fl) else None);
                       c = (if floorPrice = None then c\<lparr>ec_configInvalid := Some ''breakEven.floorPercentage''\<rparr> else c)
                   in if jget state ''breakEvenArmed'' = JBool True then break_even_armed D inp state price floorPrice c
                      else break_even_arm D inp state lbp ratchetPrice floorPrice breakEven c))"

definition from_entry :: "json \<Rightarrow> bool" where
  "from_entry atrTrailing \<longleftrightarrow> truthy (jget atrTrailing ''enabled'') \<and> truthy (jget atrTrailing ''fromEntry'')"

definition bump_high :: "'d decimal_js \<Rightarrow> json \<Rightarrow> 'd \<Rightarrow> 'd rung" where
  "bump_high D state high c =
     Some (Returned (SellBumpHigh (spread state [(''highSinceBuy'', JStr (d_toString D high))]) None) (c\<lparr>ec_trailHighRaised := Some high\<rparr>))"

text \<open>Reading a field of a missing block is a \<open>TypeError\<close>.\<close>

definition from_entry_rung :: "'d decimal_js \<Rightarrow> 'd tt_input \<Rightarrow> json \<Rightarrow> 'd \<Rightarrow> 'd \<Rightarrow> 'd rung" where
  "from_entry_rung D inp state lbp ratchetPrice c =
     (let atrTrailing = sell_field (tn_config inp) ''atrTrailing''; high = jget state ''highSinceBuy''
      in if nullish atrTrailing then None
         else if \<not> from_entry atrTrailing then Some (FallThrough c)
         else case (if high = JNull then Some lbp else decimal_of D high) of
                None \<Rightarrow> Some (FallThrough c)
              | Some prevHigh \<Rightarrow>
                  if high = JNull \<or> d_gt D ratchetPrice prevHigh then bump_high D state (d_max D prevHigh ratchetPrice) c
                  else Some (FallThrough c))"

definition trail_configured :: "json \<Rightarrow> bool" where
  "trail_configured config \<longleftrightarrow>
     (case sell_field config ''trailingStopPercentage'' of JStr s \<Rightarrow> s \<noteq> [] \<and> s \<noteq> ''0'' | _ \<Rightarrow> False) \<or>
     jget (sell_field config ''atrTrailing'') ''enabled'' = JBool True \<or>
     jget (jget (jget (jget config ''regime'') ''onBull'') ''hold'') ''enabled'' = JBool True"

definition trigger_rung :: "'d decimal_js \<Rightarrow> 'd tt_input \<Rightarrow> json \<Rightarrow> 'd \<Rightarrow> 'd \<Rightarrow> 'd \<Rightarrow> 'd rung" where
  "trigger_rung D inp state lbp price ratchetPrice c =
     (let v = sell_field (tn_config inp) ''triggerPercentage''; high = jget state ''highSinceBuy''
      in if from_entry (sell_field (tn_config inp) ''atrTrailing'') \<or> \<not> configured v then Some (FallThrough c)
         else case parseFieldOrSkip D inp v ''triggerPercentage'' of
                Inl skip \<Rightarrow> Some (Returned skip c)
              | Inr trigger \<Rightarrow>
                  (let effTrigger = d_max D trigger (d_plus D (d_int D 1) (roundTripFeeFraction D (tn_config inp)));
                       armPrice = d_times D lbp effTrigger; profitable = d_gt D trigger (d_int D 1);
                       c = (if profitable \<and> high = JNull \<and> d_lt D price armPrice \<and> trail_configured (tn_config inp)
                            then c\<lparr>ec_awaitingArm := Some armPrice\<rparr> else c);
                       prevHigh = (if high = JNull then None else decimal_of D high)
                   in if profitable \<and> d_gte D price armPrice \<and> (case prevHigh of None \<Rightarrow> True | Some h \<Rightarrow> d_gt D ratchetPrice h)
                      then bump_high D state ratchetPrice c
                      else Some (FallThrough c)))"

definition atr_rung :: "'d decimal_js \<Rightarrow> 'd tt_input \<Rightarrow> json \<Rightarrow> 'd \<Rightarrow> 'd rung" where
  "atr_rung D inp state price c =
     (let atrCfg = sell_field (tn_config inp) ''atrTrailing''; bullMult = bullHoldMultiplier D inp; high = jget state ''highSinceBuy''
      in if high = JNull \<or> (\<not> truthy (jget atrCfg ''enabled'') \<and> bullMult = None) then Some (FallThrough c)
         else case (decimal_of D high, computeAtr D inp (jget atrCfg ''period'')) of
                (Some h, Some atrValue) \<Rightarrow>
                  (case selectTrailMultiplier D atrCfg bullMult of
                     None \<Rightarrow>
                       Some (Returned (parse_failed [(''field'', JStr ''atrTrailing.multiplier''), (''value'', jget atrCfg ''multiplier'')] None)
                              (c\<lparr>ec_configInvalid := Some ''atrTrailing.multiplier''\<rparr>))
                   | Some mult \<Rightarrow>
                       (let stopLevel = d_minus D h (d_times D mult atrValue)
                        in if \<not> d_gt D stopLevel (d_int D 0) then Some (FallThrough c)
                           else if d_lte D price stopLevel
                           then returned c (sellEmissionOrSkip D inp state ''grid-sell'' ''tt-atr-trailing-stop'' (''atr-trail-'' @ js_str high)
                                  (if bullMult = None then [] else [(''trail'', JStr ''atr-bull''), (''atrMultiplier'', JStr (d_toFixedAll D mult))]))
                           else Some (Returned (SellNoop None) (c\<lparr>ec_armedTrail := Some (TrailAtr, stopLevel, h)\<rparr>))))
              | _ \<Rightarrow> Some (FallThrough c))"

definition fixed_trail_rung :: "'d decimal_js \<Rightarrow> 'd tt_input \<Rightarrow> json \<Rightarrow> 'd \<Rightarrow> 'd rung" where
  "fixed_trail_rung D inp state price c =
     (let high = jget state ''highSinceBuy''
      in case sell_field (tn_config inp) ''trailingStopPercentage'' of
           JStr s \<Rightarrow>
             if high = JNull \<or> s = [] \<or> s = ''0'' then Some (FallThrough c)
             else (case decimal_of D high of
                     None \<Rightarrow> Some (Returned (parse_failed [(''field'', JStr ''highSinceBuy''), (''value'', high)] None)
                               (c\<lparr>ec_configInvalid := Some ''highSinceBuy''\<rparr>))
                   | Some h \<Rightarrow>
                       (case parseFieldOrSkip D inp (JStr s) ''trailingStopPercentage'' of
                          Inl skip \<Rightarrow> Some (Returned skip c)
                        | Inr trailing \<Rightarrow>
                            if d_gt D trailing (d_int D 0) \<and> d_lte D trailing (d_int D 1)
                            then (let trailPrice = d_times D h trailing
                                  in if d_lte D price trailPrice
                                     then returned c (sellEmissionOrSkip D inp state ''grid-sell'' ''tt-trailing-stop'' (''trail-'' @ js_str high) [])
                                     else Some (FallThrough (c\<lparr>ec_armedTrail := Some (TrailFixed, trailPrice, h)\<rparr>)))
                            else Some (FallThrough c)))
         | _ \<Rightarrow> Some (FallThrough c))"

definition bars_rung :: "'d decimal_js \<Rightarrow> 'd tt_input \<Rightarrow> json \<Rightarrow> bool \<Rightarrow> json \<Rightarrow> string \<Rightarrow> string \<Rightarrow> 'd rung" where
  "bars_rung D inp state applies bars reason prefix c =
     (let since = jget state ''entryAtMs''
      in if \<not> applies \<or> since = JNull \<or> \<not> num_gt bars (JNum (JsNum 0)) then Some (FallThrough c)
         else (let closed = closedBarsSinceEntry inp since
               in if \<not> num_gt bars (JNum (JsNum (of_nat closed)))
                  then returned c (sellEmissionOrSkip D inp state reason prefix (''time-stop-'' @ js_str since) [])
                  else Some (FallThrough (c\<lparr>ec_timeStop := Some (closed, bars)\<rparr>))))"

definition discovery_rung :: "'d decimal_js \<Rightarrow> 'd tt_input \<Rightarrow> json \<Rightarrow> 'd rung" where
  "discovery_rung D inp state =
     bars_rung D inp state (jget state ''discoveryEntry'' = JBool True) (sell_field (tn_config inp) ''discoveryTimeStopBars'')
       ''discovery-time-stop'' ''tt-discovery-time-stop''"

definition time_stop_rung :: "'d decimal_js \<Rightarrow> 'd tt_input \<Rightarrow> json \<Rightarrow> 'd rung" where
  "time_stop_rung D inp state =
     bars_rung D inp state (jget state ''discoveryEntry'' \<noteq> JBool True \<and> jget state ''highSinceBuy'' = JNull)
       (sell_field (tn_config inp) ''timeStopBars'') ''time-stop'' ''tt-time-stop''"

definition sell_rungs :: "'d decimal_js \<Rightarrow> 'd tt_input \<Rightarrow> json \<Rightarrow> 'd \<Rightarrow> 'd \<Rightarrow> 'd rung list" where
  "sell_rungs D inp state lbp price =
     (let ratchetPrice = (case latestClosedClose D inp of Some p \<Rightarrow> p | None \<Rightarrow> price)
      in [stop_loss_rung D inp state lbp price, break_even_rung D inp state lbp price ratchetPrice,
          from_entry_rung D inp state lbp ratchetPrice, trigger_rung D inp state lbp price ratchetPrice,
          atr_rung D inp state price, fixed_trail_rung D inp state price, discovery_rung D inp state, time_stop_rung D inp state])"

definition runSellLadder :: "'d decimal_js \<Rightarrow> 'd tt_input \<Rightarrow> json \<Rightarrow> 'd exit_candidates \<Rightarrow> (sell_gate_result \<times> 'd exit_candidates) option" where
  "runSellLadder D inp state cand =
     (let lbpStr = jget state ''avgEntryPrice'';
          failed = (\<lambda>v. parse_failed [(''err'', JStr (tn_decimalError inp v)), (''avgEntryPrice'', lbpStr),
                                       (''currentPrice'', JStr (tn_currentPrice inp))] None)
      in if lbpStr = JNull then Some (SellNoop None, cand)
         else case decimal_of D lbpStr of
                None \<Rightarrow> Some (failed lbpStr, cand)
              | Some lbp \<Rightarrow>
                  (case d_new D (tn_currentPrice inp) of
                     None \<Rightarrow> Some (failed (JStr (tn_currentPrice inp)), cand)
                   | Some price \<Rightarrow>
                       if d_lte D lbp (d_int D 0) \<or> d_lte D price (d_int D 0) then Some (SellNoop None, cand)
                       else run_rungs (sell_rungs D inp state lbp price) cand))"

fun with_skip :: "sell_gate_result \<Rightarrow> 'd exit_candidates \<Rightarrow> 'd exit_candidates" where
  "with_skip (SellSkip l skipReason field b) c =
     (let c = (if skipReason = None then c else c\<lparr>ec_unsellable := skipReason\<rparr>)
      in if field = None then c else c\<lparr>ec_configInvalid := field\<rparr>)"
| "with_skip _ c = c"

fun with_blocker :: "sell_gate_result \<Rightarrow> exit_blocker \<Rightarrow> sell_gate_result" where
  "with_blocker (SellEmit d l m) b = SellEmit d l m"
| "with_blocker (SellBumpHigh s _) b = SellBumpHigh s (Some b)"
| "with_blocker (SellSkip l r f _) b = SellSkip l r f (Some b)"
| "with_blocker (SellNoop _) b = SellNoop (Some b)"

definition is_emit :: "sell_gate_result \<Rightarrow> bool" where
  "is_emit res = (case res of SellEmit d l m \<Rightarrow> True | _ \<Rightarrow> False)"

definition evaluateSellGate :: "'d decimal_js \<Rightarrow> 'd tt_input \<Rightarrow> json \<Rightarrow> sell_gate_result option" where
  "evaluateSellGate D inp state = do {
     (result, cand) \<leftarrow> runSellLadder D inp state noExitCandidates;
     (if is_emit result then Some result
      else map_option (\<lambda>(has, infeasible).
             with_blocker result (resolveExitBlocker D
               \<lparr>ex_cand = with_skip result cand, ex_sellDisabled = False, ex_openSellOrder = False,
                ex_currentPrice = d_new D (tn_currentPrice inp), ex_hasDownsideExit = has, ex_stopInfeasible = infeasible\<rparr>))
           (assessHeldDownsideExit D inp state))
   }"

section \<open>Lifting a property of the rungs\<close>

text \<open>
  What every rung promises of the results it returns holds of the whole ladder: the first rung that
  returns decides, and a ladder without one ends in the neutral result.
\<close>

locale ladder =
  fixes good :: "sell_gate_result \<Rightarrow> bool" and rungs :: "'d rung list"
  assumes rung_good: "r \<in> set rungs \<Longrightarrow> r c = Some (Returned res c') \<Longrightarrow> good res"
    and noop_good: "good (SellNoop None)"
begin

lemma run_good: "set rs \<subseteq> set rungs \<Longrightarrow> run_rungs rs c = Some (res, c') \<Longrightarrow> good res"
  by (induction rs arbitrary: c) (auto simp: noop_good rung_good split: option.splits rung_outcome.splits)

lemmas ladder_good = run_good [OF order_refl]

end

lemma run_rungs_returned: "r c = Some (Returned res c') \<Longrightarrow> run_rungs (r # rs) c = Some (res, c')"
  by simp

text \<open>A position-preserving raise of the running high: the high is strictly above one that was recorded.\<close>

definition raises :: "'d decimal_js \<Rightarrow> 'd \<Rightarrow> json \<Rightarrow> json \<Rightarrow> bool" where
  "raises D r state s \<longleftrightarrow>
     s = spread state [(''breakEvenArmed'', JBool True)] \<or>
     (\<exists>high. s = spread state [(''highSinceBuy'', JStr (d_toString D high))] \<and>
        (\<forall>h. jget state ''highSinceBuy'' \<noteq> JNull \<longrightarrow> decimal_of D (jget state ''highSinceBuy'') = Some h \<longrightarrow>
             d_gt D r h \<and> (high = r \<or> high = d_max D h r)))"

definition exit_reasons :: "string set" where
  "exit_reasons = {''grid-stop-loss'', ''break-even-stop'', ''grid-sell'', ''discovery-time-stop'', ''time-stop''}"

fun gate_good :: "'d decimal_js \<Rightarrow> 'd tt_input \<Rightarrow> 'd \<Rightarrow> json \<Rightarrow> sell_gate_result \<Rightarrow> bool" where
  "gate_good D inp rp state (SellEmit d l m) \<longleftrightarrow>
     (\<exists>reason prefix seed extra. reason \<in> exit_reasons \<and> sellEmissionOrSkip D inp state reason prefix seed extra = Some (SellEmit d l m))"
| "gate_good D inp rp state (SellBumpHigh s b) \<longleftrightarrow> raises D rp state s"
| "gate_good D inp rp state (SellSkip l r f b) \<longleftrightarrow> True"
| "gate_good D inp rp state (SellNoop b) \<longleftrightarrow> True"

lemma emission_good:
  assumes "sellEmissionOrSkip D inp state reason prefix seed extra = Some res" "reason \<in> exit_reasons"
  shows "gate_good D inp rp state res"
  using assms(1)
proof (cases rule: emission_cases)
  case (Emit recl free q cid l)
  then show ?thesis using assms by auto
qed simp

lemma parse_good: "parseFieldOrSkip D inp v f = Inl res \<Longrightarrow> gate_good D inp rp state res"
  by (auto simp: parseFieldOrSkip_def parse_failed_def split: option.splits)

lemma parse_failed_good: "gate_good D inp rp state (parse_failed ctx f)"
  by (simp add: parse_failed_def)

lemma returned_Returned: "returned c x = Some (Returned res c') \<longleftrightarrow> x = Some res \<and> c' = c"
  by (auto simp: returned_def)

lemma bump_high_Returned:
  "bump_high D state high c = Some (Returned res c') \<longleftrightarrow>
     res = SellBumpHigh (spread state [(''highSinceBuy'', JStr (d_toString D high))]) None \<and> c' = c\<lparr>ec_trailHighRaised := Some high\<rparr>"
  by (auto simp: bump_high_def)

lemmas rung_simps = returned_Returned bump_high_Returned Let_def
lemmas rung_goods = emission_good parse_good parse_failed_good

lemma stop_loss_good: "stop_loss_rung D inp state lbp price c = Some (Returned res c') \<Longrightarrow> gate_good D inp rp state res"
  by (auto simp: stop_loss_rung_def rung_simps exit_reasons_def intro: rung_goods split: if_splits sum.splits)

lemma break_even_good: "break_even_rung D inp state lbp price rp c = Some (Returned res c') \<Longrightarrow> gate_good D inp rp state res"
  by (auto simp: break_even_rung_def break_even_armed_def break_even_arm_def rung_simps exit_reasons_def raises_def
      intro: rung_goods split: if_splits sum.splits option.splits)

lemma from_entry_good: "from_entry_rung D inp state lbp rp c = Some (Returned res c') \<Longrightarrow> gate_good D inp rp state res"
  by (auto simp: from_entry_rung_def rung_simps raises_def split: if_splits option.splits)

lemma trigger_good: "trigger_rung D inp state lbp price rp c = Some (Returned res c') \<Longrightarrow> gate_good D inp rp state res"
  by (auto simp: trigger_rung_def rung_simps raises_def intro: rung_goods split: if_splits sum.splits option.splits)

lemma atr_good: "atr_rung D inp state price c = Some (Returned res c') \<Longrightarrow> gate_good D inp rp state res"
  by (auto simp: atr_rung_def rung_simps exit_reasons_def intro: rung_goods split: if_splits option.splits)

lemma fixed_trail_good: "fixed_trail_rung D inp state price c = Some (Returned res c') \<Longrightarrow> gate_good D inp rp state res"
  by (auto simp: fixed_trail_rung_def rung_simps exit_reasons_def intro: rung_goods split: if_splits sum.splits option.splits json.splits)

lemma bars_good:
  "bars_rung D inp state a bars reason prefix c = Some (Returned res c') \<Longrightarrow> reason \<in> exit_reasons \<Longrightarrow> gate_good D inp rp state res"
  by (auto simp: bars_rung_def rung_simps intro: rung_goods split: if_splits)

lemma later_candle_mem: "foldl later_candle best cs = Some c \<Longrightarrow> best = Some c \<or> c \<in> set cs"
  by (induction cs arbitrary: best) (fastforce simp: later_candle_def split: option.splits if_splits)+

lemma latestClosedClose_mem:
  assumes "latestClosedClose D inp = Some d"
  obtains c where "c \<in> set (trading_candles inp)" "d_new D (cd_close c) = Some d"
  using assms later_candle_mem [of None "trading_candles inp"] by (auto simp: latestClosedClose_def bind_eq_Some_conv)

definition ratchet :: "'d decimal_js \<Rightarrow> 'd tt_input \<Rightarrow> 'd \<Rightarrow> 'd" where
  "ratchet D inp price = (case latestClosedClose D inp of Some p \<Rightarrow> p | None \<Rightarrow> price)"

lemma sell_rungs_good:
  assumes "r \<in> set (sell_rungs D inp state lbp price)" "r c = Some (Returned res c')"
  shows "gate_good D inp (ratchet D inp price) state res"
  using assms
  by (auto simp: sell_rungs_def Let_def discovery_rung_def time_stop_rung_def exit_reasons_def ratchet_def [symmetric]
      intro: stop_loss_good break_even_good from_entry_good trigger_good atr_good fixed_trail_good bars_good)

interpretation exit_ladder: ladder "gate_good D inp (ratchet D inp price) state" "sell_rungs D inp state lbp price"
  for D :: "'d decimal_js" and inp state lbp price
  by unfold_locales (auto intro: sell_rungs_good)

definition tick_price :: "'d decimal_js \<Rightarrow> 'd tt_input \<Rightarrow> 'd" where
  "tick_price D inp = (case d_new D (tn_currentPrice inp) of Some p \<Rightarrow> p | None \<Rightarrow> d_int D 0)"

lemma ratchet_finite:
  assumes "decimal_laws D val"
    and "\<And>c d. c \<in> set (trading_candles inp) \<Longrightarrow> d_new D (cd_close c) = Some d \<Longrightarrow> d_isFinite D d"
    and "\<And>d. d_new D (tn_currentPrice inp) = Some d \<Longrightarrow> d_isFinite D d"
  shows "d_isFinite D (ratchet D inp (tick_price D inp))"
proof (cases "latestClosedClose D inp")
  case None
  then show ?thesis using assms(3) decimal_laws.int_finite [OF assms(1)] by (simp add: ratchet_def tick_price_def split: option.splits)
next
  case (Some d)
  then show ?thesis using assms(2) latestClosedClose_mem by (metis option.simps(5) ratchet_def)
qed

lemma runSellLadder_good:
  assumes "runSellLadder D inp state c = Some (res, c')"
  shows "gate_good D inp (ratchet D inp (tick_price D inp)) state res"
  using assms exit_ladder.ladder_good
  by (auto simp: runSellLadder_def Let_def parse_failed_good tick_price_def split: if_splits option.splits)

lemma evaluateSellGate_cases:
  assumes "evaluateSellGate D inp state = Some res"
  obtains (Emit) d l m where "res = SellEmit d l m" "gate_good D inp (ratchet D inp (tick_price D inp)) state res"
  | (Held) res' b where "res = with_blocker res' b" "\<not> is_emit res'" "gate_good D inp (ratchet D inp (tick_price D inp)) state res'"
proof -
  obtain res' c where l: "runSellLadder D inp state noExitCandidates = Some (res', c)"
    using assms by (auto simp: evaluateSellGate_def split: bind_splits)
  note good = runSellLadder_good [OF l]
  show ?thesis
  proof (cases "is_emit res'")
    case True
    then have "res = res'" using assms l by (simp add: evaluateSellGate_def)
    moreover obtain d l' m where "res' = SellEmit d l' m" using True by (cases res') (simp_all add: is_emit_def)
    ultimately show ?thesis using Emit good by simp
  next
    case False
    then show ?thesis using assms l good Held by (auto simp: evaluateSellGate_def split: prod.splits)
  qed
qed

section \<open>When an exit is due\<close>

text \<open>
  The conditions of the five exits, one by one and without the ladder: the entry price \<open>e\<close> and the live
  price \<open>p\<close> against the stop level, the armed break-even floor, the trail below the recorded high (by
  volatility or by a fixed fraction), and the closed candles since the entry against the two time limits.
\<close>

definition stop_hit :: "'d decimal_js \<Rightarrow> 'd tt_input \<Rightarrow> 'd \<Rightarrow> 'd \<Rightarrow> bool" where
  "stop_hit D inp e p \<longleftrightarrow>
     (let v = sell_field (tn_config inp) ''stopLossPercentage''
      in configured v \<and>
         (\<exists>sl. decimal_of D v = Some sl \<and> d_gt D sl (d_int D 0) \<and> d_lte D sl (d_int D 1) \<and>
            d_lte D p (fst (resolveTTStopLevel D e sl (sell_field (tn_config inp) ''protectiveStop'')
              (tn_currentPrice inp) (sf_percentPriceBySide (tn_filters inp))))))"

definition floor_hit :: "'d decimal_js \<Rightarrow> 'd tt_input \<Rightarrow> json \<Rightarrow> 'd \<Rightarrow> 'd \<Rightarrow> bool" where
  "floor_hit D inp state e p \<longleftrightarrow>
     jget (sell_field (tn_config inp) ''breakEven'') ''enabled'' = JBool True \<and> jget state ''breakEvenArmed'' = JBool True \<and>
     jget state ''highSinceBuy'' = JNull \<and>
     (\<exists>fl. decimal_of D (jget (sell_field (tn_config inp) ''breakEven'') ''floorPercentage'') = Some fl \<and>
        d_gte D fl (d_int D 1) \<and> d_lte D p (d_times D e fl))"

definition trail_hit :: "'d decimal_js \<Rightarrow> 'd tt_input \<Rightarrow> json \<Rightarrow> 'd \<Rightarrow> bool" where
  "trail_hit D inp state p \<longleftrightarrow>
     jget state ''highSinceBuy'' \<noteq> JNull \<and>
     (\<exists>h. decimal_of D (jget state ''highSinceBuy'') = Some h \<and>
        ((\<exists>a mult. (truthy (jget (sell_field (tn_config inp) ''atrTrailing'') ''enabled'') \<or> bullHoldMultiplier D inp \<noteq> None) \<and>
            computeAtr D inp (jget (sell_field (tn_config inp) ''atrTrailing'') ''period'') = Some a \<and>
            selectTrailMultiplier D (sell_field (tn_config inp) ''atrTrailing'') (bullHoldMultiplier D inp) = Some mult \<and>
            d_gt D (d_minus D h (d_times D mult a)) (d_int D 0) \<and> d_lte D p (d_minus D h (d_times D mult a))) \<or>
         (\<exists>s tr. sell_field (tn_config inp) ''trailingStopPercentage'' = JStr s \<and> s \<noteq> [] \<and> s \<noteq> ''0'' \<and> decimal_of D (JStr s) = Some tr \<and>
            d_gt D tr (d_int D 0) \<and> d_lte D tr (d_int D 1) \<and> d_lte D p (d_times D h tr))))"

definition bars_elapsed :: "'d tt_input \<Rightarrow> json \<Rightarrow> json \<Rightarrow> bool" where
  "bars_elapsed inp state bars \<longleftrightarrow>
     jget state ''entryAtMs'' \<noteq> JNull \<and> num_gt bars (JNum (JsNum 0)) \<and>
     \<not> num_gt bars (JNum (JsNum (of_nat (closedBarsSinceEntry inp (jget state ''entryAtMs'')))))"

definition exit_due :: "'d decimal_js \<Rightarrow> 'd tt_input \<Rightarrow> json \<Rightarrow> 'd \<Rightarrow> 'd \<Rightarrow> string \<Rightarrow> bool" where
  "exit_due D inp state e p reason \<longleftrightarrow>
     reason = ''grid-stop-loss'' \<and> stop_hit D inp e p \<or>
     reason = ''break-even-stop'' \<and> floor_hit D inp state e p \<or>
     reason = ''grid-sell'' \<and> trail_hit D inp state p \<or>
     reason = ''discovery-time-stop'' \<and> jget state ''discoveryEntry'' = JBool True \<and>
       bars_elapsed inp state (sell_field (tn_config inp) ''discoveryTimeStopBars'') \<or>
     reason = ''time-stop'' \<and> jget state ''discoveryEntry'' \<noteq> JBool True \<and> jget state ''highSinceBuy'' = JNull \<and>
       bars_elapsed inp state (sell_field (tn_config inp) ''timeStopBars'')"

text \<open>A result of the ladder that sells only for an exit that is due.\<close>

fun due_good :: "'d decimal_js \<Rightarrow> 'd tt_input \<Rightarrow> json \<Rightarrow> 'd \<Rightarrow> 'd \<Rightarrow> sell_gate_result \<Rightarrow> bool" where
  "due_good D inp state e p (SellEmit d l m) \<longleftrightarrow>
     (\<exists>reason prefix seed extra. exit_due D inp state e p reason \<and> sellEmissionOrSkip D inp state reason prefix seed extra = Some (SellEmit d l m))"
| "due_good D inp state e p _ \<longleftrightarrow> True"

lemma emission_due:
  assumes "sellEmissionOrSkip D inp state reason prefix seed extra = Some res" "exit_due D inp state e p reason"
  shows "due_good D inp state e p res"
  using assms by (cases res) auto

lemma parse_due: "parseFieldOrSkip D inp v f = Inl res \<Longrightarrow> due_good D inp state e p res"
  by (auto simp: parseFieldOrSkip_def parse_failed_def split: option.splits)

lemma parse_failed_due: "due_good D inp state e p (parse_failed ctx f)"
  by (simp add: parse_failed_def)

lemma parse_Inr: "parseFieldOrSkip D inp v f = Inr d \<longleftrightarrow> decimal_of D v = Some d"
  by (auto simp: parseFieldOrSkip_def split: option.splits)

lemma exit_dues:
  "stop_hit D inp e p \<Longrightarrow> exit_due D inp state e p ''grid-stop-loss''"
  "floor_hit D inp state e p \<Longrightarrow> exit_due D inp state e p ''break-even-stop''"
  "trail_hit D inp state p \<Longrightarrow> exit_due D inp state e p ''grid-sell''"
  by (simp_all add: exit_due_def)

lemma trail_hits:
  "decimal_of D (jget state ''highSinceBuy'') = Some h \<Longrightarrow> jget state ''highSinceBuy'' \<noteq> JNull \<Longrightarrow>
   truthy (jget (sell_field (tn_config inp) ''atrTrailing'') ''enabled'') \<or> bullHoldMultiplier D inp \<noteq> None \<Longrightarrow>
   computeAtr D inp (jget (sell_field (tn_config inp) ''atrTrailing'') ''period'') = Some a \<Longrightarrow>
   selectTrailMultiplier D (sell_field (tn_config inp) ''atrTrailing'') (bullHoldMultiplier D inp) = Some mult \<Longrightarrow>
   d_gt D (d_minus D h (d_times D mult a)) (d_int D 0) \<Longrightarrow> d_lte D p (d_minus D h (d_times D mult a)) \<Longrightarrow> trail_hit D inp state p"
  "decimal_of D (jget state ''highSinceBuy'') = Some h \<Longrightarrow> jget state ''highSinceBuy'' \<noteq> JNull \<Longrightarrow>
   sell_field (tn_config inp) ''trailingStopPercentage'' = JStr s \<Longrightarrow> s \<noteq> [] \<Longrightarrow> s \<noteq> ''0'' \<Longrightarrow> decimal_of D (JStr s) = Some tr \<Longrightarrow>
   d_gt D tr (d_int D 0) \<Longrightarrow> d_lte D tr (d_int D 1) \<Longrightarrow> d_lte D p (d_times D h tr) \<Longrightarrow> trail_hit D inp state p"
  unfolding trail_hit_def by blast+

lemmas rung_dues = parse_due parse_failed_due emission_due [OF _ exit_dues(1)] emission_due [OF _ exit_dues(2)] emission_due [OF _ exit_dues(3)]

lemma stop_loss_due: "stop_loss_rung D inp state e p c = Some (Returned res c') \<Longrightarrow> due_good D inp state e p res"
  by (auto simp: stop_loss_rung_def rung_simps parse_Inr stop_hit_def simp del: decimal_of.simps intro: rung_dues split: if_splits sum.splits)

lemma break_even_due: "break_even_rung D inp state e p rp c = Some (Returned res c') \<Longrightarrow> due_good D inp state e p res"
  by (auto simp: break_even_rung_def break_even_armed_def break_even_arm_def rung_simps parse_Inr floor_hit_def simp del: decimal_of.simps
      intro: rung_dues split: if_splits sum.splits option.splits)

lemma from_entry_due: "from_entry_rung D inp state e rp c = Some (Returned res c') \<Longrightarrow> due_good D inp state e p res"
  by (auto simp: from_entry_rung_def rung_simps split: if_splits option.splits)

lemma trigger_due: "trigger_rung D inp state e p rp c = Some (Returned res c') \<Longrightarrow> due_good D inp state e p res"
  by (auto simp: trigger_rung_def rung_simps intro: parse_due split: if_splits sum.splits option.splits)

lemma atr_due: "atr_rung D inp state p c = Some (Returned res c') \<Longrightarrow> due_good D inp state e p res"
  by (auto simp: atr_rung_def rung_simps simp del: decimal_of.simps intro: rung_dues intro!: trail_hits(1) split: if_splits option.splits)

lemma fixed_trail_due: "fixed_trail_rung D inp state p c = Some (Returned res c') \<Longrightarrow> due_good D inp state e p res"
  by (auto simp: fixed_trail_rung_def rung_simps parse_Inr simp del: decimal_of.simps
      intro: rung_dues intro!: trail_hits(2) split: if_splits sum.splits option.splits json.splits)

lemma bars_due:
  "bars_rung D inp state a bars reason prefix c = Some (Returned res c') \<Longrightarrow>
   (a \<Longrightarrow> bars_elapsed inp state bars \<Longrightarrow> exit_due D inp state e p reason) \<Longrightarrow> due_good D inp state e p res"
  by (auto simp: bars_rung_def rung_simps bars_elapsed_def intro!: emission_due split: if_splits)

lemma discovery_due: "discovery_rung D inp state c = Some (Returned res c') \<Longrightarrow> due_good D inp state e p res"
  unfolding discovery_rung_def by (erule bars_due) (simp add: exit_due_def)

lemma time_stop_due: "time_stop_rung D inp state c = Some (Returned res c') \<Longrightarrow> due_good D inp state e p res"
  unfolding time_stop_rung_def by (erule bars_due) (simp add: exit_due_def)

interpretation due_ladder: ladder "due_good D inp state e p" "sell_rungs D inp state e p"
  for D :: "'d decimal_js" and inp state e p
  by unfold_locales
     (auto simp: sell_rungs_def Let_def intro: stop_loss_due break_even_due from_entry_due trigger_due atr_due fixed_trail_due
        discovery_due time_stop_due)

lemma gate_emits_ladder: "evaluateSellGate D inp state = Some (SellEmit d l m) \<Longrightarrow>
    \<exists>c. runSellLadder D inp state noExitCandidates = Some (SellEmit d l m, c)"
  by (auto simp: evaluateSellGate_def is_emit_def split: bind_splits prod.splits sell_gate_result.splits
      elim!: with_blocker.elims)

lemma gate_emits_due:
  assumes "evaluateSellGate D inp state = Some (SellEmit d l m)"
  shows "\<exists>e p. decimal_of D (jget state ''avgEntryPrice'') = Some e \<and> d_new D (tn_currentPrice inp) = Some p \<and>
    \<not> d_lte D e (d_int D 0) \<and> \<not> d_lte D p (d_int D 0) \<and> due_good D inp state e p (SellEmit d l m)"
proof -
  obtain c where "runSellLadder D inp state noExitCandidates = Some (SellEmit d l m, c)" using gate_emits_ladder [OF assms] by blast
  then obtain e p where ep: "decimal_of D (jget state ''avgEntryPrice'') = Some e" "d_new D (tn_currentPrice inp) = Some p"
      "\<not> d_lte D e (d_int D 0)" "\<not> d_lte D p (d_int D 0)" "run_rungs (sell_rungs D inp state e p) noExitCandidates = Some (SellEmit d l m, c)"
    by (auto simp: runSellLadder_def Let_def parse_failed_def split: if_splits option.splits)
  from ep(1-4) due_ladder.ladder_good [OF ep(5)] show ?thesis by (intro exI conjI)
qed

text \<open>
  Losses first. When the price is at or below the stop level, the ladder sells under the stop-loss
  reason, whatever else is configured and recorded; and if that sell cannot be sized, the tick reports
  an unsellable exit instead of any later rung.
\<close>
lemma stop_loss_comes_first:
  assumes lbp: "jget state ''avgEntryPrice'' \<noteq> JNull" "decimal_of D (jget state ''avgEntryPrice'') = Some lbp" "\<not> d_lte D lbp (d_int D 0)"
    and p: "d_new D (tn_currentPrice inp) = Some p" "\<not> d_lte D p (d_int D 0)"
    and hit: "stop_hit D inp lbp p"
    and run: "evaluateSellGate D inp state = Some res"
  shows "\<exists>seed out. sellEmissionOrSkip D inp state ''grid-stop-loss'' ''tt-stop-loss'' seed [] = Some out \<and> (is_emit out \<longrightarrow> res = out) \<and>
    (\<not> is_emit out \<longrightarrow> (\<exists>l skip b. out = SellSkip l (Some skip) None None \<and> res = SellSkip l (Some skip) None (Some b) \<and>
       eb_reason b = ''exit-unsellable''))"
proof -
  let ?sell = "sellEmissionOrSkip D inp state ''grid-stop-loss'' ''tt-stop-loss'' (''stop-'' @ js_str (jget state ''avgEntryPrice'')) []"
  have "runSellLadder D inp state noExitCandidates = map_option (\<lambda>out. (out, noExitCandidates)) ?sell"
    using lbp p hit
    by (auto simp: runSellLadder_def sell_rungs_def Let_def stop_loss_rung_def stop_hit_def parseFieldOrSkip_def returned_def
        simp del: decimal_of.simps split: option.splits)
  then obtain out where sell: "?sell = Some out" and l: "runSellLadder D inp state noExitCandidates = Some (out, noExitCandidates)"
    using run by (auto simp: evaluateSellGate_def split: bind_splits)
  from sell have "(is_emit out \<longrightarrow> res = out) \<and>
    (\<not> is_emit out \<longrightarrow> (\<exists>l skip b. out = SellSkip l (Some skip) None None \<and> res = SellSkip l (Some skip) None (Some b) \<and>
       eb_reason b = ''exit-unsellable''))"
  proof (cases rule: emission_cases)
    case (Emit recl free q cid l')
    then have "is_emit out" by (simp add: is_emit_def)
    then show ?thesis using run l by (simp add: evaluateSellGate_def)
  next
    case (Skip l' skip)
    then show ?thesis
      using run l by (auto simp: evaluateSellGate_def is_emit_def resolveExitBlocker_def blocker_at_def Let_def split: prod.splits)
  qed
  with sell show ?thesis by blast
qed

text \<open>A concrete ladder.\<close>

definition example_gate :: "string \<Rightarrow> string \<Rightarrow> dec tt_input" where
  "example_gate stop price = example_tt_input\<lparr>tn_currentPrice := price,
     tn_config := JObj [(''candleInterval'', JStr ''1h''),
       (''sell'', JObj [(''stopLossPercentage'', JStr stop), (''triggerPercentage'', JStr ''1.05''), (''trailingStopPercentage'', JStr ''0.98''),
          (''atrTrailing'', JObj [(''enabled'', JBool False)])])]\<rparr>"

definition example_gate_state :: json where
  "example_gate_state = JObj [(''avgEntryPrice'', JStr ''100''), (''heldQuantity'', JStr ''2''), (''highSinceBuy'', JStr ''105''),
     (''entryAtMs'', JNull)]"

lemma example_gate_bump:
  obtains s b where "evaluateSellGate dec_js (example_gate ''0'' ''110'') example_gate_state = Some (SellBumpHigh s b)"
proof -
  have "map_option (\<lambda>r. case r of SellBumpHigh s b \<Rightarrow> True | _ \<Rightarrow> False)
      (evaluateSellGate dec_js (example_gate ''0'' ''110'') example_gate_state) = Some True" by code_simp
  then obtain r where "evaluateSellGate dec_js (example_gate ''0'' ''110'') example_gate_state = Some r"
    "case r of SellBumpHigh s b \<Rightarrow> True | _ \<Rightarrow> False" by (auto simp only: map_option_eq_Some)
  then show ?thesis using that by (cases r) simp_all
qed

section \<open>Properties\<close>

text \<open>
  C23. The exit ladder sells exactly for an exit that is due, losses first. A sell comes out only for a
  position with a positive entry price at a positive live price, under a reason whose own condition
  holds then (the price at or below the stop level, below the armed break-even floor, below the trail under
  the recorded high, or enough closed candles since the entry), and only through the shared sizing.
  Conversely, whenever the price is at or below the stop level the ladder answers with the stop-loss sell,
  whatever else is configured and recorded, or, when that sell cannot be sized, reports an unsellable
  exit instead of any later rung. A tick that sells nothing may raise the running high or arm the
  break-even floor, which changes no other field of the state, so never the position.
\<close>
theorem exit_ladder_sells_when_due:
  assumes "evaluateSellGate D inp state = Some res"
  shows "(\<forall>d l m. res = SellEmit d l m \<longrightarrow>
       (\<exists>e p reason prefix seed extra. decimal_of D (jget state ''avgEntryPrice'') = Some e \<and> d_new D (tn_currentPrice inp) = Some p \<and>
          \<not> d_lte D e (d_int D 0) \<and> \<not> d_lte D p (d_int D 0) \<and> exit_due D inp state e p reason \<and>
          sellEmissionOrSkip D inp state reason prefix seed extra = Some res)) \<and>
    (\<forall>e p. decimal_of D (jget state ''avgEntryPrice'') = Some e \<and> d_new D (tn_currentPrice inp) = Some p \<and>
       \<not> d_lte D e (d_int D 0) \<and> \<not> d_lte D p (d_int D 0) \<and> jget state ''avgEntryPrice'' \<noteq> JNull \<and> stop_hit D inp e p \<longrightarrow>
       (\<exists>seed out. sellEmissionOrSkip D inp state ''grid-stop-loss'' ''tt-stop-loss'' seed [] = Some out \<and>
          (is_emit out \<longrightarrow> res = out) \<and>
          (\<not> is_emit out \<longrightarrow> (\<exists>l skip b. res = SellSkip l (Some skip) None (Some b) \<and> eb_reason b = ''exit-unsellable'')))) \<and>
    (\<forall>s b. res = SellBumpHigh s b \<longrightarrow> (\<forall>k. k \<notin> {''highSinceBuy'', ''breakEvenArmed''} \<longrightarrow> jget s k = jget state k))"
proof (rule conjI [OF _ conjI])
  show "\<forall>d l m. res = SellEmit d l m \<longrightarrow>
       (\<exists>e p reason prefix seed extra. decimal_of D (jget state ''avgEntryPrice'') = Some e \<and> d_new D (tn_currentPrice inp) = Some p \<and>
          \<not> d_lte D e (d_int D 0) \<and> \<not> d_lte D p (d_int D 0) \<and> exit_due D inp state e p reason \<and>
          sellEmissionOrSkip D inp state reason prefix seed extra = Some res)"
    using assms gate_emits_due [of D inp state] by (simp only: due_good.simps) blast
  show "\<forall>e p. decimal_of D (jget state ''avgEntryPrice'') = Some e \<and> d_new D (tn_currentPrice inp) = Some p \<and>
       \<not> d_lte D e (d_int D 0) \<and> \<not> d_lte D p (d_int D 0) \<and> jget state ''avgEntryPrice'' \<noteq> JNull \<and> stop_hit D inp e p \<longrightarrow>
       (\<exists>seed out. sellEmissionOrSkip D inp state ''grid-stop-loss'' ''tt-stop-loss'' seed [] = Some out \<and>
          (is_emit out \<longrightarrow> res = out) \<and>
          (\<not> is_emit out \<longrightarrow> (\<exists>l skip b. res = SellSkip l (Some skip) None (Some b) \<and> eb_reason b = ''exit-unsellable'')))"
    using stop_loss_comes_first [OF _ _ _ _ _ _ assms] by blast
  show "\<forall>s b. res = SellBumpHigh s b \<longrightarrow> (\<forall>k. k \<notin> {''highSinceBuy'', ''breakEvenArmed''} \<longrightarrow> jget s k = jget state k)"
    using assms
  proof (cases rule: evaluateSellGate_cases)
    case (Held res' b)
    then show ?thesis by (cases res') (auto simp: raises_def jget_spread)
  qed simp
qed

text \<open>At 102 the trail of 0.98 below a high of 105 is hit; a stop at 0.9 of the entry is not.\<close>

theorem exit_ladder_sells_when_due_witness:
  "\<exists>d l m e p reason. evaluateSellGate dec_js (example_gate ''0.9'' ''102'') example_gate_state = Some (SellEmit d l m) \<and>
     decimal_of dec_js (JStr ''100'') = Some e \<and> d_new dec_js ''102'' = Some p \<and>
     exit_due dec_js (example_gate ''0.9'' ''102'') example_gate_state e p reason"
proof -
  have "map_option is_emit (evaluateSellGate dec_js (example_gate ''0.9'' ''102'') example_gate_state) = Some True" by code_simp
  then obtain res where run: "evaluateSellGate dec_js (example_gate ''0.9'' ''102'') example_gate_state = Some res" "is_emit res"
    by (auto simp only: map_option_eq_Some)
  then obtain d l m where "res = SellEmit d l m" by (cases res) (simp_all add: is_emit_def)
  moreover have "tn_currentPrice (example_gate ''0.9'' ''102'') = ''102''" "jget example_gate_state ''avgEntryPrice'' = JStr ''100''"
    by (simp_all add: example_gate_def example_gate_state_def)
  ultimately show ?thesis
    using exit_ladder_sells_when_due [OF run(1), THEN conjunct1] run(1) by metis
qed

text \<open>
  C24. The running high of the profit trail only rises. A tick that records a new state never lowers a high
  that was already recorded, whatever the live price does: the mark moves on closed candles (the live
  price counts only while no candle has closed), so a trailing level below it never loosens.
\<close>
theorem trail_high_only_rises:
  assumes L: "decimal_laws D val" and run: "evaluateSellGate D inp state = Some (SellBumpHigh s b)"
    and old: "decimal_of D (jget state ''highSinceBuy'') = Some h" "d_isFinite D h"
    and fin: "\<And>c d. c \<in> set (trading_candles inp) \<Longrightarrow> d_new D (cd_close c) = Some d \<Longrightarrow> d_isFinite D d"
      "\<And>d. d_new D (tn_currentPrice inp) = Some d \<Longrightarrow> d_isFinite D d"
  shows "\<exists>h'. decimal_of D (jget s ''highSinceBuy'') = Some h' \<and> val h \<le> val h'"
proof -
  let ?r = "ratchet D inp (tick_price D inp)"
  have rf: "d_isFinite D ?r" using ratchet_finite [OF L fin] .
  have nn: "jget state ''highSinceBuy'' \<noteq> JNull" using old(1) by auto
  from run have "raises D ?r state s"
  proof (cases rule: evaluateSellGate_cases)
    case (Held res' b')
    then show ?thesis by (cases res') simp_all
  qed simp
  then consider (arm) "s = spread state [(''breakEvenArmed'', JBool True)]"
    | (high) x where "s = spread state [(''highSinceBuy'', JStr (d_toString D x))]" "d_gt D ?r h" "x = ?r \<or> x = d_max D h ?r"
    unfolding raises_def using old(1) nn by blast
  then show ?thesis
  proof cases
    case arm
    then show ?thesis using old(1) by (simp add: jget_spread)
  next
    case high
    have "val h < val ?r" using high(2) decimal_laws.lt [OF L old(2) rf] by simp
    then have "d_isFinite D x" "val h \<le> val x" using high(3) rf decimal_laws.max [OF L old(2) rf] by auto
    then show ?thesis using decimal_laws.toString [OF L] high(1) by (fastforce simp: jget_spread)
  qed
qed

theorem trail_high_only_rises_witness:
  "\<exists>s b h'. evaluateSellGate dec_js (example_gate ''0'' ''110'') example_gate_state = Some (SellBumpHigh s b) \<and>
     decimal_of dec_js (jget s ''highSinceBuy'') = Some h' \<and> 105 \<le> dval h'"
proof -
  obtain s b where run: "evaluateSellGate dec_js (example_gate ''0'' ''110'') example_gate_state = Some (SellBumpHigh s b)"
    by (rule example_gate_bump)
  have old: "decimal_of dec_js (jget example_gate_state ''highSinceBuy'') = Some (Dec 105 0)" by code_simp
  have c: "trading_candles (example_gate ''0'' ''110'') = []"
    by (simp add: trading_candles_def candles_of_def example_gate_def example_tt_input_def)
  have p: "d_new dec_js (tn_currentPrice (example_gate ''0'' ''110'')) = Some (Dec 110 0)" by code_simp
  have "\<exists>h'. decimal_of dec_js (jget s ''highSinceBuy'') = Some h' \<and> dval (Dec 105 0) \<le> dval h'"
    by (rule trail_high_only_rises [OF djs.decimal_laws_axioms run old]) (use c p in auto)
  with run show ?thesis by auto
qed

end
