(* ===== verification/Tt_Gates.thy ===== *)
theory Tt_Gates
  imports Tt_Sell_Gate
begin

text \<open>
  The gates before an entry of the trailing-trade strategy (\<open>packages/strategy/trailing-trade/src\<close>): the
  technical ratings (\<open>technicals-gate.ts\<close>, \<open>technicals-force-sell.ts\<close>), the indicator and
  mean-reversion gates (\<open>indicator-gate.ts\<close>, \<open>mean-reversion-gate.ts\<close>), the discovery guards
  (\<open>branches/entry-guards.ts\<close>), the regime gates (\<open>branches/regime-filter.ts\<close>, \<open>regime-exit.ts\<close>,
  \<open>regime-exposure.ts\<close>) and the reason an entry was held back (\<open>entry-blocker.ts\<close>).

  The bundle of ratings, the override and the entry hint are validated before a tick and have types of
  their own; configuration and state are raw \<open>json\<close>. \<open>None\<close> is an exception.
\<close>

abbreviation jnum :: "rat \<Rightarrow> json" where "jnum r \<equiv> JNum (JsNum r)"

section \<open>Technical ratings\<close>

datatype recommendation = RecBuy | RecSell | RecNeutral | RecStrongBuy | RecStrongSell

fun rec_str :: "recommendation \<Rightarrow> string" where
  "rec_str RecBuy = ''BUY''"
| "rec_str RecSell = ''SELL''"
| "rec_str RecNeutral = ''NEUTRAL''"
| "rec_str RecStrongBuy = ''STRONG_BUY''"
| "rec_str RecStrongSell = ''STRONG_SELL''"

datatype if_expires = DoNotBuy | AllowAnyway

fun expires_str :: "if_expires \<Rightarrow> string" where
  "expires_str DoNotBuy = ''do-not-buy''"
| "expires_str AllowAnyway = ''allow-anyway''"

record technicals_row =
  tr_interval :: string
  tr_whenStrongBuy :: bool
  tr_whenBuy :: bool
  tr_whenSell :: bool
  tr_whenStrongSell :: bool
  tr_whenNeutral :: bool
  tr_advisory :: bool

record technicals_signal =
  ts_recommendation :: recommendation
  ts_receivedAtMs :: rat

record technicals_bundle =
  tb_useOnlyWithinMin :: rat
  tb_ifExpires :: if_expires
  tb_intervals :: "technicals_row list"
  tb_signals :: "(string \<times> technicals_signal option) list"

definition allowBuySet :: "technicals_row \<Rightarrow> recommendation set" where
  "allowBuySet row = (if tr_whenStrongBuy row then {RecStrongBuy} else {}) \<union> (if tr_whenBuy row then {RecBuy} else {})"

definition forceSellTriggers :: "technicals_row \<Rightarrow> recommendation set" where
  "forceSellTriggers row =
     (if tr_whenSell row then {RecSell} else {}) \<union> (if tr_whenStrongSell row then {RecStrongSell} else {}) \<union>
     (if tr_whenNeutral row then {RecNeutral} else {})"

text \<open>The \<open>Map\<close> of the signals (a later pair replaces an earlier one), and \<open>find\<close> (the first pair).\<close>

definition signal_by_interval :: "technicals_bundle \<Rightarrow> string \<Rightarrow> technicals_signal option" where
  "signal_by_interval tv k = (case map_of (rev (tb_signals tv)) k of Some s \<Rightarrow> s | None \<Rightarrow> None)"

definition find_signal :: "technicals_bundle \<Rightarrow> string \<Rightarrow> technicals_signal option" where
  "find_signal tv k = (case map_of (tb_signals tv) k of Some s \<Rightarrow> s | None \<Rightarrow> None)"

definition signal_age :: "rat \<Rightarrow> technicals_signal \<Rightarrow> rat" where
  "signal_age nowMs s = (let rawAgeMs = nowMs - ts_receivedAtMs s in if rawAgeMs < 0 then 0 else rawAgeMs)"

definition max_age :: "technicals_bundle \<Rightarrow> rat" where
  "max_age tv = tb_useOnlyWithinMin tv * 60000"

datatype tv_veto = TvNoSignal | TvStale | TvSell | TvDisallowed

fun tv_veto_str :: "tv_veto \<Rightarrow> string" where
  "tv_veto_str TvNoSignal = ''technicals-no-signal''"
| "tv_veto_str TvStale = ''technicals-stale''"
| "tv_veto_str TvSell = ''technicals-sell''"
| "tv_veto_str TvDisallowed = ''technicals-disallowed''"

fun VETO_PRIORITY :: "tv_veto \<Rightarrow> nat" where
  "VETO_PRIORITY TvSell = 4"
| "VETO_PRIORITY TvDisallowed = 3"
| "VETO_PRIORITY TvStale = 2"
| "VETO_PRIORITY TvNoSignal = 1"

record consultation =
  ic_interval :: string
  ic_recommendation :: "recommendation option"
  ic_verdict :: "tv_veto option"
  ic_advisory :: bool

datatype tv_result = TvOpen "consultation list" | TvVetoed tv_veto string "consultation list"

text \<open>The verdict on one row: \<open>None\<close> passes.\<close>

definition evaluateInterval :: "technicals_bundle \<Rightarrow> rat \<Rightarrow> technicals_row \<Rightarrow> technicals_signal option \<Rightarrow> tv_veto option" where
  "evaluateInterval tv nowMs row signal =
     (if allowBuySet row = {} then None
      else case signal of
             None \<Rightarrow> Some TvNoSignal
           | Some s \<Rightarrow>
               if max_age tv < signal_age nowMs s \<and> tb_ifExpires tv = DoNotBuy then Some TvStale
               else if ts_recommendation s = RecNeutral then None
               else if ts_recommendation s \<in> {RecSell, RecStrongSell} then Some TvSell
               else if ts_recommendation s \<in> allowBuySet row then None
               else Some TvDisallowed)"

definition consult :: "technicals_bundle \<Rightarrow> (technicals_row \<Rightarrow> technicals_signal option \<Rightarrow> tv_veto option) \<Rightarrow> technicals_row \<Rightarrow> consultation" where
  "consult tv verdict row =
     (let signal = signal_by_interval tv (tr_interval row)
      in \<lparr>ic_interval = tr_interval row, ic_recommendation = map_option ts_recommendation signal,
          ic_verdict = verdict row signal, ic_advisory = tr_advisory row\<rparr>)"

text \<open>The loop over the rows: a blocking veto replaces the chosen one when it has a higher priority.\<close>

definition choose_veto :: "(tv_veto \<times> string) option \<Rightarrow> consultation \<Rightarrow> (tv_veto \<times> string) option" where
  "choose_veto chosen c =
     (case ic_verdict c of
        None \<Rightarrow> chosen
      | Some v \<Rightarrow>
          if ic_advisory c then chosen
          else case chosen of
                 None \<Rightarrow> Some (v, ic_interval c)
               | Some (w, k) \<Rightarrow> if VETO_PRIORITY w < VETO_PRIORITY v then Some (v, ic_interval c) else chosen)"

definition gate_of :: "consultation list \<Rightarrow> tv_result" where
  "gate_of consulted =
     (case foldl choose_veto None consulted of
        None \<Rightarrow> TvOpen consulted
      | Some (v, k) \<Rightarrow> TvVetoed v k consulted)"

definition ratings_off :: "technicals_bundle \<Rightarrow> json \<Rightarrow> bool" where
  "ratings_off tv override \<longleftrightarrow> jget override ''checkTechnicals'' = JBool False \<or> tb_intervals tv = []"

text \<open>The override block of the configuration is read without a guard.\<close>

definition evaluateTechnicalsGate :: "technicals_bundle \<Rightarrow> json \<Rightarrow> rat \<Rightarrow> tv_result option" where
  "evaluateTechnicalsGate tv override nowMs =
     (if nullish override then None
      else if ratings_off tv override then Some (TvOpen [])
      else Some (gate_of (map (consult tv (evaluateInterval tv nowMs)) (tb_intervals tv))))"

definition floor_verdict :: "technicals_bundle \<Rightarrow> rat \<Rightarrow> technicals_row \<Rightarrow> technicals_signal option \<Rightarrow> tv_veto option" where
  "floor_verdict tv nowMs row signal =
     (case signal of
        None \<Rightarrow> None
      | Some s \<Rightarrow>
          if ts_recommendation s = RecStrongSell \<and> \<not> (max_age tv < signal_age nowMs s \<and> tb_ifExpires tv = DoNotBuy)
          then Some TvSell else None)"

definition evaluateEnterOnAddFloor :: "technicals_bundle \<Rightarrow> json \<Rightarrow> rat \<Rightarrow> tv_result option" where
  "evaluateEnterOnAddFloor tv override nowMs =
     (if nullish override then None
      else if ratings_off tv override then Some (TvOpen [])
      else Some (gate_of (map (consult tv (floor_verdict tv nowMs)) (tb_intervals tv))))"

record force_sell_match =
  fm_interval :: string
  fm_recommendation :: recommendation
  fm_ageMs :: rat

text \<open>The row that forces a sell, when its signal is one of its triggers and still fresh.\<close>

definition row_match :: "technicals_bundle \<Rightarrow> rat \<Rightarrow> technicals_row \<Rightarrow> force_sell_match option" where
  "row_match tv nowMs row =
     (case signal_by_interval tv (tr_interval row) of
        None \<Rightarrow> None
      | Some s \<Rightarrow>
          if forceSellTriggers row \<noteq> {} \<and> \<not> max_age tv < signal_age nowMs s \<and> ts_recommendation s \<in> forceSellTriggers row
          then Some \<lparr>fm_interval = tr_interval row, fm_recommendation = ts_recommendation s, fm_ageMs = signal_age nowMs s\<rparr>
          else None)"

fun first_match :: "('a \<Rightarrow> 'b option) \<Rightarrow> 'a list \<Rightarrow> 'b option" where
  "first_match f [] = None"
| "first_match f (x # xs) = (case f x of Some y \<Rightarrow> Some y | None \<Rightarrow> first_match f xs)"

definition min_profit :: "'d decimal_js \<Rightarrow> string \<Rightarrow> 'd" where
  "min_profit D s =
     (case (if s = [] then None else d_new D s) of
        Some p \<Rightarrow> if d_isFinite D p \<and> d_gte D p (d_int D 0) then p else d_int D 0
      | None \<Rightarrow> d_int D 0)"

definition evaluateTechnicalsForceSell ::
  "'d decimal_js \<Rightarrow> technicals_bundle \<Rightarrow> string \<Rightarrow> json \<Rightarrow> string \<Rightarrow> rat \<Rightarrow> string \<Rightarrow> force_sell_match option" where
  "evaluateTechnicalsForceSell D tv currentPrice avgEntryPrice triggerPx nowMs minProfitPercent =
     (if avgEntryPrice = JNull \<or> tb_intervals tv = [] then None
      else case (d_new D currentPrice, decimal_of D avgEntryPrice, d_new D triggerPx) of
             (Some price, Some lastBuy, Some trigger) \<Rightarrow>
               if \<not> d_isFinite D price \<or> \<not> d_isFinite D lastBuy \<or> \<not> d_isFinite D trigger then None
               else if d_gte D price trigger then None
               else if d_lte D price (d_times D lastBuy (d_plus D (d_div D (min_profit D minProfitPercent) (d_int D 100)) (d_int D 1))) then None
               else first_match (row_match tv nowMs) (tb_intervals tv)
           | _ \<Rightarrow> None)"

section \<open>Indicator gates\<close>

record indicator_snapshot =
  in_sma20 :: "string option"
  in_ema20 :: "string option"
  in_rsi14 :: "string option"

datatype gate_result = GateOk | GateVeto string json

abbreviation unavailable :: "json \<Rightarrow> string \<Rightarrow> gate_result" where
  "unavailable interval missing \<equiv> GateVeto ''indicator-unavailable'' (JObj [(''interval'', interval), (''missing'', JStr missing)])"

definition rsi_check :: "'d decimal_js \<Rightarrow> json \<Rightarrow> json \<Rightarrow> string option \<Rightarrow> gate_result" where
  "rsi_check D interval rsiMaxBuy rsi14 =
     (if \<not> armed rsiMaxBuy then GateOk
      else case rsi14 of
             None \<Rightarrow> unavailable interval ''rsi14''
           | Some raw \<Rightarrow>
               (case (d_new D raw, decimal_of D rsiMaxBuy) of
                  (Some r, Some c) \<Rightarrow>
                    if d_gt D r c
                    then GateVeto ''indicator-rsi'' (JObj [(''interval'', interval), (''rsi14'', JStr raw), (''rsiMaxBuy'', rsiMaxBuy)])
                    else GateOk
                | _ \<Rightarrow> unavailable interval ''rsi14-parse''))"

definition checkMaBias :: "'d decimal_js \<Rightarrow> json \<Rightarrow> 'd \<Rightarrow> string option \<Rightarrow> json \<Rightarrow> string \<Rightarrow> string \<Rightarrow> gate_result" where
  "checkMaBias D interval price maRaw bias label reason =
     (if bias = JStr ''off'' then GateOk
      else case maRaw of
             None \<Rightarrow> unavailable interval label
           | Some raw \<Rightarrow>
               (case d_new D raw of
                  None \<Rightarrow> unavailable interval (label @ ''-parse'')
                | Some ma \<Rightarrow>
                    (let wantBelow = (bias = JStr ''price-below-sma'' \<or> bias = JStr ''price-below-ema'')
                     in if (if wantBelow then d_lt D price ma else d_gt D price ma) then GateOk
                        else GateVeto reason (JObj [(''interval'', interval), (label, JStr raw),
                               (''currentPrice'', JStr (d_toString D price)), (''bias'', bias)]))))"

fun then_gate :: "gate_result \<Rightarrow> gate_result \<Rightarrow> gate_result" where
  "then_gate GateOk g = g"
| "then_gate (GateVeto r c) g = GateVeto r c"

definition isArmed :: "json \<Rightarrow> bool" where
  "isArmed gate \<longleftrightarrow> armed (jget gate ''rsiMaxBuy'') \<or> jget gate ''smaBias'' \<noteq> JStr ''off'' \<or> jget gate ''emaBias'' \<noteq> JStr ''off''"

definition evaluateIndicatorGate ::
  "'d decimal_js \<Rightarrow> json \<Rightarrow> string \<Rightarrow> (string \<Rightarrow> indicator_snapshot option) \<Rightarrow> gate_result option" where
  "evaluateIndicatorGate D config currentPrice indicators =
     (let gate = buy_field config ''indicatorGate''; interval = jget config ''candleInterval''
      in if gate = JNull then None
         else if gate = JUndefined \<or> \<not> isArmed gate then Some GateOk
         else Some (case (case interval of JStr k \<Rightarrow> indicators k | _ \<Rightarrow> None) of
                None \<Rightarrow> unavailable interval ''snapshot''
              | Some snap \<Rightarrow>
                  (case d_new D currentPrice of
                     None \<Rightarrow> unavailable interval ''currentPrice''
                   | Some price \<Rightarrow>
                       then_gate (rsi_check D interval (jget gate ''rsiMaxBuy'') (in_rsi14 snap))
                         (then_gate (checkMaBias D interval price (in_sma20 snap) (jget gate ''smaBias'') ''sma20'' ''indicator-sma'')
                           (checkMaBias D interval price (in_ema20 snap) (jget gate ''emaBias'') ''ema20'' ''indicator-ema'')))))"

text \<open>The window of the trading interval as it is, closed or not.\<close>

definition raw_window :: "'d tt_input \<Rightarrow> candle list option" where
  "raw_window inp = (case jget (tn_config inp) ''candleInterval'' of JStr k \<Rightarrow> tn_candlesByInterval inp k | _ \<Rightarrow> None)"

definition evaluateMeanReversionGate :: "'d decimal_js \<Rightarrow> ('d \<Rightarrow> 'd) \<Rightarrow> 'd tt_input \<Rightarrow> gate_result option" where
  "evaluateMeanReversionGate D sqrt_d inp =
     (let gate = buy_field (tn_config inp) ''meanReversionGate''; interval = jget (tn_config inp) ''candleInterval'';
          lookback = jget gate ''lookbackCandles''; zMax = jget gate ''entryZScoreMax'';
          short = (\<lambda>n. GateVeto ''indicator-unavailable'' (JObj [(''interval'', interval), (''missing'', JStr ''mean-reversion-window''),
                     (''have'', jnum (of_nat n)), (''lookback'', lookback)]))
      in if gate = JNull then None
         else if gate = JUndefined \<or> zMax = JStr [] then Some GateOk
         else case raw_window inp of
                None \<Rightarrow> Some (short 0)
              | Some w \<Rightarrow>
                  if num_gt lookback (jnum (of_nat (length w))) then Some (short (length w))
                  else case (d_new D (tn_currentPrice inp), Option.bind (json_rat lookback) (sma D w),
                             Option.bind (json_rat lookback) (stddev D sqrt_d w)) of
                         (Some price, Some mean, Some sd) \<Rightarrow>
                           if is_zero D sd then Some (unavailable interval ''stddev'')
                           else map_option (\<lambda>c.
                                  let z = d_div D (d_minus D price mean) sd
                                  in if d_gt D z c
                                     then GateVeto ''indicator-mean-reversion'' (JObj [(''interval'', interval), (''zScore'', JStr (d_toString D z)),
                                            (''entryZScoreMax'', zMax), (''lookbackCandles'', lookback)])
                                     else GateOk)
                                (decimal_of D zMax)
                       | _ \<Rightarrow> Some (unavailable interval ''parse''))"

section \<open>Discovery guards\<close>

record entry_hint =
  eh_enterOnAdd :: bool
  eh_high24h :: "string option"
  eh_maxDistance :: "string option"
  eh_knifeCandles :: "int option"
  eh_knifeDropPercent :: "string option"

definition chaseGuard :: "'d decimal_js \<Rightarrow> string \<Rightarrow> string option \<Rightarrow> string option \<Rightarrow> json option" where
  "chaseGuard D currentPrice high24h maxDistancePct =
     (case (high24h, maxDistancePct) of
        (Some h, Some m) \<Rightarrow>
          (case (d_new D m, d_new D h, d_new D currentPrice) of
             (Some pct, Some high, Some price) \<Rightarrow>
               if d_gt D pct (d_int D 0) \<and> d_gt D high (d_int D 0) \<and>
                  d_gte D price (d_times D high (d_minus D (d_int D 1) (d_div D pct (d_int D 100))))
               then Some (JObj [(''high24h'', JStr h), (''currentPrice'', JStr currentPrice), (''distancePct'', JStr m)])
               else None
           | _ \<Rightarrow> None)
      | _ \<Rightarrow> None)"

definition higher_close :: "'d decimal_js \<Rightarrow> 'd option \<Rightarrow> candle \<Rightarrow> 'd option" where
  "higher_close D best c =
     (case d_new D (cd_close c) of
        None \<Rightarrow> best
      | Some close \<Rightarrow>
          if \<not> d_gt D close (d_int D 0) then best
          else case best of None \<Rightarrow> Some close | Some b \<Rightarrow> if d_gt D close b then Some close else best)"

definition knifeGuard :: "'d decimal_js \<Rightarrow> candle list option \<Rightarrow> int option \<Rightarrow> string option \<Rightarrow> json option" where
  "knifeGuard D closedCandles knifeCandles knifeDropPercent =
     (case (knifeCandles, knifeDropPercent, closedCandles) of
        (Some n, Some dp, Some candles) \<Rightarrow>
          if n < 1 \<or> int (length candles) < n then None
          else (let w = drop (length candles - nat n) candles
                in case (d_new D dp, d_new D (cd_close (last w)), foldl (higher_close D) None w) of
                     (Some dropPct, Some lastClose, Some maxClose) \<Rightarrow>
                       (let declinePct = d_times D (d_div D (d_minus D maxClose lastClose) maxClose) (d_int D 100)
                        in if d_gt D dropPct (d_int D 0) \<and> d_gte D declinePct dropPct
                           then Some (JObj [(''dropPct'', JStr (d_toString D declinePct)), (''candles'', jnum (of_int n))])
                           else None)
                   | _ \<Rightarrow> None)
      | _ \<Rightarrow> None)"

section \<open>Regime gates\<close>

definition regime_block :: "json \<Rightarrow> json" where "regime_block config = jget config ''regime''"

definition params_of :: "json \<Rightarrow> regime_params" where
  "params_of r = \<lparr>rg_ma = jget r ''ma'', rg_period = jget r ''period'', rg_confirmBars = jget r ''confirmBars''\<rparr>"

definition on_bear :: "json \<Rightarrow> string \<Rightarrow> bool" where
  "on_bear config k \<longleftrightarrow> jget (jget (regime_block config) ''onBear'') k = JBool True"

text \<open>A halted promotion, with its reason and context.\<close>

definition evaluateRegimeFilter :: "'d decimal_js \<Rightarrow> 'd tt_input \<Rightarrow> (string \<times> json) option" where
  "evaluateRegimeFilter D inp =
     (let r = regime_block (tn_config inp); candles = filter cd_isClosed (candles_of inp REGIME_INTERVAL);
          have_n = jnum (of_nat (length candles)); period = jget r ''period''
      in if \<not> on_bear (tn_config inp) ''suppressPromotion'' then None
         else if num_gt period have_n
         then Some (''regime-unavailable'', (JObj [(''interval'', JStr REGIME_INTERVAL), (''have'', have_n), (''need'', period)]))
         else case (d_new D (tn_currentPrice inp), moving_average D candles (params_of r)) of
                (Some price, Some maValue) \<Rightarrow>
                  if d_lt D price maValue
                  then Some (''regime-downtrend'', (JObj [(''interval'', JStr REGIME_INTERVAL), (''price'', JStr (tn_currentPrice inp)),
                         (''ma'', JStr (d_toString D maValue)), (''maType'', jget r ''ma''), (''period'', period)]))
                  else None
              | _ \<Rightarrow> Some (''regime-unavailable'', (JObj [(''interval'', JStr REGIME_INTERVAL), (''missing'', JStr ''compute'')])))"

datatype regime_verdict = RegimeDisabled | RegimeUnavailable json | RegimeBear json | RegimeOk json

definition classifyForGate :: "'d decimal_js \<Rightarrow> 'd tt_input \<Rightarrow> regime_verdict" where
  "classifyForGate D inp =
     (let reading = classifyRegime D inp (params_of (regime_block (tn_config inp)))
      in case rr_regime reading of
           Unavailable \<Rightarrow> RegimeUnavailable (rr_context reading)
         | Bear \<Rightarrow> RegimeBear (rr_context reading)
         | _ \<Rightarrow> RegimeOk (rr_context reading))"

definition evaluateRegimeExit :: "'d decimal_js \<Rightarrow> 'd tt_input \<Rightarrow> regime_verdict" where
  "evaluateRegimeExit D inp = (if \<not> on_bear (tn_config inp) ''exitToCash'' then RegimeDisabled else classifyForGate D inp)"

definition evaluateRegimeEntryBlock :: "'d decimal_js \<Rightarrow> 'd tt_input \<Rightarrow> regime_verdict" where
  "evaluateRegimeEntryBlock D inp =
     (if \<not> on_bear (tn_config inp) ''exitToCash'' \<and> \<not> on_bear (tn_config inp) ''blockEntry'' then RegimeDisabled else classifyForGate D inp)"

datatype require_verdict = RequireDisabled | RequireAllow json | RequireBlock json

definition evaluateRegimeEntryRequirement :: "'d decimal_js \<Rightarrow> 'd tt_input \<Rightarrow> require_verdict" where
  "evaluateRegimeEntryRequirement D inp =
     (let r = regime_block (tn_config inp)
      in if jget (jget r ''onBull'') ''requireEntry'' \<noteq> JBool True then RequireDisabled
         else (let reading = classifyRegime D inp (params_of r)
               in if rr_regime reading = Bull then RequireAllow (rr_context reading) else RequireBlock (rr_context reading)))"

text \<open>The context of a re-armed entry; \<open>None\<close> stays blocked.\<close>

definition evaluateRegimeRearm :: "technicals_bundle \<Rightarrow> json \<Rightarrow> rat \<Rightarrow> json option" where
  "evaluateRegimeRearm tv config nowMs =
     (let rearm = jget (jget (regime_block config) ''onBear'') ''rearm''; minRec = jget rearm ''minRecommendation''
      in if jget rearm ''enabled'' \<noteq> JBool True \<or> on_bear config ''exitToCash'' then None
         else case (case jget rearm ''interval'' of JStr k \<Rightarrow> find_signal tv k | _ \<Rightarrow> None) of
                None \<Rightarrow> None
              | Some s \<Rightarrow>
                  if max_age tv < signal_age nowMs s then None
                  else if ts_recommendation s = RecStrongBuy \<or> (minRec = JStr ''BUY'' \<and> ts_recommendation s = RecBuy)
                  then Some (JObj [(''interval'', jget rearm ''interval''), (''recommendation'', JStr (rec_str (ts_recommendation s))),
                         (''minRecommendation'', minRec)])
                  else None)"

fun regime_str :: "regime \<Rightarrow> string" where
  "regime_str Bull = ''bull''"
| "regime_str Bear = ''bear''"
| "regime_str Neutral = ''neutral''"
| "regime_str Unavailable = ''unavailable''"

text \<open>The multiplier of a first entry and the regime behind it, \<open>disabled\<close> when the feature is off.\<close>

definition regimeExposure :: "'d decimal_js \<Rightarrow> 'd tt_input \<Rightarrow> ('d \<times> string) option" where
  "regimeExposure D inp =
     (let r = regime_block (tn_config inp); exposure = jget r ''exposure''
      in if jget exposure ''enabled'' \<noteq> JBool True then Some (d_int D 1, ''disabled'')
         else (let regime = rr_regime (classifyRegime D inp (params_of r))
               in map_option (\<lambda>s. (s, regime_str regime))
                    (case regime of
                       Bear \<Rightarrow> Some (d_int D 0)
                     | Neutral \<Rightarrow> decimal_of D (jget exposure ''neutralScalar'')
                     | _ \<Rightarrow> Some (d_int D 1))))"

section \<open>Why an entry was held back\<close>

record entry_context =
  en_forceSellCooled :: bool
  en_forceSellDetail :: "json option"
  en_lossExitCooled :: bool
  en_lossDetail :: "json option"
  en_regimeEntryBlock :: "json option"
  en_regimeRequireUptrend :: bool
  en_regimeVeto :: "(string \<times> json) option"
  en_riskCapVeto :: "(string \<times> json) option"
  en_guardrailVeto :: "(string \<times> json) option"
  en_chaseGuardVeto :: "json option"
  en_knifeGuardVeto :: "json option"
  en_tvVeto :: "(string \<times> json) option"
  en_technicalsConfirming :: "json option"
  en_indicatorVeto :: "(string \<times> json) option"
  en_awaitingTrigger :: "json option"
  en_skipReason :: "string option"

definition blocker_json :: "string \<Rightarrow> json option \<Rightarrow> json" where
  "blocker_json reason detail = JObj ((''reason'', JStr reason) # (case detail of None \<Rightarrow> [] | Some d \<Rightarrow> [(''detail'', d)]))"

definition resolveEntryBlocker :: "entry_context \<Rightarrow> json" where
  "resolveEntryBlocker ctx =
     (let named = map_option (\<lambda>x. blocker_json (fst x) (Some (snd x)));
          plain = (\<lambda>reason. map_option (\<lambda>d. blocker_json reason (Some d)))
      in first_some
        [if en_forceSellCooled ctx then Some (blocker_json ''force-sell-cooldown'' (en_forceSellDetail ctx)) else None,
         if en_lossExitCooled ctx then Some (blocker_json ''loss-cooldown'' (en_lossDetail ctx)) else None,
         map_option (\<lambda>d. blocker_json (if en_regimeRequireUptrend ctx then ''regime-not-uptrend'' else ''regime-exit-bear'') (Some d))
           (en_regimeEntryBlock ctx),
         named (en_regimeVeto ctx), named (en_riskCapVeto ctx), named (en_guardrailVeto ctx),
         plain ''chase-guard'' (en_chaseGuardVeto ctx), plain ''knife-guard'' (en_knifeGuardVeto ctx),
         named (en_tvVeto ctx), plain ''technicals-confirming'' (en_technicalsConfirming ctx), named (en_indicatorVeto ctx),
         plain ''awaiting-trigger-price'' (en_awaitingTrigger ctx),
         map_option (\<lambda>r. blocker_json r None) (en_skipReason ctx)]
        JNull)"

section \<open>Choosing a veto\<close>

definition blocks :: "consultation \<Rightarrow> tv_veto \<Rightarrow> bool" where
  "blocks c v \<longleftrightarrow> ic_verdict c = Some v \<and> \<not> ic_advisory c"

lemma choose_veto_cases:
  "choose_veto ch c =
     (if (\<exists>v. blocks c v) \<and> (\<forall>w k. ch = Some (w, k) \<longrightarrow> VETO_PRIORITY w < VETO_PRIORITY (the (ic_verdict c)))
      then Some (the (ic_verdict c), ic_interval c) else ch)"
  by (auto simp: choose_veto_def blocks_def split: option.splits)

lemma choose_veto_None: "choose_veto ch c = None \<longleftrightarrow> ch = None \<and> (\<forall>v. \<not> blocks c v)"
  by (auto simp: choose_veto_cases)

lemma foldl_choose_None: "foldl choose_veto ch cs = None \<longleftrightarrow> ch = None \<and> (\<forall>c \<in> set cs. \<forall>v. \<not> blocks c v)"
  by (induction cs arbitrary: ch) (auto simp: choose_veto_None)

text \<open>The chosen veto is one of the candidates and none of them ranks above it.\<close>

definition ranked :: "(tv_veto \<times> string) option \<Rightarrow> consultation list \<Rightarrow> tv_veto \<times> string \<Rightarrow> bool" where
  "ranked ch cs best \<longleftrightarrow>
     (ch = Some best \<or> (\<exists>c \<in> set cs. blocks c (fst best) \<and> ic_interval c = snd best)) \<and>
     (\<forall>w k. ch = Some (w, k) \<longrightarrow> VETO_PRIORITY w \<le> VETO_PRIORITY (fst best)) \<and>
     (\<forall>c \<in> set cs. \<forall>w. blocks c w \<longrightarrow> VETO_PRIORITY w \<le> VETO_PRIORITY (fst best))"

lemma ranked_step: "ranked (choose_veto ch c) cs best \<Longrightarrow> ranked ch (c # cs) best"
  by (auto simp: ranked_def choose_veto_cases blocks_def split: if_splits)

lemma foldl_choose_ranked: "foldl choose_veto ch cs = Some best \<Longrightarrow> ranked ch cs best"
proof (induction cs arbitrary: ch)
  case Nil
  then show ?case by (cases best) (simp add: ranked_def)
next
  case (Cons c cs)
  then show ?case by (auto intro: ranked_step)
qed

lemma gate_of_cases:
  obtains (Open) "gate_of cs = TvOpen cs" "\<forall>c \<in> set cs. \<forall>v. \<not> blocks c v"
  | (Vetoed) v k where "gate_of cs = TvVetoed v k cs" "ranked None cs (v, k)"
proof (cases "foldl choose_veto None cs")
  case None
  have "gate_of cs = TvOpen cs" unfolding gate_of_def None by simp
  moreover have "\<forall>c \<in> set cs. \<forall>v. \<not> blocks c v" using None foldl_choose_None by blast
  ultimately show ?thesis by (rule that(1))
next
  case (Some best)
  obtain v k where best: "best = (v, k)" by (cases best)
  have "gate_of cs = TvVetoed v k cs" unfolding gate_of_def Some best by simp
  moreover have "ranked None cs (v, k)" using foldl_choose_ranked [OF Some] best by simp
  ultimately show ?thesis by (rule that(2))
qed

section \<open>Properties\<close>

text \<open>
  C25. The gate on technical ratings, decided over all configured intervals, is open exactly when the override
  switches the ratings off or every row that is not advisory passes on its own; a veto names a
  row that really vetoes, with a reason no other row outranks, so a bearish reading is never hidden
  behind a missing or stale one, wherever it stands in the list.
\<close>
theorem technicals_gate_exact:
  assumes "\<not> nullish override"
    and verdict: "verdict = (\<lambda>row. evaluateInterval tv now row (signal_by_interval tv (tr_interval row)))"
  shows "((\<exists>cs. evaluateTechnicalsGate tv override now = Some (TvOpen cs)) \<longleftrightarrow>
       jget override ''checkTechnicals'' = JBool False \<or>
       (\<forall>row \<in> set (tb_intervals tv). \<not> tr_advisory row \<longrightarrow> verdict row = None)) \<and>
    (\<forall>v k cs. evaluateTechnicalsGate tv override now = Some (TvVetoed v k cs) \<longrightarrow>
       (\<exists>row \<in> set (tb_intervals tv). \<not> tr_advisory row \<and> verdict row = Some v \<and> tr_interval row = k) \<and>
       (\<forall>row \<in> set (tb_intervals tv). \<forall>w. \<not> tr_advisory row \<longrightarrow> verdict row = Some w \<longrightarrow> VETO_PRIORITY w \<le> VETO_PRIORITY v))"
proof (cases "ratings_off tv override")
  case True
  then show ?thesis using assms(1) by (auto simp: evaluateTechnicalsGate_def ratings_off_def)
next
  case False
  let ?cs = "map (consult tv (evaluateInterval tv now)) (tb_intervals tv)"
  have gate: "evaluateTechnicalsGate tv override now = Some (gate_of ?cs)"
    using assms(1) False by (simp add: evaluateTechnicalsGate_def)
  have on: "jget override ''checkTechnicals'' \<noteq> JBool False" using False by (simp add: ratings_off_def)
  have b: "blocks (consult tv (evaluateInterval tv now) row) v \<longleftrightarrow> \<not> tr_advisory row \<and> verdict row = Some v" for row v
    by (auto simp: blocks_def consult_def verdict Let_def)
  have i: "ic_interval (consult tv (evaluateInterval tv now) row) = tr_interval row" for row
    by (simp add: consult_def Let_def)
  show ?thesis
  proof (cases rule: gate_of_cases [of ?cs])
    case Open
    then show ?thesis using gate by (auto simp: b)
  next
    case (Vetoed v k)
    then have "ranked None ?cs (v, k)" by blast
    then show ?thesis using gate on Vetoed(1) by (auto simp: ranked_def b i)
  qed
qed

definition example_ratings :: technicals_bundle where
  "example_ratings = \<lparr>tb_useOnlyWithinMin = 5, tb_ifExpires = DoNotBuy,
     tb_intervals = [\<lparr>tr_interval = ''1m'', tr_whenStrongBuy = True, tr_whenBuy = True, tr_whenSell = False, tr_whenStrongSell = False,
                      tr_whenNeutral = False, tr_advisory = False\<rparr>,
                     \<lparr>tr_interval = ''1h'', tr_whenStrongBuy = True, tr_whenBuy = True, tr_whenSell = False, tr_whenStrongSell = False,
                      tr_whenNeutral = False, tr_advisory = False\<rparr>],
     tb_signals = [(''1m'', None), (''1h'', Some \<lparr>ts_recommendation = RecSell, ts_receivedAtMs = 0\<rparr>)]\<rparr>"

theorem technicals_gate_exact_witness:
  "\<not> (\<exists>cs. evaluateTechnicalsGate example_ratings (JObj []) 1000 = Some (TvOpen cs))"
proof -
  let ?verdict = "\<lambda>row. evaluateInterval example_ratings 1000 row (signal_by_interval example_ratings (tr_interval row))"
  have on: "\<not> nullish (JObj [])" "jget (JObj []) ''checkTechnicals'' \<noteq> JBool False" by (simp_all add: nullish_def)
  have "\<not> (\<forall>row \<in> set (tb_intervals example_ratings). \<not> tr_advisory row \<longrightarrow> ?verdict row = None)"
    by (simp add: example_ratings_def evaluateInterval_def signal_by_interval_def allowBuySet_def)
  then show ?thesis using on(2) technicals_gate_exact [OF on(1) refl, of example_ratings 1000] by blast
qed

end
