(* ===== verification/Tt_Entries.thy ===== *)
theory Tt_Entries
  imports Tt_Gates
begin

text \<open>
  The entries of the trailing-trade strategy (\<open>packages/strategy/trailing-trade/src/branches\<close>): the grid
  (\<open>grid-buy.ts\<close>), forced first entries (\<open>first-entry.ts\<close>) and adds on strength (\<open>bull-pyramid.ts\<close>), with
  the account cap they read (\<open>packages/contracts/src/account-exposure.ts\<close>).

  Early returns are the stages of \<open>first_return\<close>: \<open>None\<close> throws, \<open>Some (Some r)\<close> returns \<open>r\<close> and
  \<open>Some None\<close> goes on. The grid levels are an array wherever an entry is evaluated, and the level index of a
  state is null or an integer.
\<close>

record 'd tt_tick =
  tk_input :: "'d tt_input"
  tk_technicals :: technicals_bundle
  tk_entryHint :: "entry_hint option"
  tk_indicators :: "string \<Rightarrow> indicator_snapshot option"
  tk_sqrt :: "'d \<Rightarrow> 'd"

abbreviation tk_config :: "'d tt_tick \<Rightarrow> json" where "tk_config tk \<equiv> tn_config (tk_input tk)"
abbreviation tk_symbol :: "'d tt_tick \<Rightarrow> string" where "tk_symbol tk \<equiv> tn_symbol (tk_input tk)"
abbreviation tk_price :: "'d tt_tick \<Rightarrow> string" where "tk_price tk \<equiv> tn_currentPrice (tk_input tk)"

fun first_return :: "'a option option list \<Rightarrow> 'a option \<Rightarrow> 'a option" where
  "first_return [] d = d"
| "first_return (None # xs) d = None"
| "first_return (Some (Some r) # xs) d = Some r"
| "first_return (Some None # xs) d = first_return xs d"

fun skip_str :: "quantity_result \<Rightarrow> string" where
  "skip_str (Quantity s) = []"
| "skip_str QMinQty = ''min-qty''"
| "skip_str QMinNotional = ''min-notional''"
| "skip_str QMinPurchase = ''min-purchase''"
| "skip_str QInvalidFilters = ''invalid-filters''"
| "skip_str QEntryBelowStopNotional = ''entry-below-stop-notional''"
| "skip_str QMissingAmount = ''missing-amount''"
| "skip_str QMissingPrice = ''missing-price''"
| "skip_str QUnsupportedType = ''unsupported-type''"
| "skip_str QNoBalance = ''no-balance''"

fun cap_str :: "risk_cap \<Rightarrow> string" where
  "cap_str ExposureCap = ''exposure-cap''"
| "cap_str LossBudget = ''loss-budget''"
| "cap_str AccountExposureCap = ''account-exposure-cap''"

definition veto_context :: "risk_veto \<Rightarrow> json" where
  "veto_context v =
     JObj ([(''cap'', JStr (cap_str (rv_cap v))), (''capQuote'', rv_capQuote v), (''projectedDeployed'', JStr (rv_projectedDeployed v))]
       @ (case rv_projectedWorstCaseLoss v of None \<Rightarrow> [] | Some l \<Rightarrow> [(''projectedWorstCaseLoss'', JStr l)]))"

text \<open>An absent total is the default of the parameter.\<close>

definition deployed_quote :: "'d tt_input \<Rightarrow> string" where
  "deployed_quote inp = (case ac_deployedQuoteAcrossProfiles (tn_account inp) of JStr s \<Rightarrow> s | _ \<Rightarrow> ''0'')"

definition caps_veto :: "'d decimal_js \<Rightarrow> 'd tt_input \<Rightarrow> json \<Rightarrow> string \<Rightarrow> risk_veto option" where
  "caps_veto D inp state quantity =
     evaluateRiskCaps D (tn_config inp) state quantity (tn_currentPrice inp) (deployed_quote inp)
       (d_toString D (accountEquity D (tn_account inp) (si_quoteAsset (tn_symbolInfo inp))))"

definition level_str :: "json \<Rightarrow> string \<Rightarrow> string" where
  "level_str level k = (case jget level k of JStr s \<Rightarrow> s | _ \<Rightarrow> [])"

section \<open>The grid\<close>

datatype grid_result =
    GridEmit json "decision list" log_entry int
  | GridSkipFilter string
  | GridSkipTv tv_veto string "consultation list"
  | GridSkipIndicator string json
  | GridSkipRiskCap string json
  | GridSkipRegime string json
  | GridSkipGuardrail string json
  | GridSkipChaseGuard json
  | GridSkipKnifeGuard json
  | GridWait "json option"
  | GridNoop

definition lower_low :: "'d decimal_js \<Rightarrow> 'd option \<Rightarrow> candle \<Rightarrow> 'd option" where
  "lower_low D best c =
     (case d_new D (cd_low c) of
        None \<Rightarrow> best
      | Some low \<Rightarrow> (case best of None \<Rightarrow> Some low | Some b \<Rightarrow> if d_lt D low b then Some low else best))"

definition lowestLowInWindow :: "'d decimal_js \<Rightarrow> 'd tt_input \<Rightarrow> 'd option" where
  "lowestLowInWindow D inp =
     (case raw_window inp of
        None \<Rightarrow> None
      | Some candles \<Rightarrow>
          (let n = of_nat (length candles); candleLimit = buy_field (tn_config inp) ''candleLimit'';
               count = (if num_gt (jnum n) candleLimit then json_rat candleLimit else Some n)
           in foldl (lower_low D) None (slice_from candles (map_option (\<lambda>k. n - k) count))))"

definition grid_levels :: "json \<Rightarrow> json list option" where
  "grid_levels config = (case buy_field config ''gridLevels'' of JArr ls \<Rightarrow> Some ls | _ \<Rightarrow> None)"

definition level_at :: "json list \<Rightarrow> int \<Rightarrow> json option" where
  "level_at levels i = (if 0 \<le> i \<and> nat i < length levels then Some (levels ! nat i) else None)"

definition enter_on_add :: "'d tt_tick \<Rightarrow> bool" where
  "enter_on_add tk = (case tk_entryHint tk of Some h \<Rightarrow> eh_enterOnAdd h | None \<Rightarrow> False)"

definition open_buys :: "'d tt_input \<Rightarrow> open_order list" where
  "open_buys inp = filter (\<lambda>ord. oo_symbol ord = tn_symbol inp \<and> oo_side ord = BUY) (tn_openOrders inp)"

text \<open>Which level this tick is about, and whether it opens the position.\<close>

datatype grid_aim = NoTarget | AwaitTrigger json | Target int bool

definition entry_target :: "'d decimal_js \<Rightarrow> 'd tt_tick \<Rightarrow> json list \<Rightarrow> grid_aim" where
  "entry_target D tk levels =
     (if buy_field (tk_config tk) ''firstBuyTriggerBasis'' \<noteq> JStr ''lowest-price'' \<or> enter_on_add tk then Target 0 True
      else case levels of
             [] \<Rightarrow> NoTarget
           | lvl0 # _ \<Rightarrow>
               (case (lowestLowInWindow D (tk_input tk), decimal_of D (jget lvl0 ''triggerPercentage''), d_new D (tk_price tk)) of
                  (Some low, Some trigger, Some price) \<Rightarrow>
                    if d_lte D price (d_times D low trigger) then Target 0 True
                    else AwaitTrigger (JObj [(''windowLow'', JStr (d_toString D low)), (''triggerPercentage'', jget lvl0 ''triggerPercentage''),
                           (''currentPrice'', JStr (tk_price tk))])
                | _ \<Rightarrow> NoTarget))"

definition promotion_target :: "'d decimal_js \<Rightarrow> 'd tt_tick \<Rightarrow> json \<Rightarrow> json list \<Rightarrow> int \<Rightarrow> grid_aim" where
  "promotion_target D tk state levels nextLevel =
     (if jget state ''discoveryEntry'' = JBool True then NoTarget
      else case level_at levels nextLevel of
             None \<Rightarrow> NoTarget
           | Some cfg \<Rightarrow>
               (case (decimal_of D (jget state ''avgEntryPrice''), decimal_of D (jget cfg ''triggerPercentage''), d_new D (tk_price tk)) of
                  (Some lbp, Some trigger, Some price) \<Rightarrow>
                    if d_lte D price (d_times D lbp trigger) then Target nextLevel False else NoTarget
                | _ \<Rightarrow> NoTarget))"

definition resting_target :: "'d tt_tick \<Rightarrow> int \<Rightarrow> grid_aim option" where
  "resting_target tk restingLevel =
     map_option (\<lambda>restingId. if list_ex (\<lambda>ord. oo_clientOrderId ord = restingId) (open_buys (tk_input tk)) then Target restingLevel False else NoTarget)
       (gridBuyClientOrderId (tn_profileId (tk_input tk)) (tk_symbol tk) restingLevel)"

definition grid_target :: "'d decimal_js \<Rightarrow> 'd tt_tick \<Rightarrow> json \<Rightarrow> json list \<Rightarrow> grid_aim option" where
  "grid_target D tk state levels =
     (let flat = (jget state ''avgEntryPrice'' = JNull)
      in if flat \<and> jget state ''currentGridTradeIndex'' = JNull then Some (entry_target D tk levels)
         else case json_int (jget state ''currentGridTradeIndex'') of
                None \<Rightarrow> Some NoTarget
              | Some i \<Rightarrow>
                  if flat then resting_target tk i
                  else if i + 1 < int (length levels) then Some (promotion_target D tk state levels (i + 1))
                  else Some NoTarget)"

definition grid_stop_limit :: "'d decimal_js \<Rightarrow> 'd tt_input \<Rightarrow> json \<Rightarrow> (string \<times> string) option option" where
  "grid_stop_limit D inp level =
     (let stopPct = jget level ''stopPricePercentage''; limitPct = jget level ''limitPricePercentage''
      in if stopPct = JStr [] \<or> limitPct = JStr [] then Some None
         else case (d_new D (tn_currentPrice inp), decimal_of D stopPct, decimal_of D limitPct, d_new D (sf_tickSize (tn_filters inp))) of
                (Some price, Some s, Some l, Some tick) \<Rightarrow>
                  if \<not> d_gt D tick (d_int D 0) then Some None
                  else do {
                    stopPrice \<leftarrow> roundToStep D (d_times D price s) tick;
                    limitPrice \<leftarrow> roundToStep D (d_times D price l) tick;
                    Some (Some (toFixedStep D stopPrice tick, toFixedStep D limitPrice tick))
                  }
              | _ \<Rightarrow> Some None)"

text \<open>Whether the resting order of the target level stays as it is.\<close>

definition keep_resting :: "'d decimal_js \<Rightarrow> json \<Rightarrow> (string \<times> string) option \<Rightarrow> open_order \<Rightarrow> bool" where
  "keep_resting D config stopLimit resting \<longleftrightarrow>
     (case (stopLimit, oo_stopPrice resting) of
        (Some (stopPrice, _), Some rs) \<Rightarrow>
          (case d_new D (oo_executedQty resting) of Some e \<Rightarrow> d_gt D e (d_int D 0) | None \<Rightarrow> False) \<or>
          (case (d_new D rs, d_new D stopPrice) of
             (Some restingStop, Some newStop) \<Rightarrow>
               d_gte D newStop restingStop \<or>
               (case decimal_of D (buy_field config ''gridRepriceMinDriftPercent'') of
                  Some minDrift \<Rightarrow> d_gt D minDrift (d_int D 0) \<and> d_lt D (d_minus D restingStop newStop) (d_times D restingStop minDrift)
                | None \<Rightarrow> False)
           | _ \<Rightarrow> True)
      | _ \<Rightarrow> True)"

definition resting_stage :: "'d decimal_js \<Rightarrow> 'd tt_input \<Rightarrow> string \<Rightarrow> (string \<times> string) option \<Rightarrow> grid_result option" where
  "resting_stage D inp cid stopLimit =
     (case find (\<lambda>ord. oo_clientOrderId ord = cid) (open_buys inp) of
        None \<Rightarrow> None
      | Some resting \<Rightarrow> if keep_resting D (tn_config inp) stopLimit resting then Some (GridWait None) else None)"

definition guardrail_stage :: "'d decimal_js \<Rightarrow> 'd tt_input \<Rightarrow> bool \<Rightarrow> grid_result option" where
  "guardrail_stage D inp enterOnAddArmed =
     (let stopStr = sell_field (tn_config inp) ''stopLossPercentage'';
          stopped = (case decimal_of D stopStr of Some stop \<Rightarrow> d_gt D stop (d_int D 0) \<and> d_lte D stop (d_int D 1) | None \<Rightarrow> False)
      in if \<not> enterOnAddArmed \<or> stopped then None
         else Some (GridSkipGuardrail ''discovery-no-stop'' (JObj [(''symbol'', JStr (tn_symbol inp)), (''stopLossPercentage'', stopStr)])))"

definition discovery_stage :: "'d decimal_js \<Rightarrow> 'd tt_tick \<Rightarrow> bool \<Rightarrow> grid_result option" where
  "discovery_stage D tk isEntry =
     (case (if isEntry then tk_entryHint tk else None) of
        None \<Rightarrow> None
      | Some hint \<Rightarrow>
          (case chaseGuard D (tk_price tk) (eh_high24h hint) (eh_maxDistance hint) of
             Some veto \<Rightarrow> Some (GridSkipChaseGuard veto)
           | None \<Rightarrow>
               map_option GridSkipKnifeGuard
                 (knifeGuard D (map_option (filter cd_isClosed) (raw_window (tk_input tk))) (eh_knifeCandles hint) (eh_knifeDropPercent hint))))"

fun tv_skip :: "tv_result \<Rightarrow> grid_result option" where
  "tv_skip (TvOpen cs) = None"
| "tv_skip (TvVetoed v k cs) = Some (GridSkipTv v k cs)"

definition tv_stage :: "'d tt_tick \<Rightarrow> rat \<Rightarrow> bool \<Rightarrow> bool \<Rightarrow> grid_result option option" where
  "tv_stage tk now isEntry forceTvOpen =
     (if \<not> isEntry \<or> forceTvOpen then Some None
      else map_option tv_skip
        ((if enter_on_add tk then evaluateEnterOnAddFloor else evaluateTechnicalsGate)
           (tk_technicals tk) (jget (tk_config tk) ''forceBuyOverride'') now))"

text \<open>The mean-reversion gate runs only after the indicator gate has passed.\<close>

definition buy_gates :: "'d decimal_js \<Rightarrow> 'd tt_tick \<Rightarrow> gate_result option" where
  "buy_gates D tk = do {
     g \<leftarrow> evaluateIndicatorGate D (tk_config tk) (tk_price tk) (tk_indicators tk);
     (case g of GateOk \<Rightarrow> evaluateMeanReversionGate D (tk_sqrt tk) (tk_input tk) | GateVeto r c \<Rightarrow> Some (GateVeto r c))
   }"

definition indicator_stage :: "'d decimal_js \<Rightarrow> 'd tt_tick \<Rightarrow> grid_result option option" where
  "indicator_stage D tk =
     map_option (\<lambda>g. case g of GateOk \<Rightarrow> None | GateVeto r c \<Rightarrow> Some (GridSkipIndicator r c)) (buy_gates D tk)"

definition regime_stage :: "'d decimal_js \<Rightarrow> 'd tt_input \<Rightarrow> json \<Rightarrow> grid_result option" where
  "regime_stage D inp state =
     (if jget state ''avgEntryPrice'' = JNull then None
      else case evaluateRegimeFilter D inp of
             Some (reason, ctx) \<Rightarrow> Some (GridSkipRegime reason ctx)
           | None \<Rightarrow>
               (case evaluateRegimeExit D inp of RegimeBear ctx \<Rightarrow> Some (GridSkipRegime ''regime-downtrend'' ctx) | _ \<Rightarrow> None))"

definition stale_cancels :: "'d tt_input \<Rightarrow> string \<Rightarrow> int \<Rightarrow> decision list" where
  "stale_cancels inp cid level =
     map (\<lambda>ord. CancelOrder (oo_orderId ord)
            ((if oo_clientOrderId ord = cid then ''tt-grid-reprice-l'' else ''tt-grid-promote-l'') @ int_str level) (Some (tn_symbol inp)))
       (open_buys inp)"

definition entry_stamps :: "json \<Rightarrow> rat \<Rightarrow> bool \<Rightarrow> bool \<Rightarrow> (string \<times> json) list" where
  "entry_stamps config now isEntry enterOnAddArmed =
     (if enterOnAddArmed then [(''discoveryEntry'', JBool True), (''entryAtMs'', jnum now)]
      else if isEntry \<and> num_gt (sell_field config ''timeStopBars'') (jnum 0) then [(''entryAtMs'', jnum now)]
      else [])"

definition grid_emit ::
  "'d decimal_js \<Rightarrow> 'd tt_input \<Rightarrow> json \<Rightarrow> string \<Rightarrow> int \<Rightarrow> (string \<times> string) option \<Rightarrow> (string \<times> json) list \<Rightarrow> string \<Rightarrow> grid_result option" where
  "grid_emit D inp state cid level stopLimit stamps quantity =
     map_option (\<lambda>d. GridEmit (spread state ((''currentGridTradeIndex'', jnum (of_int level)) # stamps))
         (stale_cancels inp cid level @ [d])
         (log_of ''info'' ''tt-grid-buy-emit'' (Some (JObj [(''symbol'', JStr (tn_symbol inp)), (''gridIndex'', jnum (of_int level)),
            (''quantity'', JStr quantity), (''canceledStale'', jnum (of_nat (length (open_buys inp))))]))) level)
       (buildGridBuyDecision D inp quantity level stopLimit)"

definition grid_size ::
  "'d decimal_js \<Rightarrow> 'd tt_input \<Rightarrow> json \<Rightarrow> json \<Rightarrow> (string \<Rightarrow> grid_result option) \<Rightarrow> grid_result option" where
  "grid_size D inp state level emit = do {
     result \<leftarrow> computeFirstBuyQuantity D (level_str level ''maxPurchaseAmount'') (tn_currentPrice inp) (tn_filters inp)
       (level_str level ''minPurchaseAmount'') (if jget state ''avgEntryPrice'' = JNull then ttEntryStopFloor D (tn_config inp) else None);
     (case result of
        Quantity quantity \<Rightarrow>
          (case caps_veto D inp state quantity of
             Some v \<Rightarrow> Some (GridSkipRiskCap (cap_str (rv_cap v)) (veto_context v))
           | None \<Rightarrow> emit quantity)
      | skip \<Rightarrow> Some (GridSkipFilter (skip_str skip)))
   }"

definition grid_level :: "'d decimal_js \<Rightarrow> 'd tt_tick \<Rightarrow> json \<Rightarrow> rat \<Rightarrow> bool \<Rightarrow> int \<Rightarrow> bool \<Rightarrow> json \<Rightarrow> grid_result option" where
  "grid_level D tk state now forceTvOpen i isEntry level = do {
     let inp = tk_input tk;
     let enterOnAddArmed = (isEntry \<and> enter_on_add tk);
     cid \<leftarrow> gridBuyClientOrderId (tn_profileId inp) (tn_symbol inp) i;
     stopLimit \<leftarrow> grid_stop_limit D inp level;
     first_return
       [Some (resting_stage D inp cid stopLimit), Some (guardrail_stage D inp enterOnAddArmed), Some (discovery_stage D tk isEntry),
        tv_stage tk now isEntry forceTvOpen, indicator_stage D tk, Some (regime_stage D inp state)]
       (grid_size D inp state level (grid_emit D inp state cid i stopLimit (entry_stamps (tn_config inp) now isEntry enterOnAddArmed)))
   }"

definition evaluateGridBuy :: "'d decimal_js \<Rightarrow> 'd tt_tick \<Rightarrow> json \<Rightarrow> rat \<Rightarrow> bool \<Rightarrow> grid_result option" where
  "evaluateGridBuy D tk state now forceTvOpen = do {
     levels \<leftarrow> grid_levels (tk_config tk);
     target \<leftarrow> grid_target D tk state levels;
     (case target of
        NoTarget \<Rightarrow> Some GridNoop
      | AwaitTrigger d \<Rightarrow> Some (GridWait (Some d))
      | Target i isEntry \<Rightarrow>
          (case level_at levels i of
             None \<Rightarrow> Some GridNoop
           | Some level \<Rightarrow> grid_level D tk state now forceTvOpen i isEntry level))
   }"

section \<open>Forced first entries\<close>

datatype forced_single = SingleEmit decision string | SingleSkip string

fun budget_skip :: "entry_budget \<Rightarrow> string" where
  "budget_skip SizingUnconfigured = ''sizing-unconfigured''"
| "budget_skip CapReached = ''cap-reached''"
| "budget_skip (Budget b) = []"

definition entry_budget_of :: "'d decimal_js \<Rightarrow> 'd tt_input \<Rightarrow> entry_budget option" where
  "entry_budget_of D inp =
     resolveEntryBudget D (tn_config inp) (tn_account inp) (si_quoteAsset (tn_symbolInfo inp)) (deployed_quote inp)"

definition emitFirstBuyTvForced :: "'d decimal_js \<Rightarrow> 'd tt_input \<Rightarrow> json \<Rightarrow> forced_single option" where
  "emitFirstBuyTvForced D inp state =
     (if jget state ''disabledUntilMs'' \<noteq> JNull then Some (SingleSkip ''disabled-until'')
      else if hasOpenBuyForSymbol (tn_openOrders inp) (tn_symbol inp) then Some (SingleSkip ''open-buy'')
      else do {
        budget \<leftarrow> entry_budget_of D inp;
        (case budget of
           Budget b \<Rightarrow> do {
             result \<leftarrow> computeFirstBuyQuantity D b (tn_currentPrice inp) (tn_filters inp) []
               (if jget state ''avgEntryPrice'' = JNull then ttEntryStopFloor D (tn_config inp) else None);
             (case result of
                Quantity q \<Rightarrow> map_option (\<lambda>d. SingleEmit d q) (buildFirstBuyDecision D inp q)
              | skip \<Rightarrow> Some (SingleSkip (skip_str skip)))
           }
         | skip \<Rightarrow> Some (SingleSkip (budget_skip skip)))
      })"

datatype forced_entry =
    ForcedWait
  | ForcedEmit json "decision list" "string option" "int option" nat
  | ForcedSkip string "json option"

fun is_cancel :: "decision \<Rightarrow> bool" where
  "is_cancel (CancelOrder oid r s) = True"
| "is_cancel _ = False"

definition forced_of_grid :: "'d tt_input \<Rightarrow> grid_result \<Rightarrow> forced_entry" where
  "forced_of_grid inp g =
     (case g of
        GridEmit s ds l level \<Rightarrow> ForcedEmit s ds None (Some level) (length (filter is_cancel ds))
      | GridSkipFilter r \<Rightarrow> ForcedSkip r None
      | GridSkipIndicator r c \<Rightarrow> ForcedSkip r (Some c)
      | GridSkipRiskCap r c \<Rightarrow> ForcedSkip r (Some c)
      | GridSkipRegime r c \<Rightarrow> ForcedSkip r (Some c)
      | GridWait d \<Rightarrow> if hasOpenBuyForSymbol (tn_openOrders inp) (tn_symbol inp) then ForcedSkip ''open-buy'' None else ForcedWait
      | _ \<Rightarrow> ForcedSkip ''grid-not-flat'' None)"

definition emitForcedFirstEntry :: "'d decimal_js \<Rightarrow> 'd tt_tick \<Rightarrow> json \<Rightarrow> rat \<Rightarrow> forced_entry option" where
  "emitForcedFirstEntry D tk state now =
     (if jget state ''disabledUntilMs'' \<noteq> JNull then Some (ForcedSkip ''disabled-until'' None)
      else do {
        levels \<leftarrow> grid_levels (tk_config tk);
        (if levels \<noteq> []
         then map_option (forced_of_grid (tk_input tk))
           (evaluateGridBuy D tk (spread state [(''currentGridTradeIndex'', JNull), (''discoveryEntry'', JBool False), (''entryAtMs'', JNull)]) now True)
         else map_option (\<lambda>r. case r of SingleEmit d q \<Rightarrow> ForcedEmit state [d] (Some q) None 0 | SingleSkip s \<Rightarrow> ForcedSkip s None)
           (emitFirstBuyTvForced D (tk_input tk) state))
      })"

definition armAutoTriggerBuy :: "json \<Rightarrow> rat \<Rightarrow> json option" where
  "armAutoTriggerBuy config now =
     (let atb = buy_field config ''autoTriggerBuy''
      in if nullish atb then None
         else if \<not> truthy (jget atb ''enabled'') then Some JNull
         else Some (case json_rat (jget atb ''triggerAfterMinutes'') of Some m \<Rightarrow> jnum (now + m * 60000) | None \<Rightarrow> JNum JsNaN))"

section \<open>Adds on strength\<close>

definition isCapArmed :: "json \<Rightarrow> bool" where
  "isCapArmed raw = (case raw of JStr s \<Rightarrow> s \<noteq> [] \<and> s \<noteq> ''0'' | _ \<Rightarrow> False)"

datatype account_exposure_cap = CapOff | CapAmount string | CapPercent string

definition readAccountExposureCap :: "json \<Rightarrow> account_exposure_cap" where
  "readAccountExposureCap config =
     (let cap = jcoalesce (jget (jget config ''buy'') ''accountCap'') (jget config ''accountCap''); mode = jget cap ''mode''
      in if mode = JStr ''amount'' \<and> isCapArmed (jget cap ''amount'') then CapAmount (level_str cap ''amount'')
         else if (mode = JStr ''percent'' \<or> mode = JStr ''percentOfAccount'') \<and> isCapArmed (jget cap ''percent'')
         then CapPercent (level_str cap ''percent'')
         else CapOff)"

datatype pyramid_result = PyramidAdd "decision list" log_entry json int | PyramidSkipCap string json | PyramidNoop

definition pyramid_of :: "json \<Rightarrow> json" where
  "pyramid_of config = jget (jget (regime_block config) ''onBull'') ''pyramid''"

text \<open>Opt-in, holding, with a ceiling, in a confirmed bull, below the maximum number of adds.\<close>

definition pyramid_open :: "'d decimal_js \<Rightarrow> 'd tt_input \<Rightarrow> json \<Rightarrow> json \<Rightarrow> bool" where
  "pyramid_open D inp state count \<longleftrightarrow>
     (let config = tn_config inp; pyramid = pyramid_of config
      in regime_block config \<noteq> JUndefined \<and> jget pyramid ''enabled'' = JBool True \<and> jget state ''avgEntryPrice'' \<noteq> JNull \<and>
         jget state ''discoveryEntry'' \<noteq> JBool True \<and>
         (armed (buy_field config ''maxSymbolExposureQuote'') \<or> readAccountExposureCap config \<noteq> CapOff) \<and>
         rr_regime (classifyRegime D inp (params_of (regime_block config))) = Bull \<and>
         \<not> num_ge count (jget pyramid ''maxAdds''))"

definition spaced :: "'d decimal_js \<Rightarrow> 'd tt_input \<Rightarrow> json \<Rightarrow> bool" where
  "spaced D inp state =
     (case (d_new D (tn_currentPrice inp), decimal_of D (jcoalesce (jget state ''lastBullAddPrice'') (jget state ''avgEntryPrice'')),
            decimal_of D (jget (pyramid_of (tn_config inp)) ''stepPercentage'')) of
        (Some price, Some anchor, Some step) \<Rightarrow> \<not> d_lt D price (d_times D anchor (d_plus D (d_int D 1) step))
      | _ \<Rightarrow> False)"

definition pyramid_add :: "'d tt_input \<Rightarrow> json \<Rightarrow> int \<Rightarrow> string \<Rightarrow> pyramid_result option" where
  "pyramid_add inp state addIndex quantity =
     map_option (\<lambda>d. PyramidAdd [d]
         (log_of ''info'' ''tt-bull-pyramid-add'' (Some (JObj [(''symbol'', JStr (tn_symbol inp)), (''addIndex'', jnum (of_int addIndex)),
            (''maxAdds'', jget (pyramid_of (tn_config inp)) ''maxAdds''), (''quantity'', JStr quantity), (''currentPrice'', JStr (tn_currentPrice inp))])))
         (spread state [(''bullAddCount'', jnum (of_int addIndex)), (''lastBullAddPrice'', JStr (tn_currentPrice inp))]) addIndex)
       (buildPyramidBuyDecision inp quantity addIndex)"

definition evaluateBullPyramid :: "'d decimal_js \<Rightarrow> 'd tt_input \<Rightarrow> json \<Rightarrow> pyramid_result option" where
  "evaluateBullPyramid D inp state =
     (let count = jcoalesce (jget state ''bullAddCount'') (jnum 0)
      in case json_int count of
           None \<Rightarrow> Some PyramidNoop
         | Some n \<Rightarrow>
             if \<not> pyramid_open D inp state count \<or> \<not> spaced D inp state \<or> hasOpenBuyForSymbol (tn_openOrders inp) (tn_symbol inp)
             then Some PyramidNoop
             else do {
               sized \<leftarrow> computeFirstBuyQuantity D (level_str (pyramid_of (tn_config inp)) ''maxPurchaseAmount'') (tn_currentPrice inp)
                 (tn_filters inp) [] None;
               (case sized of
                  Quantity quantity \<Rightarrow>
                    (case caps_veto D inp state quantity of
                       Some v \<Rightarrow> Some (PyramidSkipCap (cap_str (rv_cap v)) (veto_context v))
                     | None \<Rightarrow> pyramid_add inp state (n + 1) quantity)
                | _ \<Rightarrow> Some PyramidNoop)
             })"

section \<open>Where a grid order comes from\<close>

lemma first_return_Some: "first_return xs d = Some r \<Longrightarrow> Some (Some r) \<in> set xs \<or> d = Some r \<and> set xs \<subseteq> {Some None}"
  by (induction xs d rule: first_return.induct) auto

text \<open>No stage before the sizing emits an order.\<close>

lemmas stage_defs = resting_stage_def guardrail_stage_def discovery_stage_def tv_stage_def indicator_stage_def regime_stage_def

lemma stage_not_emit:
  "resting_stage D inp cid sl \<noteq> Some (GridEmit s ds l j)" "guardrail_stage D inp onAdd \<noteq> Some (GridEmit s ds l j)"
  "discovery_stage D tk isEntry \<noteq> Some (GridEmit s ds l j)" "regime_stage D inp state \<noteq> Some (GridEmit s ds l j)"
  by (auto simp: stage_defs Let_def split: option.splits if_splits regime_verdict.splits)

lemma tv_skip_not_emit: "tv_skip r \<noteq> Some (GridEmit s ds l j)"
  by (cases r) simp_all

lemma gate_stage_not_emit: "tv_stage tk now isEntry forced \<noteq> Some (Some (GridEmit s ds l j))" "indicator_stage D tk \<noteq> Some (Some (GridEmit s ds l j))"
  by (auto simp: stage_defs tv_skip_not_emit split: option.splits if_splits gate_result.splits)

lemma indicator_stage_open: "indicator_stage D tk = Some None \<longleftrightarrow> buy_gates D tk = Some GateOk"
  by (cases "buy_gates D tk") (auto simp: indicator_stage_def split: gate_result.splits)

lemma regime_stage_open:
  "regime_stage D inp state = None \<longleftrightarrow>
     (jget state ''avgEntryPrice'' \<noteq> JNull \<longrightarrow> evaluateRegimeFilter D inp = None \<and> (\<forall>ctx. evaluateRegimeExit D inp \<noteq> RegimeBear ctx))"
  by (auto simp: regime_stage_def split: option.splits regime_verdict.splits)

definition grid_intent :: "'d tt_input \<Rightarrow> string \<Rightarrow> int \<Rightarrow> order_intent" where
  "grid_intent inp cid i = tt_intent inp BUY ''grid-buy'' cid (Some (JObj [(''gridTradeIndex'', jnum (of_int i))]))"

lemma params_quantity:
  "op_quantity (market_params q) = q" "op_quantity (limit_params q px) = q" "op_quantity (stop_limit_params q sl) = q"
  "op_quantity (maker_or_market q m) = q"
  by (simp_all add: market_params_def limit_params_def stop_limit_params_def maker_or_market_def split: option.splits)

lemma grid_decision:
  assumes "buildGridBuyDecision D inp q i sl = Some d"
  obtains cid p where "gridBuyClientOrderId (tn_profileId inp) (tn_symbol inp) i = Some cid" "d = PlaceOrder (grid_intent inp cid i) p" "op_quantity p = q"
  using assms by (auto simp: buildGridBuyDecision_def grid_intent_def params_quantity bind_eq_Some_conv split: option.splits)

lemma grid_size_emit:
  assumes "grid_size D inp state level emit = Some (GridEmit s ds l i)"
  obtains q where "caps_veto D inp state q = None" "emit q = Some (GridEmit s ds l i)"
proof -
  obtain r where "computeFirstBuyQuantity D (level_str level ''maxPurchaseAmount'') (tn_currentPrice inp) (tn_filters inp)
       (level_str level ''minPurchaseAmount'') (if jget state ''avgEntryPrice'' = JNull then ttEntryStopFloor D (tn_config inp) else None) = Some r"
    using assms by (auto simp: grid_size_def bind_eq_Some_conv)
  then show ?thesis using assms that by (cases r) (auto simp: grid_size_def split: option.splits)
qed

lemma grid_level_emit:
  assumes "grid_level D tk state now forced i isEntry level = Some (GridEmit s ds l j)"
  obtains cid p where "j = i" "gridBuyClientOrderId (tn_profileId (tk_input tk)) (tk_symbol tk) i = Some cid"
    "ds = stale_cancels (tk_input tk) cid i @ [PlaceOrder (grid_intent (tk_input tk) cid i) p]"
    "caps_veto D (tk_input tk) state (op_quantity p) = None"
    "s = spread state ((''currentGridTradeIndex'', jnum (of_int i)) # entry_stamps (tk_config tk) now isEntry (isEntry \<and> enter_on_add tk))"
    "buy_gates D tk = Some GateOk" "tv_stage tk now isEntry forced = Some None" "regime_stage D (tk_input tk) state = None"
proof -
  let ?inp = "tk_input tk"
  obtain cid sl where cid: "gridBuyClientOrderId (tn_profileId ?inp) (tk_symbol tk) i = Some cid"
    and run: "first_return
       [Some (resting_stage D ?inp cid sl), Some (guardrail_stage D ?inp (isEntry \<and> enter_on_add tk)), Some (discovery_stage D tk isEntry),
        tv_stage tk now isEntry forced, indicator_stage D tk, Some (regime_stage D ?inp state)]
       (grid_size D ?inp state level (grid_emit D ?inp state cid i sl (entry_stamps (tk_config tk) now isEntry (isEntry \<and> enter_on_add tk))))
       = Some (GridEmit s ds l j)"
    using assms by (auto simp: grid_level_def Let_def bind_eq_Some_conv)
  have "tv_stage tk now isEntry forced = Some None \<and> indicator_stage D tk = Some None \<and> regime_stage D ?inp state = None \<and>
    grid_size D ?inp state level (grid_emit D ?inp state cid i sl (entry_stamps (tk_config tk) now isEntry (isEntry \<and> enter_on_add tk)))
      = Some (GridEmit s ds l j)"
    using first_return_Some [OF run] by (auto simp: stage_not_emit gate_stage_not_emit eq_commute [of "Some (Some (GridEmit _ _ _ _))"]
        eq_commute [of "Some (GridEmit _ _ _ _)"])
  then obtain q where passed: "tv_stage tk now isEntry forced = Some None" "buy_gates D tk = Some GateOk" "regime_stage D ?inp state = None"
    and q: "caps_veto D ?inp state q = None"
      "grid_emit D ?inp state cid i sl (entry_stamps (tk_config tk) now isEntry (isEntry \<and> enter_on_add tk)) q = Some (GridEmit s ds l j)"
    by (auto simp: indicator_stage_open elim: grid_size_emit)
  from q(2) obtain d where "buildGridBuyDecision D ?inp q i sl = Some d" "ds = stale_cancels ?inp cid i @ [d]" "j = i"
    "s = spread state ((''currentGridTradeIndex'', jnum (of_int i)) # entry_stamps (tk_config tk) now isEntry (isEntry \<and> enter_on_add tk))"
    by (auto simp: grid_emit_def)
  then show ?thesis using that [OF _ cid _ _ _ passed(2,1,3)] q(1) cid by (auto elim!: grid_decision)
qed

text \<open>The level of an emitted order and the state it was emitted in.\<close>

lemma grid_buy_emit:
  assumes "evaluateGridBuy D tk state now forced = Some (GridEmit s ds l i)"
  obtains isEntry level levels where "grid_levels (tk_config tk) = Some levels" "grid_target D tk state levels = Some (Target i isEntry)"
    "grid_level D tk state now forced i isEntry level = Some (GridEmit s ds l i)"
proof -
  obtain levels target where r: "grid_levels (tk_config tk) = Some levels" "grid_target D tk state levels = Some target"
      "(case target of NoTarget \<Rightarrow> Some GridNoop | AwaitTrigger d \<Rightarrow> Some (GridWait (Some d))
        | Target i isEntry \<Rightarrow> (case level_at levels i of None \<Rightarrow> Some GridNoop | Some level \<Rightarrow> grid_level D tk state now forced i isEntry level))
       = Some (GridEmit s ds l i)"
    using assms by (auto simp: evaluateGridBuy_def bind_eq_Some_conv)
  then obtain k e level where k: "target = Target k e" "grid_level D tk state now forced k e level = Some (GridEmit s ds l i)"
    by (auto split: grid_aim.splits option.splits)
  then have "k = i" by (auto elim: grid_level_emit)
  then show ?thesis using that r k by blast
qed

lemma entry_target_cases: "entry_target D tk levels = Target i isEntry \<Longrightarrow> i = 0 \<and> isEntry"
  by (auto simp: entry_target_def split: if_splits list.splits option.splits)

lemma promotion_target_cases:
  assumes "promotion_target D tk state levels k = Target i isEntry"
  shows "i = k \<and> \<not> isEntry \<and> jget state ''discoveryEntry'' \<noteq> JBool True \<and>
    (\<exists>level lbp trigger price. level_at levels k = Some level \<and> decimal_of D (jget state ''avgEntryPrice'') = Some lbp \<and>
       decimal_of D (jget level ''triggerPercentage'') = Some trigger \<and> d_new D (tk_price tk) = Some price \<and>
       d_lte D price (d_times D lbp trigger))"
  using assms by (auto simp: promotion_target_def split: if_splits option.splits)

lemma grid_target_held:
  assumes "grid_target D tk state levels = Some (Target i isEntry)" "jget state ''avgEntryPrice'' \<noteq> JNull"
  shows "json_int (jget state ''currentGridTradeIndex'') = Some (i - 1) \<and> promotion_target D tk state levels i = Target i isEntry"
  using assms by (auto simp: grid_target_def Let_def dest: promotion_target_cases split: if_splits option.splits)

section \<open>Properties\<close>


text \<open>A held position whose second level is triggered.\<close>

definition example_level :: "string \<Rightarrow> json" where
  "example_level trigger = JObj [(''triggerPercentage'', JStr trigger), (''stopPricePercentage'', JStr []), (''limitPricePercentage'', JStr []),
     (''maxPurchaseAmount'', JStr ''100''), (''minPurchaseAmount'', JStr [])]"

definition example_tick :: "dec tt_tick" where
  "example_tick = \<lparr>tk_input = example_tt_input\<lparr>tn_currentPrice := ''90'',
       tn_config := JObj [(''buy'', JObj [(''enabled'', JBool True), (''gridLevels'', JArr [example_level ''1'', example_level ''0.95''])]),
         (''sell'', JObj [(''enabled'', JBool False)])]\<rparr>,
     tk_technicals = example_ratings, tk_entryHint = None, tk_indicators = (\<lambda>_. None), tk_sqrt = id\<rparr>"

definition example_tick_state :: json where
  "example_tick_state = JObj [(''avgEntryPrice'', JStr ''100''), (''heldQuantity'', JStr ''2''), (''currentGridTradeIndex'', jnum 0)]"

lemma example_tick_parts:
  "computeFirstBuyQuantity dec_js ''100'' ''90'' example_lot [] None = Some (Quantity ''1.11'')"
  "resolveMakerEntryLimit dec_js (tk_config example_tick) ''90'' example_lot = Some None"
  "caps_veto dec_js (tk_input example_tick) example_tick_state ''1.11'' = None"
  "buy_gates dec_js example_tick = Some GateOk"
  "regime_stage dec_js (tk_input example_tick) example_tick_state = None"
  "promotion_target dec_js example_tick example_tick_state [example_level ''1'', example_level ''0.95''] 1 = Target 1 False"
  by code_simp+

lemma example_tick_fields:
  "tn_profileId (tk_input example_tick) = ''p''" "tk_symbol example_tick = ''BTC''" "tk_price example_tick = ''90''"
  "tn_filters (tk_input example_tick) = example_lot" "tn_openOrders (tk_input example_tick) = []" "tk_entryHint example_tick = None"
  "grid_levels (tk_config example_tick) = Some [example_level ''1'', example_level ''0.95'']"
  "jget example_tick_state ''avgEntryPrice'' = JStr ''100''" "jget example_tick_state ''currentGridTradeIndex'' = jnum 0"
  by (simp_all add: example_tick_def example_tt_input_def example_tick_state_def grid_levels_def buy_field_def)

lemma example_grid_id: "gridBuyClientOrderId ''p'' ''BTC'' 1 \<noteq> None"
  by code_simp

lemma example_stages:
  "resting_stage dec_js (tk_input example_tick) cid sl = None" "guardrail_stage dec_js (tk_input example_tick) False = None"
  "discovery_stage dec_js example_tick e = None" "tv_stage example_tick now False f = Some None"
  "enter_on_add example_tick = False" "grid_stop_limit dec_js (tk_input example_tick) (example_level t) = Some None"
  by (simp_all add: stage_defs example_tick_fields open_buys_def enter_on_add_def grid_stop_limit_def example_level_def)

lemma example_grid_emit:
  obtains s ds l where "evaluateGridBuy dec_js example_tick example_tick_state 0 False = Some (GridEmit s ds l 1)"
proof -
  obtain cid where cid: "gridBuyClientOrderId ''p'' ''BTC'' 1 = Some cid" using example_grid_id by blast
  obtain d where d: "buildGridBuyDecision dec_js (tk_input example_tick) ''1.11'' 1 None = Some d"
    by (simp add: buildGridBuyDecision_def example_tick_fields cid example_tick_parts(2))
  have "grid_target dec_js example_tick example_tick_state [example_level ''1'', example_level ''0.95''] = Some (Target 1 False)"
    by (simp add: grid_target_def Let_def example_tick_fields example_tick_parts(6))
  moreover have "grid_size dec_js (tk_input example_tick) example_tick_state (example_level ''0.95'') emit = emit ''1.11''" for emit
    by (simp add: grid_size_def example_tick_fields level_str_def example_level_def example_tick_parts)
  moreover have "level_at [example_level ''1'', example_level ''0.95''] 1 = Some (example_level ''0.95'')" by (simp add: level_at_def)
  ultimately show ?thesis
    using that by (simp add: evaluateGridBuy_def grid_level_def example_tick_fields example_stages example_tick_parts indicator_stage_def cid grid_emit_def d Let_def)
qed


end
