(* ===== verification/Tt_Tick.thy ===== *)
theory Tt_Tick
  imports Tt_Entries
begin

text \<open>
  The tick of the trailing-trade strategy (\<open>packages/strategy/trailing-trade/src\<close>): operator overrides
  (\<open>branches/override.ts\<close>), the fields an exit clears (\<open>position-lifecycle.ts\<close>) and the chain of branches
  (\<open>tick.ts\<close>, \<open>scalars.ts\<close>, \<open>branch.ts\<close>).

  A branch passes, hands on an updated state with more log lines, or ends the tick. \<open>None\<close> is an
  exception. The clock is the argument \<open>now\<close>.
\<close>

record tt_output = tick_output +
  to_overrideDecline :: "string option"

definition tick_out :: "json \<Rightarrow> decision list \<Rightarrow> log_entry list \<Rightarrow> metric_entry list \<Rightarrow> tt_output" where
  "tick_out s ds ls ms = \<lparr>to_nextState = s, to_decisions = ds, to_logs = ls, to_metrics = ms, to_overrideDecline = None\<rparr>"

definition unblocked :: "json \<Rightarrow> json" where
  "unblocked s = spread s [(''entryBlocker'', JNull)]"

abbreviation symbol_metric :: "string \<Rightarrow> string \<Rightarrow> metric_entry" where
  "symbol_metric name symb \<equiv> metric_of name (Some (JObj [(''symbol'', JStr symb)])) 1"

abbreviation reason_metric :: "string \<Rightarrow> string \<Rightarrow> string \<Rightarrow> metric_entry" where
  "reason_metric name symb reason \<equiv> metric_of name (Some (JObj [(''symbol'', JStr symb), (''reason'', JStr reason)])) 1"

section \<open>Closing a position\<close>

definition clearedSellPosition :: "json \<Rightarrow> (string \<times> json) list" where
  "clearedSellPosition autoTriggerBuyAtMs =
     [(''avgEntryPrice'', JNull), (''protectiveStopBlocker'', JNull), (''exitBlocker'', JNull), (''highSinceBuy'', JNull),
      (''breakEvenArmed'', JBool False), (''currentGridTradeIndex'', JNull)] @ clearedAddTracking @
     [(''autoTriggerBuyAtMs'', autoTriggerBuyAtMs), (''forceSellFirstSeenAtMs'', JNull), (''entryConfirmCount'', jnum 0)]"

definition lossExitStamp :: "'d decimal_js \<Rightarrow> string \<Rightarrow> string \<Rightarrow> json \<Rightarrow> rat \<Rightarrow> (string \<times> json) list" where
  "lossExitStamp D reason currentPrice avgEntryPrice now =
     (if avgEntryPrice = JNull then []
      else case (d_new D currentPrice, decimal_of D avgEntryPrice) of
             (Some p, Some a) \<Rightarrow> if d_lt D p a then [(''lastLossExitAt'', jnum now), (''lastLossExitReason'', JStr reason)] else []
           | _ \<Rightarrow> [])"

section \<open>Operator overrides\<close>

datatype tt_override =
    ManualOrder (ov_id: string) manual_order
  | TriggerBuy (ov_id: string)
  | TriggerSell (ov_id: string)

fun attribute :: "string \<Rightarrow> decision \<Rightarrow> decision" where
  "attribute oid (PlaceOrder i p) = PlaceOrder (i\<lparr>oi_overrideActionId := Some oid\<rparr>) p"
| "attribute oid (ReplaceOrder c r i p) = ReplaceOrder c r (i\<lparr>oi_overrideActionId := Some oid\<rparr>) p"
| "attribute oid d = d"

definition attributeToOverride :: "decision list \<Rightarrow> string \<Rightarrow> decision list" where
  "attributeToOverride ds oid = map (attribute oid) ds"

definition emptiesPosition :: "'d decimal_js \<Rightarrow> string \<Rightarrow> json \<Rightarrow> bool" where
  "emptiesPosition D quantity state =
     (case (decimal_of D (jget state ''heldQuantity''), d_new D quantity) of
        (Some held, Some selling) \<Rightarrow> jget state ''heldQuantity'' \<noteq> JNull \<and> d_gt D held (d_int D 0) \<and> d_gte D selling held
      | _ \<Rightarrow> False)"

fun side_str :: "order_side \<Rightarrow> string" where
  "side_str BUY = ''BUY''"
| "side_str SELL = ''SELL''"

definition declined :: "json \<Rightarrow> log_entry list \<Rightarrow> metric_entry list \<Rightarrow> string \<Rightarrow> tt_output" where
  "declined s ls ms reason = (tick_out (unblocked s) [Noop] ls ms)\<lparr>to_overrideDecline := Some reason\<rparr>"

definition manual_override :: "'d decimal_js \<Rightarrow> 'd tt_input \<Rightarrow> json \<Rightarrow> string \<Rightarrow> manual_order \<Rightarrow> tt_output option" where
  "manual_override D inp state oid payload =
     (case computeManualOrderQuantity D payload (tn_currentPrice inp) (tn_filters inp) of
        Quantity quantity \<Rightarrow> do {
          manual \<leftarrow> buildManualOrderDecision inp payload quantity oid;
          decisions \<leftarrow> (if mo_side payload = SELL \<and> emptiesPosition D quantity state then closingSellDecisions inp manual else Some [manual]);
          Some (tick_out (unblocked state) decisions
            [log_of ''info'' ''tt-manual-order'' (Some (JObj [(''symbol'', JStr (tn_symbol inp)), (''overrideActionId'', JStr oid),
               (''side'', JStr (side_str (mo_side payload))), (''type'', JStr (mo_type payload)), (''quantity'', JStr quantity)]))]
            [symbol_metric ''tt_manual_order_emit'' (tn_symbol inp)])
        }
      | skip \<Rightarrow>
          Some (declined state
            [log_of ''warn'' ''tt-manual-order-skipped'' (Some (JObj [(''symbol'', JStr (tn_symbol inp)), (''overrideActionId'', JStr oid),
               (''reason'', JStr (skip_str skip))]))]
            [reason_metric ''tt_manual_order_skipped'' (tn_symbol inp) (skip_str skip)] (skip_str skip)))"

definition entry_log :: "string option \<Rightarrow> int option \<Rightarrow> nat \<Rightarrow> (string \<times> json) list" where
  "entry_log quantity level canceledStale =
     (case level of
        Some l \<Rightarrow> [(''gridLevel'', jnum (of_int l)), (''canceledStale'', jnum (of_nat canceledStale))]
      | None \<Rightarrow> [(''quantity'', nullable quantity)])"

definition trigger_buy_skip :: "'d tt_input \<Rightarrow> json \<Rightarrow> string \<Rightarrow> string \<Rightarrow> json option \<Rightarrow> tt_output" where
  "trigger_buy_skip inp state oid reason ctx =
     declined state
       [log_of ''warn'' ''tt-trigger-buy-skipped'' (Some (spread (case ctx of Some c \<Rightarrow> c | None \<Rightarrow> JObj [])
          [(''symbol'', JStr (tn_symbol inp)), (''overrideActionId'', JStr oid), (''reason'', JStr reason)]))]
       [reason_metric ''tt_trigger_buy_skipped'' (tn_symbol inp) reason] reason"

definition trigger_buy_override :: "'d decimal_js \<Rightarrow> 'd tt_tick \<Rightarrow> json \<Rightarrow> rat \<Rightarrow> string \<Rightarrow> tt_output option" where
  "trigger_buy_override D tk state now oid =
     (if forceSellCooldownActive state now
      then (let blocked = forceSellCooldownBlock (tk_symbol tk) state
            in Some (declined state [fst blocked] [snd blocked] ''force-sell-cooldown''))
      else map_option (\<lambda>entry.
             case entry of
               ForcedEmit s ds quantity level canceled \<Rightarrow>
                 tick_out (unblocked s) ds
                   [log_of ''info'' ''tt-trigger-buy'' (Some (JObj ([(''symbol'', JStr (tk_symbol tk)), (''overrideActionId'', JStr oid)]
                      @ entry_log quantity level canceled)))]
                   [symbol_metric ''tt_trigger_buy_emit'' (tk_symbol tk)]
             | ForcedWait \<Rightarrow> trigger_buy_skip (tk_input tk) state oid ''awaiting-entry'' None
             | ForcedSkip reason ctx \<Rightarrow> trigger_buy_skip (tk_input tk) state oid reason ctx)
           (emitForcedFirstEntry D tk state now))"

definition trigger_sell_override :: "'d decimal_js \<Rightarrow> 'd tt_input \<Rightarrow> json \<Rightarrow> rat \<Rightarrow> string \<Rightarrow> tt_output option" where
  "trigger_sell_override D inp state now oid = do {
     reclaimable \<leftarrow> reclaimableOwnSellBase D inp;
     free \<leftarrow> resolveHeldForSell D state (si_baseAsset (tn_symbolInfo inp)) (tn_account inp) reclaimable;
     result \<leftarrow> computeSellQuantity D free (tn_currentPrice inp) (tn_filters inp);
     (case result of
        Quantity quantity \<Rightarrow> do {
          auto_at \<leftarrow> armAutoTriggerBuy (tn_config inp) now;
          sell \<leftarrow> buildSellDecision inp ''manual'' quantity (''trigger-sell-'' @ oid) no_sell_opts;
          decisions \<leftarrow> closingSellDecisions inp sell;
          Some (tick_out (spread state (clearedSellPosition auto_at @ [(''entryBlocker'', JNull)])) decisions
            [log_of ''info'' ''tt-trigger-sell'' (Some (JObj [(''symbol'', JStr (tn_symbol inp)), (''overrideActionId'', JStr oid),
               (''quantity'', JStr quantity), (''freeBase'', JStr free)]))]
            [symbol_metric ''tt_trigger_sell_emit'' (tn_symbol inp)])
        }
      | skip \<Rightarrow>
          Some (declined state
            [log_of (sellSkipLogLevel (skip_str skip)) ''tt-trigger-sell-skipped'' (Some (JObj [(''symbol'', JStr (tn_symbol inp)),
               (''overrideActionId'', JStr oid), (''reason'', JStr (skip_str skip)), (''freeBase'', JStr free)]))]
            [reason_metric ''tt_trigger_sell_skipped'' (tn_symbol inp) (skip_str skip)] (skip_str skip)))
   }"

definition overrideOutput :: "'d decimal_js \<Rightarrow> 'd tt_tick \<Rightarrow> json \<Rightarrow> rat \<Rightarrow> tt_override \<Rightarrow> tt_output option" where
  "overrideOutput D tk state now override =
     (case override of
        ManualOrder oid payload \<Rightarrow> manual_override D (tk_input tk) state oid payload
      | TriggerBuy oid \<Rightarrow> trigger_buy_override D tk state now oid
      | TriggerSell oid \<Rightarrow> trigger_sell_override D (tk_input tk) state now oid)"

definition handleOverride :: "'d decimal_js \<Rightarrow> 'd tt_tick \<Rightarrow> json \<Rightarrow> rat \<Rightarrow> tt_override \<Rightarrow> tt_output option" where
  "handleOverride D tk state now override =
     map_option (\<lambda>out. out\<lparr>to_decisions := attributeToOverride (to_decisions out) (ov_id override)\<rparr>)
       (overrideOutput D tk state now override)"

section \<open>The branches\<close>

record tick_scalars =
  sc_now :: rat
  sc_hasOpenBuy :: bool
  sc_hasOpenSell :: bool

definition buildScalars :: "'d tt_tick \<Rightarrow> rat \<Rightarrow> tick_scalars option" where
  "buildScalars tk now =
     map_option (\<lambda>sell. \<lparr>sc_now = now, sc_hasOpenBuy = hasOpenBuyForSymbol (tn_openOrders (tk_input tk)) (tk_symbol tk), sc_hasOpenSell = sell\<rparr>)
       (hasOpenSellForSymbol (tn_openOrders (tk_input tk)) (tk_symbol tk) (tn_profileId (tk_input tk)))"

datatype branch_outcome = Pass | Mutate json "log_entry list" | Terminal tt_output

definition due :: "json \<Rightarrow> rat \<Rightarrow> bool" where
  "due v now \<longleftrightarrow> v \<noteq> JNull \<and> (case json_rat v of Some t \<Rightarrow> t \<le> now | None \<Rightarrow> False)"

definition applyDisabledClearBranch :: "rat \<Rightarrow> json \<Rightarrow> log_entry list \<Rightarrow> branch_outcome option" where
  "applyDisabledClearBranch now state logs =
     Some (if due (jget state ''disabledUntilMs'') now then Mutate (spread state [(''disabledUntilMs'', JNull)]) logs else Pass)"

definition overrideBranch :: "'d decimal_js \<Rightarrow> 'd tt_tick \<Rightarrow> tt_override option \<Rightarrow> rat \<Rightarrow> json \<Rightarrow> log_entry list \<Rightarrow> branch_outcome option" where
  "overrideBranch D tk override now state logs =
     (case override of
        None \<Rightarrow> Some Pass
      | Some ov \<Rightarrow> map_option Terminal (handleOverride D tk state now ov))"

definition autoTriggerSkipTerminal :: "json \<Rightarrow> string \<Rightarrow> string \<Rightarrow> string \<Rightarrow> json option \<Rightarrow> branch_outcome" where
  "autoTriggerSkipTerminal state symbol reason level ctx =
     Terminal (tick_out (spread state [(''autoTriggerBuyAtMs'', JNull), (''entryBlocker'', JNull)]) [Noop]
       [log_of level ''tt-auto-trigger-buy-skipped'' (Some (spread (case ctx of Some c \<Rightarrow> c | None \<Rightarrow> JObj [])
          [(''symbol'', JStr symbol), (''reason'', JStr reason)]))]
       [reason_metric ''tt_auto_trigger_buy_skipped'' symbol reason])"

definition entered :: "(string \<times> json) list" where
  "entered = [(''lastLossExitAt'', JNull), (''lastLossExitReason'', JNull), (''entryConfirmCount'', jnum 0), (''entryBlocker'', JNull)]"

definition auto_trigger_entry :: "'d decimal_js \<Rightarrow> 'd tt_tick \<Rightarrow> rat \<Rightarrow> json \<Rightarrow> branch_outcome option" where
  "auto_trigger_entry D tk now state =
     (let consumed = spread state [(''autoTriggerBuyAtMs'', JNull)]; symb = tk_symbol tk
      in map_option (\<lambda>entry.
           case entry of
             ForcedWait \<Rightarrow>
               Terminal (tick_out (unblocked state) [Noop]
                 [log_of ''info'' ''tt-auto-trigger-buy-waiting'' (Some (JObj [(''symbol'', JStr symb), (''reason'', JStr ''awaiting-entry'')]))]
                 [symbol_metric ''tt_auto_trigger_buy_waiting'' symb])
           | ForcedEmit s ds quantity level canceled \<Rightarrow>
               Terminal (tick_out (spread s entered) ds
                 [log_of ''info'' ''tt-auto-trigger-buy'' (Some (JObj ((''symbol'', JStr symb) # entry_log quantity level canceled)))]
                 [symbol_metric ''tt_auto_trigger_buy_emit'' symb])
           | ForcedSkip reason ctx \<Rightarrow> autoTriggerSkipTerminal consumed symb reason ''warn'' ctx)
         (emitForcedFirstEntry D tk consumed now))"

definition autoTriggerBuyBranch :: "'d decimal_js \<Rightarrow> 'd tt_tick \<Rightarrow> rat \<Rightarrow> json \<Rightarrow> log_entry list \<Rightarrow> branch_outcome option" where
  "autoTriggerBuyBranch D tk now state logs =
     (let config = tk_config tk; symb = tk_symbol tk; atb = buy_field config ''autoTriggerBuy'';
          held_back = (\<lambda>blocked. Some (Terminal (tick_out (unblocked state) [Noop] [fst blocked] [snd blocked])))
      in if \<not> due (jget state ''autoTriggerBuyAtMs'') now then Some Pass
         else if forceSellCooldownActive state now then held_back (forceSellCooldownBlock symb state)
         else if lossExitCooldownActive state config now then held_back (lossCooldownBlock symb state)
         else if nullish atb then None
         else if \<not> truthy (jget atb ''enabled'') then Some (autoTriggerSkipTerminal state symb ''feature-disabled'' ''info'' None)
         else if jget state ''disabledUntilMs'' \<noteq> JNull
         then (if truthy (jget atb ''rescheduleWhileDisabled'')
               then map_option (\<lambda>at_ms. Terminal (tick_out (spread state [(''autoTriggerBuyAtMs'', at_ms), (''entryBlocker'', JNull)]) [Noop]
                      [log_of ''info'' ''tt-auto-trigger-buy-rescheduled'' (Some (JObj [(''symbol'', JStr symb)]))]
                      [symbol_metric ''tt_auto_trigger_buy_rescheduled'' symb])) (armAutoTriggerBuy config now)
               else Some Pass)
         else if \<not> truthy (buy_field config ''enabled'') then Some (autoTriggerSkipTerminal state symb ''buy-disabled'' ''info'' None)
         else if jget state ''avgEntryPrice'' \<noteq> JNull then Some (autoTriggerSkipTerminal state symb ''holding'' ''info'' None)
         else auto_trigger_entry D tk now state)"

definition disabledGateBranch :: "json \<Rightarrow> log_entry list \<Rightarrow> branch_outcome option" where
  "disabledGateBranch state logs =
     Some (if jget state ''disabledUntilMs'' \<noteq> JNull then Terminal (tick_out (unblocked state) [Noop] [] []) else Pass)"

section \<open>The average-price escape\<close>

text \<open>The inner option is the source's null; a threshold that is neither absent nor a string throws.\<close>

definition lbp_parse_failed :: "'d tt_input \<Rightarrow> json \<Rightarrow> string \<Rightarrow> json \<Rightarrow> (json \<times> log_entry) option" where
  "lbp_parse_failed inp state thresholdStr bad =
     Some (state, log_of ''warn'' ''tt-lbp-clear-parse-failed'' (Some (JObj [(''err'', JStr (tn_decimalError inp bad)),
       (''thresholdStr'', JStr thresholdStr), (''avgEntryPrice'', jget state ''avgEntryPrice''), (''currentPrice'', JStr (tn_currentPrice inp))])))"

definition base_held :: "'d decimal_js \<Rightarrow> 'd tt_input \<Rightarrow> 'd option" where
  "base_held D inp =
     (case ac_balances (tn_account inp) (si_baseAsset (tn_symbolInfo inp)) of
        None \<Rightarrow> Some (d_plus D (d_int D 0) (d_int D 0))
      | Some b \<Rightarrow>
          (case bl_free b of
             AmountDec free \<Rightarrow> map_option (d_plus D free) (amount_dec D (bl_locked b))
           | AmountStr _ \<Rightarrow> None))"

definition lbp_clear_flat :: "'d decimal_js \<Rightarrow> 'd tt_input \<Rightarrow> json \<Rightarrow> string \<Rightarrow> (json \<times> log_entry) option option" where
  "lbp_clear_flat D inp state thresholdStr =
     (case d_new D (sf_minQty (tn_filters inp)) of
        None \<Rightarrow>
          Some (Some (state, log_of ''warn'' ''tt-lbp-clear-balance-parse-failed'' (Some (JObj
            [(''err'', JStr (tn_decimalError inp (JStr (sf_minQty (tn_filters inp))))), (''symbol'', JStr (tn_symbol inp)),
             (''baseAsset'', JStr (si_baseAsset (tn_symbolInfo inp))), (''minQty'', JStr (sf_minQty (tn_filters inp)))]))))
      | Some minQty \<Rightarrow>
          map_option (\<lambda>held.
            if d_gte D held minQty then None
            else Some (spread state ([(''avgEntryPrice'', JNull), (''currentGridTradeIndex'', JNull)] @ clearedAddTracking),
              log_of ''info'' ''tt-lbp-cleared'' (Some (JObj [(''symbol'', JStr (tn_symbol inp)), (''avgEntryPrice'', jget state ''avgEntryPrice''),
                (''currentPrice'', JStr (tn_currentPrice inp)), (''threshold'', JStr thresholdStr)]))))
          (base_held D inp))"

definition maybeClearAvgEntryPrice :: "'d decimal_js \<Rightarrow> 'd tt_input \<Rightarrow> json \<Rightarrow> (json \<times> log_entry) option option" where
  "maybeClearAvgEntryPrice D inp state =
     (let avg = jget state ''avgEntryPrice''; price = JStr (tn_currentPrice inp)
      in if avg = JNull then Some None
         else case buy_field (tn_config inp) ''avgEntryPriceRemoveThreshold'' of
                JStr t \<Rightarrow>
                  if t = [] \<or> trim t = [] \<or> t = ''0'' then Some None
                  else (case (d_new D t, decimal_of D avg, d_new D (tn_currentPrice inp)) of
                          (None, _, _) \<Rightarrow> Some (lbp_parse_failed inp state t (JStr t))
                        | (Some _, None, _) \<Rightarrow> Some (lbp_parse_failed inp state t avg)
                        | (Some _, Some _, None) \<Rightarrow> Some (lbp_parse_failed inp state t price)
                        | (Some threshold, Some lbp, Some p) \<Rightarrow>
                            if d_lte D threshold (d_int D 0) \<or> d_gt D threshold (d_int D 1) \<or> d_lte D lbp (d_int D 0) \<or> d_lte D p (d_int D 0) \<or>
                               d_gt D p (d_times D lbp threshold) \<or> hasOpenBuyForSymbol (tn_openOrders inp) (tn_symbol inp)
                            then Some None
                            else lbp_clear_flat D inp state t)
              | v \<Rightarrow> if truthy v then None else Some None)"

definition lbpClearBranch :: "'d decimal_js \<Rightarrow> 'd tt_tick \<Rightarrow> json \<Rightarrow> log_entry list \<Rightarrow> branch_outcome option" where
  "lbpClearBranch D tk state logs =
     map_option (\<lambda>r. case r of None \<Rightarrow> Pass | Some (s, l) \<Rightarrow> Mutate s (logs @ [l])) (maybeClearAvgEntryPrice D (tk_input tk) state)"

section \<open>Exits\<close>

definition exit_blocker_json :: "exit_blocker \<Rightarrow> json" where
  "exit_blocker_json b = JObj [(''reason'', JStr (eb_reason b)), (''changeKey'', JStr (eb_changeKey b)), (''detail'', eb_detail b)]"

definition held_blocker :: "'d decimal_js \<Rightarrow> 'd tt_input \<Rightarrow> json \<Rightarrow> string option \<Rightarrow> bool \<Rightarrow> bool \<Rightarrow> exit_blocker option" where
  "held_blocker D inp state unsellable sellDisabled openSellOrder =
     map_option (\<lambda>(has, infeasible).
         resolveExitBlocker D \<lparr>ex_cand = noExitCandidates\<lparr>ec_unsellable := unsellable\<rparr>, ex_sellDisabled = sellDisabled,
           ex_openSellOrder = openSellOrder, ex_currentPrice = d_new D (tn_currentPrice inp), ex_hasDownsideExit = has,
           ex_stopInfeasible = infeasible\<rparr>)
       (assessHeldDownsideExit D inp state)"

definition guard_rows :: "json \<Rightarrow> guard_interval list option" where
  "guard_rows technicals =
     (case jget technicals ''intervals'' of
        JArr rows \<Rightarrow>
          Some (map (\<lambda>row. \<lparr>gi_interval = (case jget row ''interval'' of JStr k \<Rightarrow> Some k | _ \<Rightarrow> None),
             gi_whenSell = (jget row ''whenSell'' = JBool True), gi_whenStrongSell = (jget row ''whenStrongSell'' = JBool True),
             gi_whenNeutral = (jget row ''whenNeutral'' = JBool True)\<rparr>) rows)
      | _ \<Rightarrow> None)"

definition given_minutes :: "json \<Rightarrow> rat option" where
  "given_minutes v = (if v = JUndefined then None else Some (case json_rat v of Some r \<Rightarrow> r | None \<Rightarrow> 0))"

definition force_sell_guards_of :: "json \<Rightarrow> force_sell_guards option" where
  "force_sell_guards_of config =
     (let t = jget config ''technicals''
      in map_option (\<lambda>rows. resolveForceSellGuards rows (given_minutes (jget t ''forceSellConfirmMinutes''))
             (given_minutes (jget t ''forceSellReentryCooldownMinutes''))) (guard_rows t))"

definition snapshot_event :: "'d tt_tick \<Rightarrow> rat \<Rightarrow> decision" where
  "snapshot_event tk now =
     EmitEvent ''tick-snapshot'' (JObj [(''symbol'', JStr (tk_symbol tk)), (''currentPrice'', JStr (tk_price tk)), (''tsMs'', jnum now)])"

definition more_context :: "log_entry \<Rightarrow> (string \<times> json) list \<Rightarrow> log_entry" where
  "more_context l kvs = l\<lparr>le_context := Some (spread (case le_context l of Some c \<Rightarrow> c | None \<Rightarrow> JObj []) kvs)\<rparr>"

text \<open>A stage of the sell branch ends the tick or hands on what it carries.\<close>

definition force_sell_now ::
  "'d decimal_js \<Rightarrow> 'd tt_tick \<Rightarrow> rat \<Rightarrow> rat \<Rightarrow> force_sell_match \<Rightarrow> json \<Rightarrow> log_entry list \<Rightarrow> tt_output option" where
  "force_sell_now D tk now cooldownMs m state logs =
     (let inp = tk_input tk; symb = tk_symbol tk; avg = jget state ''avgEntryPrice''
      in case sellEmissionOrSkip D inp state ''technicals-force-sell'' ''tt-technicals-force-sell''
                (''technicals-'' @ fm_interval m @ ''-'' @ rec_str (fm_recommendation m) @ ''-'' @ js_str avg) [] of
           Some (SellEmit d l name) \<Rightarrow> do {
             auto_at \<leftarrow> armAutoTriggerBuy (tk_config tk) now;
             ds \<leftarrow> closingSellDecisions inp d;
             Some (tick_out
               (spread state (clearedSellPosition auto_at @ [(''forceSellCooldownUntilMs'', if 0 < cooldownMs then jnum (now + cooldownMs) else JNull)]
                  @ lossExitStamp D ''technicals-force-sell'' (tk_price tk) avg now @ [(''entryBlocker'', JNull)]))
               ds
               (logs @ [more_context l [(''interval'', JStr (fm_interval m)), (''recommendation'', JStr (rec_str (fm_recommendation m))),
                  (''ageMs'', jnum (fm_ageMs m)), (''useOnlyWithinMin'', jnum (tb_useOnlyWithinMin (tk_technicals tk)))]])
               [symbol_metric ''tt_tv_force_sell_emit'' symb])
           }
         | Some (SellSkip l skip f b) \<Rightarrow>
             map_option (\<lambda>eb. tick_out (spread state [(''exitBlocker'', exit_blocker_json eb)]) [snapshot_event tk now] (logs @ [l])
                 [symbol_metric ''tt_tv_force_sell_skipped'' symb])
               (held_blocker D inp state skip False False)
         | _ \<Rightarrow> None)"

definition force_sell_stage ::
  "'d decimal_js \<Rightarrow> 'd tt_tick \<Rightarrow> rat \<Rightarrow> json \<Rightarrow> log_entry list \<Rightarrow> (tt_output + json \<times> log_entry list) option" where
  "force_sell_stage D tk now state logs = do {
     let config = tk_config tk;
     let triggerPx = technicalsForceSellTriggerPriceOf D config state;
     let logs1 = logs @ (if snd triggerPx
        then [log_of ''warn'' ''tt-sell-gate-parse-failed'' (Some (JObj [(''field'', JStr ''triggerPercentage''),
                (''source'', JStr ''technicals-force-sell''), (''value'', sell_field config ''triggerPercentage'')]))] else []);
     let matched = (if jget state ''discoveryEntry'' = JBool True then None
        else evaluateTechnicalsForceSell D (tk_technicals tk) (tk_price tk) (jget state ''avgEntryPrice'') (fst triggerPx) now
               (effectiveForceSellMinProfitPercent D config));
     guards \<leftarrow> force_sell_guards_of config;
     let confirmMs = fg_confirmMinutes guards * 60000;
     let seen = jget state ''forceSellFirstSeenAtMs'';
     (case matched of
        None \<Rightarrow> Some (Inr (if seen \<noteq> JNull then spread state [(''forceSellFirstSeenAtMs'', JNull)] else state, logs1))
      | Some m \<Rightarrow>
          (let firstSeenAtMs = jcoalesce seen (jnum now);
               s = (if 0 < confirmMs \<and> seen = JNull then spread state [(''forceSellFirstSeenAtMs'', firstSeenAtMs)] else state)
           in if (case json_rat firstSeenAtMs of Some t \<Rightarrow> now - t < confirmMs | None \<Rightarrow> False)
              then Some (Inr (s, logs1 @ [log_of ''info'' ''tt-force-sell-confirm-pending'' (Some (JObj [(''symbol'', JStr (tk_symbol tk)),
                     (''interval'', JStr (fm_interval m)), (''recommendation'', JStr (rec_str (fm_recommendation m))),
                     (''firstSeenAtMs'', firstSeenAtMs), (''confirmMinutes'', jnum (fg_confirmMinutes guards))]))]))
              else map_option Inl (force_sell_now D tk now (fg_cooldownMinutes guards * 60000) m s logs1)))
   }"

definition loss_stamp_of :: "'d decimal_js \<Rightarrow> 'd tt_tick \<Rightarrow> rat \<Rightarrow> json \<Rightarrow> string \<Rightarrow> (string \<times> json) list" where
  "loss_stamp_of D tk now state metricName =
     (if metricName = ''tt_grid_stop_loss_emit'' then lossExitStamp D ''grid-stop-loss'' (tk_price tk) (jget state ''avgEntryPrice'') now
      else if metricName = ''tt_break_even_stop_emit'' then [(''lastLossExitAt'', jnum now), (''lastLossExitReason'', JStr ''break-even-stop'')]
      else [])"

text \<open>The ladder: its exit ends the tick, otherwise state, log lines and blocker go on.\<close>

definition ladder_stage ::
  "'d decimal_js \<Rightarrow> 'd tt_tick \<Rightarrow> rat \<Rightarrow> json \<Rightarrow> log_entry list \<Rightarrow> (tt_output + json \<times> log_entry list \<times> exit_blocker option) option" where
  "ladder_stage D tk now state logs = do {
     result \<leftarrow> evaluateSellGate D (tk_input tk) state;
     (case result of
        SellEmit d l name \<Rightarrow> do {
          auto_at \<leftarrow> armAutoTriggerBuy (tk_config tk) now;
          ds \<leftarrow> closingSellDecisions (tk_input tk) d;
          Some (Inl (tick_out (spread state (clearedSellPosition auto_at @ loss_stamp_of D tk now state name @ [(''entryBlocker'', JNull)])) ds
            (logs @ [l]) [symbol_metric name (tk_symbol tk)]))
        }
      | SellBumpHigh s b \<Rightarrow> Some (Inr (s, logs, b))
      | SellSkip l r f b \<Rightarrow> Some (Inr (state, logs @ [l], b))
      | SellNoop b \<Rightarrow> Some (Inr (state, logs, b)))
   }"

definition regime_exit_stage ::
  "'d decimal_js \<Rightarrow> 'd tt_tick \<Rightarrow> rat \<Rightarrow> json \<Rightarrow> log_entry list \<Rightarrow> exit_blocker option \<Rightarrow>
   (tt_output + json \<times> log_entry list \<times> exit_blocker option) option" where
  "regime_exit_stage D tk now state logs blocker =
     (case evaluateRegimeExit D (tk_input tk) of
        RegimeBear ctx \<Rightarrow>
          (case sellEmissionOrSkip D (tk_input tk) state ''regime-exit'' ''tt-regime-exit'' (''regime-exit-'' @ js_str (jget state ''avgEntryPrice'')) [] of
             Some (SellEmit d l name) \<Rightarrow>
               map_option (\<lambda>ds. Inl (tick_out
                   (spread state (clearedSellPosition JNull @ lossExitStamp D ''regime-exit'' (tk_price tk) (jget state ''avgEntryPrice'') now
                      @ [(''entryBlocker'', JNull)]))
                   ds (logs @ [more_context l (obj_fields ctx)]) [symbol_metric name (tk_symbol tk)]))
                 (closingSellDecisions (tk_input tk) d)
           | Some (SellSkip l skip f b) \<Rightarrow>
               map_option (\<lambda>eb. Inr (state, logs @ [l], Some eb)) (held_blocker D (tk_input tk) state skip False False)
           | _ \<Rightarrow> None)
      | _ \<Rightarrow> Some (Inr (state, logs, blocker)))"

definition exit_stages ::
  "'d decimal_js \<Rightarrow> 'd tt_tick \<Rightarrow> tick_scalars \<Rightarrow> json \<Rightarrow> log_entry list \<Rightarrow> (tt_output + json \<times> log_entry list \<times> exit_blocker option) option" where
  "exit_stages D tk sc state logs =
     (if \<not> truthy (sell_field (tk_config tk) ''enabled'') \<or> jget state ''avgEntryPrice'' = JNull \<or> sc_hasOpenSell sc
      then Some (Inr (state, logs, None))
      else do {
        forced \<leftarrow> force_sell_stage D tk (sc_now sc) state logs;
        (case forced of
           Inl out \<Rightarrow> Some (Inl out)
         | Inr (s, l) \<Rightarrow> do {
             ladder \<leftarrow> ladder_stage D tk (sc_now sc) s l;
             (case ladder of
                Inl out \<Rightarrow> Some (Inl out)
              | Inr (s', l', b) \<Rightarrow> regime_exit_stage D tk (sc_now sc) s' l' b)
           })
      })"

definition persist_blocker :: "'d decimal_js \<Rightarrow> 'd tt_tick \<Rightarrow> tick_scalars \<Rightarrow> json \<Rightarrow> exit_blocker option \<Rightarrow> json option" where
  "persist_blocker D tk sc state blocker =
     (if jget state ''avgEntryPrice'' \<noteq> JNull
      then map_option (\<lambda>b. spread state [(''exitBlocker'', exit_blocker_json b)])
        (case blocker of
           Some b \<Rightarrow> Some b
         | None \<Rightarrow> held_blocker D (tk_input tk) state None (\<not> truthy (sell_field (tk_config tk) ''enabled'')) (sc_hasOpenSell sc))
      else Some (if jget state ''exitBlocker'' \<noteq> JNull then spread state [(''exitBlocker'', JNull)] else state))"

fun blocker_reason_str :: "blocker_reason \<Rightarrow> string" where
  "blocker_reason_str BaseLockedByForeignOrder = ''base-locked-by-foreign-order''"
| "blocker_reason_str BaseBelowExchangeMinimum = ''base-below-exchange-minimum''"
| "blocker_reason_str BaseShortOfTrackedPosition = ''base-short-of-tracked-position''"
| "blocker_reason_str PriceOutsideExchangeBand = ''price-outside-exchange-band''"
| "blocker_reason_str RestingStopShortOfPosition = ''resting-stop-short-of-position''"

definition stop_blocker_json :: "blocker option \<Rightarrow> json" where
  "stop_blocker_json b =
     (case b of None \<Rightarrow> JNull | Some x \<Rightarrow> JObj [(''reason'', JStr (blocker_reason_str (bk_reason x))), (''detail'', JObj (bk_detail x))])"

definition protectiveStopBandAdjustment :: "string \<Rightarrow> bool \<Rightarrow> bool \<Rightarrow> metric_entry list" where
  "protectiveStopBandAdjustment symbol floorClamped nativeTrailed =
     (if nativeTrailed then [reason_metric ''protective_stop_band_adjusted'' symbol ''native-trail'']
      else if floorClamped then [reason_metric ''protective_stop_band_adjusted'' symbol ''floor-clamped''] else [])"

definition arm_stage :: "'d decimal_js \<Rightarrow> 'd tt_tick \<Rightarrow> json \<Rightarrow> log_entry list \<Rightarrow> branch_outcome option" where
  "arm_stage D tk state logs =
     (if truthy (sell_field (tk_config tk) ''enabled'') \<and> jget state ''avgEntryPrice'' \<noteq> JNull
      then map_option (\<lambda>r.
             let arm = ta_arm r; s = spread state [(''protectiveStopBlocker'', stop_blocker_json (ar_blocker arm))]
             in if ar_decisions arm \<noteq> []
                then Terminal (tick_out (unblocked s) (ar_decisions arm)
                       (logs @ [log_of ''info'' ''tt-protective-stop-arm'' (Some (JObj [(''symbol'', JStr (tk_symbol tk)),
                          (''rearm'', JBool (1 < length (ar_decisions arm)))]))])
                       (symbol_metric ''tt_protective_stop_arm'' (tk_symbol tk)
                          # protectiveStopBandAdjustment (tk_symbol tk) (ta_floorClamped r) (ta_nativeTrailed r)))
                else Mutate s (logs @ (case ar_blocker arm of
                       None \<Rightarrow> []
                     | Some b \<Rightarrow> [log_of ''warn'' ''tt-protective-stop-blocked'' (Some (spread (JObj [(''symbol'', JStr (tk_symbol tk)),
                          (''reason'', JStr (blocker_reason_str (bk_reason b)))]) (bk_detail b)))])))
           (evaluateProtectiveStop D (tk_input tk) state)
      else Some (Mutate (if jget state ''protectiveStopBlocker'' \<noteq> JNull then spread state [(''protectiveStopBlocker'', JNull)] else state) logs))"

definition sellGateBranch :: "'d decimal_js \<Rightarrow> 'd tt_tick \<Rightarrow> tick_scalars \<Rightarrow> json \<Rightarrow> log_entry list \<Rightarrow> branch_outcome option" where
  "sellGateBranch D tk sc state logs = do {
     exit \<leftarrow> exit_stages D tk sc state logs;
     (case exit of
        Inl out \<Rightarrow> Some (Terminal out)
      | Inr (s, l, b) \<Rightarrow> Option.bind (persist_blocker D tk sc s b) (\<lambda>s'. arm_stage D tk s' l))
   }"

section \<open>Entries and the snapshot\<close>

text \<open>
  What the buy branch collects on its way to the snapshot. The source's locals start unset.
\<close>

record buy_locals =
  bu_entryConfirmCount :: json
  bu_regimeEntryBlock :: "json option"
  bu_regimeRequireUptrend :: bool
  bu_cancels :: "decision list"
  bu_timeoutCancels :: "decision list"
  bu_forceSellCooled :: bool
  bu_lossExitCooled :: bool
  bu_skipReason :: "string option"
  bu_tvVeto :: "(tv_veto \<times> string \<times> consultation list) option"
  bu_indicatorVeto :: "(string \<times> json) option"
  bu_riskCapVeto :: "(string \<times> json) option"
  bu_regimeVeto :: "(string \<times> json) option"
  bu_guardrailVeto :: "(string \<times> json) option"
  bu_chaseGuardVeto :: "json option"
  bu_knifeGuardVeto :: "json option"
  bu_awaitingTrigger :: "json option"
  bu_technicalsConfirming :: "json option"

definition cancel_buys :: "'d tt_input \<Rightarrow> string \<Rightarrow> open_order list \<Rightarrow> decision list" where
  "cancel_buys inp reason orders = map (\<lambda>ord. CancelOrder (oo_orderId ord) reason (Some (tn_symbol inp))) orders"

text \<open>The block on a fresh entry, whether it is the require-uptrend gate, and the line of a re-armed entry.\<close>

definition regime_entry :: "'d decimal_js \<Rightarrow> 'd tt_tick \<Rightarrow> rat \<Rightarrow> json \<Rightarrow> json option \<times> bool \<times> log_entry list" where
  "regime_entry D tk now state =
     (if jget state ''avgEntryPrice'' \<noteq> JNull then (None, False, [])
      else case evaluateRegimeEntryRequirement D (tk_input tk) of
             RequireBlock ctx \<Rightarrow> (Some ctx, True, [])
           | RequireAllow ctx \<Rightarrow> (None, False, [])
           | RequireDisabled \<Rightarrow>
               (case evaluateRegimeEntryBlock D (tk_input tk) of
                  RegimeBear ctx \<Rightarrow>
                    (case evaluateRegimeRearm (tk_technicals tk) (tk_config tk) now of
                       Some c \<Rightarrow> (None, False, [log_of ''info'' ''tt-regime-rearm'' (Some (spread (JObj [(''symbol'', JStr (tk_symbol tk))]) (obj_fields c)))])
                     | None \<Rightarrow> (Some ctx, False, []))
                | _ \<Rightarrow> (None, False, [])))"

definition timeout_cancels :: "'d tt_tick \<Rightarrow> json \<Rightarrow> bool \<Rightarrow> decision list" where
  "timeout_cancels tk state blocked =
     (let execution = jget (tk_config tk) ''execution''; bars = jcoalesce (jget execution ''entryTimeoutBars'') (jnum 0)
      in if jget state ''avgEntryPrice'' \<noteq> JNull \<or> blocked \<or> \<not> num_gt bars (jnum 0) \<or> jget execution ''entryMode'' \<noteq> JStr ''maker'' then []
         else cancel_buys (tk_input tk) ''tt-entry-timeout''
                (filter (\<lambda>ord. oo_type ord = LIMIT \<and>
                          num_ge (jnum (of_nat (closedBarsSinceEntry (tk_input tk) (jnum (of_int (oo_transactTimeMs ord)))))) bars)
                   (open_buys (tk_input tk))))"

definition initial_locals :: "'d decimal_js \<Rightarrow> 'd tt_tick \<Rightarrow> rat \<Rightarrow> json \<Rightarrow> buy_locals" where
  "initial_locals D tk now state =
     (let r = regime_entry D tk now state; flat = (jget state ''avgEntryPrice'' = JNull)
      in \<lparr>bu_entryConfirmCount = jget state ''entryConfirmCount'', bu_regimeEntryBlock = fst r, bu_regimeRequireUptrend = fst (snd r),
          bu_cancels = (if fst r = None then [] else cancel_buys (tk_input tk) ''tt-regime-entry-block'' (open_buys (tk_input tk))),
          bu_timeoutCancels = timeout_cancels tk state (fst r \<noteq> None),
          bu_forceSellCooled = (flat \<and> forceSellCooldownActive state now),
          bu_lossExitCooled = (flat \<and> lossExitCooldownActive state (tk_config tk) now),
          bu_skipReason = None, bu_tvVeto = None, bu_indicatorVeto = None, bu_riskCapVeto = None, bu_regimeVeto = None,
          bu_guardrailVeto = None, bu_chaseGuardVeto = None, bu_knifeGuardVeto = None, bu_awaitingTrigger = None,
          bu_technicalsConfirming = None\<rparr>)"

definition pyramid_stage :: "'d decimal_js \<Rightarrow> 'd tt_tick \<Rightarrow> json \<Rightarrow> log_entry list \<Rightarrow> buy_locals \<Rightarrow> (tt_output + buy_locals) option" where
  "pyramid_stage D tk state logs loc =
     (if \<not> truthy (buy_field (tk_config tk) ''enabled'') \<or> jget state ''avgEntryPrice'' = JNull then Some (Inr loc)
      else map_option (\<lambda>p.
             case p of
               PyramidAdd ds l s addIndex \<Rightarrow>
                 Inl (tick_out (unblocked s) ds (logs @ [l])
                   [metric_of ''tt_bull_pyramid_add'' (Some (JObj [(''symbol'', JStr (tk_symbol tk)), (''addIndex'', JStr (int_str addIndex))])) 1])
             | PyramidSkipCap c ctx \<Rightarrow> Inr (loc\<lparr>bu_riskCapVeto := Some (c, ctx)\<rparr>)
             | PyramidNoop \<Rightarrow> Inr loc)
           (evaluateBullPyramid D (tk_input tk) state))"

text \<open>A held position without a level counts as level 0; a level above 0 without a position is dropped.\<close>

definition grid_normalised :: "'d tt_tick \<Rightarrow> json \<Rightarrow> json \<times> log_entry list" where
  "grid_normalised tk state =
     (let idx = jget state ''currentGridTradeIndex''
      in if jget state ''avgEntryPrice'' \<noteq> JNull \<and> idx = JNull then (spread state [(''currentGridTradeIndex'', jnum 0)], [])
         else if jget state ''avgEntryPrice'' = JNull \<and> num_gt idx (jnum 0)
         then (spread state [(''currentGridTradeIndex'', JNull)],
               [log_of ''warn'' ''tt-grid-state-orphan-reset'' (Some (JObj [(''symbol'', JStr (tk_symbol tk)), (''orphanedIndex'', idx)]))])
         else (state, []))"

fun grid_vetoes :: "grid_result \<Rightarrow> buy_locals \<Rightarrow> buy_locals" where
  "grid_vetoes (GridSkipFilter r) loc = loc\<lparr>bu_skipReason := Some r\<rparr>"
| "grid_vetoes (GridSkipTv v k cs) loc = loc\<lparr>bu_tvVeto := Some (v, k, cs)\<rparr>"
| "grid_vetoes (GridSkipIndicator r c) loc = loc\<lparr>bu_indicatorVeto := Some (r, c)\<rparr>"
| "grid_vetoes (GridSkipRiskCap r c) loc = loc\<lparr>bu_riskCapVeto := Some (r, c)\<rparr>"
| "grid_vetoes (GridSkipRegime r c) loc = loc\<lparr>bu_regimeVeto := Some (r, c)\<rparr>"
| "grid_vetoes (GridSkipGuardrail r c) loc = loc\<lparr>bu_guardrailVeto := Some (r, c)\<rparr>"
| "grid_vetoes (GridSkipChaseGuard c) loc = loc\<lparr>bu_chaseGuardVeto := Some c\<rparr>"
| "grid_vetoes (GridSkipKnifeGuard c) loc = loc\<lparr>bu_knifeGuardVeto := Some c\<rparr>"
| "grid_vetoes (GridWait (Some c)) loc = loc\<lparr>bu_awaitingTrigger := Some c\<rparr>"
| "grid_vetoes _ loc = loc"

definition grid_path ::
  "'d decimal_js \<Rightarrow> 'd tt_tick \<Rightarrow> rat \<Rightarrow> json \<Rightarrow> log_entry list \<Rightarrow> buy_locals \<Rightarrow> (tt_output + json \<times> log_entry list \<times> buy_locals) option" where
  "grid_path D tk now state logs loc =
     (let s = fst (grid_normalised tk state); logs' = logs @ snd (grid_normalised tk state)
      in map_option (\<lambda>g.
           case g of
             GridEmit s' ds l level \<Rightarrow>
               Inl (tick_out (spread s' entered) ds (logs' @ [l])
                 [metric_of ''tt_grid_buy_emit'' (Some (JObj [(''symbol'', JStr (tk_symbol tk)), (''level'', JStr (int_str level))])) 1])
           | _ \<Rightarrow> Inr (s, logs', grid_vetoes g loc))
         (evaluateGridBuy D tk s now False))"

definition single_size :: "'d decimal_js \<Rightarrow> 'd tt_tick \<Rightarrow> 'd \<Rightarrow> (string + string) option" where
  "single_size D tk scalar = do {
     budget \<leftarrow> entry_budget_of D (tk_input tk);
     (case budget of
        Budget b \<Rightarrow> do {
          scaled \<leftarrow> (if d_lte D scalar (d_int D 1) \<and> d_gte D scalar (d_int D 1) then Some b
                     else map_option (\<lambda>x. d_toString D (d_times D x scalar)) (d_new D b));
          result \<leftarrow> computeFirstBuyQuantity D scaled (tk_price tk) (tn_filters (tk_input tk)) [] (ttEntryStopFloor D (tk_config tk));
          (case result of Quantity q \<Rightarrow> Some (Inr q) | skip \<Rightarrow> Some (Inl (skip_str skip)))
        }
      | skip \<Rightarrow> Some (Inl (budget_skip skip)))
   }"

definition single_buy ::
  "'d decimal_js \<Rightarrow> 'd tt_tick \<Rightarrow> json \<Rightarrow> log_entry list \<Rightarrow> buy_locals \<Rightarrow> (tt_output + buy_locals) option" where
  "single_buy D tk state logs loc = do {
     gates \<leftarrow> buy_gates D tk;
     (case gates of
        GateVeto r c \<Rightarrow> Some (Inr (loc\<lparr>bu_indicatorVeto := Some (r, c)\<rparr>))
      | GateOk \<Rightarrow> do {
          exposure \<leftarrow> regimeExposure D (tk_input tk);
          sized \<leftarrow> single_size D tk (fst exposure);
          (case sized of
             Inl r \<Rightarrow> Some (Inr (loc\<lparr>bu_skipReason := Some r\<rparr>))
           | Inr q \<Rightarrow>
               map_option (\<lambda>d. Inl (tick_out (spread state entered) [d] logs
                   (symbol_metric ''tt_tick_buy_path'' (tk_symbol tk)
                      # (if snd exposure = ''disabled'' then []
                         else [metric_of ''tt_regime_exposure'' (Some (JObj [(''symbol'', JStr (tk_symbol tk)), (''regime'', JStr (snd exposure))])) 1]))))
                 (buildFirstBuyDecision D (tk_input tk) q))
        })
   }"

text \<open>The streak of permitted readings, capped at the number required.\<close>

definition advance_confirm :: "json \<Rightarrow> json \<Rightarrow> json" where
  "advance_confirm count required =
     (let advanced = (case json_rat count of Some r \<Rightarrow> jnum (r + 1) | None \<Rightarrow> JNum JsNaN)
      in if num_gt required advanced then advanced else required)"

definition single_path ::
  "'d decimal_js \<Rightarrow> 'd tt_tick \<Rightarrow> rat \<Rightarrow> json \<Rightarrow> log_entry list \<Rightarrow> buy_locals \<Rightarrow> (tt_output + buy_locals) option" where
  "single_path D tk now state logs loc = do {
     gate \<leftarrow> evaluateTechnicalsGate (tk_technicals tk) (jget (tk_config tk) ''forceBuyOverride'') now;
     (case gate of
        TvVetoed v k cs \<Rightarrow> Some (Inr (loc\<lparr>bu_entryConfirmCount := jnum 0, bu_tvVeto := Some (v, k, cs)\<rparr>))
      | TvOpen cs \<Rightarrow>
          (let technicals = jget (tk_config tk) ''technicals''; required = jget technicals ''entryConfirmReads'';
               count = advance_confirm (jget state ''entryConfirmCount'') required;
               loc' = loc\<lparr>bu_entryConfirmCount := count\<rparr>
           in if nullish technicals then None
              else if num_gt required count
              then Some (Inr (loc'\<lparr>bu_technicalsConfirming := Some (JObj [(''reads'', count), (''required'', required)])\<rparr>))
              else single_buy D tk state logs loc'))
   }"

definition entry_stage ::
  "'d decimal_js \<Rightarrow> 'd tt_tick \<Rightarrow> tick_scalars \<Rightarrow> json \<Rightarrow> log_entry list \<Rightarrow> buy_locals \<Rightarrow> (tt_output + json \<times> log_entry list \<times> buy_locals) option" where
  "entry_stage D tk sc state logs loc =
     (if bu_regimeEntryBlock loc \<noteq> None \<or> bu_forceSellCooled loc \<or> bu_lossExitCooled loc \<or> \<not> truthy (buy_field (tk_config tk) ''enabled'')
      then Some (Inr (state, logs, loc))
      else do {
        levels \<leftarrow> grid_levels (tk_config tk);
        (if levels \<noteq> [] then grid_path D tk (sc_now sc) state logs loc
         else if jget state ''avgEntryPrice'' = JNull \<and> \<not> sc_hasOpenBuy sc
         then map_option (map_sum id (\<lambda>l. (state, logs, l))) (single_path D tk (sc_now sc) state logs loc)
         else Some (Inr (state, logs, loc)))
      })"

definition tv_detail :: "technicals_bundle \<Rightarrow> rat \<Rightarrow> string \<Rightarrow> (string \<times> json) list" where
  "tv_detail tv now k =
     (case find_signal tv k of
        None \<Rightarrow> []
      | Some s \<Rightarrow> [(''recommendation'', JStr (rec_str (ts_recommendation s))), (''ageMs'', jnum (signal_age now s))])"

definition consultation_json :: "consultation \<Rightarrow> json" where
  "consultation_json c =
     JObj [(''interval'', JStr (ic_interval c)), (''recommendation'', nullable (map_option rec_str (ic_recommendation c))),
           (''verdict'', JStr (case ic_verdict c of None \<Rightarrow> ''pass'' | Some v \<Rightarrow> tv_veto_str v)), (''advisory'', JBool (ic_advisory c))]"

definition tv_log :: "technicals_bundle \<Rightarrow> string \<Rightarrow> rat \<Rightarrow> tv_veto \<Rightarrow> string \<Rightarrow> consultation list \<Rightarrow> log_entry" where
  "tv_log tv symbol now v k cs =
     log_of (if v = TvNoSignal then ''debug'' else ''info'') ''tt-technicals-gate-veto''
       (Some (JObj ([(''symbol'', JStr symbol), (''reason'', JStr (tv_veto_str v)), (''interval'', JStr k),
          (''useOnlyWithinMin'', jnum (tb_useOnlyWithinMin tv)), (''ifExpires'', JStr (expires_str (tb_ifExpires tv))),
          (''intervalsConsulted'', JArr (map consultation_json cs))]
        @ (case find_signal tv k of None \<Rightarrow> [] | Some s \<Rightarrow> [(''receivedAtMs'', jnum (ts_receivedAtMs s))]) @ tv_detail tv now k)))"

definition snapshot_metrics :: "'d tt_tick \<Rightarrow> json \<Rightarrow> buy_locals \<Rightarrow> metric_entry list" where
  "snapshot_metrics tk state loc =
     (let symb = tk_symbol tk
      in first_some
        [if bu_forceSellCooled loc then Some [snd (forceSellCooldownBlock symb state)] else None,
         if bu_lossExitCooled loc then Some [snd (lossCooldownBlock symb state)] else None,
         map_option (\<lambda>v. [reason_metric ''tt_discovery_guardrail_veto'' symb (fst v)]) (bu_guardrailVeto loc),
         map_option (\<lambda>v. [symbol_metric ''tt_discovery_chase_guard_veto'' symb]) (bu_chaseGuardVeto loc),
         map_option (\<lambda>v. [symbol_metric ''tt_discovery_knife_guard_veto'' symb]) (bu_knifeGuardVeto loc),
         map_option (\<lambda>v. [symbol_metric ''tt_regime_exit_entry_block'' symb]) (bu_regimeEntryBlock loc),
         map_option (\<lambda>v. [reason_metric ''tt_regime_filter_veto'' symb (fst v)]) (bu_regimeVeto loc),
         map_option (\<lambda>v. [metric_of ''tt_risk_cap_veto'' (Some (JObj [(''symbol'', JStr symb), (''cap'', JStr (fst v))])) 1]) (bu_riskCapVeto loc),
         map_option (\<lambda>r. [reason_metric ''tt_first_buy_skipped'' symb r]) (bu_skipReason loc)]
        [symbol_metric ''tt_tick_pure_path'' symb])"

text \<open>Every veto line replaces the one before it, so the last one that applies is kept.\<close>

definition snapshot_logs :: "'d tt_tick \<Rightarrow> rat \<Rightarrow> json \<Rightarrow> log_entry list \<Rightarrow> buy_locals \<Rightarrow> log_entry list" where
  "snapshot_logs tk now state logs loc =
     (let symb = tk_symbol tk;
          veto_log = (\<lambda>level name (v :: string \<times> json).
             log_of level name (Some (spread (snd v) [(''symbol'', JStr symb), (''reason'', JStr (fst v))])));
          plain_log = (\<lambda>name c. log_of ''info'' name (Some (spread c [(''symbol'', JStr symb)])))
      in first_some (map (map_option (\<lambda>l. logs @ [l])) (rev
        [if bu_forceSellCooled loc then Some (fst (forceSellCooldownBlock symb state)) else None,
         if bu_lossExitCooled loc then Some (fst (lossCooldownBlock symb state)) else None,
         map_option (\<lambda>v. tv_log (tk_technicals tk) symb now (fst v) (fst (snd v)) (snd (snd v))) (bu_tvVeto loc),
         map_option (plain_log ''tt-technicals-confirming'') (bu_technicalsConfirming loc),
         map_option (\<lambda>v. veto_log (if fst v = ''indicator-unavailable'' then ''debug'' else ''info'') ''tt-indicator-gate-veto'' v) (bu_indicatorVeto loc),
         map_option (veto_log ''info'' ''tt-risk-cap-veto'') (bu_riskCapVeto loc),
         map_option (\<lambda>v. veto_log (if fst v = ''regime-unavailable'' then ''debug'' else ''info'') ''tt-regime-filter-veto'' v) (bu_regimeVeto loc),
         map_option (plain_log (if bu_regimeRequireUptrend loc then ''tt-regime-require-uptrend-blocked'' else ''tt-regime-exit-entry-blocked''))
           (bu_regimeEntryBlock loc),
         map_option (veto_log ''warn'' ''tt-discovery-guardrail-veto'') (bu_guardrailVeto loc),
         map_option (plain_log ''tt-discovery-chase-guard'') (bu_chaseGuardVeto loc),
         map_option (plain_log ''tt-discovery-knife-guard'') (bu_knifeGuardVeto loc)]))
        logs)"

definition entry_context_of :: "'d tt_tick \<Rightarrow> rat \<Rightarrow> json \<Rightarrow> buy_locals \<Rightarrow> entry_context" where
  "entry_context_of tk now state loc =
     \<lparr>en_forceSellCooled = bu_forceSellCooled loc,
      en_forceSellDetail = (if bu_forceSellCooled loc \<and> jget state ''forceSellCooldownUntilMs'' \<noteq> JNull
        then Some (JObj [(''cooldownUntilMs'', jget state ''forceSellCooldownUntilMs'')]) else None),
      en_lossExitCooled = bu_lossExitCooled loc,
      en_lossDetail = (if bu_lossExitCooled loc
        then Some (JObj [(''minutesLeft'', case lossCooldownMinutesLeft state (tk_config tk) now of Some m \<Rightarrow> jnum m | None \<Rightarrow> JNum JsNaN)]) else None),
      en_regimeEntryBlock = bu_regimeEntryBlock loc, en_regimeRequireUptrend = bu_regimeRequireUptrend loc,
      en_regimeVeto = bu_regimeVeto loc, en_riskCapVeto = bu_riskCapVeto loc, en_guardrailVeto = bu_guardrailVeto loc,
      en_chaseGuardVeto = bu_chaseGuardVeto loc, en_knifeGuardVeto = bu_knifeGuardVeto loc,
      en_tvVeto = map_option (\<lambda>v. (tv_veto_str (fst v), JObj ((''interval'', JStr (fst (snd v))) # tv_detail (tk_technicals tk) now (fst (snd v)))))
        (bu_tvVeto loc),
      en_technicalsConfirming = bu_technicalsConfirming loc, en_indicatorVeto = bu_indicatorVeto loc,
      en_awaitingTrigger = bu_awaitingTrigger loc, en_skipReason = bu_skipReason loc\<rparr>"

definition snapshot :: "'d tt_tick \<Rightarrow> rat \<Rightarrow> json \<Rightarrow> log_entry list \<Rightarrow> buy_locals \<Rightarrow> tt_output" where
  "snapshot tk now state logs loc =
     tick_out
       (spread state ([(''entryConfirmCount'', bu_entryConfirmCount loc), (''entryBlocker'', resolveEntryBlocker (entry_context_of tk now state loc))]
          @ (if bu_timeoutCancels loc \<noteq> [] then [(''currentGridTradeIndex'', JNull)] else [])))
       (bu_timeoutCancels loc @ bu_cancels loc @ [snapshot_event tk now])
       (snapshot_logs tk now state logs loc) (snapshot_metrics tk state loc)"

definition buyAndSnapshotBranch :: "'d decimal_js \<Rightarrow> 'd tt_tick \<Rightarrow> tick_scalars \<Rightarrow> json \<Rightarrow> log_entry list \<Rightarrow> branch_outcome option" where
  "buyAndSnapshotBranch D tk sc state logs = do {
     let logs1 = logs @ snd (snd (regime_entry D tk (sc_now sc) state));
     added \<leftarrow> pyramid_stage D tk state logs1 (initial_locals D tk (sc_now sc) state);
     (case added of
        Inl out \<Rightarrow> Some (Terminal out)
      | Inr loc \<Rightarrow>
          map_option (\<lambda>r. case r of Inl out \<Rightarrow> Terminal out | Inr (s, l, loc') \<Rightarrow> Terminal (snapshot tk (sc_now sc) s l loc'))
            (entry_stage D tk sc state logs1 loc))
   }"

section \<open>The tick\<close>

definition or_null :: "json \<Rightarrow> string \<Rightarrow> string \<times> json" where
  "or_null s k = (k, jcoalesce (jget s k) JNull)"

definition normalizeTickState :: "json \<Rightarrow> json" where
  "normalizeTickState s =
     (let avg = jcoalesce (jget s ''avgEntryPrice'') JNull
      in spread s
        [(''avgEntryPrice'', avg), or_null s ''heldQuantity'', or_null s ''highSinceBuy'',
         (''breakEvenArmed'', jcoalesce (jget s ''breakEvenArmed'') (JBool False)), or_null s ''currentGridTradeIndex'',
         or_null s ''autoTriggerBuyAtMs'', or_null s ''disabledUntilMs'', or_null s ''bullAddCount'', or_null s ''lastBullAddPrice'',
         (''discoveryEntry'', jcoalesce (jget s ''discoveryEntry'') (JBool False)), or_null s ''entryAtMs'',
         (''forceSellFirstSeenAtMs'', if avg = JNull then JNull else jcoalesce (jget s ''forceSellFirstSeenAtMs'') JNull),
         or_null s ''forceSellCooldownUntilMs'', or_null s ''lastLossExitAt'', or_null s ''lastLossExitReason'',
         (''entryConfirmCount'', jcoalesce (jget s ''entryConfirmCount'') (jnum 0)), or_null s ''entryBlocker'',
         or_null s ''protectiveStopBlocker'', or_null s ''exitBlocker''])"

type_synonym branch = "json \<Rightarrow> log_entry list \<Rightarrow> branch_outcome option"

definition BRANCHES :: "'d decimal_js \<Rightarrow> 'd tt_tick \<Rightarrow> tt_override option \<Rightarrow> tick_scalars \<Rightarrow> branch list" where
  "BRANCHES D tk override sc =
     [applyDisabledClearBranch (sc_now sc), overrideBranch D tk override (sc_now sc), autoTriggerBuyBranch D tk (sc_now sc),
      disabledGateBranch, lbpClearBranch D tk, sellGateBranch D tk sc, buyAndSnapshotBranch D tk sc]"

text \<open>Falling off the end throws.\<close>

fun run_branches :: "branch list \<Rightarrow> json \<Rightarrow> log_entry list \<Rightarrow> tt_output option" where
  "run_branches [] state logs = None"
| "run_branches (b # bs) state logs =
     (case b state logs of
        None \<Rightarrow> None
      | Some Pass \<Rightarrow> run_branches bs state logs
      | Some (Mutate s l) \<Rightarrow> run_branches bs s l
      | Some (Terminal out) \<Rightarrow> Some out)"

definition tt_computeTick :: "'d decimal_js \<Rightarrow> 'd tt_tick \<Rightarrow> tt_override option \<Rightarrow> rat \<Rightarrow> json \<Rightarrow> tt_output option" where
  "tt_computeTick D tk override now rawState =
     Option.bind (buildScalars tk now) (\<lambda>sc. run_branches (BRANCHES D tk override sc) (normalizeTickState rawState) [])"

end
