(* ===== verification/Tt_Tick_Safety.thy ===== *)
theory Tt_Tick_Safety
  imports Tt_Tick
begin

text \<open>
  What one tick of the trailing-trade strategy may do: the orders it decides on, the position it hands on,
  and the gates an entry has passed. The chain of branches is the interface \<open>tick_chain\<close>: what every
  branch promises of the state it hands on and of the output it ends the tick with holds of the tick.
\<close>

section \<open>The chain\<close>

locale tick_chain =
  fixes branches :: "branch list" and step :: "json \<Rightarrow> json \<Rightarrow> bool" and good :: "json \<Rightarrow> tt_output \<Rightarrow> bool"
  assumes mutate_step: "b \<in> set branches \<Longrightarrow> b s l = Some (Mutate s' l') \<Longrightarrow> step s s'"
    and terminal_good: "b \<in> set branches \<Longrightarrow> b s l = Some (Terminal out) \<Longrightarrow> good s out"
    and good_step: "step s s' \<Longrightarrow> good s' out \<Longrightarrow> good s out"
begin

lemma run_good: "set bs \<subseteq> set branches \<Longrightarrow> run_branches bs s l = Some out \<Longrightarrow> good s out"
proof (induction bs arbitrary: s l)
  case (Cons b bs)
  obtain r where r: "b s l = Some r" using Cons.prems(2) by (cases "b s l") simp_all
  show ?case
  proof (cases r)
    case Pass
    then show ?thesis using Cons r by simp
  next
    case (Mutate s' l')
    then show ?thesis using Cons r mutate_step [of b s l s' l'] good_step by simp
  next
    case (Terminal out')
    then show ?thesis using Cons.prems r terminal_good [of b s l out'] by simp
  qed
qed simp

lemmas tick_good = run_good [OF order_refl]

end

section \<open>Orders on the tick's symbol\<close>

fun is_order :: "decision \<Rightarrow> bool" where
  "is_order (PlaceOrder i p) = True"
| "is_order (ReplaceOrder oid r i p) = True"
| "is_order _ = False"

text \<open>Our own protective stop among the open orders, by exchange id.\<close>

definition own_resting :: "'d tt_input \<Rightarrow> int \<Rightarrow> bool" where
  "own_resting inp oid \<longleftrightarrow>
     (\<exists>ord \<in> set (tn_openOrders inp). oo_orderId ord = oid \<and> oo_side ord = SELL \<and>
        tt_protectiveStopClientOrderId (tn_profileId inp) (tn_symbol inp) = Some (oo_clientOrderId ord))"

fun sound_decision :: "'d tt_input \<Rightarrow> decision \<Rightarrow> bool" where
  "sound_decision inp (PlaceOrder i p) \<longleftrightarrow> oi_symbol i = tn_symbol inp"
| "sound_decision inp (ReplaceOrder oid r i p) \<longleftrightarrow> oi_symbol i = tn_symbol inp \<and> own_resting inp oid"
| "sound_decision inp (CancelOrder oid r z) \<longleftrightarrow> own_resting inp oid \<or> (\<exists>ord \<in> set (open_buys inp). oo_orderId ord = oid)"
| "sound_decision inp Noop \<longleftrightarrow> True"
| "sound_decision inp (EmitEvent k v) \<longleftrightarrow> True"
| "sound_decision inp (SetKv k v) \<longleftrightarrow> False"
| "sound_decision inp (DeleteKv k) \<longleftrightarrow> False"

definition sound_decisions :: "'d tt_input \<Rightarrow> decision list \<Rightarrow> bool" where
  "sound_decisions inp ds \<longleftrightarrow> list_all (sound_decision inp) ds \<and> length (filter is_order ds) \<le> 1"

lemma intent_fields [simp]:
  "oi_symbol (tt_intent inp side reason cid meta) = tn_symbol inp" "oi_side (tt_intent inp side reason cid meta) = side"
  by (simp_all add: tt_intent_def)

lemma sound_cancels:
  "sound_decisions inp (map (\<lambda>ord. CancelOrder (oo_orderId ord) (reason ord) z) (filter P (open_buys inp)) @ ds) \<longleftrightarrow> sound_decisions inp ds"
  by (auto simp: sound_decisions_def list_all_iff filter_map comp_def)

lemmas sound_all_cancels = sound_cancels [where P = "\<lambda>_. True", simplified]

lemma sound_one:
  "sound_decisions inp [Noop]" "sound_decisions inp [EmitEvent k v]" "sound_decisions inp []"
  "sound_decisions inp [PlaceOrder i p] \<longleftrightarrow> oi_symbol i = tn_symbol inp"
  by (simp_all add: sound_decisions_def)

lemma sound_attribute: "sound_decisions inp (attributeToOverride ds oid) = sound_decisions inp ds"
proof -
  have "sound_decision inp (attribute oid d) = sound_decision inp d" "is_order (attribute oid d) = is_order d" for d
    by (cases d; simp)+
  then show ?thesis by (simp add: sound_decisions_def attributeToOverride_def list_all_iff filter_map comp_def)
qed

lemma own_restingI:
  assumes "findRestingProtectiveStop (tn_openOrders inp) cid = Some ord" "tt_protectiveStopClientOrderId (tn_profileId inp) (tn_symbol inp) = Some cid"
  shows "own_resting inp (oo_orderId ord)"
  unfolding own_resting_def using resting_is_ours [OF assms(1)] assms(2) by (intro bexI [of _ ord]) simp_all

text \<open>A closing sell is one order, which takes the place of our resting stop when there is one.\<close>

lemma closing_sell:
  assumes "closingSellDecisions inp (PlaceOrder i p) = Some ds"
  obtains (Placed) "ds = [PlaceOrder i p]"
  | (Replaced) oid where "ds = [ReplaceOrder oid SUPERSEDED i p]" "own_resting inp oid"
  using assms by (auto simp: closingSellDecisions_def tt_findRestingProtectiveStop_def own_restingI split: option.splits)

lemma closing_sound: "closingSellDecisions inp (PlaceOrder i p) = Some ds \<Longrightarrow> oi_symbol i = tn_symbol inp \<Longrightarrow> sound_decisions inp ds"
  by (erule closing_sell) (auto simp: sound_decisions_def)

lemma emission_place:
  assumes "sellEmissionOrSkip D inp state reason prefix seed extra = Some (SellEmit d l m)"
  obtains i p where "d = PlaceOrder i p" "oi_symbol i = tn_symbol inp" "oi_side i = SELL"
  using assms by (cases rule: emission_cases) (auto simp: sell_decision_def)

lemma gate_place:
  assumes "evaluateSellGate D inp state = Some (SellEmit d l m)"
  obtains i p where "d = PlaceOrder i p" "oi_symbol i = tn_symbol inp" "oi_side i = SELL"
  using assms
proof (cases rule: evaluateSellGate_cases)
  case (Held res' b)
  then show ?thesis by (cases res') (auto simp: is_emit_def)
qed (auto elim: emission_place intro: that)

lemma arm_sound:
  assumes "evaluateProtectiveStop D inp state = Some r"
  shows "sound_decisions inp (ar_decisions (ta_arm r))"
proof -
  have sound: "sound_decision inp d" if "own_stop_decision inp cid d" "tt_protectiveStopClientOrderId (tn_profileId inp) (tn_symbol inp) = Some cid" for cid d
    using that by (cases d) (auto simp: own_stop_order_def intro: own_restingI)
  show ?thesis using assms
  proof (cases rule: evaluateProtectiveStop_cases)
    case (Flat cid)
    then show ?thesis using sound by (auto simp: sound_decisions_def list_all_iff intro: order_trans [OF length_filter_le])
  next
    case (Armed cid)
    then show ?thesis using sound by (auto simp: sound_decisions_def list_all_iff intro: order_trans [OF length_filter_le])
  qed (simp add: sound_decisions_def)
qed

section \<open>The position a tick hands on\<close>

definition keeps :: "json \<Rightarrow> json \<Rightarrow> bool" where
  "keeps s s' \<longleftrightarrow> jget s' ''heldQuantity'' = jget s ''heldQuantity'' \<and> jget s' ''avgEntryPrice'' \<in> {jget s ''avgEntryPrice'', JNull}"

lemma keeps_refl [simp]: "keeps s s"
  by (simp add: keeps_def)

lemma keeps_trans: "keeps s s' \<Longrightarrow> keeps s' s'' \<Longrightarrow> keeps s s''"
  by (auto simp: keeps_def)

fun safe_field :: "string \<times> json \<Rightarrow> bool" where
  "safe_field (k, v) \<longleftrightarrow> k \<noteq> ''heldQuantity'' \<and> (k = ''avgEntryPrice'' \<longrightarrow> v = JNull)"

lemma keeps_spread [simp]:
  assumes "list_all safe_field kvs"
  shows "keeps s (spread s kvs)"
proof -
  have safe: "k \<noteq> ''heldQuantity'' \<and> (k = ''avgEntryPrice'' \<longrightarrow> v = JNull)" if "(k, v) \<in> set kvs" for k v
    using assms that by (auto simp: list_all_iff)
  show ?thesis by (auto simp: keeps_def jget_spread split: option.splits dest!: map_of_SomeD dest: safe)
qed

lemma keeps_after [simp]: "keeps s s' \<Longrightarrow> list_all safe_field kvs \<Longrightarrow> keeps s (spread s' kvs)"
  by (rule keeps_trans [OF _ keeps_spread])

lemma safe_fields [simp]:
  "list_all safe_field (clearedSellPosition auto_at)" "list_all safe_field (lossExitStamp D r p v now)"
  "list_all safe_field (loss_stamp_of D tk now s m)" "list_all safe_field entered" "list_all safe_field clearedAddTracking"
  "list_all safe_field (entry_stamps c now e a)"
  by (simp_all add: clearedSellPosition_def clearedAddTracking_def lossExitStamp_def loss_stamp_of_def entered_def entry_stamps_def
      split: option.splits)

lemma keeps_unblocked [simp]: "keeps s (unblocked s)"
  by (simp add: unblocked_def keeps_spread)

definition output_ok :: "'d tt_input \<Rightarrow> json \<Rightarrow> tt_output \<Rightarrow> bool" where
  "output_ok inp s out \<longleftrightarrow> sound_decisions inp (to_decisions out) \<and> keeps s (to_nextState out)"

lemma tick_out_fields [simp]:
  "to_decisions (tick_out s ds ls ms) = ds" "to_nextState (tick_out s ds ls ms) = s" "to_overrideDecline (tick_out s ds ls ms) = None"
  "to_decisions (declined s ls ms r) = [Noop]" "to_nextState (declined s ls ms r) = unblocked s" "to_overrideDecline (declined s ls ms r) = Some r"
  by (simp_all add: tick_out_def declined_def)

lemma output_ok_step: "keeps s s' \<Longrightarrow> output_ok inp s' out \<Longrightarrow> output_ok inp s out"
  by (auto simp: output_ok_def intro: keeps_trans)

lemma declined_ok: "output_ok inp s (declined s ls ms r)"
  by (simp add: output_ok_def sound_one)

lemma noop_ok: "keeps s s' \<Longrightarrow> output_ok inp s (tick_out s' [Noop] ls ms)"
  by (simp add: output_ok_def sound_one)

section \<open>Entries\<close>

lemma grid_ok:
  assumes "evaluateGridBuy D tk state now forced = Some (GridEmit s ds l i)"
  shows "sound_decisions (tk_input tk) ds" "keeps state s"
proof -
  obtain isEntry level levels where "grid_level D tk state now forced i isEntry level = Some (GridEmit s ds l i)"
    using assms by (rule grid_buy_emit)
  then obtain cid p where e: "ds = stale_cancels (tk_input tk) cid i @ [PlaceOrder (grid_intent (tk_input tk) cid i) p]"
    "s = spread state ((''currentGridTradeIndex'', jnum (of_int i)) # entry_stamps (tk_config tk) now isEntry (isEntry \<and> enter_on_add tk))"
    by (rule grid_level_emit)
  show "sound_decisions (tk_input tk) ds" by (simp add: e(1) stale_cancels_def sound_all_cancels sound_one grid_intent_def)
  show "keeps state s" unfolding e(2) by (rule keeps_spread) simp
qed

lemma first_buy_place:
  assumes "buildFirstBuyDecision D inp q = Some d"
  obtains i p where "d = PlaceOrder i p" "oi_symbol i = tn_symbol inp" "oi_side i = BUY"
  using assms by (auto simp: buildFirstBuyDecision_def bind_eq_Some_conv)

lemma single_entry_place:
  assumes "emitFirstBuyTvForced D inp state = Some (SingleEmit d q)"
  obtains i p where "d = PlaceOrder i p" "oi_symbol i = tn_symbol inp" "oi_side i = BUY"
proof -
  have "\<exists>q. buildFirstBuyDecision D inp q = Some d"
    using assms by (auto simp: emitFirstBuyTvForced_def split: bind_splits if_split_asm entry_budget.split_asm quantity_result.split_asm)
  then show ?thesis using that by (auto elim: first_buy_place)
qed

lemma forced_ok:
  assumes "emitForcedFirstEntry D tk state now = Some (ForcedEmit s ds q l c)"
  shows "sound_decisions (tk_input tk) ds \<and> keeps state s \<and> (\<exists>d \<in> set ds. is_order d)"
proof -
  let ?s = "spread state [(''currentGridTradeIndex'', JNull), (''discoveryEntry'', JBool False), (''entryAtMs'', JNull)]"
  obtain levels where levels: "grid_levels (tk_config tk) = Some levels"
    using assms by (auto simp: emitForcedFirstEntry_def bind_eq_Some_conv split: if_splits)
  show ?thesis
  proof (cases "levels = []")
    case True
    then obtain r where "emitFirstBuyTvForced D (tk_input tk) state = Some r" using assms levels by (auto simp: emitForcedFirstEntry_def split: if_splits)
    then obtain d q' where "emitFirstBuyTvForced D (tk_input tk) state = Some (SingleEmit d q')" "s = state" "ds = [d]"
      using assms levels True by (cases r) (auto simp: emitForcedFirstEntry_def split: if_splits)
    then show ?thesis by (auto simp: sound_one elim: single_entry_place)
  next
    case False
    then obtain r where "evaluateGridBuy D tk ?s now True = Some r" using assms levels by (auto simp: emitForcedFirstEntry_def split: if_splits)
    then obtain lg i where g: "evaluateGridBuy D tk ?s now True = Some (GridEmit s ds lg i)"
      using assms levels False by (cases r) (auto simp: emitForcedFirstEntry_def forced_of_grid_def split: if_splits)
    have "keeps state ?s" by (rule keeps_spread) simp
    moreover have "\<exists>d \<in> set ds. is_order d" using g by (auto elim!: grid_buy_emit grid_level_emit)
    ultimately show ?thesis using grid_ok [OF g] keeps_trans by blast
  qed
qed

lemma pyramid_ok:
  assumes "evaluateBullPyramid D inp state = Some (PyramidAdd ds l s i)"
  shows "sound_decisions inp ds" "keeps state s"
proof -
  obtain n q where "pyramid_add inp state (n + 1) q = Some (PyramidAdd ds l s i)"
    using assms by (auto simp: evaluateBullPyramid_def Let_def split: bind_splits option.split_asm if_split_asm quantity_result.split_asm)
  then obtain d where d: "buildPyramidBuyDecision inp q (n + 1) = Some d" "ds = [d]"
    and s: "s = spread state [(''bullAddCount'', jnum (of_int (n + 1))), (''lastBullAddPrice'', JStr (tn_currentPrice inp))]"
    by (auto simp: pyramid_add_def)
  show "sound_decisions inp ds" using d by (auto simp: buildPyramidBuyDecision_def sound_one)
  show "keeps state s" unfolding s by (rule keeps_spread) simp
qed

section \<open>Every branch\<close>

lemma manual_ok: "manual_override D inp state oid payload = Some out \<Longrightarrow> output_ok inp state out"
  by (cases "computeManualOrderQuantity D payload (tn_currentPrice inp) (tn_filters inp)")
     (auto simp: manual_override_def declined_ok output_ok_def sound_one buildManualOrderDecision_def bind_eq_Some_conv
        intro: closing_sound split: if_splits)

lemma trigger_buy_ok:
  assumes "trigger_buy_override D tk state now oid = Some out"
  shows "output_ok (tk_input tk) state out"
proof (cases "forceSellCooldownActive state now")
  case True
  then show ?thesis using assms by (auto simp: trigger_buy_override_def Let_def declined_ok)
next
  case False
  then obtain entry where e: "emitForcedFirstEntry D tk state now = Some entry" using assms by (auto simp: trigger_buy_override_def)
  show ?thesis
  proof (cases entry)
    case (ForcedEmit s ds q l c)
    then have "to_decisions out = ds" "to_nextState out = unblocked s" using assms False e by (auto simp: trigger_buy_override_def)
    moreover have "sound_decisions (tk_input tk) ds" "keeps state s" using forced_ok [OF e [unfolded ForcedEmit]] by blast+
    ultimately show ?thesis by (simp add: output_ok_def unblocked_def)
  qed (use assms False e in \<open>auto simp: trigger_buy_override_def trigger_buy_skip_def declined_ok\<close>)
qed

lemma trigger_sell_ok:
  assumes "trigger_sell_override D inp state now oid = Some out"
  shows "output_ok inp state out"
proof -
  obtain recl free r where r: "reclaimableOwnSellBase D inp = Some recl"
    "resolveHeldForSell D state (si_baseAsset (tn_symbolInfo inp)) (tn_account inp) recl = Some free"
    "computeSellQuantity D free (tn_currentPrice inp) (tn_filters inp) = Some r"
    using assms by (auto simp: trigger_sell_override_def bind_eq_Some_conv)
  show ?thesis using assms r
    by (cases r) (auto simp: trigger_sell_override_def declined_ok output_ok_def sound_one buildSellDecision_def sell_decision_def bind_eq_Some_conv
        intro: closing_sound)
qed

lemma override_ok: "handleOverride D tk state now ov = Some out \<Longrightarrow> output_ok (tk_input tk) state out"
  by (cases ov)
     (auto simp: handleOverride_def overrideOutput_def output_ok_def sound_attribute dest: manual_ok trigger_buy_ok trigger_sell_ok)

lemma auto_skip_ok: "keeps s s' \<Longrightarrow> autoTriggerSkipTerminal s' symb r lv ctx = Terminal out \<Longrightarrow> output_ok inp s out"
  by (auto simp: autoTriggerSkipTerminal_def intro!: noop_ok)

lemma auto_entry_ok:
  assumes "auto_trigger_entry D tk now state = Some (Terminal out)"
  shows "output_ok (tk_input tk) state out"
proof -
  let ?c = "spread state [(''autoTriggerBuyAtMs'', JNull)]"
  have c: "keeps state ?c" by (rule keeps_spread) simp
  obtain entry where e: "emitForcedFirstEntry D tk ?c now = Some entry" using assms by (auto simp: auto_trigger_entry_def Let_def)
  show ?thesis
  proof (cases entry)
    case (ForcedEmit s ds q l n)
    then have "to_decisions out = ds" "to_nextState out = spread s entered" using assms e by (auto simp: auto_trigger_entry_def Let_def)
    moreover have f: "sound_decisions (tk_input tk) ds" "keeps ?c s" using forced_ok [OF e [unfolded ForcedEmit]] by blast+
    moreover have "keeps state (spread s entered)" using keeps_trans [OF c f(2)] by simp
    ultimately show ?thesis by (simp add: output_ok_def)
  next
    case ForcedWait
    then show ?thesis using assms e by (auto simp: auto_trigger_entry_def Let_def intro: noop_ok)
  next
    case (ForcedSkip r ctx)
    then have "autoTriggerSkipTerminal ?c (tk_symbol tk) r ''warn'' ctx = Terminal out" using assms e by (simp add: auto_trigger_entry_def Let_def)
    then show ?thesis by (rule auto_skip_ok [OF c])
  qed
qed

lemma auto_entry_terminal: "auto_trigger_entry D tk now state \<noteq> Some (Mutate s l)"
proof (cases "emitForcedFirstEntry D tk (spread state [(''autoTriggerBuyAtMs'', JNull)]) now")
  case (Some entry)
  then show ?thesis by (cases entry) (simp_all add: auto_trigger_entry_def autoTriggerSkipTerminal_def Let_def)
qed (simp add: auto_trigger_entry_def)

lemma auto_branch_no_mutate: "autoTriggerBuyBranch D tk now state logs \<noteq> Some (Mutate s l)"
  by (auto simp: autoTriggerBuyBranch_def Let_def auto_entry_terminal autoTriggerSkipTerminal_def)

lemma auto_branch_ok: "autoTriggerBuyBranch D tk now state logs = Some (Terminal out) \<Longrightarrow> output_ok (tk_input tk) state out"
  by (auto simp: autoTriggerBuyBranch_def Let_def intro: noop_ok auto_entry_ok auto_skip_ok [OF keeps_refl] split: if_splits)

lemma lbp_keeps: "maybeClearAvgEntryPrice D inp state = Some (Some (s, l)) \<Longrightarrow> keeps state s"
  by (auto simp: maybeClearAvgEntryPrice_def lbp_clear_flat_def lbp_parse_failed_def Let_def split: if_split_asm option.split_asm json.split_asm)

lemma force_sell_now_ok: "force_sell_now D tk now c m state logs = Some out \<Longrightarrow> output_ok (tk_input tk) state out"
  by (auto simp: force_sell_now_def Let_def output_ok_def sound_one snapshot_event_def elim!: emission_place intro: closing_sound
      split: option.split_asm sell_gate_result.split_asm bind_splits)

text \<open>A stage of the exits ends the tick well or hands on a state with the same position.\<close>

definition stage_ok :: "'d tt_input \<Rightarrow> json \<Rightarrow> (tt_output + 'b) \<Rightarrow> ('b \<Rightarrow> json) \<Rightarrow> bool" where
  "stage_ok inp state r st \<longleftrightarrow> (case r of Inl out \<Rightarrow> output_ok inp state out | Inr x \<Rightarrow> keeps state (st x))"

lemma stage_ok_simps [simp]:
  "stage_ok inp state (Inl out) st = output_ok inp state out" "stage_ok inp state (Inr x) st = keeps state (st x)"
  by (simp_all add: stage_ok_def)

lemma stage_ok_step: "keeps s s' \<Longrightarrow> stage_ok inp s' r st \<Longrightarrow> stage_ok inp s r st"
  by (cases r) (auto intro: output_ok_step keeps_trans)

lemma force_sell_stage_ok:
  assumes "force_sell_stage D tk now state logs = Some r"
  shows "stage_ok (tk_input tk) state r fst"
  using assms
  by (auto simp: force_sell_stage_def Let_def split: bind_splits option.split_asm if_split_asm
      dest!: force_sell_now_ok intro: output_ok_step [rotated])

lemma ladder_stage_ok:
  assumes "ladder_stage D tk now state logs = Some r"
  shows "stage_ok (tk_input tk) state r fst"
proof -
  obtain res where res: "evaluateSellGate D (tk_input tk) state = Some res" using assms by (auto simp: ladder_stage_def bind_eq_Some_conv)
  show ?thesis
  proof (cases res)
    case (SellEmit d l m)
    obtain i p where "d = PlaceOrder i p" "oi_symbol i = tk_symbol tk" using res SellEmit by (auto elim: gate_place)
    then show ?thesis using assms res SellEmit by (auto simp: ladder_stage_def output_ok_def bind_eq_Some_conv intro: closing_sound)
  next
    case (SellBumpHigh s b)
    have "keeps state s" using res [unfolded SellBumpHigh]
    proof (cases rule: evaluateSellGate_cases)
      case (Held res' b)
      then show ?thesis by (cases res') (auto simp: raises_def)
    qed simp
    then show ?thesis using assms res SellBumpHigh by (auto simp: ladder_stage_def)
  qed (use assms res in \<open>auto simp: ladder_stage_def\<close>)
qed

lemma regime_exit_stage_ok:
  assumes "regime_exit_stage D tk now state logs b = Some r"
  shows "stage_ok (tk_input tk) state r fst"
  using assms
  by (auto simp: regime_exit_stage_def output_ok_def elim!: emission_place intro: closing_sound
      split: regime_verdict.split_asm option.split_asm sell_gate_result.split_asm)

lemma exit_stages_ok:
  assumes "exit_stages D tk sc state logs = Some r"
  shows "stage_ok (tk_input tk) state r fst"
proof (cases "\<not> truthy (sell_field (tk_config tk) ''enabled'') \<or> jget state ''avgEntryPrice'' = JNull \<or> sc_hasOpenSell sc")
  case True
  then show ?thesis using assms by (auto simp: exit_stages_def)
next
  case False
  then obtain x where x: "force_sell_stage D tk (sc_now sc) state logs = Some x" using assms by (auto simp: exit_stages_def bind_eq_Some_conv)
  note x' = force_sell_stage_ok [OF x]
  show ?thesis
  proof (cases x)
    case (Inl out)
    then show ?thesis using assms x x' False by (auto simp: exit_stages_def)
  next
    case (Inr sl)
    obtain s l where sl: "sl = (s, l)" by (cases sl)
    then obtain y where y: "ladder_stage D tk (sc_now sc) s l = Some y" using assms x Inr False by (auto simp: exit_stages_def bind_eq_Some_conv)
    have s: "keeps state s" using x' Inr sl by simp
    show ?thesis
    proof (cases y)
      case (Inl out)
      then show ?thesis using assms x y sl Inr False stage_ok_step [OF s ladder_stage_ok [OF y]] by (auto simp: exit_stages_def)
    next
      case y': (Inr z)
      obtain s' l' b where z: "z = (s', l', b)" by (cases z)
      have "keeps state s'" using stage_ok_step [OF s ladder_stage_ok [OF y]] y' z by simp
      moreover have "regime_exit_stage D tk (sc_now sc) s' l' b = Some r" using assms x y sl Inr y' z False by (auto simp: exit_stages_def)
      ultimately show ?thesis using regime_exit_stage_ok stage_ok_step by blast
    qed
  qed
qed

lemma persist_keeps: "persist_blocker D tk sc state b = Some s \<Longrightarrow> keeps state s"
  by (auto simp: persist_blocker_def split: if_split_asm option.split_asm)

definition outcome_ok :: "'d tt_input \<Rightarrow> json \<Rightarrow> branch_outcome \<Rightarrow> bool" where
  "outcome_ok inp state r \<longleftrightarrow> (case r of Pass \<Rightarrow> True | Mutate s l \<Rightarrow> keeps state s | Terminal out \<Rightarrow> output_ok inp state out)"

lemma outcome_ok_simps [simp]:
  "outcome_ok inp state Pass" "outcome_ok inp state (Mutate s l) = keeps state s" "outcome_ok inp state (Terminal out) = output_ok inp state out"
  by (simp_all add: outcome_ok_def)

lemma outcome_ok_step: "keeps s s' \<Longrightarrow> outcome_ok inp s' r \<Longrightarrow> outcome_ok inp s r"
  by (cases r) (auto intro: output_ok_step keeps_trans)

lemma arm_stage_ok: "arm_stage D tk state logs = Some r \<Longrightarrow> outcome_ok (tk_input tk) state r"
  by (auto simp: arm_stage_def Let_def output_ok_def unblocked_def split: if_split_asm dest!: arm_sound)

lemma sell_branch_ok:
  assumes "sellGateBranch D tk sc state logs = Some r"
  shows "outcome_ok (tk_input tk) state r"
proof -
  obtain x where x: "exit_stages D tk sc state logs = Some x" using assms by (auto simp: sellGateBranch_def bind_eq_Some_conv)
  note x' = exit_stages_ok [OF x]
  show ?thesis
  proof (cases x)
    case (Inl out)
    then show ?thesis using assms x x' by (auto simp: sellGateBranch_def)
  next
    case (Inr z)
    obtain s l b where z: "z = (s, l, b)" by (cases z)
    then obtain s' where s': "persist_blocker D tk sc s b = Some s'" "arm_stage D tk s' l = Some r"
      using assms x Inr by (auto simp: sellGateBranch_def bind_eq_Some_conv)
    have "keeps state s'" using x' Inr z persist_keeps [OF s'(1)] keeps_trans by simp
    then show ?thesis using arm_stage_ok [OF s'(2)] outcome_ok_step by blast
  qed
qed

lemma pyramid_stage_ok:
  assumes "pyramid_stage D tk state logs loc = Some (Inl out)"
  shows "output_ok (tk_input tk) state out"
proof -
  obtain r where "evaluateBullPyramid D (tk_input tk) state = Some r" using assms by (auto simp: pyramid_stage_def split: if_splits)
  then show ?thesis using assms
    by (cases r) (auto simp: pyramid_stage_def output_ok_def unblocked_def pyramid_ok split: if_splits)
qed

lemma grid_normalised_keeps: "keeps state (fst (grid_normalised tk state))"
  by (auto simp: grid_normalised_def Let_def)

lemma grid_path_ok:
  assumes "grid_path D tk now state logs loc = Some r"
  shows "stage_ok (tk_input tk) state r fst"
proof -
  let ?s = "fst (grid_normalised tk state)"
  obtain g where g: "evaluateGridBuy D tk ?s now False = Some g" using assms by (auto simp: grid_path_def Let_def)
  show ?thesis
  proof (cases g)
    case (GridEmit s ds l i)
    have "sound_decisions (tk_input tk) ds" "keeps state s"
      using grid_ok [OF g [unfolded GridEmit]] grid_normalised_keeps keeps_trans by blast+
    then show ?thesis using assms g GridEmit by (auto simp: grid_path_def Let_def output_ok_def)
  qed (use assms g grid_normalised_keeps in \<open>auto simp: grid_path_def Let_def\<close>)
qed

lemma single_buy_ok:
  assumes "single_buy D tk state logs loc = Some (Inl out)"
  shows "output_ok (tk_input tk) state out"
  using assms
  by (auto simp: single_buy_def output_ok_def sound_one elim!: first_buy_place split: bind_splits gate_result.split_asm sum.split_asm)

lemma single_path_ok:
  assumes "single_path D tk now state logs loc = Some (Inl out)"
  shows "output_ok (tk_input tk) state out"
  using assms by (auto simp: single_path_def Let_def dest: single_buy_ok split: bind_splits tv_result.split_asm if_split_asm)

lemma single_stage_ok: "single_path D tk now state logs loc = Some z \<Longrightarrow> stage_ok (tk_input tk) state (map_sum id (\<lambda>l. (state, logs', l)) z) fst"
  by (cases z) (auto dest: single_path_ok)

lemma entry_stage_ok:
  assumes "entry_stage D tk sc state logs loc = Some r"
  shows "stage_ok (tk_input tk) state r fst"
  using assms by (auto simp: entry_stage_def dest: grid_path_ok single_stage_ok split: if_split_asm bind_splits)

text \<open>No path to the snapshot touches the cancellations collected before it.\<close>

definition same_cancels :: "buy_locals \<Rightarrow> buy_locals \<Rightarrow> bool" where
  "same_cancels loc loc' \<longleftrightarrow> bu_cancels loc' = bu_cancels loc \<and> bu_timeoutCancels loc' = bu_timeoutCancels loc"

lemma same_cancels_refl [simp]: "same_cancels loc loc"
  by (simp add: same_cancels_def)

lemma pyramid_stage_cancels: "pyramid_stage D tk state logs loc = Some (Inr loc') \<Longrightarrow> same_cancels loc loc'"
  by (cases "evaluateBullPyramid D (tk_input tk) state")
     (auto simp: pyramid_stage_def same_cancels_def split: if_split_asm pyramid_result.split_asm)

lemma grid_vetoes_cancels: "same_cancels loc (grid_vetoes g loc)"
  by (cases "(g, loc)" rule: grid_vetoes.cases) (simp_all add: same_cancels_def)

lemma grid_path_cancels:
  assumes "grid_path D tk now state logs loc = Some (Inr (s, l, loc'))"
  shows "same_cancels loc loc'"
proof -
  obtain g where "evaluateGridBuy D tk (fst (grid_normalised tk state)) now False = Some g" using assms by (auto simp: grid_path_def Let_def)
  then show ?thesis using assms grid_vetoes_cancels [of loc g] by (cases g) (auto simp: grid_path_def Let_def)
qed

lemma single_buy_cancels: "single_buy D tk state logs loc = Some (Inr loc') \<Longrightarrow> same_cancels loc loc'"
  by (auto simp: single_buy_def same_cancels_def split: bind_splits gate_result.split_asm sum.split_asm)

lemma single_path_cancels: "single_path D tk now state logs loc = Some (Inr loc') \<Longrightarrow> same_cancels loc loc'"
  by (auto simp: single_path_def Let_def same_cancels_def dest!: single_buy_cancels split: bind_splits tv_result.split_asm if_split_asm)

lemma single_stage_cancels:
  "single_path D tk now state logs loc = Some z \<Longrightarrow> map_sum id (\<lambda>l. (state', logs', l)) z = Inr (s, l, loc') \<Longrightarrow> same_cancels loc loc'"
  by (cases z) (auto dest: single_path_cancels)

lemma entry_stage_cancels:
  assumes "entry_stage D tk sc state logs loc = Some (Inr (s, l, loc'))"
  shows "same_cancels loc loc'"
  using assms
  by (auto simp: entry_stage_def dest: grid_path_cancels single_stage_cancels split: if_split_asm bind_splits)

lemma initial_cancels:
  obtains P Q where "bu_cancels (initial_locals D tk now state) = cancel_buys (tk_input tk) ''tt-regime-entry-block'' (filter P (open_buys (tk_input tk)))"
    "bu_timeoutCancels (initial_locals D tk now state) = cancel_buys (tk_input tk) ''tt-entry-timeout'' (filter Q (open_buys (tk_input tk)))"
proof -
  note filters = exI [of _ "\<lambda>_. False"] exI [of _ "\<lambda>_. True"]
  have "\<exists>P. bu_cancels (initial_locals D tk now state) = cancel_buys (tk_input tk) ''tt-regime-entry-block'' (filter P (open_buys (tk_input tk)))"
    by (cases "fst (regime_entry D tk now state)") (auto simp: initial_locals_def Let_def cancel_buys_def intro: filters)
  moreover have "\<exists>Q. bu_timeoutCancels (initial_locals D tk now state) = cancel_buys (tk_input tk) ''tt-entry-timeout'' (filter Q (open_buys (tk_input tk)))"
    by (auto simp: initial_locals_def timeout_cancels_def Let_def cancel_buys_def intro: filters)
  ultimately show ?thesis using that by blast
qed

lemma snapshot_sound:
  assumes "same_cancels (initial_locals D tk now state) loc"
  shows "list_all (sound_decision (tk_input tk)) (to_decisions (snapshot tk now' s l loc))" "filter is_order (to_decisions (snapshot tk now' s l loc)) = []"
  using assms
  by (rule_tac initial_cancels [of D tk now state],
      auto simp: snapshot_def same_cancels_def cancel_buys_def snapshot_event_def list_all_iff filter_map comp_def)+

lemma snapshot_keeps: "keeps s (to_nextState (snapshot tk now s l loc))"
  by (simp add: snapshot_def)

lemma buy_branch_cases:
  assumes "buyAndSnapshotBranch D tk sc state logs = Some r"
  obtains (Add) out logs' where "pyramid_stage D tk state logs' (initial_locals D tk (sc_now sc) state) = Some (Inl out)" "r = Terminal out"
  | (Entry) out logs' loc where "pyramid_stage D tk state logs' (initial_locals D tk (sc_now sc) state) = Some (Inr loc)"
      "entry_stage D tk sc state logs' loc = Some (Inl out)" "r = Terminal out"
  | (Snapshot) logs' loc s l loc' where "pyramid_stage D tk state logs' (initial_locals D tk (sc_now sc) state) = Some (Inr loc)"
      "entry_stage D tk sc state logs' loc = Some (Inr (s, l, loc'))" "r = Terminal (snapshot tk (sc_now sc) s l loc')"
      "same_cancels (initial_locals D tk (sc_now sc) state) loc'"
proof -
  let ?logs = "logs @ snd (snd (regime_entry D tk (sc_now sc) state))"
  obtain x where x: "pyramid_stage D tk state ?logs (initial_locals D tk (sc_now sc) state) = Some x"
    using assms by (auto simp: buyAndSnapshotBranch_def Let_def bind_eq_Some_conv)
  show ?thesis
  proof (cases x)
    case (Inl out)
    then show ?thesis using Add [OF x [unfolded Inl]] assms x by (simp add: buyAndSnapshotBranch_def Let_def)
  next
    case (Inr loc)
    then obtain y where y: "entry_stage D tk sc state ?logs loc = Some y" using assms x by (auto simp: buyAndSnapshotBranch_def Let_def)
    show ?thesis
    proof (cases y)
      case (Inl out)
      then show ?thesis using Entry [OF x [unfolded \<open>x = Inr loc\<close>]] assms x y \<open>x = Inr loc\<close> by (simp add: buyAndSnapshotBranch_def Let_def)
    next
      case y': (Inr z)
      obtain s l loc' where z: "z = (s, l, loc')" by (cases z)
      have "same_cancels (initial_locals D tk (sc_now sc) state) loc'"
        using pyramid_stage_cancels [OF x [unfolded Inr]] entry_stage_cancels [OF y [unfolded y' z]] by (simp add: same_cancels_def)
      then show ?thesis using Snapshot [OF x [unfolded Inr]] assms x y y' z Inr by (simp add: buyAndSnapshotBranch_def Let_def)
    qed
  qed
qed

lemma buy_branch_ok:
  assumes "buyAndSnapshotBranch D tk sc state logs = Some r"
  shows "outcome_ok (tk_input tk) state r"
  using assms
proof (cases rule: buy_branch_cases)
  case (Snapshot logs' loc s l loc')
  have "keeps state s" using entry_stage_ok [OF Snapshot(2)] by simp
  then show ?thesis using snapshot_sound [OF Snapshot(4)] Snapshot(3)
    by (auto simp: output_ok_def sound_decisions_def intro: keeps_trans snapshot_keeps)
next
  case (Entry out logs' loc)
  then show ?thesis using entry_stage_ok [OF Entry(2)] by simp
qed (simp add: pyramid_stage_ok)

section \<open>The trailing-trade chain\<close>

lemma branch_ok:
  assumes "b \<in> set (BRANCHES D tk override sc)" "b s l = Some r"
  shows "outcome_ok (tk_input tk) s r"
proof -
  have "outcome_ok (tk_input tk) s r" if "applyDisabledClearBranch now s l = Some r" for now
    using that by (auto simp: applyDisabledClearBranch_def split: if_split_asm)
  moreover have "outcome_ok (tk_input tk) s r" if "overrideBranch D tk override now s l = Some r" for now
    using that by (auto simp: overrideBranch_def override_ok split: option.split_asm)
  moreover have "outcome_ok (tk_input tk) s r" if "disabledGateBranch s l = Some r"
    using that by (auto simp: disabledGateBranch_def noop_ok split: if_split_asm)
  moreover have "outcome_ok (tk_input tk) s r" if "lbpClearBranch D tk s l = Some r"
    using that by (auto simp: lbpClearBranch_def lbp_keeps split: option.splits)
  moreover have "outcome_ok (tk_input tk) s r" if "autoTriggerBuyBranch D tk now s l = Some r" for now
    using that by (cases r) (auto simp: auto_branch_ok auto_branch_no_mutate)
  ultimately show ?thesis using assms sell_branch_ok buy_branch_ok unfolding BRANCHES_def by auto
qed

interpretation trailing_trade: tick_chain "BRANCHES D tk override sc" keeps "output_ok (tk_input tk)"
  for D :: "'d decimal_js" and tk override sc
  by unfold_locales (auto dest: branch_ok intro: output_ok_step)

lemma tick_run:
  assumes "tt_computeTick D tk override now raw = Some out"
  obtains sc where "sc_now sc = now" "run_branches (BRANCHES D tk override sc) (normalizeTickState raw) [] = Some out"
proof -
  obtain sc where "buildScalars tk now = Some sc" "run_branches (BRANCHES D tk override sc) (normalizeTickState raw) [] = Some out"
    using assms by (auto simp: tt_computeTick_def bind_eq_Some_conv)
  moreover from this(1) have "sc_now sc = now" by (auto simp: buildScalars_def)
  ultimately show ?thesis using that by blast
qed

lemma tick_ok: "tt_computeTick D tk override now raw = Some out \<Longrightarrow> output_ok (tk_input tk) (normalizeTickState raw) out"
  by (auto elim!: tick_run intro: trailing_trade.tick_good)

section \<open>A disabled profile\<close>

lemma noop_terminal:
  "autoTriggerSkipTerminal s symb r lv ctx = Terminal out \<Longrightarrow> to_decisions out = [Noop]"
  by (auto simp: autoTriggerSkipTerminal_def)

lemma auto_disabled:
  assumes "jget s ''disabledUntilMs'' \<noteq> JNull" "autoTriggerBuyBranch D tk now s l = Some r"
  shows "r = Pass \<or> (\<exists>out. r = Terminal out \<and> to_decisions out = [Noop])"
  using assms by (auto simp: autoTriggerBuyBranch_def Let_def autoTriggerSkipTerminal_def split: if_splits)

section \<open>An override\<close>

definition answered :: "string \<Rightarrow> tt_output \<Rightarrow> bool" where
  "answered oid out \<longleftrightarrow>
     to_decisions out = [Noop] \<and> to_overrideDecline out \<noteq> None \<or>
     to_overrideDecline out = None \<and> (\<exists>d \<in> set (to_decisions out). is_order d)"

lemma manual_answered: "manual_override D inp state oid payload = Some out \<Longrightarrow> answered oid' out"
  by (cases "computeManualOrderQuantity D payload (tn_currentPrice inp) (tn_filters inp)")
     (auto simp: manual_override_def answered_def buildManualOrderDecision_def bind_eq_Some_conv elim: closing_sell split: if_splits)

lemma trigger_buy_answered:
  assumes "trigger_buy_override D tk state now oid = Some out"
  shows "answered oid' out"
proof (cases "forceSellCooldownActive state now")
  case True
  then show ?thesis using assms by (auto simp: trigger_buy_override_def Let_def answered_def)
next
  case False
  then obtain entry where e: "emitForcedFirstEntry D tk state now = Some entry" using assms by (auto simp: trigger_buy_override_def)
  show ?thesis
  proof (cases entry)
    case (ForcedEmit s ds q l c)
    then show ?thesis using assms False e forced_ok [OF e [unfolded ForcedEmit]] by (auto simp: trigger_buy_override_def answered_def)
  qed (use assms False e in \<open>auto simp: trigger_buy_override_def trigger_buy_skip_def answered_def\<close>)
qed

lemma trigger_sell_answered:
  assumes "trigger_sell_override D inp state now oid = Some out"
  shows "answered oid' out"
proof -
  obtain recl free r where r: "reclaimableOwnSellBase D inp = Some recl"
    "resolveHeldForSell D state (si_baseAsset (tn_symbolInfo inp)) (tn_account inp) recl = Some free"
    "computeSellQuantity D free (tn_currentPrice inp) (tn_filters inp) = Some r"
    using assms by (auto simp: trigger_sell_override_def bind_eq_Some_conv)
  show ?thesis using assms r
    by (cases r) (auto simp: trigger_sell_override_def answered_def buildSellDecision_def sell_decision_def bind_eq_Some_conv elim: closing_sell)
qed

fun carries :: "string \<Rightarrow> decision \<Rightarrow> bool" where
  "carries oid (PlaceOrder i p) \<longleftrightarrow> oi_overrideActionId i = Some oid"
| "carries oid (ReplaceOrder cid r i p) \<longleftrightarrow> oi_overrideActionId i = Some oid"
| "carries oid _ \<longleftrightarrow> True"

lemma attribute_carries: "carries oid (attribute oid d)" "is_order (attribute oid d) = is_order d" "attribute oid d = Noop \<longleftrightarrow> d = Noop"
  by (cases d; simp)+

lemma handled_answered:
  assumes "handleOverride D tk state now ov = Some out"
  shows "answered (ov_id ov) out" "\<forall>d \<in> set (to_decisions out). carries (ov_id ov) d"
proof -
  obtain out' where o: "overrideOutput D tk state now ov = Some out'" "out = out'\<lparr>to_decisions := attributeToOverride (to_decisions out') (ov_id ov)\<rparr>"
    using assms by (auto simp: handleOverride_def)
  have "answered (ov_id ov) out'" using o(1)
    by (cases ov) (auto simp: overrideOutput_def intro: manual_answered trigger_buy_answered trigger_sell_answered)
  then show "answered (ov_id ov) out" by (auto simp: o(2) answered_def attributeToOverride_def attribute_carries)
  show "\<forall>d \<in> set (to_decisions out). carries (ov_id ov) d" by (auto simp: o(2) attributeToOverride_def attribute_carries)
qed

lemma run_override:
  assumes "run_branches (BRANCHES D tk (Some ov) sc) s [] = Some out"
  obtains s' where "handleOverride D tk s' (sc_now sc) ov = Some out" "s' = s \<or> s' = spread s [(''disabledUntilMs'', JNull)]"
  using assms by (auto simp: BRANCHES_def applyDisabledClearBranch_def overrideBranch_def split: if_splits option.splits)

section \<open>A fresh entry\<close>

text \<open>The state an entry is decided on is the tick's, apart from fields no gate reads.\<close>

definition agrees :: "json \<Rightarrow> json \<Rightarrow> bool" where
  "agrees s s' \<longleftrightarrow> (\<forall>k. k \<notin> {''disabledUntilMs'', ''exitBlocker'', ''protectiveStopBlocker''} \<longrightarrow> jget s' k = jget s k)"

lemma agrees_cooldowns:
  assumes "agrees s s'"
  shows "forceSellCooldownActive s' now = forceSellCooldownActive s now" "lossExitCooldownActive s' c now = lossExitCooldownActive s c now"
  using assms by (simp_all add: agrees_def forceSellCooldownActive_def lossExitCooldownActive_def loss_deadline_def)

lemma agrees_regime: "agrees s s' \<Longrightarrow> regime_entry D tk now s' = regime_entry D tk now s"
  by (simp add: agrees_def regime_entry_def)

lemma flat_sell:
  assumes "jget s ''avgEntryPrice'' = JNull"
  obtains s' where "sellGateBranch D tk sc s l = Some (Mutate s' l)" "agrees s s'"
proof -
  define s1 where "s1 = (if jget s ''exitBlocker'' \<noteq> JNull then spread s [(''exitBlocker'', JNull)] else s)"
  define s2 where "s2 = (if jget s1 ''protectiveStopBlocker'' \<noteq> JNull then spread s1 [(''protectiveStopBlocker'', JNull)] else s1)"
  have s1: "jget s1 ''avgEntryPrice'' = JNull" using assms by (simp add: s1_def jget_spread)
  have "exit_stages D tk sc s l = Some (Inr (s, l, None))" "persist_blocker D tk sc s None = Some s1"
    using assms by (simp_all add: exit_stages_def persist_blocker_def s1_def)
  moreover have "arm_stage D tk s1 l = Some (Mutate s2 l)" using s1 by (simp add: arm_stage_def s2_def)
  ultimately have "sellGateBranch D tk sc s l = Some (Mutate s2 l)" by (simp add: sellGateBranch_def)
  moreover have "agrees s s2" by (simp add: agrees_def s1_def s2_def jget_spread)
  ultimately show ?thesis by (rule that)
qed

lemma flat_run:
  assumes "run_branches (BRANCHES D tk None sc) s [] = Some out" "jget s ''avgEntryPrice'' = JNull" "\<not> due (jget s ''autoTriggerBuyAtMs'') (sc_now sc)"
  obtains (Idle) "to_decisions out = [Noop]"
  | (Entry) s' where "agrees s s'" "jget s ''disabledUntilMs'' = JNull \<or> due (jget s ''disabledUntilMs'') (sc_now sc)"
      "buyAndSnapshotBranch D tk sc s' [] = Some (Terminal out)"
proof -
  define s1 where "s1 = (if due (jget s ''disabledUntilMs'') (sc_now sc) then spread s [(''disabledUntilMs'', JNull)] else s)"
  have s1: "agrees s s1" "jget s1 ''avgEntryPrice'' = JNull" "\<not> due (jget s1 ''autoTriggerBuyAtMs'') (sc_now sc)"
    using assms(2,3) by (auto simp: s1_def agrees_def jget_spread)
  obtain s' where s': "sellGateBranch D tk sc s1 [] = Some (Mutate s' [])" "agrees s1 s'" using s1(2) by (rule flat_sell)
  have run: "run_branches [disabledGateBranch, lbpClearBranch D tk, sellGateBranch D tk sc, buyAndSnapshotBranch D tk sc] s1 [] = Some out"
    using assms(1) s1(3) by (simp add: BRANCHES_def applyDisabledClearBranch_def overrideBranch_def autoTriggerBuyBranch_def s1_def split: if_splits)
  show ?thesis
  proof (cases "jget s1 ''disabledUntilMs'' = JNull")
    case False
    then show ?thesis using run Idle by (auto simp: disabledGateBranch_def)
  next
    case True
    have "buyAndSnapshotBranch D tk sc s' [] = Some (Terminal out)"
      using run True s1(2) s'(1) by (auto simp: disabledGateBranch_def lbpClearBranch_def maybeClearAvgEntryPrice_def Let_def
          elim: buy_branch_cases split: option.splits branch_outcome.splits)
    moreover have "agrees s s'" using s1(1) s'(2) by (simp add: agrees_def)
    ultimately show ?thesis using Entry True s1_def by (auto split: if_splits)
  qed
qed

definition ratings_open :: "'d tt_tick \<Rightarrow> rat \<Rightarrow> bool" where
  "ratings_open tk now \<longleftrightarrow>
     (\<exists>cs. evaluateTechnicalsGate (tk_technicals tk) (jget (tk_config tk) ''forceBuyOverride'') now = Some (TvOpen cs)) \<or>
     enter_on_add tk \<and> (\<exists>cs. evaluateEnterOnAddFloor (tk_technicals tk) (jget (tk_config tk) ''forceBuyOverride'') now = Some (TvOpen cs))"

lemma tv_stage_open: "tv_stage tk now True False = Some None \<Longrightarrow> ratings_open tk now"
  by (auto simp: tv_stage_def ratings_open_def elim!: tv_skip.elims split: if_splits)

definition buy_order :: "decision \<Rightarrow> bool" where
  "buy_order d \<longleftrightarrow> (\<exists>i p. d = PlaceOrder i p \<and> oi_side i = BUY)"

lemma grid_path_entry:
  assumes "grid_path D tk now state logs loc = Some (Inl out)" "jget state ''avgEntryPrice'' = JNull" "d \<in> set (to_decisions out)" "is_order d"
  shows "buy_order d \<and> buy_gates D tk = Some GateOk \<and> (jget state ''currentGridTradeIndex'' = JNull \<longrightarrow> ratings_open tk now)"
proof -
  let ?s = "fst (grid_normalised tk state)"
  obtain g where "evaluateGridBuy D tk ?s now False = Some g" using assms(1) by (auto simp: grid_path_def Let_def)
  then obtain s ds l i where g: "evaluateGridBuy D tk ?s now False = Some (GridEmit s ds l i)" "to_decisions out = ds"
    using assms(1) by (cases g) (auto simp: grid_path_def Let_def)
  obtain e level levels where t: "grid_target D tk ?s levels = Some (Target i e)" "grid_level D tk ?s now False i e level = Some (GridEmit s ds l i)"
    using g(1) by (rule grid_buy_emit)
  obtain cid p where "ds = stale_cancels (tk_input tk) cid i @ [PlaceOrder (grid_intent (tk_input tk) cid i) p]"
    and o: "buy_gates D tk = Some GateOk" "tv_stage tk now e False = Some None"
    using t(2) by (rule grid_level_emit)
  then have "buy_order d" using assms(3,4) g(2) by (auto simp: stale_cancels_def buy_order_def grid_intent_def)
  moreover have "ratings_open tk now" if "jget state ''currentGridTradeIndex'' = JNull"
  proof -
    have "?s = state" using that assms(2) by (simp add: grid_normalised_def num_gt_def)
    then have "entry_target D tk levels = Target i e" using t(1) that assms(2) by (simp add: grid_target_def)
    then show ?thesis using entry_target_cases o(2) tv_stage_open by fastforce
  qed
  ultimately show ?thesis using o(1) by blast
qed

lemma single_path_entry:
  assumes "single_path D tk now state logs loc = Some (Inl out)" "d \<in> set (to_decisions out)"
  shows "buy_order d \<and> buy_gates D tk = Some GateOk \<and> ratings_open tk now"
proof -
  obtain cs loc' where tv: "evaluateTechnicalsGate (tk_technicals tk) (jget (tk_config tk) ''forceBuyOverride'') now = Some (TvOpen cs)"
    and b: "single_buy D tk state logs loc' = Some (Inl out)"
    using assms(1) by (auto simp: single_path_def Let_def split: bind_splits tv_result.split_asm if_split_asm)
  have "buy_gates D tk = Some GateOk \<and> (\<exists>q. buildFirstBuyDecision D (tk_input tk) q = Some d)"
    using b assms(2) by (auto simp: single_buy_def split: bind_splits gate_result.split_asm sum.split_asm)
  then show ?thesis using tv by (auto simp: ratings_open_def buy_order_def elim: first_buy_place)
qed

lemma map_sum_InlD: "map_sum id f z = Inl x \<Longrightarrow> z = Inl x"
  by (cases z) simp_all

lemma entry_stage_entry:
  assumes "entry_stage D tk sc state logs loc = Some (Inl out)" "jget state ''avgEntryPrice'' = JNull" "d \<in> set (to_decisions out)" "is_order d"
  shows "bu_regimeEntryBlock loc = None \<and> \<not> bu_forceSellCooled loc \<and> \<not> bu_lossExitCooled loc \<and> truthy (buy_field (tk_config tk) ''enabled'')"
    and "buy_order d \<and> buy_gates D tk = Some GateOk \<and> (jget state ''currentGridTradeIndex'' = JNull \<longrightarrow> ratings_open tk (sc_now sc))"
proof -
  show on: "bu_regimeEntryBlock loc = None \<and> \<not> bu_forceSellCooled loc \<and> \<not> bu_lossExitCooled loc \<and> truthy (buy_field (tk_config tk) ''enabled'')"
    using assms(1) by (auto simp: entry_stage_def split: if_splits)
  consider "grid_path D tk (sc_now sc) state logs loc = Some (Inl out)" | "single_path D tk (sc_now sc) state logs loc = Some (Inl out)"
    using assms(1) on by (auto simp: entry_stage_def split: if_splits bind_splits dest: map_sum_InlD)
  then show "buy_order d \<and> buy_gates D tk = Some GateOk \<and> (jget state ''currentGridTradeIndex'' = JNull \<longrightarrow> ratings_open tk (sc_now sc))"
    using grid_path_entry single_path_entry assms(2-4) by cases blast+
qed

text \<open>A concrete tick: a flat symbol with a grid, the ratings switched off.\<close>

definition example_flat_tick :: "dec tt_tick" where
  "example_flat_tick = example_tick\<lparr>tk_input := (tk_input example_tick)\<lparr>tn_config :=
     JObj [(''buy'', JObj [(''enabled'', JBool True), (''gridLevels'', JArr [example_level ''1'']),
       (''autoTriggerBuy'', JObj [(''enabled'', JBool False)])]), (''sell'', JObj [(''enabled'', JBool False)]),
       (''forceBuyOverride'', JObj [(''checkTechnicals'', JBool False)])]\<rparr>\<rparr>"

abbreviation example_flat :: json where
  "example_flat \<equiv> normalizeTickState (JObj [])"

lemma example_flat_fields:
  "jget example_flat ''disabledUntilMs'' = JNull" "jget example_flat ''autoTriggerBuyAtMs'' = JNull" "jget example_flat ''avgEntryPrice'' = JNull"
  "jget example_flat ''exitBlocker'' = JNull" "jget example_flat ''protectiveStopBlocker'' = JNull" "jget example_flat ''currentGridTradeIndex'' = JNull"
  "jget example_flat ''forceSellCooldownUntilMs'' = JNull" "jget example_flat ''lastLossExitAt'' = JNull"
  by (simp_all add: normalizeTickState_def Let_def or_null_def jget_spread)

lemma example_flat_quantity: "computeFirstBuyQuantity dec_js ''100'' ''90'' example_lot [] (ttEntryStopFloor dec_js (tk_config example_flat_tick)) = Some (Quantity ''1.11'')"
  by code_simp

lemma example_flat_maker: "resolveMakerEntryLimit dec_js (tk_config example_flat_tick) ''90'' example_lot = Some None"
  by code_simp

lemma example_flat_caps: "caps_veto dec_js (tk_input example_flat_tick) example_flat ''1.11'' = None"
  by code_simp

lemma example_flat_gates: "buy_gates dec_js example_flat_tick = Some GateOk"
  by code_simp

lemma example_flat_regime: "regime_entry dec_js example_flat_tick 0 example_flat = (None, False, [])"
  by code_simp

lemma example_flat_order_id: "gridBuyClientOrderId ''p'' ''BTC'' 0 \<noteq> None"
  by code_simp

lemmas example_flat_parts = example_flat_quantity example_flat_maker example_flat_caps example_flat_gates example_flat_regime example_flat_order_id

lemma example_flat_input:
  "tn_profileId (tk_input example_flat_tick) = ''p''" "tk_symbol example_flat_tick = ''BTC''" "tk_price example_flat_tick = ''90''"
  "tn_filters (tk_input example_flat_tick) = example_lot" "tn_openOrders (tk_input example_flat_tick) = []" "tk_entryHint example_flat_tick = None"
  "grid_levels (tk_config example_flat_tick) = Some [example_level ''1'']" "truthy (buy_field (tk_config example_flat_tick) ''enabled'')"
  "buy_field (tk_config example_flat_tick) ''firstBuyTriggerBasis'' = JUndefined"
  "jget (tk_config example_flat_tick) ''forceBuyOverride'' = JObj [(''checkTechnicals'', JBool False)]"
  by (simp_all add: example_flat_tick_def example_tick_def example_tt_input_def grid_levels_def buy_field_def)

lemma example_flat_stages:
  "resting_stage dec_js (tk_input example_flat_tick) cid sl = None" "guardrail_stage dec_js (tk_input example_flat_tick) False = None"
  "discovery_stage dec_js example_flat_tick e = None" "tv_stage example_flat_tick now True False = Some None"
  "regime_stage dec_js (tk_input example_flat_tick) example_flat = None"
  "enter_on_add example_flat_tick = False" "grid_stop_limit dec_js (tk_input example_flat_tick) (example_level t) = Some None"
  by (simp_all add: stage_defs example_flat_input example_flat_fields open_buys_def enter_on_add_def grid_stop_limit_def example_level_def
      evaluateTechnicalsGate_def ratings_off_def nullish_def)

lemma example_flat_grid:
  obtains s l i p where "evaluateGridBuy dec_js example_flat_tick example_flat 0 False = Some (GridEmit s [PlaceOrder i p] l 0)"
proof -
  obtain cid where cid: "gridBuyClientOrderId ''p'' ''BTC'' 0 = Some cid" using example_flat_parts(6) by blast
  obtain i p where d: "buildGridBuyDecision dec_js (tk_input example_flat_tick) ''1.11'' 0 None = Some (PlaceOrder i p)"
    by (simp add: buildGridBuyDecision_def example_flat_input cid example_flat_parts(2))
  have "grid_target dec_js example_flat_tick example_flat [example_level ''1''] = Some (Target 0 True)"
    by (simp add: grid_target_def entry_target_def Let_def example_flat_fields example_flat_input)
  moreover have "grid_size dec_js (tk_input example_flat_tick) example_flat (example_level ''1'') emit = emit ''1.11''" for emit
    by (simp add: grid_size_def example_flat_input example_flat_fields level_str_def example_level_def example_flat_parts)
  moreover have "level_at [example_level ''1''] 0 = Some (example_level ''1'')" by (simp add: level_at_def)
  ultimately show ?thesis
    using that by (simp add: evaluateGridBuy_def grid_level_def example_flat_input example_flat_stages example_flat_parts indicator_stage_def cid
        grid_emit_def d Let_def stale_cancels_def open_buys_def)
qed

lemma example_flat_run:
  obtains out i p where "tt_computeTick dec_js example_flat_tick None 0 (JObj []) = Some out" "to_decisions out = [PlaceOrder i p]"
proof -
  obtain s l i p where g: "evaluateGridBuy dec_js example_flat_tick example_flat 0 False = Some (GridEmit s [PlaceOrder i p] l 0)"
    by (rule example_flat_grid)
  obtain sc where sc: "buildScalars example_flat_tick 0 = Some sc" "sc_now sc = 0"
    by (simp add: buildScalars_def hasOpenSellForSymbol_def example_flat_input example_tt_id)
  have cool: "\<not> forceSellCooldownActive example_flat 0" "\<not> lossExitCooldownActive example_flat c 0" for c
    by (simp_all add: forceSellCooldownActive_def lossExitCooldownActive_def example_flat_fields)
  have n: "grid_normalised example_flat_tick example_flat = (example_flat, [])" by (simp add: grid_normalised_def example_flat_fields num_gt_def)
  have sell: "sellGateBranch dec_js example_flat_tick sc example_flat [] = Some (Mutate example_flat [])"
    by (simp add: sellGateBranch_def exit_stages_def persist_blocker_def arm_stage_def example_flat_fields)
  obtain out where buy: "buyAndSnapshotBranch dec_js example_flat_tick sc example_flat [] = Some (Terminal out)" "to_decisions out = [PlaceOrder i p]"
    by (simp add: buyAndSnapshotBranch_def pyramid_stage_def entry_stage_def initial_locals_def Let_def example_flat_fields example_flat_parts
        example_flat_input cool sc grid_path_def n g)
  have "run_branches (BRANCHES dec_js example_flat_tick None sc) example_flat [] = Some out"
    by (simp add: BRANCHES_def applyDisabledClearBranch_def overrideBranch_def autoTriggerBuyBranch_def disabledGateBranch_def lbpClearBranch_def
        maybeClearAvgEntryPrice_def due_def example_flat_fields sell buy)
  then show ?thesis using that sc buy by (simp add: tt_computeTick_def)
qed

section \<open>Properties\<close>

text \<open>
  C27. What one tick may send. Whatever the configuration, the state, the market and the operator's override,
  a tick places or replaces at most one order, on its own symbol; a replaced order is our own resting
  protective stop, a cancelled one is that stop or an open buy of the symbol, and the tick writes nothing
  else.
\<close>
theorem tick_one_sound_order:
  assumes "tt_computeTick D tk override now raw = Some out"
  shows "list_all (sound_decision (tk_input tk)) (to_decisions out) \<and> length (filter is_order (to_decisions out)) \<le> 1"
  using tick_ok [OF assms] by (simp add: output_ok_def sound_decisions_def)

theorem tick_one_sound_order_witness:
  "\<exists>out d. tt_computeTick dec_js example_flat_tick None 0 (JObj []) = Some out \<and> filter is_order (to_decisions out) = [d] \<and>
     list_all (sound_decision (tk_input example_flat_tick)) (to_decisions out)"
proof -
  obtain out i p where run: "tt_computeTick dec_js example_flat_tick None 0 (JObj []) = Some out" "to_decisions out = [PlaceOrder i p]"
    by (rule example_flat_run)
  show ?thesis using run tick_one_sound_order [OF run(1)] by simp
qed

text \<open>
  C28. A tick does not account for its own orders: the held quantity it hands on is the one it was given (a
  missing one read as null), and the average entry price is the one it was given or cleared. Only fills
  change the quantity.
\<close>
theorem tick_keeps_position:
  assumes "tt_computeTick D tk override now raw = Some out"
  shows "jget (to_nextState out) ''heldQuantity'' = jcoalesce (jget raw ''heldQuantity'') JNull \<and>
    jget (to_nextState out) ''avgEntryPrice'' \<in> {jcoalesce (jget raw ''avgEntryPrice'') JNull, JNull}"
proof -
  have "jget (normalizeTickState raw) ''heldQuantity'' = jcoalesce (jget raw ''heldQuantity'') JNull"
    "jget (normalizeTickState raw) ''avgEntryPrice'' = jcoalesce (jget raw ''avgEntryPrice'') JNull"
    by (simp_all add: normalizeTickState_def Let_def or_null_def jget_spread)
  then show ?thesis using tick_ok [OF assms] by (simp add: output_ok_def keeps_def)
qed

theorem tick_keeps_position_witness:
  "\<exists>out. tt_computeTick dec_js example_flat_tick None 0 (JObj []) = Some out \<and> jget (to_nextState out) ''heldQuantity'' = JNull"
proof -
  obtain out i p where run: "tt_computeTick dec_js example_flat_tick None 0 (JObj []) = Some out" "to_decisions out = [PlaceOrder i p]"
    by (rule example_flat_run)
  show ?thesis using run(1) tick_keeps_position [OF run(1)] by simp
qed

text \<open>
  A profile disabled until a later time does nothing: without an override the tick's only decision is to
  do nothing, even when an automatic buy is due and whatever exit the market would trigger.
\<close>
lemma disabled_profile_idle:
  assumes "tt_computeTick D tk None now raw = Some out" "json_rat (jget raw ''disabledUntilMs'') = Some t" "now < t"
  shows "to_decisions out = [Noop]"
proof -
  let ?s = "normalizeTickState raw"
  have d: "jget ?s ''disabledUntilMs'' = jget raw ''disabledUntilMs''" "jget raw ''disabledUntilMs'' \<noteq> JNull"
    using assms(2) by (cases "jget raw ''disabledUntilMs''"; simp add: normalizeTickState_def Let_def or_null_def jget_spread)+
  then have nd: "\<not> due (jget ?s ''disabledUntilMs'') now" using assms(2,3) by (simp add: due_def)
  obtain sc where sc: "sc_now sc = now" "run_branches (BRANCHES D tk None sc) ?s [] = Some out"
    using assms(1) by (rule tick_run)
  then obtain r where "autoTriggerBuyBranch D tk now ?s [] = Some r"
    using nd by (auto simp: BRANCHES_def applyDisabledClearBranch_def overrideBranch_def split: option.splits)
  then show ?thesis using sc nd d auto_disabled [of ?s D tk now "[]" r]
    by (auto simp: BRANCHES_def applyDisabledClearBranch_def overrideBranch_def disabledGateBranch_def)
qed

text \<open>
  C30. An operator's override is always answered. Either the tick sends exactly one order, which carries the
  id of the override, or it does nothing and names the reason it declined; no other order goes out on
  that tick.
\<close>
theorem override_answered:
  assumes "tt_computeTick D tk (Some ov) now raw = Some out"
  shows "to_overrideDecline out \<noteq> None \<and> to_decisions out = [Noop] \<or>
    to_overrideDecline out = None \<and> (\<exists>d. filter is_order (to_decisions out) = [d] \<and> carries (ov_id ov) d)"
proof -
  obtain sc where "run_branches (BRANCHES D tk (Some ov) sc) (normalizeTickState raw) [] = Some out"
    using assms by (rule tick_run)
  then obtain s where "handleOverride D tk s (sc_now sc) ov = Some out" by (rule run_override)
  note a = handled_answered [OF this]
  have "length (filter is_order (to_decisions out)) \<le> 1" using tick_ok [OF assms] by (simp add: output_ok_def sound_decisions_def)
  moreover have "filter is_order (to_decisions out) \<noteq> []" if "\<exists>d \<in> set (to_decisions out). is_order d" using that by (auto simp: filter_empty_conv)
  ultimately have one: "\<exists>d. filter is_order (to_decisions out) = [d]" if "\<exists>d \<in> set (to_decisions out). is_order d"
    using that by (cases "filter is_order (to_decisions out)") auto
  have "carries (ov_id ov) d" if "filter is_order (to_decisions out) = [d]" for d
    using a(2) that by (metis filter_eq_ConsD in_set_conv_decomp)
  then show ?thesis using a(1) one by (auto simp: answered_def)
qed

theorem override_answered_witness:
  "\<exists>out. tt_computeTick dec_js example_flat_tick (Some (TriggerSell ''a'')) 0 (JObj []) = Some out \<and>
     (to_overrideDecline out \<noteq> None \<or> (\<exists>d. filter is_order (to_decisions out) = [d] \<and> carries ''a'' d))"
proof -
  have "tt_computeTick dec_js example_flat_tick (Some (TriggerSell ''a'')) 0 (JObj []) \<noteq> None"
    by code_simp
  then obtain out where run: "tt_computeTick dec_js example_flat_tick (Some (TriggerSell ''a'')) 0 (JObj []) = Some out" by blast
  show ?thesis using run override_answered [OF run] by auto
qed



end
