(* ===== verification/Mo_Stops.thy ===== *)
theory Mo_Stops
  imports Indicators Tt_Sizing
begin

text \<open>
  How the momentum strategy places its stop and sizes its orders
  (\<open>packages/strategy/momentum/src\<close>): the coercion of unparsed leaves (\<open>config-coerce.ts\<close>,
  \<open>extension.ts\<close>, \<open>trend-filter.ts\<close>), the two legs of the exit level (\<open>trailing-stop.ts\<close>,
  \<open>profit-leg.ts\<close>, \<open>stop-level.ts\<close>), the entry budget (\<open>sizing.ts\<close>) and order quantities
  (\<open>quantity.ts\<close>). Configuration is the stored \<open>json\<close>, never parsed. An exception is \<open>None\<close>.
\<close>

section \<open>Coercion\<close>

definition js_space :: "char \<Rightarrow> bool" where
  "js_space c = (c \<in> {CHR '' '', CHR 0x09, CHR 0x0A, CHR 0x0B, CHR 0x0C, CHR 0x0D, CHR 0xA0})"

definition leading_int :: "string \<Rightarrow> int option" where
  "leading_int s =
     (let ds = map (the \<circ> digit_of) (takeWhile (\<lambda>c. digit_of c \<noteq> None) s)
      in if ds = [] then None else Some (num_of ds))"

text \<open>\<open>Number.parseInt(s, 10)\<close>: white space, a sign, then the leading digits.\<close>

definition parseInt10 :: "string \<Rightarrow> int option" where
  "parseInt10 s =
     (case dropWhile js_space s of
        c # r \<Rightarrow> if c = CHR ''-'' then map_option uminus (leading_int r)
                 else if c = CHR ''+'' then leading_int r else leading_int (c # r)
      | [] \<Rightarrow> None)"

text \<open>
  \<open>parseInt(String(n), 10)\<close> of a finite number: its whole part where \<open>String\<close> prints it in full, the
  leading digit where it prints an exponent.
\<close>

definition number_int :: "rat \<Rightarrow> int" where
  "number_int r =
     (let a = \<bar>r\<bar>;
          n = (if r = 0 then 0 else if 1 / 10 ^ 6 \<le> a \<and> a < 10 ^ 21 then \<lfloor>a\<rfloor> else \<lfloor>a / 10 powi sig_exp a\<rfloor>)
      in if r < 0 then - n else n)"

text \<open>\<open>parseInt(String(v), 10)\<close>; an array prints its elements with commas between them.\<close>

fun string_int :: "json \<Rightarrow> int option" where
  "string_int (JStr s) = parseInt10 s"
| "string_int (JNum (JsNum r)) = Some (number_int r)"
| "string_int (JArr (v # vs)) = string_int v"
| "string_int _ = None"

text \<open>\<open>new Decimal(String(v))\<close>; the decimals refuse a comma.\<close>

fun string_decimal :: "'d decimal_js \<Rightarrow> json \<Rightarrow> 'd option" where
  "string_decimal D (JStr s) = d_new D s"
| "string_decimal D (JNum n) = Some (d_num D n)"
| "string_decimal D JUndefined = d_new D ''undefined''"
| "string_decimal D JNull = d_new D ''null''"
| "string_decimal D (JBool b) = d_new D (if b then ''true'' else ''false'')"
| "string_decimal D (JObj kvs) = d_new D ''[object Object]''"
| "string_decimal D (JArr []) = d_new D []"
| "string_decimal D (JArr [v]) = (if nullish v then d_new D [] else string_decimal D v)"
| "string_decimal D (JArr (v # u # vs)) = None"

definition MAX_DOUBLE :: int where "MAX_DOUBLE = 2 ^ 1024 - 2 ^ 970"

definition coerceInt :: "json \<Rightarrow> int \<Rightarrow> int \<Rightarrow> int" where
  "coerceInt raw least fallback =
     (case string_int (jcoalesce raw (JNum (JsNum (of_int fallback)))) of
        Some n \<Rightarrow> if \<bar>n\<bar> < MAX_DOUBLE \<and> least \<le> n then n else fallback
      | None \<Rightarrow> fallback)"

definition coerceDec :: "'d decimal_js \<Rightarrow> json \<Rightarrow> string \<Rightarrow> 'd" where
  "coerceDec D raw fallback =
     (case string_decimal D (jcoalesce raw (JStr fallback)) of
        Some d \<Rightarrow> if d_gt D d (d_int D 0) then d else dlit D fallback
      | None \<Rightarrow> dlit D fallback)"

definition extensionPeriod :: "json \<Rightarrow> int" where "extensionPeriod raw = coerceInt raw 2 50"

definition extensionMaxPercent :: "'d decimal_js \<Rightarrow> json \<Rightarrow> 'd" where
  "extensionMaxPercent D raw = coerceDec D raw ''0.4''"

definition trendPeriod :: "json \<Rightarrow> int" where "trendPeriod raw = coerceInt raw 2 200"

datatype ma_type = Sma | Ema

definition trendMaType :: "json \<Rightarrow> ma_type" where
  "trendMaType raw = (if raw = JStr ''ema'' then Ema else Sma)"

section \<open>The profit leg\<close>

definition activationPct :: "'d decimal_js \<Rightarrow> json \<Rightarrow> 'd" where
  "activationPct D raw = coerceDec D raw ''0.05''"

definition trailPct :: "'d decimal_js \<Rightarrow> json \<Rightarrow> 'd" where
  "trailPct D raw = coerceDec D raw ''0.03''"

definition profitLegDistance :: "'d decimal_js \<Rightarrow> json \<Rightarrow> 'd option \<Rightarrow> 'd \<Rightarrow> 'd option" where
  "profitLegDistance D config profitHigh entryPrice =
     (let cfg = jget config ''profitTrail''
      in case profitHigh of
           None \<Rightarrow> None
         | Some high \<Rightarrow>
             if jget cfg ''enabled'' \<noteq> JBool True then None
             else (let activation = d_times D entryPrice (d_plus D (d_int D 1) (activationPct D (jget cfg ''activationPct'')))
                   in if d_gte D high activation then Some (trailPct D (jget cfg ''trailPct'')) else None))"

section \<open>The ATR leg\<close>

definition atrStopPeriod :: "json \<Rightarrow> int" where "atrStopPeriod raw = coerceInt raw 2 14"

definition atrStopMultiple :: "'d decimal_js \<Rightarrow> json \<Rightarrow> 'd" where
  "atrStopMultiple D raw = coerceDec D raw ''3''"

definition configForEntryLayer :: "json \<Rightarrow> json \<Rightarrow> json" where
  "configForEntryLayer config layer =
     (if layer \<noteq> JStr ''below-trend'' \<or> jget config ''atrTrailingStop'' = JUndefined then config
      else spread config [(''atrTrailingStop'', spread (jget config ''atrTrailingStop'')
             [(''multiple'', jcoalesce (jget (jget config ''belowTrendBreakout'') ''atrMultiple'') (JStr ''2''))])])"

definition atrTrailingStopPrice :: "'d decimal_js \<Rightarrow> json \<Rightarrow> candle list \<Rightarrow> 'd \<Rightarrow> 'd option option" where
  "atrTrailingStopPrice D config candles effectiveHigh =
     (let cfg = jget config ''atrTrailingStop''; period = atrStopPeriod (jget cfg ''period'')
      in if jget cfg ''enabled'' \<noteq> JBool True then Some None
         else if int (length candles) < period + 1 then Some None
         else map_option (\<lambda>range.
                let stop = d_minus D effectiveHigh (d_times D (atrStopMultiple D (jget cfg ''multiple'')) range)
                in if d_gt D stop (d_int D 0) then Some stop else None)
              (atr D candles (of_int period)))"

definition unitFraction :: "'d decimal_js \<Rightarrow> 'd option \<Rightarrow> 'd option" where
  "unitFraction D v =
     (case v of Some d \<Rightarrow> if d_gt D d (d_int D 0) \<and> d_lt D d (d_int D 1) then Some d else None | None \<Rightarrow> None)"

definition initialStopDistanceFraction :: "'d decimal_js \<Rightarrow> json \<Rightarrow> candle list \<Rightarrow> 'd \<Rightarrow> 'd option option" where
  "initialStopDistanceFraction D config candles price =
     (let cfg = jget config ''atrTrailingStop''; period = atrStopPeriod (jget cfg ''period'')
      in if \<not> d_gt D price (d_int D 0) then Some None
         else if jget cfg ''enabled'' \<noteq> JBool True then Some (unitFraction D (decOrNull D (jget config ''trailingStopPct'')))
         else if int (length candles) < period + 1 then Some None
         else map_option (\<lambda>range. unitFraction D (Some (d_div D (d_times D (atrStopMultiple D (jget cfg ''multiple'')) range) price)))
              (atr D candles (of_int period)))"

section \<open>The stop level\<close>

definition MO_DEFAULT_LIMIT_OFFSET :: string where "MO_DEFAULT_LIMIT_OFFSET = ''0.98''"

definition ratchetMinutes :: "json \<Rightarrow> int" where "ratchetMinutes raw = coerceInt raw 1 5"

definition isBucketEnd :: "candle \<Rightarrow> int \<Rightarrow> bool" where
  "isBucketEnd c minutes = ((cd_openTimeMs c + 60000) mod (minutes * 60000) = 0)"

definition newer_close :: "int option \<Rightarrow> candle \<Rightarrow> int option" where
  "newer_close newest c =
     (if \<not> cd_isClosed c then newest
      else let closeMs = cd_openTimeMs c + 60000
           in case newest of None \<Rightarrow> Some closeMs | Some n \<Rightarrow> if n < closeMs then Some closeMs else newest)"

definition profitTrailEpoch :: "candle list \<Rightarrow> int option" where
  "profitTrailEpoch oneMinuteCandles = foldl newer_close None oneMinuteCandles"

definition ratchet_turn :: "'d decimal_js \<Rightarrow> int \<Rightarrow> rat \<Rightarrow> 'd option \<Rightarrow> candle \<Rightarrow> 'd option" where
  "ratchet_turn D minutes sinceMs high c =
     (if \<not> cd_isClosed c \<or> of_int (cd_openTimeMs c) < sinceMs \<or> \<not> isBucketEnd c minutes then high
      else do {
        h \<leftarrow> high;
        close \<leftarrow> d_new D (cd_close c);
        Some (if d_gt D close h then close else h)
      })"

definition ratchetProfitHigh ::
  "'d decimal_js \<Rightarrow> json \<Rightarrow> 'd option \<Rightarrow> 'd \<Rightarrow> candle list \<Rightarrow> rat option \<Rightarrow> 'd option option" where
  "ratchetProfitHigh D config previous entryPrice oneMinuteCandles sinceMs =
     (if jget (jget config ''profitTrail'') ''enabled'' \<noteq> JBool True then Some None
      else let high = d_max D (case previous of Some p \<Rightarrow> p | None \<Rightarrow> entryPrice) entryPrice
           in case sinceMs of
                None \<Rightarrow> Some (Some high)
              | Some since \<Rightarrow>
                  map_option Some (foldl (ratchet_turn D (ratchetMinutes (jget (jget config ''profitTrail'') ''ratchetMinutes'')) since)
                    (Some high) oneMinuteCandles))"

record 'd stop_resolution =
  sr_effectiveHigh :: 'd
  sr_profitHigh :: "'d option"
  sr_stop :: "'d option"
  sr_floorClamped :: bool

definition hard_leg :: "'d decimal_js \<Rightarrow> json \<Rightarrow> candle list \<Rightarrow> 'd \<Rightarrow> 'd option option" where
  "hard_leg D config candles effectiveHigh =
     map_option (\<lambda>hard. case hard of
         Some h \<Rightarrow> Some h
       | None \<Rightarrow> map_option (\<lambda>pct. d_times D effectiveHigh (d_minus D (d_int D 1) pct))
                   (unitFraction D (decOrNull D (jget config ''trailingStopPct''))))
       (atrTrailingStopPrice D config candles effectiveHigh)"

definition profit_leg :: "'d decimal_js \<Rightarrow> json \<Rightarrow> 'd \<Rightarrow> 'd option \<Rightarrow> 'd option" where
  "profit_leg D config entryPrice profitHigh =
     (case (profitHigh, profitLegDistance D config profitHigh entryPrice) of
        (Some high, Some distance) \<Rightarrow> Some (d_max D entryPrice (d_times D high (d_minus D (d_int D 1) distance)))
      | _ \<Rightarrow> None)"

definition higher_leg :: "'d decimal_js \<Rightarrow> 'd option \<Rightarrow> 'd option \<Rightarrow> 'd option" where
  "higher_leg D a b =
     (case (a, b) of (Some x, Some y) \<Rightarrow> Some (d_max D x y) | (Some x, None) \<Rightarrow> Some x | (None, y) \<Rightarrow> y)"

definition clamp_mode :: "json \<Rightarrow> bool" where
  "clamp_mode config =
     (jget (jget config ''protectiveStop'') ''enabled'' = JBool True \<and>
      jget (jget config ''protectiveStop'') ''onBandBlock'' = JStr ''clamp'')"

definition clamp_offset :: "'d decimal_js \<Rightarrow> json \<Rightarrow> 'd option" where
  "clamp_offset D config =
     (if clamp_mode config
      then unitFraction D (decOrNull D (jcoalesce (jget (jget config ''protectiveStop'') ''limitOffsetPercentage'') (JStr MO_DEFAULT_LIMIT_OFFSET)))
      else None)"

definition resolveStopLevel ::
  "'d decimal_js \<Rightarrow> json \<Rightarrow> 'd \<Rightarrow> 'd \<Rightarrow> 'd option \<Rightarrow> candle list \<Rightarrow> string \<Rightarrow> json \<Rightarrow> 'd option \<Rightarrow> 'd stop_resolution option" where
  "resolveStopLevel D config entryPrice effectiveHigh profitHigh tradingCandles reference band previousStop = do {
     hard \<leftarrow> hard_leg D config tradingCandles effectiveHigh;
     let stop = higher_leg D hard (profit_leg D config entryPrice profitHigh);
     let (resolved, clamped) = (case clamp_offset D config of
           Some limitOffset \<Rightarrow> clampStopToExchangeFloor D stop reference band limitOffset
         | None \<Rightarrow> (stop, False));
     let pinned = (case (resolved, previousStop) of
           (Some s, Some p) \<Rightarrow> if clamp_mode config then resolved else Some (d_max D s p)
         | _ \<Rightarrow> resolved);
     Some \<lparr>sr_effectiveHigh = effectiveHigh, sr_profitHigh = profitHigh, sr_stop = pinned, sr_floorClamped = clamped\<rparr>
   }"

section \<open>The entry budget\<close>

datatype mo_budget = MoBudget string | MoSizingUnconfigured | MoCapReached | MoRiskUnavailable

definition riskPct :: "'d decimal_js \<Rightarrow> json \<Rightarrow> 'd" where
  "riskPct D raw = (let d = coerceDec D raw ''0.01'' in if d_lt D d (d_int D 1) then d else dlit D ''0.01'')"

definition FREE_CASH_CUSHION :: "'d decimal_js \<Rightarrow> 'd" where
  "FREE_CASH_CUSHION D = dlit D ''0.995''"

definition wanted_budget :: "'d decimal_js \<Rightarrow> json \<Rightarrow> 'd \<Rightarrow> 'd option" where
  "wanted_budget D config equity =
     (let sizing = jget config ''entrySizing''
      in if jget sizing ''mode'' = JStr ''fixed'' then decOrNull D (jget sizing ''amount'')
         else if jget sizing ''mode'' = JStr ''percentOfAccount''
         then map_option (\<lambda>pct. d_times D pct equity) (decOrNull D (jget sizing ''percent''))
         else None)"

text \<open>The risk cap: \<open>Some None\<close> refuses the entry.\<close>

definition risk_capped ::
  "'d decimal_js \<Rightarrow> json \<Rightarrow> 'd \<Rightarrow> string \<Rightarrow> candle list \<Rightarrow> 'd \<Rightarrow> 'd option option" where
  "risk_capped D config equity price candles desired =
     (let risk = jget config ''riskSizing''
      in if jget risk ''enabled'' \<noteq> JBool True then Some (Some desired)
         else map_option (map_option (\<lambda>dist.
                d_min D desired (d_div D (d_times D (riskPct D (jget risk ''riskPct'')) equity) dist)))
              (case decOrNull D (JStr price) of
                 None \<Rightarrow> Some None
               | Some p \<Rightarrow> initialStopDistanceFraction D config candles p))"

definition spendable :: "'d decimal_js \<Rightarrow> 'd account_snapshot \<Rightarrow> string \<Rightarrow> 'd option" where
  "spendable D account quoteAsset =
     map_option (\<lambda>free. d_times D (if d_gt D free (d_int D 0) then free else d_int D 0) (FREE_CASH_CUSHION D))
       (case ac_balances account quoteAsset of None \<Rightarrow> Some (d_int D 0) | Some bal \<Rightarrow> amount_dec D (bl_free bal))"

definition reserve_headroom :: "'d decimal_js \<Rightarrow> json \<Rightarrow> 'd account_snapshot \<Rightarrow> 'd \<Rightarrow> 'd option" where
  "reserve_headroom D config account equity =
     (let cap = jget config ''accountCap''
      in if jget cap ''mode'' \<noteq> JStr ''percentOfAccount'' then None
         else map_option (\<lambda>pct. d_minus D (d_times D pct equity)
                (case decOrNull D (ac_deployedQuoteAcrossProfiles account) of Some d \<Rightarrow> d | None \<Rightarrow> d_int D 0))
              (decOrNull D (jget cap ''percent'')))"

definition mo_resolveEntryBudget ::
  "'d decimal_js \<Rightarrow> json \<Rightarrow> 'd account_snapshot \<Rightarrow> string \<Rightarrow> string \<Rightarrow> candle list \<Rightarrow> mo_budget option" where
  "mo_resolveEntryBudget D config account quoteAsset price candles =
     (let equity = accountEquity D account quoteAsset
      in case wanted_budget D config equity of
           None \<Rightarrow> Some MoSizingUnconfigured
         | Some wanted \<Rightarrow> do {
             capped \<leftarrow> risk_capped D config equity price candles wanted;
             (case capped of
                None \<Rightarrow> Some MoRiskUnavailable
              | Some desired \<Rightarrow> do {
                  cash \<leftarrow> spendable D account quoteAsset;
                  let budget = d_min D (d_max D desired (d_int D 0)) cash;
                  (case reserve_headroom D config account equity of
                     None \<Rightarrow> Some (MoBudget (d_toString D budget))
                   | Some headroom \<Rightarrow>
                       if d_lte D headroom (d_int D 0) then Some MoCapReached
                       else Some (MoBudget (d_toString D (d_min D budget headroom))))
                })
           })"

section \<open>Quantities\<close>

definition computeEntryQuantity ::
  "'d decimal_js \<Rightarrow> string \<Rightarrow> string \<Rightarrow> symbol_filters \<Rightarrow> 'd entry_stop_floor option \<Rightarrow> quantity_result option" where
  "computeEntryQuantity D quoteAmount currentPrice filters stop =
     (case parseFilters D filters of
        None \<Rightarrow> Some QInvalidFilters
      | Some parsed \<Rightarrow>
          (case (d_new D currentPrice, d_new D quoteAmount) of
             (Some price, Some budget) \<Rightarrow>
               if d_lte D price (d_int D 0) then Some QInvalidFilters
               else do {
                 quantity \<leftarrow> roundToStep D (d_div D budget price) (fl_step parsed);
                 (case finalise D quantity price parsed of
                    Sized s \<Rightarrow> do {
                      gate \<leftarrow> applyEntryStopFloor D quantity price parsed stop;
                      (case gate of
                         EntryBelowStopNotional \<Rightarrow> Some QEntryBelowStopNotional
                       | EntryInvalidFilters \<Rightarrow> Some QInvalidFilters
                       | EntryQuantity _ \<Rightarrow> Some (Quantity s))
                    }
                  | skip \<Rightarrow> Some (of_finalised skip))
               }
           | _ \<Rightarrow> Some QInvalidFilters))"

definition floor_offset :: "'d decimal_js \<Rightarrow> json \<Rightarrow> 'd" where
  "floor_offset D config =
     (let ps = jget config ''protectiveStop'';
          parsed = (if jget ps ''enabled'' = JBool True \<and> jget ps ''mode'' \<noteq> JStr ''native-trail''
                    then decOrNull D (jcoalesce (jget ps ''limitOffsetPercentage'') (JStr MO_DEFAULT_LIMIT_OFFSET)) else None)
      in case unitFraction D parsed of Some lo \<Rightarrow> lo | None \<Rightarrow> d_int D 1)"

definition mo_entryStopFloor :: "'d decimal_js \<Rightarrow> json \<Rightarrow> candle list \<Rightarrow> string \<Rightarrow> 'd entry_stop_floor option option" where
  "mo_entryStopFloor D config candles price =
     (case decOrNull D (JStr price) of
        None \<Rightarrow> Some None
      | Some p \<Rightarrow>
          if \<not> d_gt D p (d_int D 0) then Some None
          else map_option (\<lambda>dist.
                 map_option (\<lambda>fraction. \<lparr>es_distanceFraction = fraction, es_limitOffset = floor_offset D config\<rparr>)
                   (case dist of Some f \<Rightarrow> Some f | None \<Rightarrow> unitFraction D (decOrNull D (jget config ''trailingStopPct''))))
               (initialStopDistanceFraction D config candles p))"

definition computeExitQuantity :: "'d decimal_js \<Rightarrow> json \<Rightarrow> string \<Rightarrow> symbol_filters \<Rightarrow> quantity_result option" where
  "computeExitQuantity D heldQuantity currentPrice filters =
     (case parseFilters D filters of
        None \<Rightarrow> Some QInvalidFilters
      | Some parsed \<Rightarrow>
          (case (d_new D currentPrice, decimal_of D heldQuantity) of
             (Some price, Some held) \<Rightarrow>
               if d_lte D price (d_int D 0) then Some QInvalidFilters
               else map_option (\<lambda>quantity. of_finalised (finalise D quantity price parsed)) (roundToStep D held (fl_step parsed))
           | _ \<Rightarrow> Some QInvalidFilters))"

section \<open>The profit mark\<close>

text \<open>The closes a position's mark folds: closed minutes that end a bucket, none from before the epoch.\<close>

definition folds_close :: "json \<Rightarrow> rat \<Rightarrow> candle \<Rightarrow> bool" where
  "folds_close config since c \<longleftrightarrow>
     cd_isClosed c \<and> since \<le> of_int (cd_openTimeMs c) \<and>
     isBucketEnd c (ratchetMinutes (jget (jget config ''profitTrail'') ''ratchetMinutes''))"

definition folded_closes :: "'d decimal_js \<Rightarrow> ('d \<Rightarrow> rat) \<Rightarrow> json \<Rightarrow> rat \<Rightarrow> candle list \<Rightarrow> rat set" where
  "folded_closes D val config since w = (\<lambda>c. val (the (d_new D (cd_close c)))) ` {c \<in> set w. folds_close config since c}"

definition readable_closes :: "'d decimal_js \<Rightarrow> candle list \<Rightarrow> bool" where
  "readable_closes D w \<longleftrightarrow> (\<forall>c \<in> set w. \<exists>d. d_new D (cd_close c) = Some d \<and> d_isFinite D d)"

lemma folded_closes_simps [simp]:
  "finite (folded_closes D val config since w)" "folded_closes D val config since [] = {}"
  "folded_closes D val config since (w1 @ w2) = folded_closes D val config since w1 \<union> folded_closes D val config since w2"
  "folded_closes D val config since (c # w) =
     (if folds_close config since c then {val (the (d_new D (cd_close c)))} else {}) \<union> folded_closes D val config since w"
  by (auto simp: folded_closes_def)

lemma entry_as_first_buy: "computeEntryQuantity D b price filters stop = computeFirstBuyQuantity D b price filters [] stop"
proof -
  have e: "below_min_purchase D [] q p (Sized s) = Quantity s" for q p s by (simp add: below_min_purchase_def)
  show ?thesis unfolding computeEntryQuantity_def computeFirstBuyQuantity_def e ..
qed

lemma unitFraction_Some: "unitFraction D v = Some d \<longleftrightarrow> v = Some d \<and> d_gt D d (d_int D 0) \<and> d_lt D d (d_int D 1)"
  by (auto simp: unitFraction_def split: option.splits)

lemma ratchet_turn_eq:
  "ratchet_turn D (ratchetMinutes (jget (jget config ''profitTrail'') ''ratchetMinutes'')) since (Some h) c =
     (if folds_close config since c then map_option (\<lambda>close. if d_gt D close h then close else h) (d_new D (cd_close c)) else Some h)"
  by (cases "d_new D (cd_close c)") (auto simp: ratchet_turn_def folds_close_def)

context decimal_laws
begin

lemma ratchet_fold:
  assumes "readable_closes D w" "d_isFinite D h"
  obtains h' where "foldl (ratchet_turn D (ratchetMinutes (jget (jget config ''profitTrail'') ''ratchetMinutes'')) since) (Some h) w = Some h'"
    "d_isFinite D h'" "val h' = Max (insert (val h) (folded_closes D val config since w))"
proof -
  let ?g = "foldl (ratchet_turn D (ratchetMinutes (jget (jget config ''profitTrail'') ''ratchetMinutes'')) since)"
  have "\<exists>h'. ?g (Some h) w = Some h' \<and> d_isFinite D h' \<and> val h' = Max (insert (val h) (folded_closes D val config since w))"
    using assms
  proof (induction w arbitrary: h)
    case (Cons c w)
    obtain d where d: "d_new D (cd_close c) = Some d" "d_isFinite D d" using Cons.prems(1) by (auto simp: readable_closes_def)
    define k where "k = (if folds_close config since c \<and> d_gt D d h then d else h)"
    have k: "d_isFinite D k" "val k = (if folds_close config since c then max (val d) (val h) else val h)"
      using d(2) Cons.prems(2) lt [OF Cons.prems(2) d(2)] by (auto simp: k_def max_def)
    have "ratchet_turn D (ratchetMinutes (jget (jget config ''profitTrail'') ''ratchetMinutes'')) since (Some h) c = Some k"
      by (simp add: ratchet_turn_eq d(1) k_def)
    moreover obtain h' where "?g (Some k) w = Some h'" "d_isFinite D h'" "val h' = Max (insert (val k) (folded_closes D val config since w))"
      using Cons.IH [OF _ k(1)] Cons.prems(1) by (auto simp: readable_closes_def)
    moreover have "Max (insert (max a b) S) = Max (insert b (insert a S))" if "finite S" for a b :: rat and S
      using that by (cases "S = {}") (simp_all add: max.left_commute max.assoc)
    ultimately show ?case by (auto simp: k(2) d(1))
  qed simp
  with that show ?thesis by blast
qed

lemma ratchet_mark:
  assumes "jget (jget config ''profitTrail'') ''enabled'' = JBool True" "readable_closes D w" "d_isFinite D entry"
    and "\<And>p. previous = Some p \<Longrightarrow> d_isFinite D p"
  obtains h where "ratchetProfitHigh D config previous entry w (Some since) = Some (Some h)" "d_isFinite D h"
    "val h = Max (insert (val entry) (val ` set_option previous \<union> folded_closes D val config since w))"
proof -
  let ?h = "d_max D (case previous of Some p \<Rightarrow> p | None \<Rightarrow> entry) entry"
  have h: "d_isFinite D ?h" "val ?h = Max (insert (val entry) (val ` set_option previous))"
    using assms(3,4) max by (cases previous; simp add: max.commute)+
  obtain h' where "foldl (ratchet_turn D (ratchetMinutes (jget (jget config ''profitTrail'') ''ratchetMinutes'')) since) (Some ?h) w = Some h'"
    "d_isFinite D h'" "val h' = Max (insert (val ?h) (folded_closes D val config since w))"
    by (rule ratchet_fold [OF assms(2) h(1)])
  moreover have "Max (insert (Max (insert a S)) T) = Max (insert a (S \<union> T))" if "finite S" "finite T" for a :: rat and S T
    using that Max_Un [of "insert a S" T] by (cases "T = {}") (simp_all add: max.commute)
  ultimately show ?thesis using that [of h'] assms(1) by (simp add: ratchetProfitHigh_def h(2))
qed

text \<open>Literals of the sizing rules.\<close>

lemma cushion_literal: "d_isFinite D (FREE_CASH_CUSHION D)" "val (FREE_CASH_CUSHION D) = 995 / 1000"
proof -
  have p: "plain_parse ''0.995'' = Some (995, 3)"
    by (simp add: plain_parse_def unsigned_parse_def digits_of_def digit_of_def num_of_def)
  show "d_isFinite D (FREE_CASH_CUSHION D)" "val (FREE_CASH_CUSHION D) = 995 / 1000"
    using dlit_val [OF decimal_laws_axioms p] by (simp_all add: FREE_CASH_CUSHION_def)
qed

lemma profit_leg_floor:
  assumes "profit_leg D config entry high = Some p" "d_isFinite D entry" "\<And>h. high = Some h \<Longrightarrow> d_isFinite D h"
    and "d_isFinite D (trailPct D (jget (jget config ''profitTrail'') ''trailPct''))"
  shows "d_isFinite D p" "val entry \<le> val p"
proof -
  obtain h where h: "high = Some h" and p: "p = d_max D entry (d_times D h (d_minus D (d_int D 1) (trailPct D (jget (jget config ''profitTrail'') ''trailPct''))))"
    using assms(1) by (auto simp: profit_leg_def profitLegDistance_def Let_def split: option.splits if_splits)
  have "d_isFinite D (d_times D h (d_minus D (d_int D 1) (trailPct D (jget (jget config ''profitTrail'') ''trailPct''))))"
    using assms(3) [OF h] assms(4) by (intro arith_finite)
  from max [OF assms(2) this] show "d_isFinite D p" "val entry \<le> val p" by (simp_all add: p)
qed

lemma higher_leg_val:
  assumes "\<And>x. a = Some x \<Longrightarrow> d_isFinite D x" "\<And>y. b = Some y \<Longrightarrow> d_isFinite D y" "higher_leg D a b = Some s"
  shows "d_isFinite D s" "val s = Max (val ` (set_option a \<union> set_option b))"
  using assms max by (cases a; cases b; force simp: higher_leg_def max.commute)+

text \<open>What the clamp and the pin make of the highest leg.\<close>

lemma pinned_stop:
  assumes run: "resolveStopLevel D config entry high ph candles reference band previous = Some r"
    and hard: "hard_leg D config candles high = Some h" "higher_leg D h (profit_leg D config entry ph) = Some s" "d_isFinite D s"
    and prev: "\<And>x. previous = Some x \<Longrightarrow> d_isFinite D x"
    and top: "val s = Max (val ` S)" "finite S" "S \<noteq> {}"
  obtains t where "sr_stop r = Some t" "val s \<le> val t"
    "\<not> clamp_mode config \<longrightarrow> val t = Max (val ` (S \<union> set_option previous))"
    "clamp_mode config \<longrightarrow> val t = val s \<or> sr_floorClamped r \<and> (\<exists>ref. positiveDecimal D (JStr reference) = Some ref \<and> val t < val ref)"
proof (cases "clamp_mode config")
  case False
  then have r: "sr_stop r = (case previous of Some p \<Rightarrow> Some (d_max D s p) | None \<Rightarrow> Some s)"
    using run hard by (auto simp: resolveStopLevel_def clamp_offset_def Let_def split: option.splits)
  show ?thesis
  proof (cases previous)
    case None
    then show ?thesis using that [of s] r False top by simp
  next
    case (Some p)
    have "val (d_max D s p) = Max (val ` (S \<union> set_option previous))"
      using max [OF hard(3) prev [OF Some]] Max_Un [of "val ` S" "{val p}"] top by (simp add: Some max.commute)
    then show ?thesis using that [of "d_max D s p"] r False Some max [OF hard(3) prev [OF Some]] by simp
  qed
next
  case True
  show ?thesis
  proof (cases "clamp_offset D config")
    case None
    then have "sr_stop r = Some s" using run hard True by (auto simp: resolveStopLevel_def Let_def split: option.splits)
    then show ?thesis using that [of s] True by simp
  next
    case (Some lo)
    obtain u c where u: "clampStopToExchangeFloor D (Some s) reference band lo = (u, c)" by fastforce
    have r: "sr_stop r = u" "sr_floorClamped r = c"
      using run hard True Some u by (auto simp: resolveStopLevel_def Let_def split: option.splits)
    note k = clamp_clears_exchange_floor [OF decimal_laws_axioms hard(3) u]
    show ?thesis
    proof (cases c)
      case True
      with k obtain f ref where "u = Some f" "positiveDecimal D (JStr reference) = Some ref" "val s < val f" "val f < val ref" by blast
      with \<open>clamp_mode config\<close> \<open>c\<close> r show ?thesis by (intro that [of f]) auto
    next
      case False
      with k \<open>clamp_mode config\<close> r show ?thesis by (intro that [of s]) auto
    qed
  qed
qed

text \<open>Every limit a resolved budget keeps.\<close>

lemma spendable_bound:
  assumes "spendable D account asset = Some c"
    and "\<And>line. ac_balances account asset = Some line \<Longrightarrow> leg_value D val (bl_free line) free"
  defines "cash \<equiv> if ac_balances account asset = None then 0 else max 0 free"
  shows "d_isFinite D c" "nearest20 (cash * (995 / 1000)) (val c)"
proof -
  obtain f where leg: "(case ac_balances account asset of None \<Rightarrow> Some (d_int D 0) | Some bal \<Rightarrow> amount_dec D (bl_free bal)) = Some f"
    and c: "c = d_times D (if d_gt D f (d_int D 0) then f else d_int D 0) (FREE_CASH_CUSHION D)"
    using assms(1) by (auto simp: spendable_def)
  let ?k = "if d_gt D f (d_int D 0) then f else d_int D 0"
  have f: "d_isFinite D f" "val f = (if ac_balances account asset = None then 0 else free)"
    using leg assms(2) by (auto simp: leg_value_def int_finite int_val split: option.splits)
  have k: "d_isFinite D ?k" "val ?k = cash"
    using f(1,2) lt [OF int_finite f(1), of 0] by (auto simp: int_finite int_val cash_def max_def)
  show "d_isFinite D c" "nearest20 (cash * (995 / 1000)) (val c)"
    using times [OF k(1) cushion_literal(1)] unfolding c k(2) cushion_literal(2) by blast+
qed

lemma headroom_finite: "reserve_headroom D config account e = Some h \<Longrightarrow> d_isFinite D e \<Longrightarrow> d_isFinite D h"
  by (auto simp: reserve_headroom_def Let_def intro!: arith_finite dest: decOrNull_finite split: if_splits option.splits)

lemma wanted_finite: "wanted_budget D config e = Some x \<Longrightarrow> d_isFinite D e \<Longrightarrow> d_isFinite D x"
  by (auto simp: wanted_budget_def Let_def intro: arith_finite dest: decOrNull_finite split: if_splits)

lemma unit_fraction_pos: "unitFraction D v = Some d \<Longrightarrow> d_isFinite D d \<Longrightarrow> 0 < val d"
  by (simp add: unitFraction_Some lt int_finite int_val)

lemma distance_unit: "initialStopDistanceFraction D config candles p = Some (Some w) \<Longrightarrow> \<exists>v. unitFraction D v = Some w"
  by (auto simp: initialStopDistanceFraction_def Let_def split: if_splits)

lemma risk_capped_bound:
  assumes "risk_capped D config e price candles x = Some (Some y)" "d_isFinite D x" "d_isFinite D e"
    and "d_isFinite D (riskPct D (jget (jget config ''riskSizing'') ''riskPct''))" "decOrNull D (JStr price) = Some p"
    and "\<And>w. initialStopDistanceFraction D config candles p = Some (Some w) \<Longrightarrow> d_isFinite D w"
  shows "d_isFinite D y" "val y \<le> val x"
    and "\<And>w. jget (jget config ''riskSizing'') ''enabled'' = JBool True \<Longrightarrow>
      initialStopDistanceFraction D config candles p = Some (Some w) \<Longrightarrow>
      val y \<le> val (d_div D (d_times D (riskPct D (jget (jget config ''riskSizing'') ''riskPct'')) e) w)"
proof -
  let ?r = "d_times D (riskPct D (jget (jget config ''riskSizing'') ''riskPct'')) e"
  have m: "d_isFinite D (d_min D x (d_div D ?r w)) \<and> val (d_min D x (d_div D ?r w)) = min (val x) (val (d_div D ?r w))"
    if "initialStopDistanceFraction D config candles p = Some (Some w)" for w
  proof -
    have w: "d_isFinite D w" using assms(6) that by blast
    moreover have "0 < val w" using distance_unit [OF that] unit_fraction_pos [OF _ w] by blast
    ultimately show ?thesis using min [OF assms(2), of "d_div D ?r w"] div [of ?r w] times [OF assms(4,3)] by simp
  qed
  show "d_isFinite D y" "val y \<le> val x"
    using assms(1,2,5) m by (auto simp: risk_capped_def Let_def split: if_splits option.splits simp del: decOrNull.simps)
  show "val y \<le> val (d_div D ?r w)" if "jget (jget config ''riskSizing'') ''enabled'' = JBool True"
      "initialStopDistanceFraction D config candles p = Some (Some w)" for w
    using assms(1,5) m [OF that(2)] that by (auto simp: risk_capped_def Let_def simp del: decOrNull.simps)
qed

lemma mo_budget_bounds:
  assumes run: "mo_resolveEntryBudget D config account asset price candles = Some (MoBudget b)"
    and fin: "d_isFinite D (accountEquity D account asset)" "\<And>c. spendable D account asset = Some c \<Longrightarrow> d_isFinite D c"
      "\<And>x y. wanted_budget D config (accountEquity D account asset) = Some x \<Longrightarrow>
         risk_capped D config (accountEquity D account asset) price candles x = Some (Some y) \<Longrightarrow> d_isFinite D y"
  obtains x y c m where "wanted_budget D config (accountEquity D account asset) = Some x"
    "risk_capped D config (accountEquity D account asset) price candles x = Some (Some y)" "spendable D account asset = Some c"
    "d_isFinite D m" "b = d_toString D m" "val m \<le> val c" "val m \<le> max 0 (val y)"
    "\<And>h. reserve_headroom D config account (accountEquity D account asset) = Some h \<Longrightarrow> val m \<le> val h"
proof -
  let ?e = "accountEquity D account asset"
  obtain x y c where xyc: "wanted_budget D config ?e = Some x" "risk_capped D config ?e price candles x = Some (Some y)"
      "spendable D account asset = Some c"
    using run by (auto simp: mo_resolveEntryBudget_def Let_def split: option.splits bind_splits)
  let ?b = "d_min D (d_max D y (d_int D 0)) c"
  have mx: "d_isFinite D (d_max D y (d_int D 0))" "val (d_max D y (d_int D 0)) = max 0 (val y)"
    using max [OF fin(3) [OF xyc(1,2)] int_finite, of 0] by (auto simp: int_val max.commute)
  have m: "d_isFinite D ?b" "val ?b = min (max 0 (val y)) (val c)" using min [OF mx(1) fin(2) [OF xyc(3)]] mx(2) by auto
  show ?thesis
  proof (cases "reserve_headroom D config account ?e")
    case None
    then show ?thesis using that [OF xyc m(1)] m(2) run xyc by (simp add: mo_resolveEntryBudget_def Let_def)
  next
    case (Some h)
    have "b = d_toString D (d_min D ?b h)" using run xyc Some by (auto simp: mo_resolveEntryBudget_def Let_def split: if_splits)
    then show ?thesis using that [OF xyc, of "d_min D ?b h"] min [OF m(1) headroom_finite [OF Some fin(1)]] m(2) Some by auto
  qed
qed

end

section \<open>Properties\<close>

text \<open>
  C35. The profit mark is exactly the highest of the entry price, the mark already held and the closes that
  end a bucket since the entry. Folding is therefore indifferent to how the minutes are cut into
  ticks and to minutes seen twice: the mark after two windows is the mark after their concatenation.
\<close>
theorem profit_mark_exact:
  assumes L: "decimal_laws D val" and on: "jget (jget config ''profitTrail'') ''enabled'' = JBool True"
    and entry: "d_isFinite D entry" and prev: "\<And>p. previous = Some p \<Longrightarrow> d_isFinite D p"
    and w: "readable_closes D (w1 @ w2)"
  shows "\<exists>h1 h2 h. ratchetProfitHigh D config previous entry w1 (Some since) = Some (Some h1) \<and>
    ratchetProfitHigh D config (Some h1) entry w2 (Some since) = Some (Some h2) \<and>
    ratchetProfitHigh D config previous entry (w1 @ w2) (Some since) = Some (Some h) \<and>
    val h2 = val h \<and> val h = Max (insert (val entry) (val ` set_option previous \<union> folded_closes D val config since (w1 @ w2)))"
proof -
  have r: "readable_closes D w1" "readable_closes D w2" using w by (auto simp: readable_closes_def)
  obtain h1 where h1: "ratchetProfitHigh D config previous entry w1 (Some since) = Some (Some h1)" "d_isFinite D h1"
    "val h1 = Max (insert (val entry) (val ` set_option previous \<union> folded_closes D val config since w1))"
    by (rule decimal_laws.ratchet_mark [OF L on r(1) entry prev])
  obtain h2 where h2: "ratchetProfitHigh D config (Some h1) entry w2 (Some since) = Some (Some h2)"
    "val h2 = Max (insert (val entry) (val ` set_option (Some h1) \<union> folded_closes D val config since w2))"
    by (rule decimal_laws.ratchet_mark [OF L on r(2) entry, of "Some h1"]) (use h1(2) in auto)
  obtain h where h: "ratchetProfitHigh D config previous entry (w1 @ w2) (Some since) = Some (Some h)"
    "val h = Max (insert (val entry) (val ` set_option previous \<union> folded_closes D val config since (w1 @ w2)))"
    by (rule decimal_laws.ratchet_mark [OF L on w entry prev])
  have glue: "Max (insert a (insert (Max (insert a S)) T)) = Max (insert a (S \<union> T))" if "finite S" "finite T" for a :: rat and S T
    using that Max_Un [of "insert a S" "insert a T"] by (cases "T = {}") (simp_all add: max.commute max.left_commute)
  have "val h2 = val h"
    using glue [of "val ` set_option previous \<union> folded_closes D val config since w1" "folded_closes D val config since w2" "val entry"]
    unfolding h2(2) h(2) by (simp add: h1(3) Un_assoc)
  then show ?thesis using h1(1) h2(1) h by blast
qed

text \<open>A concrete configuration and two windows of minutes that overlap.\<close>

definition example_mo_config :: json where
  "example_mo_config = JObj
     [(''trailingStopPct'', JStr ''0.05''),
      (''entrySizing'', JObj [(''mode'', JStr ''percentOfAccount''), (''percent'', JStr ''0.5'')]),
      (''accountCap'', JObj [(''mode'', JStr ''percentOfAccount''), (''percent'', JStr ''0.8'')]),
      (''riskSizing'', JObj [(''enabled'', JBool True), (''riskPct'', JStr ''0.01'')]),
      (''profitTrail'', JObj [(''enabled'', JBool True), (''activationPct'', JStr ''0.05''), (''trailPct'', JStr ''0.03''), (''ratchetMinutes'', JStr ''5'')]),
      (''protectiveStop'', JObj [(''enabled'', JBool True)])]"

definition example_minute :: "int \<Rightarrow> string \<Rightarrow> candle" where
  "example_minute t close = \<lparr>cd_openTimeMs = t, cd_closeTimeMs = t + 59999, cd_open = close, cd_high = close, cd_low = close,
     cd_close = close, cd_volume = ''1'', cd_isClosed = True\<rparr>"

lemma example_minutes: "ratchetMinutes (jget (jget example_mo_config ''profitTrail'') ''ratchetMinutes'') = 5"
  by code_simp

lemma example_closes: "d_new dec_js ''112'' = Some (Dec 112 0)" "d_new dec_js ''108'' = Some (Dec 108 0)" "d_new dec_js ''150'' = Some (Dec 150 0)"
  by code_simp+

theorem profit_mark_exact_witness:
  "\<exists>h. ratchetProfitHigh dec_js example_mo_config None (Dec 100 0)
      ([example_minute 240000 ''112'', example_minute 300000 ''150''] @ [example_minute 240000 ''112'', example_minute 540000 ''108'']) (Some 0)
      = Some (Some h) \<and> dval h = 112"
proof -
  let ?w1 = "[example_minute 240000 ''112'', example_minute 300000 ''150'']" and ?w2 = "[example_minute 240000 ''112'', example_minute 540000 ''108'']"
  have on: "jget (jget example_mo_config ''profitTrail'') ''enabled'' = JBool True" by code_simp
  have r: "readable_closes dec_js (?w1 @ ?w2)" by (simp add: readable_closes_def example_minute_def example_closes)
  have "folded_closes dec_js dval example_mo_config 0 (?w1 @ ?w2) = {112, 108}"
    by (simp add: folds_close_def example_minutes isBucketEnd_def) (simp add: example_minute_def example_closes insert_commute)
  then show ?thesis
    using profit_mark_exact [OF djs.decimal_laws_axioms on dec_js_finite _ r, of None 100 0 0] by auto
qed

text \<open>
  C34. The exit level never loosens. It exists exactly when a leg resolves, is never under a resolved leg,
  and once the profit leg is armed it is at or above the entry price. Outside the clamp it is exactly
  the highest of the legs and the trigger already resting at the exchange; under the clamp it is the
  highest leg, or a raised trigger that still sits below the market.
\<close>
theorem stop_level_highest_leg:
  fixes D :: "'d decimal_js"
  defines "legs h config entry ph \<equiv> set_option h \<union> set_option (profit_leg D config entry ph)"
  assumes L: "decimal_laws D val" and hard: "hard_leg D config candles high = Some h" "\<And>x. h = Some x \<Longrightarrow> d_isFinite D x"
    and entry: "d_isFinite D entry" and ph: "\<And>x. ph = Some x \<Longrightarrow> d_isFinite D x"
    and trail: "d_isFinite D (trailPct D (jget (jget config ''profitTrail'') ''trailPct''))"
    and prev: "\<And>x. previous = Some x \<Longrightarrow> d_isFinite D x"
  shows "\<exists>r. resolveStopLevel D config entry high ph candles reference band previous = Some r \<and>
    (sr_stop r = None \<longleftrightarrow> legs h config entry ph = {}) \<and>
    (\<forall>s. sr_stop r = Some s \<longrightarrow>
       (\<forall>x \<in> legs h config entry ph. val x \<le> val s) \<and>
       (profit_leg D config entry ph \<noteq> None \<longrightarrow> val entry \<le> val s) \<and>
       (\<not> clamp_mode config \<longrightarrow> val s = Max (val ` (legs h config entry ph \<union> set_option previous))) \<and>
       (clamp_mode config \<longrightarrow> val s = Max (val ` legs h config entry ph) \<or>
          sr_floorClamped r \<and> (\<exists>ref. positiveDecimal D (JStr reference) = Some ref \<and> val s < val ref)))"
proof -
  define pl where "pl = profit_leg D config entry ph"
  have plf: "d_isFinite D p \<and> val entry \<le> val p" if "pl = Some p" for p
    using decimal_laws.profit_leg_floor [OF L that [unfolded pl_def] entry ph trail] by blast
  obtain r where r: "resolveStopLevel D config entry high ph candles reference band previous = Some r"
    by (simp add: resolveStopLevel_def hard(1) split_beta Let_def)
  show ?thesis
  proof (cases "higher_leg D h pl")
    case None
    then have n: "h = None" "pl = None" by (auto simp: higher_leg_def split: option.splits)
    then have "sr_stop r = None"
      using r by (auto simp: resolveStopLevel_def hard(1) pl_def [symmetric] higher_leg_def clampStopToExchangeFloor_def Let_def split: option.splits)
    with r n show ?thesis by (auto simp: legs_def pl_def)
  next
    case (Some s)
    have s: "d_isFinite D s" "val s = Max (val ` legs h config entry ph)"
      using decimal_laws.higher_leg_val [OF L hard(2) _ Some] plf unfolding legs_def pl_def [symmetric] by blast+
    have ne: "legs h config entry ph \<noteq> {}" using Some by (auto simp: legs_def pl_def higher_leg_def split: option.splits)
    have fin: "finite (legs h config entry ph)" by (simp add: legs_def)
    obtain t where t: "sr_stop r = Some t" "val s \<le> val t"
        "\<not> clamp_mode config \<longrightarrow> val t = Max (val ` (legs h config entry ph \<union> set_option previous))"
        "clamp_mode config \<longrightarrow> val t = val s \<or> sr_floorClamped r \<and> (\<exists>ref. positiveDecimal D (JStr reference) = Some ref \<and> val t < val ref)"
      by (rule decimal_laws.pinned_stop [OF L r hard(1) Some [unfolded pl_def] s(1) prev s(2) fin ne])
    have leg: "val x \<le> val t" if "x \<in> legs h config entry ph" for x
      using t(2) Max_ge [OF finite_imageI [OF fin] imageI [OF that], of val] unfolding s(2) by simp
    moreover have "val entry \<le> val t" if p: "pl = Some p" for p
      using leg [of p] plf [OF p] p by (force simp: legs_def pl_def)
    ultimately show ?thesis using r t ne unfolding s(2) pl_def by (intro exI [of _ r]) auto
  qed
qed

lemma example_legs:
  "hard_leg dec_js example_mo_config [] (Dec 112 0) = Some (Some (Dec 10640000000000000000 17))"
  "trailPct dec_js (jget (jget example_mo_config ''profitTrail'') ''trailPct'') = Dec 3 2"
  "profit_leg dec_js example_mo_config (Dec 100 0) (Some (Dec 112 0)) \<noteq> None" "\<not> clamp_mode example_mo_config"
  by code_simp+

theorem stop_level_highest_leg_witness:
  "\<exists>r s. resolveStopLevel dec_js example_mo_config (Dec 100 0) (Dec 112 0) (Some (Dec 112 0)) [] ''110'' JUndefined (Some (Dec 107 0)) = Some r \<and>
     sr_stop r = Some s \<and> 100 \<le> dval s \<and> 107 \<le> dval s"
proof -
  let ?p = "profit_leg dec_js example_mo_config (Dec 100 0) (Some (Dec 112 0))" and ?h = "Dec 10640000000000000000 17"
  obtain r where r: "resolveStopLevel dec_js example_mo_config (Dec 100 0) (Dec 112 0) (Some (Dec 112 0)) [] ''110'' JUndefined (Some (Dec 107 0)) = Some r"
    and none: "sr_stop r = None \<longleftrightarrow> set_option (Some ?h) \<union> set_option ?p = {}"
    and some: "\<forall>s. sr_stop r = Some s \<longrightarrow> dval (Dec 100 0) \<le> dval s \<and>
       dval s = Max (dval ` (set_option (Some ?h) \<union> set_option ?p \<union> set_option (Some (Dec 107 0))))"
    using stop_level_highest_leg [OF djs.decimal_laws_axioms example_legs(1) _ dec_js_finite, of "Some (Dec 112 0)" "Some (Dec 107 0)" 100 0 "''110''" JUndefined]
      example_legs(2-4) by auto
  obtain s where s: "sr_stop r = Some s" using none by (cases "sr_stop r") auto
  have "dval (Dec 107 0) \<le> Max (dval ` (set_option (Some ?h) \<union> set_option ?p \<union> set_option (Some (Dec 107 0))))"
    by (rule Max_ge) simp_all
  with some s have "dval (Dec 100 0) \<le> dval s" "dval (Dec 107 0) \<le> dval s" by auto
  with r s show ?thesis by auto
qed

text \<open>
  C36. A momentum entry keeps every limit at once. The market buy a resolved budget is turned into is
  positive; its cost is at most the 99.5 percent of the free quote balance the strategy lets itself
  spend, at most the amount it was configured to spend, and at most what the reserve cap leaves; and
  with risk sizing on, what it loses down to its initial stop is at most the configured share of the
  equity. Each bound is up to the rounding of the decimal library.
\<close>
theorem momentum_entry_within_limits:
  fixes D :: "'d decimal_js" and account asset config
  defines "e \<equiv> accountEquity D account asset" and "share \<equiv> riskPct D (jget (jget config ''riskSizing'') ''riskPct'')"
  assumes L: "decimal_laws D val"
    and budget: "mo_resolveEntryBudget D config account asset price candles = Some (MoBudget b)"
    and order: "computeEntryQuantity D b price filters stop = Some (Quantity s)"
    and wallet: "\<And>line. ac_balances account asset = Some line \<Longrightarrow>
      leg_value D val (bl_free line) free \<and> leg_value D val (bl_locked line) locked"
    and p: "decOrNull D (JStr price) = Some p"
    and f: "parseFilters D filters = Some f" "d_isFinite D (fl_step f)" "d_isFinite D (fl_minQty f)" "pow10 (val (fl_step f))"
    and risk: "d_isFinite D share"
      "\<And>w. initialStopDistanceFraction D config candles p = Some (Some w) \<Longrightarrow> d_isFinite D w"
  shows "\<exists>q. d_new D s = Some q \<and> 0 < val q \<and>
    val q * val p \<le> (if ac_balances account asset = None then 0 else max 0 free) * (995 / 1000) * (1 + eps) ^ 2 \<and>
    (\<forall>x. wanted_budget D config e = Some x \<longrightarrow> val q * val p \<le> val x * (1 + eps)) \<and>
    (\<forall>h. reserve_headroom D config account e = Some h \<longrightarrow> val q * val p \<le> val h * (1 + eps)) \<and>
    (\<forall>w. jget (jget config ''riskSizing'') ''enabled'' = JBool True \<and> initialStopDistanceFraction D config candles p = Some (Some w) \<longrightarrow>
       val q * val p * val w \<le> val share * val e * (1 + eps) ^ 3)"
proof -
  have ef: "d_isFinite D e" unfolding e_def using wallet by (rule decimal_laws.equity_finite [OF L])
  have cash: "\<And>c. spendable D account asset = Some c \<Longrightarrow> d_isFinite D c"
    using decimal_laws.spendable_bound(1) [OF L] wallet by blast
  have pd: "d_new D price = Some p" "d_isFinite D p" using p by (auto split: if_splits option.splits)
  have capped: "d_isFinite D y" "val y \<le> val x"
      "\<And>w. jget (jget config ''riskSizing'') ''enabled'' = JBool True \<Longrightarrow>
        initialStopDistanceFraction D config candles p = Some (Some w) \<Longrightarrow> val y \<le> val (d_div D (d_times D share e) w)"
    if "wanted_budget D config e = Some x" "risk_capped D config e price candles x = Some (Some y)" for x y
    using decimal_laws.risk_capped_bound [OF L that(2) decimal_laws.wanted_finite [OF L that(1) ef] ef risk(1) [unfolded share_def] p risk(2)]
    unfolding share_def by blast+
  obtain x y c m where x: "wanted_budget D config e = Some x" and y: "risk_capped D config e price candles x = Some (Some y)"
    and c: "spendable D account asset = Some c" and m: "d_isFinite D m" "b = d_toString D m" "val m \<le> val c" "val m \<le> max 0 (val y)"
    and room: "\<And>h. reserve_headroom D config account e = Some h \<Longrightarrow> val m \<le> val h"
    unfolding e_def
    by (rule decimal_laws.mo_budget_bounds [OF L budget ef [unfolded e_def] cash capped(1) [unfolded e_def]]) blast+
  obtain q where q: "d_new D s = Some q" "0 < val q" "0 < val p" "val q * val p \<le> val m * (1 + eps)"
    by (rule decimal_laws.first_buy_cost [OF L order [unfolded entry_as_first_buy] m(2,1) pd f])
  have "0 < val q * val p" using q(2,3) by simp
  with q(4) have "0 < val m * (1 + eps)" by linarith
  then have m0: "0 < val m" by (simp add: zero_less_mult_iff)
  have up: "val q * val p \<le> z * (1 + eps)" if "val m \<le> z" for z
    by (rule order_trans [OF q(4) mult_right_mono [OF that]]) simp
  have "nearest20 ((if ac_balances account asset = None then 0 else max 0 free) * (995 / 1000)) (val c)"
    using decimal_laws.spendable_bound(2) [OF L c] wallet by blast
  from decimal_laws.under_rounded [OF L this m(3) m0 q(4)]
  have free: "val q * val p \<le> (if ac_balances account asset = None then 0 else max 0 free) * (995 / 1000) * (1 + eps) ^ 2" .
  have want: "val m \<le> val x" using capped(2) [OF x y] m(4) m0 by linarith
  have lost: "val q * val p * val w \<le> val share * val e * (1 + eps) ^ 3"
    if w: "jget (jget config ''riskSizing'') ''enabled'' = JBool True" "initialStopDistanceFraction D config candles p = Some (Some w)" for w
  proof -
    have wf: "d_isFinite D w" by (rule risk(2) [OF w(2)])
    have w0: "0 < val w" using decimal_laws.distance_unit [OF L w(2)] decimal_laws.unit_fraction_pos [OF L _ wf] by blast
    have "val m \<le> max 0 (val (d_div D (d_times D share e) w))"
      using m(4) capped(3) [OF x y w] by linarith
    from decimal_laws.under_risk [OF L risk(1) ef wf w0 this m0 q(4)] show ?thesis .
  qed
  show ?thesis using q(1,2) free up want room lost x by (intro exI [of _ q]) auto
qed

lemma example_mo_budget:
  "mo_resolveEntryBudget dec_js example_mo_config example_account ''USDT'' ''100'' [] = Some (MoBudget ''200.00000000000000000'')"
  by code_simp

lemma example_mo_order:
  "computeEntryQuantity dec_js ''200.00000000000000000'' ''100'' example_lot None = Some (Quantity ''2.00'')"
  by code_simp

lemma example_mo_risk:
  "riskPct dec_js (jget (jget example_mo_config ''riskSizing'') ''riskPct'') = Dec 1 2" "decOrNull dec_js (JStr ''100'') = Some (Dec 100 0)"
  "initialStopDistanceFraction dec_js example_mo_config [] (Dec 100 0) = Some (Some (Dec 5 2))"
  by code_simp+

theorem momentum_entry_within_limits_witness:
  "\<exists>q. d_new dec_js ''2.00'' = Some q \<and> 0 < dval q \<and> dval q * 100 \<le> 900 * (995 / 1000) * (1 + eps) ^ 2 \<and>
     dval q * 100 * (5 / 100) \<le> 1 / 100 * dval (accountEquity dec_js example_account ''USDT'') * (1 + eps) ^ 3"
proof -
  have l: "amount_dec dec_js (AmountStr ''900'') = Some (Dec 900 0)" "amount_dec dec_js (AmountStr ''0'') = Some (Dec 0 0)" by code_simp+
  have w: "leg_value dec_js dval (bl_free line) 900 \<and> leg_value dec_js dval (bl_locked line) 0"
    if "ac_balances example_account ''USDT'' = Some line" for line
    using that l by (auto simp: example_account_def leg_value_def)
  let ?f = "\<lparr>fl_step = Dec 1 2, fl_minQty = Dec 1 2, fl_minNotional = Dec 5 0, fl_tick = Some (Dec 1 2)\<rparr>"
  have f: "d_isFinite dec_js (fl_step ?f)" "d_isFinite dec_js (fl_minQty ?f)" "pow10 (dval (fl_step ?f))"
    unfolding size_filters.simps by (rule dec_js_finite dec_js_finite pow10_Dec)+
  have on: "jget (jget example_mo_config ''riskSizing'') ''enabled'' = JBool True" by code_simp
  obtain q where "d_new dec_js ''2.00'' = Some q" "0 < dval q"
    "dval q * dval (Dec 100 0) \<le> (if ac_balances example_account ''USDT'' = None then 0 else max 0 900) * (995 / 1000) * (1 + eps) ^ 2"
    "dval q * dval (Dec 100 0) * dval (Dec 5 2) \<le> dval (Dec 1 2) * dval (accountEquity dec_js example_account ''USDT'') * (1 + eps) ^ 3"
    using momentum_entry_within_limits [OF djs.decimal_laws_axioms example_mo_budget example_mo_order _ example_mo_risk(2) example_parsed f, of 900 0]
      w example_mo_risk(1,3) on by auto
  moreover have "ac_balances example_account ''USDT'' \<noteq> None" "dval (Dec 100 0) = 100" "dval (Dec 5 2) = 5 / 100" "dval (Dec 1 2) = 1 / 100"
    by (simp_all add: example_account_def)
  ultimately show ?thesis by (intro exI [of _ q]) (simp only: if_False max_def, simp)
qed

end
