(* ===== verification/Mo_Signals.thy ===== *)
theory Mo_Signals
  imports Mo_Stops
begin

text \<open>
  The entry triggers of the momentum strategy (\<open>packages/strategy/momentum/src\<close>): the breakout
  (\<open>breakout.ts\<close>), the cluster of moving averages with its choppiness and volatility gates
  (\<open>ma-cluster.ts\<close>), the impulse candle (\<open>impulse.ts\<close>), the exhausted slide (\<open>exhaustion.ts\<close>),
  on-balance volume (\<open>obv-lead.ts\<close>), the weekend gap (\<open>weekend-gap.ts\<close>) and the cross-symbol
  ranking (\<open>relative-strength.ts\<close>). An outer \<open>None\<close> is an exception, an inner one \<open>null\<close>.

  Four operations of the decimal library that only these rules call are a second parameter: the
  logarithm, the square root, powers, and the sum of many addends, which rounds once.
\<close>

record 'd decimal_more =
  dm_log10 :: "'d \<Rightarrow> 'd"
  dm_sqrt :: "'d \<Rightarrow> 'd"
  dm_pow :: "'d \<Rightarrow> nat \<Rightarrow> 'd"
  dm_sum :: "'d list \<Rightarrow> 'd"

section \<open>Breakout\<close>

definition breakoutLookback :: "json \<Rightarrow> int" where "breakoutLookback raw = coerceInt raw 2 400"

definition tail_of :: "nat \<Rightarrow> 'a list \<Rightarrow> 'a list" where
  "tail_of n xs = drop (length xs - n) xs"

definition breakoutLevel :: "'d decimal_js \<Rightarrow> candle list \<Rightarrow> int \<Rightarrow> 'd option option" where
  "breakoutLevel D candles lookback =
     (if int (length candles) < lookback then Some None
      else Option.bind (prices D cd_high (tail_of (nat lookback) candles))
             (\<lambda>highs. map_option Some (extreme (\<lambda>level high. if d_gt D high level then high else level) highs)))"

section \<open>The cluster of moving averages\<close>

definition MA_CLUSTER_PERIODS :: "nat list" where "MA_CLUSTER_PERIODS = [20, 50, 100, 200]"

definition LONGEST :: nat where "LONGEST = 200"

definition MA_CLUSTER_ATR_PERIOD :: nat where "MA_CLUSTER_ATR_PERIOD = 14"

definition MA_CLUSTER_ATR_LOOKBACK :: nat where "MA_CLUSTER_ATR_LOOKBACK = 480"

definition MA_CLUSTER_CHOP_PERIOD :: nat where "MA_CLUSTER_CHOP_PERIOD = 14"

definition maClusterConfirmBreak :: "json \<Rightarrow> bool" where
  "maClusterConfirmBreak raw = (jget raw ''confirmBreak'' = JBool True)"

definition maClusterMaxSpread :: "'d decimal_js \<Rightarrow> json \<Rightarrow> 'd" where
  "maClusterMaxSpread D raw = coerceDec D (jget raw ''maxSpread'') ''0.01''"

definition ceiling_leaf :: "'d decimal_js \<Rightarrow> json \<Rightarrow> int \<Rightarrow> 'd option" where
  "ceiling_leaf D leaf most =
     (case string_decimal D leaf of
        Some d \<Rightarrow> if d_gt D d (d_int D 0) \<and> d_lte D d (d_int D most) then Some d else None
      | None \<Rightarrow> None)"

definition maClusterMaxChoppiness :: "'d decimal_js \<Rightarrow> json \<Rightarrow> 'd option" where
  "maClusterMaxChoppiness D raw = ceiling_leaf D (jget raw ''maxChoppiness'') 100"

definition maClusterMaxAtrPercentile :: "'d decimal_js \<Rightarrow> json \<Rightarrow> 'd option" where
  "maClusterMaxAtrPercentile D raw = ceiling_leaf D (jget raw ''maxAtrPercentile'') 1"

definition maClusterNeed :: "'d decimal_js \<Rightarrow> json \<Rightarrow> nat" where
  "maClusterNeed D raw =
     (if maClusterMaxAtrPercentile D raw = None then LONGEST + 1 else MA_CLUSTER_ATR_PERIOD + MA_CLUSTER_ATR_LOOKBACK + 1) +
     (if maClusterConfirmBreak raw then 1 else 0)"

text \<open>The true range as these rules write it, with the library's own maximum.\<close>

definition range_of :: "'d decimal_js \<Rightarrow> candle \<Rightarrow> candle \<Rightarrow> 'd option" where
  "range_of D cur prev = do {
     h \<leftarrow> d_new D (cd_high cur);
     l \<leftarrow> d_new D (cd_low cur);
     pc \<leftarrow> d_new D (cd_close prev);
     Some (d_max D (d_max D (d_minus D h l) (d_abs D (d_minus D h pc))) (d_abs D (d_minus D l pc)))
   }"

definition ranges :: "'d decimal_js \<Rightarrow> candle list \<Rightarrow> 'd list option" where
  "ranges D w = those (map2 (range_of D) (tl w) w)"

definition choppiness :: "'d decimal_js \<Rightarrow> 'd decimal_more \<Rightarrow> candle list \<Rightarrow> 'd option" where
  "choppiness D M candles =
     (let n = MA_CLUSTER_CHOP_PERIOD; w = tail_of (n + 1) candles
      in do {
        trs \<leftarrow> ranges D w;
        highs \<leftarrow> prices D cd_high (tl w);
        lows \<leftarrow> prices D cd_low (tl w);
        hi \<leftarrow> extreme (d_max D) highs;
        lo \<leftarrow> extreme (d_min D) lows;
        let sumTr = foldl (d_plus D) (d_int D 0) trs;
        let extent = d_minus D hi lo;
        Some (if d_lte D extent (d_int D 0) then d_int D 100
              else d_times D (d_div D (dm_log10 M (d_div D sumTr extent)) (dm_log10 M (d_int D (int n)))) (d_int D 100))
      })"

fun wilder_scan :: "'d decimal_js \<Rightarrow> nat \<Rightarrow> 'd \<Rightarrow> 'd list \<Rightarrow> 'd list" where
  "wilder_scan D n v [] = [v]"
| "wilder_scan D n v (x # xs) =
     v # wilder_scan D n (d_div D (d_plus D (d_times D v (d_int D (int n - 1))) x) (d_int D (int n))) xs"

definition atrPercentile :: "'d decimal_js \<Rightarrow> candle list \<Rightarrow> 'd option" where
  "atrPercentile D candles =
     (let n = MA_CLUSTER_ATR_PERIOD; w = tail_of (n + MA_CLUSTER_ATR_LOOKBACK + 1) candles
      in if length w < n + 1 then None
         else do {
           trs \<leftarrow> ranges D w;
           closes \<leftarrow> prices D cd_close w;
           let first = d_div D (foldl (d_plus D) (d_int D 0) (take n trs)) (d_int D (int n));
           let rel = map2 (d_div D) (wilder_scan D n first (drop n trs)) (drop n closes);
           let below = length (filter (\<lambda>x. d_lt D x (last rel)) (butlast rel));
           Some (d_div D (d_int D (int below)) (d_int D (int (length rel) - 1)))
         })"

record 'd cluster_reading =
  mc_fired :: bool
  mc_choppy :: bool
  mc_volatile :: bool
  mc_unconfirmed :: bool
  mc_atrPercentile :: "'d option"
  mc_choppiness :: 'd
  mc_top :: 'd
  mc_spread :: 'd
  mc_bunched :: bool

definition averages :: "'d decimal_js \<Rightarrow> candle list \<Rightarrow> 'd list option" where
  "averages D candles = those (map (\<lambda>p. sma D candles (of_nat p)) MA_CLUSTER_PERIODS)"

definition cluster_top :: "'d decimal_js \<Rightarrow> candle list \<Rightarrow> 'd option" where
  "cluster_top D candles = Option.bind (averages D candles) (extreme (d_max D))"

definition last_close :: "'d decimal_js \<Rightarrow> candle list \<Rightarrow> 'd option" where
  "last_close D candles = (if candles = [] then None else d_new D (cd_close (last candles)))"

definition breakReading :: "'d decimal_js \<Rightarrow> 'd decimal_more \<Rightarrow> candle list \<Rightarrow> json \<Rightarrow> 'd cluster_reading option" where
  "breakReading D M candles raw = do {
     close \<leftarrow> last_close D candles;
     now \<leftarrow> averages D candles;
     highest \<leftarrow> extreme (d_max D) now;
     bottom \<leftarrow> extreme (d_min D) now;
     let spread = d_div D (d_minus D highest bottom) close;
     prevTop \<leftarrow> cluster_top D (butlast candles);
     prevClose \<leftarrow> last_close D (butlast candles);
     let bunched = d_lt D spread (maClusterMaxSpread D raw);
     let broke = (d_gt D close highest \<and> d_lte D prevClose prevTop \<and> bunched);
     chop \<leftarrow> choppiness D M candles;
     let choppy = (broke \<and> (case maClusterMaxChoppiness D raw of Some most \<Rightarrow> d_gte D chop most | None \<Rightarrow> False));
     pct \<leftarrow> (case maClusterMaxAtrPercentile D raw of None \<Rightarrow> Some None | Some _ \<Rightarrow> map_option Some (atrPercentile D candles));
     let turbulent = (broke \<and> (case (pct, maClusterMaxAtrPercentile D raw) of (Some p, Some most) \<Rightarrow> d_gt D p most | _ \<Rightarrow> False));
     Some \<lparr>mc_fired = broke \<and> \<not> choppy \<and> \<not> turbulent, mc_choppy = choppy, mc_volatile = turbulent, mc_unconfirmed = False,
           mc_atrPercentile = pct, mc_choppiness = chop, mc_top = highest, mc_spread = spread, mc_bunched = bunched\<rparr>
   }"

definition maClusterReading :: "'d decimal_js \<Rightarrow> 'd decimal_more \<Rightarrow> candle list \<Rightarrow> json \<Rightarrow> 'd cluster_reading option option" where
  "maClusterReading D M candles raw =
     (if length candles < maClusterNeed D raw then Some None
      else do {
        now \<leftarrow> breakReading D M candles raw;
        if \<not> maClusterConfirmBreak raw then Some (Some now)
        else do {
          prev \<leftarrow> breakReading D M (butlast candles) raw;
          close \<leftarrow> last_close D candles;
          Some (Some (now\<lparr>mc_fired := mc_fired prev \<and> d_gt D close (mc_top now), mc_unconfirmed := mc_fired now\<rparr>))
        }
      })"

section \<open>Impulse\<close>

definition IMPULSE_ATR_PERIOD :: nat where "IMPULSE_ATR_PERIOD = 14"

record 'd impulse_settings =
  im_volumeLookback :: int
  im_volumeMultiple :: 'd
  im_riseAtrMultiple :: 'd

definition impulseSettings :: "'d decimal_js \<Rightarrow> json \<Rightarrow> 'd impulse_settings" where
  "impulseSettings D raw =
     \<lparr>im_volumeLookback = coerceInt (jget raw ''volumeLookback'') 2 168,
      im_volumeMultiple = coerceDec D (jget raw ''volumeMultiple'') ''3'',
      im_riseAtrMultiple = coerceDec D (jget raw ''riseAtrMultiple'') ''2''\<rparr>"

definition impulseNeed :: "'d decimal_js \<Rightarrow> json \<Rightarrow> int" where
  "impulseNeed D raw =
     (let lookback = im_volumeLookback (impulseSettings D raw); atrNeed = int IMPULSE_ATR_PERIOD + 1
      in (if lookback > atrNeed then lookback else atrNeed) + 1)"

record 'd impulse_reading =
  ir_fired :: bool
  ir_volumeRatio :: 'd
  ir_bodyAtr :: 'd

definition impulseReading :: "'d decimal_js \<Rightarrow> candle list \<Rightarrow> json \<Rightarrow> 'd impulse_reading option option" where
  "impulseReading D candles raw =
     (let s = impulseSettings D raw; prior = butlast candles
      in if int (length candles) < impulseNeed D raw then Some None
         else do {
           volumes \<leftarrow> prices D cd_volume (tail_of (nat (im_volumeLookback s)) prior);
           let avgVolume = d_div D (foldl (d_plus D) (d_int D 0) volumes) (d_int D (im_volumeLookback s));
           extent \<leftarrow> atr D prior (of_nat IMPULSE_ATR_PERIOD);
           if \<not> d_gt D avgVolume (d_int D 0) \<or> \<not> d_gt D extent (d_int D 0) then Some None
           else do {
             volume \<leftarrow> d_new D (cd_volume (last candles));
             close \<leftarrow> d_new D (cd_close (last candles));
             opening \<leftarrow> d_new D (cd_open (last candles));
             let volumeRatio = d_div D volume avgVolume;
             let bodyAtr = d_div D (d_minus D close opening) extent;
             Some (Some \<lparr>ir_fired = d_gt D volumeRatio (im_volumeMultiple s) \<and> d_gt D bodyAtr (im_riseAtrMultiple s),
                         ir_volumeRatio = volumeRatio, ir_bodyAtr = bodyAtr\<rparr>)
           }
         })"

definition impulseLevel :: "'d decimal_js \<Rightarrow> candle list \<Rightarrow> json \<Rightarrow> 'd option option" where
  "impulseLevel D candles raw =
     (if int (length candles) < impulseNeed D raw then Some None
      else do {
        close \<leftarrow> last_close D candles;
        extent \<leftarrow> atr D candles (of_nat IMPULSE_ATR_PERIOD);
        Some (Some (d_plus D close (d_times D (im_riseAtrMultiple (impulseSettings D raw)) extent)))
      })"

section \<open>Exhaustion\<close>

definition EXHAUSTION_TREND_PERIOD :: nat where "EXHAUSTION_TREND_PERIOD = 400"

definition EXHAUSTION_RSI_PERIOD :: nat where "EXHAUSTION_RSI_PERIOD = 14"

record 'd exhaustion_settings =
  xs_maxChoppiness :: 'd
  xs_minBelowAverage :: 'd
  xs_maxRsi :: 'd

definition exhaustionSettings :: "'d decimal_js \<Rightarrow> json \<Rightarrow> 'd exhaustion_settings" where
  "exhaustionSettings D raw =
     \<lparr>xs_maxChoppiness = coerceDec D (jget raw ''maxChoppiness'') ''30'',
      xs_minBelowAverage = coerceDec D (jget raw ''minBelowAverage'') ''0.05'',
      xs_maxRsi = coerceDec D (jget raw ''maxRsi'') ''25''\<rparr>"

definition exhaustionNeed :: nat where "exhaustionNeed = EXHAUSTION_TREND_PERIOD + 1"

record 'd exhaustion_reading =
  xr_fired :: bool
  xr_choppiness :: 'd
  xr_belowAverage :: 'd
  xr_rsi :: 'd

definition exhaustionReading :: "'d decimal_js \<Rightarrow> 'd decimal_more \<Rightarrow> candle list \<Rightarrow> json \<Rightarrow> 'd exhaustion_reading option option" where
  "exhaustionReading D M candles raw =
     (if length candles < exhaustionNeed then Some None
      else do {
        let s = exhaustionSettings D raw;
        close \<leftarrow> last_close D candles;
        chop \<leftarrow> choppiness D M candles;
        average \<leftarrow> sma D candles (of_nat EXHAUSTION_TREND_PERIOD);
        let belowAverage = d_minus D (d_int D 1) (d_div D close average);
        strength \<leftarrow> rsi D candles (of_nat EXHAUSTION_RSI_PERIOD);
        Some (Some \<lparr>xr_fired = d_lt D chop (xs_maxChoppiness s) \<and> d_gt D belowAverage (xs_minBelowAverage s) \<and> d_lt D strength (xs_maxRsi s),
                    xr_choppiness = chop, xr_belowAverage = belowAverage, xr_rsi = strength\<rparr>)
      })"

definition exhaustionLevel :: "'d decimal_js \<Rightarrow> candle list \<Rightarrow> json \<Rightarrow> 'd option option" where
  "exhaustionLevel D candles raw =
     (if length candles < exhaustionNeed then Some None
      else map_option (\<lambda>average. Some (d_times D average (d_minus D (d_int D 1) (xs_minBelowAverage (exhaustionSettings D raw)))))
             (sma D candles (of_nat EXHAUSTION_TREND_PERIOD)))"

section \<open>On-balance volume\<close>

record 'd obv_settings =
  ob_lookback :: int
  ob_maxChoppiness :: 'd

definition obvLeadSettings :: "'d decimal_js \<Rightarrow> json \<Rightarrow> 'd obv_settings" where
  "obvLeadSettings D raw =
     \<lparr>ob_lookback = coerceInt (jget raw ''lookback'') (int MA_CLUSTER_CHOP_PERIOD) 168,
      ob_maxChoppiness = coerceDec D (jget raw ''maxChoppiness'') ''50''\<rparr>"

definition obvLeadNeed :: "'d decimal_js \<Rightarrow> json \<Rightarrow> int" where
  "obvLeadNeed D raw = ob_lookback (obvLeadSettings D raw) + 1"

record 'd obv_reading =
  or_fired :: bool
  or_obvNewHigh :: bool
  or_priceToHigh :: 'd
  or_choppiness :: 'd

text \<open>The running total, oldest first; each step carries the close, the close before it and the volume.\<close>

fun obv_scan :: "'d decimal_js \<Rightarrow> 'd \<Rightarrow> ('d \<times> 'd \<times> 'd) list \<Rightarrow> 'd list" where
  "obv_scan D tally [] = [tally]"
| "obv_scan D tally ((c, p, v) # steps) =
     tally # obv_scan D (if d_gt D c p then d_plus D tally v else if d_lt D c p then d_minus D tally v else tally) steps"

definition obvLeadReading :: "'d decimal_js \<Rightarrow> 'd decimal_more \<Rightarrow> candle list \<Rightarrow> json \<Rightarrow> 'd obv_reading option option" where
  "obvLeadReading D M candles raw =
     (let s = obvLeadSettings D raw; w = tail_of (nat (ob_lookback s + 1)) candles
      in if int (length candles) < ob_lookback s + 1 then Some None
         else do {
           closes \<leftarrow> prices D cd_close w;
           volumes \<leftarrow> prices D cd_volume (tl w);
           let obv = obv_scan D (d_int D 0) (zip (tl closes) (zip closes volumes));
           priorObvHigh \<leftarrow> extreme (d_max D) (butlast obv);
           priorCloseHigh \<leftarrow> extreme (d_max D) (butlast closes);
           let obvNewHigh = d_gt D (last obv) priorObvHigh;
           let priceToHigh = d_minus D (d_div D priorCloseHigh (last closes)) (d_int D 1);
           chop \<leftarrow> choppiness D M candles;
           Some (Some \<lparr>or_fired = obvNewHigh \<and> d_gt D priceToHigh (d_int D 0) \<and> d_lt D chop (ob_maxChoppiness s),
                       or_obvNewHigh = obvNewHigh, or_priceToHigh = priceToHigh, or_choppiness = chop\<rparr>)
         })"

section \<open>The weekend gap\<close>

definition HOUR_MS :: int where "HOUR_MS = 3600000"

definition DAY_MS :: int where "DAY_MS = 24 * HOUR_MS"

definition WEEK_MS :: int where "WEEK_MS = 7 * DAY_MS"

text \<open>\<open>a % b\<close> for a positive \<open>b\<close>.\<close>

definition js_rem :: "int \<Rightarrow> int \<Rightarrow> int" where
  "js_rem a b = (if 0 \<le> a then a mod b else - ((- a) mod b))"

definition msSinceMondayUtc :: "int \<Rightarrow> int" where
  "msSinceMondayUtc openTimeMs = js_rem (openTimeMs + 3 * DAY_MS) WEEK_MS"

definition SUNDAY_OPEN_OFFSET_MS :: int where "SUNDAY_OPEN_OFFSET_MS = 6 * DAY_MS + 22 * HOUR_MS"

definition FRIDAY_LEAD_MS :: int where "FRIDAY_LEAD_MS = 50 * HOUR_MS"

definition REFERENCE_SPAN :: int where "REFERENCE_SPAN = 52"

record 'd gap_settings =
  wg_minGap :: 'd
  wg_maxHoldBars :: int

definition weekendGapSettings :: "'d decimal_js \<Rightarrow> json \<Rightarrow> 'd gap_settings" where
  "weekendGapSettings D raw =
     \<lparr>wg_minGap = coerceDec D (jget raw ''minGap'') ''0.01'', wg_maxHoldBars = coerceInt (jget raw ''maxHoldBars'') 1 72\<rparr>"

definition weekendGapNeed :: "'d decimal_js \<Rightarrow> json \<Rightarrow> int" where
  "weekendGapNeed D raw = wg_maxHoldBars (weekendGapSettings D raw) + REFERENCE_SPAN"

record gap_reading =
  gr_isEntryCandle :: bool
  gr_refClose :: "string option"
  gr_gapPercent :: "string option"
  gr_fired :: bool

definition no_gap :: "bool \<Rightarrow> gap_reading" where
  "no_gap sunday = \<lparr>gr_isEntryCandle = sunday, gr_refClose = None, gr_gapPercent = None, gr_fired = False\<rparr>"

definition weekendGapReading :: "'d decimal_js \<Rightarrow> candle list \<Rightarrow> json \<Rightarrow> gap_reading option option" where
  "weekendGapReading D candles cfg =
     (if jget cfg ''candleInterval'' \<noteq> JStr ''1h'' then Some None
      else if candles = [] \<or> msSinceMondayUtc (cd_openTimeMs (last candles)) \<noteq> SUNDAY_OPEN_OFFSET_MS then Some (Some (no_gap False))
      else case List.find (\<lambda>c. cd_openTimeMs c = cd_openTimeMs (last candles) - FRIDAY_LEAD_MS) candles of
             None \<Rightarrow> Some (Some (no_gap True))
           | Some ref \<Rightarrow> do {
               refClose \<leftarrow> d_new D (cd_close ref);
               close \<leftarrow> d_new D (cd_close (last candles));
               Some (Some \<lparr>gr_isEntryCandle = True, gr_refClose = Some (cd_close ref),
                 gr_gapPercent = Some (d_toString D (d_times D (d_div D (d_minus D refClose close) refClose) (d_int D 100))),
                 gr_fired = d_lt D close (d_times D refClose
                   (d_minus D (d_int D 1) (wg_minGap (weekendGapSettings D (jget cfg ''weekendGap'')))))\<rparr>)
             })"

definition weekendGapTarget :: "'d decimal_js \<Rightarrow> candle list \<Rightarrow> rat \<Rightarrow> 'd option option" where
  "weekendGapTarget D candles lastEntryCandleMs =
     (case List.find (\<lambda>c. of_int (cd_openTimeMs c) = lastEntryCandleMs + 1 - of_int HOUR_MS - of_int FRIDAY_LEAD_MS) candles of
        None \<Rightarrow> Some None
      | Some ref \<Rightarrow> map_option Some (d_new D (cd_close ref)))"

section \<open>Relative strength\<close>

definition RELATIVE_STRENGTH_KV_PREFIX :: string where
  "RELATIVE_STRENGTH_KV_PREFIX = ''momentum:relative-strength:''"

definition SD_FLOOR :: "'d decimal_js \<Rightarrow> 'd" where "SD_FLOOR D = dlit D ''1e-12''"

record strength_settings =
  rs_enabled :: bool
  rs_lookbackBars :: int
  rs_topK :: int

definition relativeStrengthSettings :: "json \<Rightarrow> strength_settings" where
  "relativeStrengthSettings raw =
     \<lparr>rs_enabled = (jget raw ''enabled'' = JBool True), rs_lookbackBars = coerceInt (jget raw ''lookbackBars'') 2 720,
      rs_topK = coerceInt (jget raw ''topK'') 1 3\<rparr>"

definition relativeStrengthNeed :: "json \<Rightarrow> int" where
  "relativeStrengthNeed raw = (let s = relativeStrengthSettings raw in if rs_enabled s then rs_lookbackBars s + 1 else 0)"

text \<open>The returns of consecutive candles; a close that is not positive ends the loop with \<open>null\<close>.\<close>

fun returns_of :: "'d decimal_js \<Rightarrow> (candle \<times> candle) list \<Rightarrow> 'd list option option" where
  "returns_of D [] = Some (Some [])"
| "returns_of D ((before, cur) # ps) =
     (case d_new D (cd_close before) of
        None \<Rightarrow> None
      | Some prev \<Rightarrow>
          if \<not> d_gt D prev (d_int D 0) then Some None
          else case d_new D (cd_close cur) of
                 None \<Rightarrow> None
               | Some c \<Rightarrow> map_option (map_option (\<lambda>rs. d_minus D (d_div D c prev) (d_int D 1) # rs)) (returns_of D ps))"

definition relativeStrengthScore :: "'d decimal_js \<Rightarrow> 'd decimal_more \<Rightarrow> candle list \<Rightarrow> int \<Rightarrow> 'd option option" where
  "relativeStrengthScore D M candles lookbackBars =
     (if int (length candles) < lookbackBars + 1 then Some None
      else let w = tail_of (nat (lookbackBars + 1)) candles
           in map_option (map_option (\<lambda>returns.
                let mean = d_div D (dm_sum M returns) (d_int D lookbackBars);
                    variance = d_div D (dm_sum M (map (\<lambda>r. dm_pow M (d_minus D r mean) 2) returns)) (d_int D lookbackBars);
                    sd = dm_sqrt M variance
                in d_div D mean (if d_gt D sd (SD_FLOOR D) then sd else SD_FLOOR D)))
              (returns_of D (zip w (tl w))))"

record 'd published =
  pb_score :: 'd
  pb_candleCloseMs :: js_number
  pb_lookbackBars :: js_number

definition readPublished :: "'d decimal_js \<Rightarrow> json \<Rightarrow> 'd published option" where
  "readPublished D v =
     (case (jget v ''score'', jget v ''candleCloseMs'', jget v ''lookbackBars'') of
        (JStr score, JNum ms, JNum bars) \<Rightarrow>
          (case d_new D score of
             Some s \<Rightarrow> if d_isFinite D s then Some \<lparr>pb_score = s, pb_candleCloseMs = ms, pb_lookbackBars = bars\<rparr> else None
           | None \<Rightarrow> None)
      | _ \<Rightarrow> None)"

definition currentPublished :: "'d decimal_js \<Rightarrow> candle list \<Rightarrow> int \<Rightarrow> json \<Rightarrow> 'd option" where
  "currentPublished D candles lookbackBars stored =
     (case readPublished D stored of
        Some p \<Rightarrow>
          if candles \<noteq> [] \<and> pb_candleCloseMs p = JsNum (of_int (cd_closeTimeMs (last candles))) \<and>
             pb_lookbackBars p = JsNum (of_int lookbackBars) \<and> lookbackBars + 1 \<le> int (length candles)
          then Some (pb_score p) else None
      | None \<Rightarrow> None)"

text \<open>The profile's key-value snapshot: absent, or its entries in order.\<close>

type_synonym profile_kv = "(string \<times> json) list option"

definition kv_entries :: "profile_kv \<Rightarrow> (string \<times> json) list" where
  "kv_entries kv = (case kv of Some es \<Rightarrow> es | None \<Rightarrow> [])"

definition kv_get :: "profile_kv \<Rightarrow> string \<Rightarrow> json" where
  "kv_get kv key = (case map_of (kv_entries kv) key of Some v \<Rightarrow> v | None \<Rightarrow> JUndefined)"

definition relativeStrengthPublish ::
  "'d decimal_js \<Rightarrow> 'd decimal_more \<Rightarrow> candle list \<Rightarrow> json \<Rightarrow> string \<Rightarrow> profile_kv \<Rightarrow> decision option option" where
  "relativeStrengthPublish D M candles raw symbol kv =
     (let s = relativeStrengthSettings raw; key = RELATIVE_STRENGTH_KV_PREFIX @ symbol; current = kv_get kv key
      in if \<not> rs_enabled s \<or> candles = [] then Some None
         else if currentPublished D candles (rs_lookbackBars s) current \<noteq> None then Some None
         else map_option (\<lambda>score. case score of
                None \<Rightarrow> if current = JUndefined then None else Some (DeleteKv key)
              | Some sc \<Rightarrow> Some (SetKv key (JObj [(''score'', JStr (d_toFixedAll D sc)),
                  (''candleCloseMs'', JNum (JsNum (of_int (cd_closeTimeMs (last candles))))),
                  (''lookbackBars'', JNum (JsNum (of_int (rs_lookbackBars s))))])))
              (relativeStrengthScore D M candles (rs_lookbackBars s)))"

datatype strength_gate = StrengthPass | StrengthRanked | StrengthShort

fun strength_str :: "strength_gate \<Rightarrow> string" where
  "strength_str StrengthPass = ''pass''"
| "strength_str StrengthRanked = ''relative-strength''"
| "strength_str StrengthShort = ''relative-strength-insufficient-history''"

record 'd strength_reading =
  sg_gate :: strength_gate
  sg_score :: "'d option"
  sg_rank :: nat
  sg_siblings :: nat

fun num_below :: "js_number \<Rightarrow> rat \<Rightarrow> bool" where
  "num_below (JsNum r) x = (r < x)"
| "num_below JsNegInf x = True"
| "num_below _ x = False"

definition kv_prefixed :: "string \<Rightarrow> string \<Rightarrow> bool" where
  "kv_prefixed prefix s = (take (length prefix) s = prefix)"

definition sibling_scores :: "'d decimal_js \<Rightarrow> candle list \<Rightarrow> int \<Rightarrow> string \<Rightarrow> (string \<times> json) list \<Rightarrow> 'd list" where
  "sibling_scores D candles lookbackBars symbol es =
     (let oldest = cd_closeTimeMs (candles ! (length candles - 2))
      in List.map_filter (\<lambda>(key, v).
           if \<not> kv_prefixed RELATIVE_STRENGTH_KV_PREFIX key \<or> drop (length RELATIVE_STRENGTH_KV_PREFIX) key = symbol then None
           else case readPublished D v of
                  None \<Rightarrow> None
                | Some sib \<Rightarrow>
                    if num_below (pb_candleCloseMs sib) (of_int oldest) \<or> pb_lookbackBars sib \<noteq> JsNum (of_int lookbackBars) then None
                    else Some (pb_score sib)) es)"

definition relativeStrengthGate ::
  "'d decimal_js \<Rightarrow> 'd decimal_more \<Rightarrow> candle list \<Rightarrow> json \<Rightarrow> string \<Rightarrow> profile_kv \<Rightarrow> 'd strength_reading option" where
  "relativeStrengthGate D M candles raw symbol kv =
     (let s = relativeStrengthSettings raw
      in if \<not> rs_enabled s then Some \<lparr>sg_gate = StrengthPass, sg_score = None, sg_rank = 0, sg_siblings = 0\<rparr>
         else map_option (\<lambda>score. case score of
                None \<Rightarrow> \<lparr>sg_gate = StrengthShort, sg_score = None, sg_rank = 0, sg_siblings = 0\<rparr>
              | Some sc \<Rightarrow>
                  (let sibs = sibling_scores D candles (rs_lookbackBars s) symbol (kv_entries kv);
                       rank = length (filter (\<lambda>x. d_gt D x sc) sibs)
                   in \<lparr>sg_gate = (if int rank < rs_topK s then StrengthPass else StrengthRanked), sg_score = Some sc,
                       sg_rank = rank, sg_siblings = length sibs\<rparr>))
              (case currentPublished D candles (rs_lookbackBars s) (kv_get kv (RELATIVE_STRENGTH_KV_PREFIX @ symbol)) of
                 Some sc \<Rightarrow> Some (Some sc)
               | None \<Rightarrow> relativeStrengthScore D M candles (rs_lookbackBars s)))"

section \<open>Windows\<close>

lemma sma_drop:
  assumes "n \<le> length w - k" "0 < n"
  shows "sma D (drop k w) (of_nat n) = sma D w (of_nat n)"
proof -
  have "requirePeriod v (of_nat n) = Some n" if "n \<le> length v" for v
    using that assms(2) by (simp add: requirePeriod_def)
  moreover have "length w - (k + n) + k = length w - n" using assms by linarith
  then have "drop (length w - k - n) (drop k w) = drop (length w - n) w" by simp
  ultimately show ?thesis using assms by (simp add: sma_def)
qed

lemma averages_drop: "LONGEST \<le> length w - k \<Longrightarrow> averages D (drop k w) = averages D w"
  by (simp add: averages_def MA_CLUSTER_PERIODS_def LONGEST_def sma_drop [of 20, simplified] sma_drop [of 50, simplified]
      sma_drop [of 100, simplified] sma_drop [of 200, simplified])

lemma last_close_drop: "k < length w \<Longrightarrow> last_close D (drop k w) = last_close D w"
  by (auto simp: last_close_def)

text \<open>What a fired break has seen: the close over the cluster now, and under it one candle before.\<close>

lemma break_fired:
  assumes "breakReading D M w raw = Some r" "mc_fired r"
  obtains close highest prevClose prevTop where "last_close D w = Some close" "cluster_top D w = Some highest" "d_gt D close highest"
    "last_close D (butlast w) = Some prevClose" "cluster_top D (butlast w) = Some prevTop" "d_lte D prevClose prevTop"
proof -
  have "\<exists>close highest prevClose prevTop. last_close D w = Some close \<and> cluster_top D w = Some highest \<and> d_gt D close highest \<and>
      last_close D (butlast w) = Some prevClose \<and> cluster_top D (butlast w) = Some prevTop \<and> d_lte D prevClose prevTop"
    using assms by (auto simp: breakReading_def cluster_top_def Let_def split: bind_splits)
  with that show ?thesis by blast
qed

context decimal_laws
begin

lemma foldl_plus_finite: "d_isFinite D s \<Longrightarrow> (\<And>x. x \<in> set xs \<Longrightarrow> d_isFinite D x) \<Longrightarrow> d_isFinite D (foldl (d_plus D) s xs)"
  by (induction xs arbitrary: s) (auto intro: arith_finite)

lemma foldl_max_finite: "d_isFinite D s \<Longrightarrow> (\<And>x. x \<in> set xs \<Longrightarrow> d_isFinite D x) \<Longrightarrow> d_isFinite D (foldl (d_max D) s xs)"
  using max by (induction xs arbitrary: s) auto

lemma sma_finite:
  assumes "readable_closes D w" "sma D w period = Some s"
  shows "d_isFinite D s"
proof -
  obtain n closes where n: "requirePeriod w period = Some n" and c: "prices D cd_close (drop (length w - n) w) = Some closes"
    and s: "s = d_div D (foldl (d_plus D) (d_int D 0) closes) (d_int D (int n))"
    using assms(2) by (auto simp: sma_def bind_eq_Some_conv)
  have "d_isFinite D x" if "x \<in> set closes" for x
    using that assms(1) prices_Some(2) [OF c] by (force simp: readable_closes_def dest: in_set_dropD)
  then have f: "d_isFinite D (foldl (d_plus D) (d_int D 0) closes)" by (intro foldl_plus_finite int_finite)
  have "0 < n" using n by (auto simp: requirePeriod_def split: if_splits)
  then show ?thesis unfolding s using div [OF f int_finite, of "int n"] by (simp add: int_val)
qed

lemma cluster_top_finite:
  assumes "readable_closes D w" "cluster_top D w = Some h"
  shows "d_isFinite D h"
proof -
  obtain a as where as: "averages D w = Some (a # as)" and h: "h = foldl (d_max D) a as"
    using assms(2) by (auto simp: cluster_top_def bind_eq_Some_conv elim!: extreme.elims)
  have "d_isFinite D x" if "x \<in> set (a # as)" for x
    using those_all [OF as [unfolded averages_def] that] sma_finite [OF assms(1)] by auto
  then show ?thesis unfolding h by (intro foldl_max_finite) auto
qed

text \<open>A break needs a close under the cluster just before it, so it cannot follow a break.\<close>

lemma no_break_after_break:
  assumes "breakReading D M w raw = Some r1" "breakReading D M v raw = Some r2" "readable_closes D w"
    and "last_close D (butlast v) = last_close D w" "cluster_top D (butlast v) = cluster_top D w"
  shows "\<not> (mc_fired r1 \<and> mc_fired r2)"
proof (rule notI, elim conjE)
  assume f: "mc_fired r1" "mc_fired r2"
  obtain close highest where c: "last_close D w = Some close" "cluster_top D w = Some highest" "d_gt D close highest"
    by (rule break_fired [OF assms(1) f(1)])
  have le: "d_lte D close highest" using break_fired [OF assms(2) f(2)] assms(4,5) c(1,2) by (metis option.inject)
  have "d_isFinite D close" using c(1) assms(3) unfolding last_close_def readable_closes_def by (metis last_in_set option.distinct(1) option.inject)
  then show False using c(3) le lt lte cluster_top_finite [OF assms(3) c(2)] by fastforce
qed

end

section \<open>Properties\<close>

text \<open>
  C37. The cluster rule buys a break once. Two consecutive closed candles never both fire, whether or not
  the break has to be confirmed and however the rolling window was trimmed between the two ticks, so
  a close that stays over the averages is not bought again.
\<close>
theorem cluster_never_refires:
  assumes L: "decimal_laws D val" and w: "readable_closes D w"
    and first: "maClusterReading D M w raw = Some (Some r1)" and second: "maClusterReading D M (drop k w @ [y]) raw = Some (Some r2)"
  shows "\<not> (mc_fired r1 \<and> mc_fired r2)"
proof -
  have need: "LONGEST + (if maClusterConfirmBreak raw then 1 else 0) \<le> length w - k"
    using second by (auto simp: maClusterReading_def maClusterNeed_def LONGEST_def MA_CLUSTER_ATR_PERIOD_def MA_CLUSTER_ATR_LOOKBACK_def split: if_splits)
  show ?thesis
  proof (cases "maClusterConfirmBreak raw")
    case False
    then have "breakReading D M w raw = Some r1" "breakReading D M (drop k w @ [y]) raw = Some r2"
      using first second by (auto simp: maClusterReading_def split: if_splits bind_splits)
    then show ?thesis
      by (rule decimal_laws.no_break_after_break [OF L _ _ w])
         (use need False in \<open>simp_all add: last_close_drop cluster_top_def averages_drop LONGEST_def\<close>)
  next
    case True
    then obtain p1 p2 where p: "breakReading D M (butlast w) raw = Some p1" "mc_fired r1 \<longrightarrow> mc_fired p1"
        "breakReading D M (drop k w) raw = Some p2" "mc_fired r2 \<longrightarrow> mc_fired p2"
      using first second by (auto simp: maClusterReading_def split: if_splits bind_splits)
    have "readable_closes D (butlast w)" using w by (auto simp: readable_closes_def dest: in_set_butlastD)
    from decimal_laws.no_break_after_break [OF L p(1,3) this]
    have "\<not> (mc_fired p1 \<and> mc_fired p2)"
      using need True by (simp add: butlast_drop last_close_drop cluster_top_def averages_drop LONGEST_def)
    with p(2,4) show ?thesis by blast
  qed
qed

text \<open>Concrete operations, and a flat market that jumps once.\<close>

definition example_more :: "dec decimal_more" where
  "example_more = \<lparr>dm_log10 = (\<lambda>a. Dec (sig_exp (dval a)) 0), dm_sqrt = ((\<lambda>x. dec_of (round20 ((dval x + 1) / 2))) ^^ 3),
     dm_pow = (\<lambda>a n. ((\<lambda>x. d_times dec_js x a) ^^ n) (Dec 1 0)), dm_sum = foldl (d_plus dec_js) (Dec 0 0)\<rparr>"

definition example_cluster :: json where
  "example_cluster = JObj [(''maxSpread'', JStr ''0.5'')]"

abbreviation example_flat :: "nat \<Rightarrow> candle list" where
  "example_flat n \<equiv> replicate n (example_minute 0 ''0'')"

abbreviation example_jump :: candle where
  "example_jump \<equiv> example_minute 60000 ''1''"

lemma example_units:
  "d_new dec_js ''0'' = Some (Dec 0 0)" "d_new dec_js ''1'' = Some (Dec 1 0)" "d_plus dec_js (Dec 0 0) (Dec 0 0) = Dec 0 0"
  "d_int dec_js 0 = Dec 0 0" "cd_close (example_minute t s) = s" "cd_high (example_minute t s) = s" "cd_low (example_minute t s) = s"
  by code_simp+

lemma example_prices: "prices dec_js cd_close (example_flat n) = Some (replicate n (Dec 0 0))"
  "prices dec_js cd_close (example_flat n @ [example_jump]) = Some (replicate n (Dec 0 0) @ [Dec 1 0])"
  by (induction n) (simp_all add: prices_def example_units)

lemma example_sums: "foldl (d_plus dec_js) (Dec 0 0) (replicate n (Dec 0 0)) = Dec 0 0"
  by (induction n) (simp_all add: example_units)

lemma example_sma:
  assumes "0 < n" "n \<le> m"
  shows "sma dec_js (example_flat m) (of_nat n) = Some (d_div dec_js (Dec 0 0) (d_int dec_js (int n)))"
    and "sma dec_js (example_flat m @ [example_jump]) (of_nat n) =
      Some (d_div dec_js (d_plus dec_js (Dec 0 0) (Dec 1 0)) (d_int dec_js (int n)))"
proof -
  have "requirePeriod v (of_nat n) = Some n" if "n \<le> length v" for v using that assms(1) by (simp add: requirePeriod_def)
  moreover have "drop (m - n) (example_flat m) = example_flat n" "drop (Suc m - n) (example_flat m) = example_flat (n - 1)"
    using assms by (simp_all add: drop_replicate)
  ultimately show "sma dec_js (example_flat m) (of_nat n) = Some (d_div dec_js (Dec 0 0) (d_int dec_js (int n)))"
    and "sma dec_js (example_flat m @ [example_jump]) (of_nat n) =
      Some (d_div dec_js (d_plus dec_js (Dec 0 0) (Dec 1 0)) (d_int dec_js (int n)))"
    using assms by (simp_all add: sma_def example_prices example_sums example_units)
qed

lemma example_averages:
  assumes "200 \<le> m"
  shows "averages dec_js (example_flat m) = Some [Dec 0 0, Dec 0 0, Dec 0 0, Dec 0 0]"
    and "averages dec_js (example_flat m @ [example_jump]) =
     Some [Dec 50000000000000000000 21, Dec 20000000000000000000 21, Dec 10000000000000000000 21, Dec 50000000000000000000 22]"
proof -
  have q: "d_div dec_js (Dec 0 0) (d_int dec_js (int n)) = Dec 0 0" if "n \<in> {20, 50, 100, 200}" for n
    using that by (auto simp: dec_js_def nan2_def round20_def dec_of_def)
  have j: "d_div dec_js (d_plus dec_js (Dec 0 0) (Dec 1 0)) (d_int dec_js 20) = Dec 50000000000000000000 21"
    "d_div dec_js (d_plus dec_js (Dec 0 0) (Dec 1 0)) (d_int dec_js 50) = Dec 20000000000000000000 21"
    "d_div dec_js (d_plus dec_js (Dec 0 0) (Dec 1 0)) (d_int dec_js 100) = Dec 10000000000000000000 21"
    "d_div dec_js (d_plus dec_js (Dec 0 0) (Dec 1 0)) (d_int dec_js 200) = Dec 50000000000000000000 22"
    by code_simp+
  show "averages dec_js (example_flat m) = Some [Dec 0 0, Dec 0 0, Dec 0 0, Dec 0 0]"
    unfolding averages_def MA_CLUSTER_PERIODS_def using q assms by (simp add: example_sma(1) del: of_nat_numeral)
  show "averages dec_js (example_flat m @ [example_jump]) =
     Some [Dec 50000000000000000000 21, Dec 20000000000000000000 21, Dec 10000000000000000000 21, Dec 50000000000000000000 22]"
    unfolding averages_def MA_CLUSTER_PERIODS_def using assms by (simp add: example_sma(2) del: of_nat_numeral) (simp add: j)
qed

lemma example_tail:
  "14 \<le> m \<Longrightarrow> tail_of 15 (example_flat (Suc m)) = example_flat 15"
  "14 \<le> m \<Longrightarrow> tail_of 15 (example_flat m @ [example_jump]) = example_flat 14 @ [example_jump]"
  by (simp_all add: tail_of_def drop_replicate Suc_diff_le del: replicate_Suc)

lemma tail_self: "length w = n \<Longrightarrow> tail_of n w = w"
  by (simp add: tail_of_def)

lemma choppiness_tail: "tail_of 15 v = tail_of 15 w \<Longrightarrow> choppiness D M v = choppiness D M w"
  by (simp add: choppiness_def MA_CLUSTER_CHOP_PERIOD_def)

lemma example_chop:
  "\<exists>x. choppiness dec_js example_more (example_flat 15) = Some x"
  "choppiness dec_js example_more (example_flat 14 @ [example_jump]) = Some (Dec 0 0)"
proof -
  have "map_option (\<lambda>x. True) (choppiness dec_js example_more (example_flat 15)) = Some True" by code_simp
  then show "\<exists>x. choppiness dec_js example_more (example_flat 15) = Some x" by auto
  show "choppiness dec_js example_more (example_flat 14 @ [example_jump]) = Some (Dec 0 0)" by code_simp
qed

lemma example_leaves: "maClusterMaxAtrPercentile dec_js example_cluster = None" "maClusterMaxChoppiness dec_js example_cluster = None"
  "maClusterMaxSpread dec_js example_cluster = Dec 5 1" "\<not> maClusterConfirmBreak example_cluster"
  by code_simp+

lemma example_spread:
  "d_div dec_js (d_minus dec_js (Dec 50000000000000000000 21) (Dec 50000000000000000000 22)) (Dec 1 0) = Dec 45000000000000000000 21"
  "extreme (d_max dec_js) [Dec 50000000000000000000 21, Dec 20000000000000000000 21, Dec 10000000000000000000 21, Dec 50000000000000000000 22] =
     Some (Dec 50000000000000000000 21)"
  "extreme (d_min dec_js) [Dec 50000000000000000000 21, Dec 20000000000000000000 21, Dec 10000000000000000000 21, Dec 50000000000000000000 22] =
     Some (Dec 50000000000000000000 22)"
  "extreme (d_max dec_js) [Dec 0 0, Dec 0 0, Dec 0 0, Dec 0 0] = Some (Dec 0 0)" "extreme (d_min dec_js) [Dec 0 0, Dec 0 0, Dec 0 0, Dec 0 0] = Some (Dec 0 0)"
  "d_lt dec_js (Dec 45000000000000000000 21) (Dec 5 1)" "d_lt dec_js (Dec 50000000000000000000 21) (Dec 1 0)" "d_lte dec_js (Dec 0 0) (Dec 0 0)"
  "\<not> d_lt dec_js (Dec 0 0) (Dec 0 0)"
  by code_simp+

lemma example_last_close:
  "last_close dec_js (example_flat (Suc n)) = Some (Dec 0 0)" "last_close dec_js (v @ [example_jump]) = Some (Dec 1 0)"
  by (simp_all add: last_close_def example_units del: replicate_Suc)

lemma example_readings:
  assumes "200 \<le> m"
  shows "\<exists>r1. maClusterReading dec_js example_more (example_flat (Suc m)) example_cluster = Some (Some r1) \<and> \<not> mc_fired r1"
    and "\<exists>r2. maClusterReading dec_js example_more (drop 0 (example_flat (Suc m)) @ [example_jump]) example_cluster = Some (Some r2) \<and> mc_fired r2"
proof -
  define f where "f = example_flat (Suc m)"
  have n: "maClusterNeed dec_js example_cluster = 201" by (simp add: maClusterNeed_def example_leaves LONGEST_def)
  have ln: "length f = Suc m" by (simp only: f_def length_replicate)
  have m: "14 \<le> m" "14 \<le> Suc m" "200 \<le> Suc m" using assms by simp_all
  have s: "tail_of 15 (example_flat 15) = example_flat 15" "tail_of 15 (example_flat 14 @ [example_jump]) = example_flat 14 @ [example_jump]"
    by (simp_all only: tail_self length_replicate length_append list.size)
  have t: "tail_of 15 f = tail_of 15 (example_flat 15)" unfolding f_def s(1) by (rule example_tail(1) [OF m(1)])
  obtain x where x: "choppiness dec_js example_more f = Some x" using example_chop(1) choppiness_tail [OF t] by metis
  have u: "tail_of 15 (f @ [example_jump]) = tail_of 15 (example_flat 14 @ [example_jump])"
    unfolding f_def s(2) by (rule example_tail(2) [OF m(2)])
  have y: "choppiness dec_js example_more (f @ [example_jump]) = Some (Dec 0 0)" using example_chop(2) choppiness_tail [OF u] by metis
  have b: "butlast f = example_flat m" by (simp add: f_def butlast_conv_take take_replicate del: replicate_Suc)
  obtain k where k: "m = Suc k" using assms by (cases m) simp_all
  have l: "last_close dec_js f = Some (Dec 0 0)" "last_close dec_js (example_flat m) = Some (Dec 0 0)"
    unfolding f_def k by (rule example_last_close(1))+
  note av = example_averages [OF assms] example_averages [OF m(3), folded f_def]
  have "\<exists>r1. breakReading dec_js example_more f example_cluster = Some r1 \<and> \<not> mc_fired r1"
    by (simp add: breakReading_def cluster_top_def b l x av example_spread example_leaves Let_def del: extreme.simps One_nat_def)
  then show "\<exists>r1. maClusterReading dec_js example_more (example_flat (Suc m)) example_cluster = Some (Some r1) \<and> \<not> mc_fired r1"
    unfolding f_def [symmetric] using assms by (auto simp: maClusterReading_def n ln example_leaves)
  have "\<exists>r2. breakReading dec_js example_more (f @ [example_jump]) example_cluster = Some r2 \<and> mc_fired r2"
    by (simp add: breakReading_def cluster_top_def l y av example_spread example_leaves example_last_close Let_def del: extreme.simps One_nat_def)
  then show "\<exists>r2. maClusterReading dec_js example_more (drop 0 (example_flat (Suc m)) @ [example_jump]) example_cluster = Some (Some r2) \<and> mc_fired r2"
    unfolding f_def [symmetric] using assms by (auto simp: maClusterReading_def n ln example_leaves)
qed

theorem cluster_never_refires_witness:
  "\<exists>r1 r2. maClusterReading dec_js example_more (example_flat (Suc 200)) example_cluster = Some (Some r1) \<and>
     maClusterReading dec_js example_more (drop 0 (example_flat (Suc 200)) @ [example_jump]) example_cluster = Some (Some r2) \<and>
     mc_fired r2 \<and> \<not> (mc_fired r1 \<and> mc_fired r2)"
proof -
  have r: "readable_closes dec_js (example_flat n)" for n by (simp add: readable_closes_def example_units)
  show ?thesis using example_readings [OF order_refl] cluster_never_refires [OF djs.decimal_laws_axioms r] by blast
qed

text \<open>
  C38. The target of a weekend-gap position needs no state of its own. Recomputed from the entry stamp on any
  later window that still holds the Friday candle, it is the very close the entry was measured
  against, as long as candles with one open time agree on their close.
\<close>
theorem weekend_target_round_trip:
  assumes reading: "weekendGapReading D w cfg = Some (Some r)" "gr_fired r"
    and stamp: "cd_closeTimeMs (last w) = cd_openTimeMs (last w) + HOUR_MS - 1"
    and held: "\<exists>c \<in> set v. cd_openTimeMs c = cd_openTimeMs (last w) - FRIDAY_LEAD_MS"
    and same: "\<And>c c'. c \<in> set w \<Longrightarrow> c' \<in> set v \<Longrightarrow> cd_openTimeMs c = cd_openTimeMs c' \<Longrightarrow> cd_close c = cd_close c'"
  shows "\<exists>s target. gr_refClose r = Some s \<and> d_new D s = Some target \<and> weekendGapTarget D v (of_int (cd_closeTimeMs (last w))) = Some (Some target)"
proof -
  let ?at = "\<lambda>c. cd_openTimeMs c = cd_openTimeMs (last w) - FRIDAY_LEAD_MS"
  obtain ref target where ref: "List.find ?at w = Some ref" "d_new D (cd_close ref) = Some target" "gr_refClose r = Some (cd_close ref)"
    using reading by (auto simp: weekendGapReading_def no_gap_def split: if_splits option.splits bind_splits)
  obtain c where c: "List.find ?at v = Some c" using held by (cases "List.find ?at v") (auto simp: find_None_iff)
  have "cd_close ref = cd_close c"
    using ref(1) c by (intro same) (auto simp: find_Some_iff)
  moreover have e: "(\<lambda>c. of_int (cd_openTimeMs c) = (of_int (cd_closeTimeMs (last w)) + 1 - of_int HOUR_MS - of_int FRIDAY_LEAD_MS :: rat)) = ?at"
    unfolding stamp by (rule ext) (simp flip: of_int_eq_iff [where ?'a = rat])
  have "weekendGapTarget D v (of_int (cd_closeTimeMs (last w))) = map_option Some (d_new D (cd_close c))"
    unfolding weekendGapTarget_def e c by simp
  ultimately show ?thesis using ref by simp
qed

definition example_weekend :: "candle list" where
  "example_weekend = [(example_minute 158400000 ''100'')\<lparr>cd_closeTimeMs := 161999999\<rparr>, (example_minute 338400000 ''98'')\<lparr>cd_closeTimeMs := 341999999\<rparr>]"

lemma example_weekend_reading:
  "map_option (map_option (\<lambda>r. (gr_fired r, gr_refClose r))) (weekendGapReading dec_js example_weekend (JObj [(''candleInterval'', JStr ''1h'')]))
     = Some (Some (True, Some ''100''))"
  by code_simp

theorem weekend_target_round_trip_witness:
  "\<exists>target. d_new dec_js ''100'' = Some target \<and>
     weekendGapTarget dec_js (example_weekend @ [example_minute 342000000 ''97'']) 341999999 = Some (Some target)"
proof -
  obtain r where r: "weekendGapReading dec_js example_weekend (JObj [(''candleInterval'', JStr ''1h'')]) = Some (Some r)" "gr_fired r"
      "gr_refClose r = Some ''100''"
    using example_weekend_reading by auto
  have w: "cd_closeTimeMs (last example_weekend) = 341999999" "cd_openTimeMs (last example_weekend) = 338400000"
    by (simp_all add: example_weekend_def example_minute_def)
  show ?thesis
    using weekend_target_round_trip [OF r(1,2), of "example_weekend @ [example_minute 342000000 ''97'']"] r(3) w
    by (force simp: example_weekend_def example_minute_def HOUR_MS_def FRIDAY_LEAD_MS_def)
qed

lemma map_filter_published:
  "List.map_filter f (map (\<lambda>s. (k @ s, stored s)) ts @ others) =
     List.map_filter (\<lambda>s. f (k @ s, stored s)) ts @ List.map_filter f others"
  by (simp add: List.map_filter_def filter_map o_def)

lemma readPublished_finite: "readPublished D v = Some p \<Longrightarrow> d_isFinite D (pb_score p)"
  by (auto simp: readPublished_def split: json.splits option.splits if_splits)

lemma map_filter_pick: "(\<And>x. x \<in> set xs \<Longrightarrow> f x = (if P x then Some (g x) else None)) \<Longrightarrow> List.map_filter f xs = map g (filter P xs)"
  by (induction xs) (auto simp: List.map_filter_def)

lemma map_of_published: "s \<in> set ts \<Longrightarrow> map_of (map (\<lambda>s. (k @ s, stored s)) ts @ others) (k @ s) = Some (stored s)"
  by (induction ts) auto

text \<open>What a gate reads when the snapshot holds one current score per symbol of the profile.\<close>

lemma sibling_scores_published:
  assumes pub: "\<And>t. t \<in> set ts \<Longrightarrow> readPublished D (stored t) = Some (p t) \<and> pb_lookbackBars (p t) = JsNum (of_int bars) \<and>
      \<not> num_below (pb_candleCloseMs (p t)) (of_int (cd_closeTimeMs (w ! (length w - 2))))"
    and others: "\<forall>e \<in> set others. \<not> kv_prefixed RELATIVE_STRENGTH_KV_PREFIX (fst e)"
  shows "sibling_scores D w bars s (map (\<lambda>t. (RELATIVE_STRENGTH_KV_PREFIX @ t, stored t)) ts @ others) =
    map (\<lambda>t. pb_score (p t)) (filter (\<lambda>t. t \<noteq> s) ts)"
  unfolding sibling_scores_def Let_def map_filter_published
  by (subst map_filter_pick [where P = "\<lambda>t. t \<noteq> s" and g = "\<lambda>t. pb_score (p t)" and xs = ts],
      use pub in \<open>simp add: kv_prefixed_def\<close>,
      subst map_filter_pick [where P = "\<lambda>_. False" and g = undefined and xs = others],
      use others in \<open>auto\<close>)

lemma published_rank:
  assumes L: "decimal_laws D val" and ts: "distinct ts" "s \<in> set ts" "\<And>t. t \<in> set ts \<Longrightarrow> d_isFinite D (score t)"
  shows "length (filter (\<lambda>x. d_gt D x (score s)) (map score (filter (\<lambda>t. t \<noteq> s) ts))) = card {t \<in> set ts. val (score s) < val (score t)}"
proof -
  have "set (filter (\<lambda>t. d_gt D (score t) (score s)) (filter (\<lambda>t. t \<noteq> s) ts)) = {t \<in> set ts. val (score s) < val (score t)}"
    using ts(2,3) decimal_laws.lt [OF L] by fastforce
  then show ?thesis
    using ts(1) distinct_card [of "filter (\<lambda>t. d_gt D (score t) (score s)) (filter (\<lambda>t. t \<noteq> s) ts)"] by (simp add: filter_map o_def)
qed

text \<open>In a finite ranking at most \<open>k\<close> different values have fewer than \<open>k\<close> members above them.\<close>

lemma few_on_top:
  fixes f :: "'a \<Rightarrow> rat"
  assumes S: "finite S" and P: "P \<subseteq> S" "\<And>s. s \<in> P \<Longrightarrow> int (card {t \<in> S. f s < f t}) < k" and k: "0 \<le> k"
  shows "int (card (f ` P)) \<le> k"
proof (cases "P = {}")
  case False
  have fin: "finite P" using P(1) S by (rule finite_subset)
  obtain m where m: "m \<in> P" "f m = Min (f ` P)" using False fin Min_in [of "f ` P"] by fastforce
  have "f ` P - {f m} \<subseteq> f ` {t \<in> S. f m < f t}"
  proof
    fix v assume "v \<in> f ` P - {f m}"
    then obtain s where s: "s \<in> P" "v = f s" "f s \<noteq> f m" by blast
    then have "f m < f s" using fin Min_le [of "f ` P" "f s"] m(2) by (simp add: less_le)
    with s P(1) show "v \<in> f ` {t \<in> S. f m < f t}" by auto
  qed
  then have "card (f ` P - {f m}) \<le> card {t \<in> S. f m < f t}"
    by (intro order_trans [OF card_mono card_image_le]) (simp_all add: S)
  moreover have "card (f ` P) = Suc (card (f ` P - {f m}))" using m(1) fin by (intro card.remove) simp_all
  ultimately show ?thesis using P(2) [OF m(1)] by linarith
qed (use k in simp)

lemma coerceInt_ge: "least \<le> fallback \<Longrightarrow> least \<le> coerceInt raw least fallback"
  by (simp add: coerceInt_def split: option.split)

text \<open>
  C39. The ranking admits the strongest and rations the slots. When the snapshot holds one current score per
  symbol of the profile over one lookback, each symbol's gate answers with its published score, ranks it by
  the number of symbols with a strictly higher one, and passes exactly when that number is below
  \<open>topK\<close>; so a refused symbol never scores above one that passes, and those that pass carry at most
  \<open>topK\<close> different scores: more than \<open>topK\<close> symbols can only pass on a tie.
\<close>
theorem strength_gate_ranks:
  fixes D :: "'d decimal_js"
  defines "key \<equiv> \<lambda>s. RELATIVE_STRENGTH_KV_PREFIX @ s"
  assumes L: "decimal_laws D val" and ts: "distinct ts" and on: "rs_enabled (relativeStrengthSettings raw)"
    and es: "es = map (\<lambda>s. (key s, stored s)) ts @ others" "\<forall>e \<in> set others. \<not> kv_prefixed RELATIVE_STRENGTH_KV_PREFIX (fst e)"
    and pub: "\<And>s. s \<in> set ts \<Longrightarrow> readPublished D (stored s) = Some (p s) \<and>
      pb_lookbackBars (p s) = JsNum (of_int (rs_lookbackBars (relativeStrengthSettings raw))) \<and>
      pb_candleCloseMs (p s) = JsNum (of_int (cd_closeTimeMs (last (w s)))) \<and>
      rs_lookbackBars (relativeStrengthSettings raw) + 1 \<le> int (length (w s)) \<and> w s \<noteq> []"
    and recent: "\<And>s t. s \<in> set ts \<Longrightarrow> t \<in> set ts \<Longrightarrow> cd_closeTimeMs (w t ! (length (w t) - 2)) \<le> cd_closeTimeMs (last (w s))"
    and score: "score = (\<lambda>s. val (pb_score (p s)))"
    and gate: "gate = (\<lambda>s. relativeStrengthGate D M (w s) raw s (Some es))"
  shows "(\<forall>s \<in> set ts. \<exists>g. gate s = Some g \<and> sg_score g = Some (pb_score (p s)) \<and>
       sg_rank g = card {t \<in> set ts. score s < score t} \<and>
       (sg_gate g = StrengthPass \<longleftrightarrow> int (sg_rank g) < rs_topK (relativeStrengthSettings raw))) \<and>
    int (card (score ` {s \<in> set ts. map_option sg_gate (gate s) = Some StrengthPass})) \<le> rs_topK (relativeStrengthSettings raw)"
proof -
  let ?r = "relativeStrengthSettings raw"
  have fin: "d_isFinite D (pb_score (p s))" if "s \<in> set ts" for s
    using pub [OF that] readPublished_finite by blast
  have run: "gate s = Some \<lparr>sg_gate = (if int (card {t \<in> set ts. score s < score t}) < rs_topK ?r then StrengthPass else StrengthRanked),
      sg_score = Some (pb_score (p s)), sg_rank = card {t \<in> set ts. score s < score t}, sg_siblings = length (filter (\<lambda>t. t \<noteq> s) ts)\<rparr>"
    if s: "s \<in> set ts" for s
  proof -
    have "sibling_scores D (w s) (rs_lookbackBars ?r) s es = map (\<lambda>t. pb_score (p t)) (filter (\<lambda>t. t \<noteq> s) ts)"
      unfolding es(1) key_def by (rule sibling_scores_published [OF _ es(2)]) (use pub recent [OF _ s] in \<open>simp add: not_less\<close>)
    moreover have "currentPublished D (w s) (rs_lookbackBars ?r) (kv_get (Some es) (key s)) = Some (pb_score (p s))"
      using pub [OF s] by (simp add: currentPublished_def kv_get_def kv_entries_def es(1) key_def map_of_published [OF s] del: map_of_append)
    ultimately show ?thesis
      using on published_rank [OF L ts s, where score = "\<lambda>t. pb_score (p t)"] fin by (simp add: gate relativeStrengthGate_def Let_def kv_entries_def key_def score)
  qed
  have "1 \<le> rs_topK ?r" by (simp add: relativeStrengthSettings_def coerceInt_ge)
  then have "int (card (score ` {s \<in> set ts. map_option sg_gate (gate s) = Some StrengthPass})) \<le> rs_topK ?r"
    by (intro few_on_top [where S = "set ts"]) (auto simp: run split: if_splits)
  with run show ?thesis by auto
qed

definition example_strength :: json where
  "example_strength = JObj [(''enabled'', JBool True), (''lookbackBars'', JStr ''2''), (''topK'', JStr ''1'')]"

definition example_score :: "string \<Rightarrow> json" where
  "example_score s = JObj [(''score'', JStr s), (''candleCloseMs'', JNum (JsNum 179999)), (''lookbackBars'', JNum (JsNum 2))]"

definition example_scores :: "(string \<times> json) list" where
  "example_scores = [(RELATIVE_STRENGTH_KV_PREFIX @ ''A'', example_score ''2''), (RELATIVE_STRENGTH_KV_PREFIX @ ''B'', example_score ''1'')]"

definition example_trio :: "candle list" where
  "example_trio = [example_minute 0 ''1'', example_minute 60000 ''2'', example_minute 120000 ''3'']"

text \<open>Two symbols compete for one slot: the stronger passes, the weaker is refused.\<close>

theorem strength_gate_ranks_witness:
  "(\<exists>g. relativeStrengthGate dec_js example_more example_trio example_strength ''A'' (Some example_scores) = Some g \<and> sg_gate g = StrengthPass) \<and>
   (\<exists>g. relativeStrengthGate dec_js example_more example_trio example_strength ''B'' (Some example_scores) = Some g \<and> sg_gate g \<noteq> StrengthPass)"
proof -
  have s: "rs_enabled (relativeStrengthSettings example_strength)" "rs_lookbackBars (relativeStrengthSettings example_strength) = 2"
    "rs_topK (relativeStrengthSettings example_strength) = 1" by code_simp+
  have p: "readPublished dec_js (example_score ''2'') = Some \<lparr>pb_score = Dec 2 0, pb_candleCloseMs = JsNum 179999, pb_lookbackBars = JsNum 2\<rparr>"
    "readPublished dec_js (example_score ''1'') = Some \<lparr>pb_score = Dec 1 0, pb_candleCloseMs = JsNum 179999, pb_lookbackBars = JsNum 2\<rparr>"
    by code_simp+
  have w: "cd_closeTimeMs (example_trio ! (length example_trio - 2)) = 119999" "cd_closeTimeMs (last example_trio) = 179999"
    "length example_trio = 3" "example_trio \<noteq> []" by (simp_all add: example_trio_def example_minute_def)
  let ?n = "\<lambda>s. if s = ''A'' then 2 else 1 :: int" and ?st = "\<lambda>s. example_score (if s = ''A'' then ''2'' else ''1'')"
    and ?p = "\<lambda>s. \<lparr>pb_score = Dec (if s = ''A'' then 2 else 1) 0, pb_candleCloseMs = JsNum 179999, pb_lookbackBars = JsNum 2\<rparr>"
  have es: "example_scores = map (\<lambda>s. (RELATIVE_STRENGTH_KV_PREFIX @ s, ?st s)) [''A'', ''B''] @ []" by (simp add: example_scores_def)
  have "\<forall>s \<in> set [''A'', ''B'']. \<exists>g. relativeStrengthGate dec_js example_more example_trio example_strength s (Some example_scores) = Some g \<and>
       sg_score g = Some (Dec (?n s) 0) \<and> sg_rank g = card {t \<in> set [''A'', ''B'']. dval (Dec (?n s) 0) < dval (Dec (?n t) 0)} \<and>
       (sg_gate g = StrengthPass \<longleftrightarrow> int (sg_rank g) < 1)"
  proof -
    have pub: "readPublished dec_js (?st s) = Some (?p s) \<and>
        pb_lookbackBars (?p s) = JsNum (of_int (rs_lookbackBars (relativeStrengthSettings example_strength))) \<and>
        pb_candleCloseMs (?p s) = JsNum (of_int (cd_closeTimeMs (last example_trio))) \<and>
        rs_lookbackBars (relativeStrengthSettings example_strength) + 1 \<le> int (length example_trio) \<and> example_trio \<noteq> []" for s
      using p w s(2) by simp
    have recent: "cd_closeTimeMs (example_trio ! (length example_trio - 2)) \<le> cd_closeTimeMs (last example_trio)" using w by simp
    from strength_gate_ranks [OF djs.decimal_laws_axioms _ s(1) es _ pub recent refl refl, THEN conjunct1, unfolded s(3), of example_more]
    show ?thesis by simp
  qed
  note ranks = this
  have c: "card {t \<in> set [''A'', ''B'']. dval (Dec (?n ''A'') 0) < dval (Dec (?n t) 0)} = card ({} :: string set)"
    "card {t \<in> set [''A'', ''B'']. dval (Dec (?n ''B'') 0) < dval (Dec (?n t) 0)} = card {''A''}"
    by (intro arg_cong [where f = card]; auto)+
  from ranks [rule_format, of "''A''"] ranks [rule_format, of "''B''"] show ?thesis unfolding c by auto
qed

end
