(* ===== verification/Mo_Arm.thy ===== *)
theory Mo_Arm
  imports Mo_Signals Tt_Tick
begin

text \<open>
  The binding of the shared stop arm to the momentum strategy
  (\<open>packages/strategy/momentum/src/protective-stop.ts\<close>): the level on the price grid, the order builders,
  the atomic closing sell, the trailing distance asked of the exchange and the reconstruction of the
  high a native trail has seen. The tick input is the one of \<open>Tt_Orders\<close>; \<open>None\<close> is an exception.
\<close>

definition MO_SUPERSEDED :: string where "MO_SUPERSEDED = ''momentum-protective-stop-superseded''"

definition mo_findRestingProtectiveStop :: "'d tt_input \<Rightarrow> open_order option option" where
  "mo_findRestingProtectiveStop inp =
     map_option (findRestingProtectiveStop (tn_openOrders inp)) (mo_protectiveStopClientOrderId (tn_profileId inp) (tn_symbol inp))"

definition stop_block :: "json \<Rightarrow> string \<Rightarrow> json" where
  "stop_block config k = jget (jget config ''protectiveStop'') k"

definition mo_computeProtectiveStopLevel :: "'d decimal_js \<Rightarrow> 'd tt_input \<Rightarrow> json \<Rightarrow> 'd \<Rightarrow> 'd stop_level option option" where
  "mo_computeProtectiveStopLevel D inp state rawStop =
     (let zero = d_int D 0
      in if jget state ''entryPrice'' = JNull then Some None
         else case (decimal_of D (jget state ''heldQuantity''), d_new D (sf_tickSize (tn_filters inp)), parseFilters D (tn_filters inp),
                    decimal_of D (jcoalesce (stop_block (tn_config inp) ''limitOffsetPercentage'') (JStr MO_DEFAULT_LIMIT_OFFSET))) of
                (Some held, Some tick, Some filters, Some offset) \<Rightarrow>
                  if d_lte D held zero \<or> d_lte D tick zero \<or> d_lte D offset zero \<or> d_gte D offset (d_int D 1) then Some None
                  else do {
                    stop \<leftarrow> roundToTick D rawStop tick;
                    limit \<leftarrow> roundToTick D (d_times D stop offset) tick;
                    Some (if d_lte D stop zero \<or> d_lte D limit zero then None
                          else Some \<lparr>lv_stop = stop, lv_limit = limit, lv_held = held, lv_filters = filters, lv_tick = tick\<rparr>)
                  }
              | _ \<Rightarrow> Some None)"

text \<open>Both forms of the stop carry the same id, so they occupy one slot.\<close>

definition stop_intent :: "'d tt_input \<Rightarrow> string \<Rightarrow> bool \<Rightarrow> order_intent" where
  "stop_intent inp ourId rearm =
     (tt_intent inp SELL ''protective-stop'' ourId None)\<lparr>oi_deferrable := (if rearm then Some True else None)\<rparr>"

definition placeDecision :: "'d tt_input \<Rightarrow> string \<Rightarrow> desired_stop \<Rightarrow> bool \<Rightarrow> decision" where
  "placeDecision inp ourId desired rearm =
     PlaceOrder (stop_intent inp ourId rearm) (stop_limit_params (ds_quantity desired) (ds_stopPrice desired, ds_price desired))"

definition nativeTrailPlaceDecision :: "'d tt_input \<Rightarrow> string \<Rightarrow> desired_native \<Rightarrow> bool \<Rightarrow> decision" where
  "nativeTrailPlaceDecision inp ourId desired rearm =
     PlaceOrder (stop_intent inp ourId rearm)
       ((market_params (dn_quantity desired))\<lparr>op_type := STOP_LOSS, op_trailingDelta := Some (dn_trailingDelta desired)\<rparr>)"

fun replaceDecision :: "open_order \<Rightarrow> decision \<Rightarrow> decision option" where
  "replaceDecision resting (PlaceOrder i p) = Some (ReplaceOrder (oo_orderId resting) MO_SUPERSEDED i p)"
| "replaceDecision resting _ = None"

definition cancelDecision :: "open_order \<Rightarrow> string \<Rightarrow> decision" where
  "cancelDecision resting symbol = CancelOrder (oo_orderId resting) MO_SUPERSEDED (Some symbol)"

definition mo_closingSellDecisions :: "'d tt_input \<Rightarrow> decision \<Rightarrow> decision list option" where
  "mo_closingSellDecisions inp sell =
     (case mo_findRestingProtectiveStop inp of
        None \<Rightarrow> None
      | Some None \<Rightarrow> Some [sell]
      | Some (Some resting) \<Rightarrow> map_option (\<lambda>d. [d]) (replaceDecision resting sell))"

definition momentumStopBandSettings :: "'d decimal_js \<Rightarrow> json \<Rightarrow> 'd band_settings option" where
  "momentumStopBandSettings D config =
     (if stop_block config ''enabled'' \<noteq> JBool True then None
      else case (unitFraction D (decOrNull D (jget config ''trailingStopPct'')),
                 unitFraction D (decOrNull D (jcoalesce (stop_block config ''limitOffsetPercentage'') (JStr MO_DEFAULT_LIMIT_OFFSET)))) of
             (Some stopDistancePct, Some limitOffsetPct) \<Rightarrow>
               Some \<lparr>bs_stopDistancePct = stopDistancePct, bs_limitOffsetPct = limitOffsetPct,
                     bs_onBandBlock = jcoalesce (stop_block config ''onBandBlock'') (JStr ''notify''), bs_path = [''trailingStopPct'']\<rparr>
           | _ \<Rightarrow> None)"

definition desiredTrailDistance :: "'d decimal_js \<Rightarrow> json \<Rightarrow> 'd stop_resolution \<Rightarrow> 'd \<Rightarrow> 'd option" where
  "desiredTrailDistance D config level entry =
     (case profitLegDistance D config (sr_profitHigh level) entry of
        Some d \<Rightarrow> Some d
      | None \<Rightarrow>
          (let fixed = unitFraction D (decOrNull D (jget config ''trailingStopPct''))
           in case sr_stop level of
                None \<Rightarrow> fixed
              | Some stop \<Rightarrow>
                  if jget (jget config ''atrTrailingStop'') ''enabled'' = JBool True \<and> d_gt D stop (d_int D 0) \<and>
                     d_gt D (sr_effectiveHigh level) (d_int D 0)
                  then Some (d_minus D (d_int D 1) (d_div D stop (sr_effectiveHigh level)))
                  else fixed))"

definition minute_candles :: "'d tt_input \<Rightarrow> candle list" where
  "minute_candles inp = candles_of inp ''1m''"

definition nativeTrailHigh :: "'d decimal_js \<Rightarrow> 'd tt_input \<Rightarrow> json \<Rightarrow> open_order option \<Rightarrow> 'd option option" where
  "nativeTrailHigh D inp state resting =
     (case resting of
        None \<Rightarrow> Some None
      | Some ord \<Rightarrow>
          if oo_trailingDelta ord = None then Some None
          else do {
            mark \<leftarrow> d_new D (tn_currentPrice inp);
            let trail = jget state ''nativeTrail'';
            let persisted = (if jget trail ''orderId'' \<noteq> JNum (JsNum (of_int (oo_orderId ord))) then []
                             else case decOrNull D (jget trail ''high'') of None \<Rightarrow> [] | Some h \<Rightarrow> [h]);
            highs \<leftarrow> prices D cd_high (filter (\<lambda>c. oo_transactTimeMs ord < cd_openTimeMs c + 60000) (minute_candles inp));
            Some (Some (foldl (d_max D) mark (persisted @ highs)))
          })"

record mo_arm =
  ma_arm :: arm_result
  ma_nativeTrailed :: bool
  ma_nativeUnavailable :: bool

definition native_unavailable :: "'d decimal_js \<Rightarrow> 'd tt_input \<Rightarrow> 'd option \<Rightarrow> bool" where
  "native_unavailable D inp distance =
     (stop_block (tn_config inp) ''mode'' = JStr ''native-trail'' \<and> stop_block (tn_config inp) ''enabled'' = JBool True \<and>
      (case distance of None \<Rightarrow> True | Some d \<Rightarrow> nativeTrailingDelta D d (sf_trailingDelta (tn_filters inp)) = None))"

definition drift_band :: "'d decimal_js \<Rightarrow> json \<Rightarrow> bool \<Rightarrow> 'd option" where
  "drift_band D config floorClamped =
     (let operatorBand = unitFraction D (decOrNull D (stop_block config ''minRearmDriftPct''))
      in if floorClamped then Some (clampedStopDrift D operatorBand) else operatorBand)"

definition mo_arm_params ::
  "'d decimal_js \<Rightarrow> 'd tt_input \<Rightarrow> string \<Rightarrow> 'd stop_resolution \<Rightarrow> 'd stop_level option \<Rightarrow> 'd \<Rightarrow> 'd option \<Rightarrow> 'd option \<Rightarrow> 'd arm_params" where
  "mo_arm_params D inp ourId level stopLevel mark restingHigh distance =
     (let config = tn_config inp; bandSettings = momentumStopBandSettings D config;
          primaryNative = (stop_block config ''mode'' = JStr ''native-trail'' \<and> \<not> native_unavailable D inp distance \<and> distance \<noteq> None);
          bandEscapeNative = (case bandSettings of None \<Rightarrow> False | Some bs \<Rightarrow> bs_onBandBlock bs = JStr ''native-trail'');
          nativeStopDistance = (case bandSettings of Some bs \<Rightarrow> Some (bs_stopDistancePct bs) | None \<Rightarrow> distance)
      in \<lparr>ap_openOrders = tn_openOrders inp, ap_account = tn_account inp, ap_symbol = tn_symbol inp, ap_symbolInfo = tn_symbolInfo inp,
          ap_currentPrice = tn_currentPrice inp, ap_enabled = (stop_block config ''enabled'' = JBool True), ap_level = stopLevel,
          ap_reclaimableBase = ownRestingSellBase D (tn_openOrders inp) ourId (tn_symbol inp), ap_ourClientOrderId = ourId,
          ap_buildPlace = placeDecision inp ourId,
          ap_buildCancel = (\<lambda>resting. cancelDecision resting (tn_symbol inp)),
          ap_buildReplace = (\<lambda>resting place. case replaceDecision resting place of Some d \<Rightarrow> d | None \<Rightarrow> Noop),
          ap_primaryTrail =
            (case distance of
               Some d \<Rightarrow> if primaryNative then Some \<lparr>pt_desiredDistancePct = d, pt_markPrice = mark, pt_restingHigh = restingHigh\<rparr> else None
             | None \<Rightarrow> None),
          ap_nativeTrail =
            (case nativeStopDistance of
               Some d \<Rightarrow> if primaryNative \<or> bandEscapeNative
                         then Some \<lparr>nt_stopDistancePct = d, nt_build = nativeTrailPlaceDecision inp ourId\<rparr> else None
             | None \<Rightarrow> None),
          ap_minStopDrift = drift_band D config (sr_floorClamped level)\<rparr>)"

text \<open>
  The builder of a replacement throws on anything but a placement; both placement builders return one.
  \<open>nativeTrailed\<close> is set when the trail builder runs outside the primary mode, and what it returns is emitted.
\<close>

definition mo_evaluateProtectiveStopArm ::
  "'d decimal_js \<Rightarrow> 'd tt_input \<Rightarrow> json \<Rightarrow> 'd stop_resolution \<Rightarrow> 'd \<Rightarrow> mo_arm option" where
  "mo_evaluateProtectiveStopArm D inp state level entry = do {
     ourId \<leftarrow> mo_protectiveStopClientOrderId (tn_profileId inp) (tn_symbol inp);
     let config = tn_config inp;
     let distance = (if stop_block config ''mode'' = JStr ''native-trail'' then desiredTrailDistance D config level entry else None);
     resting \<leftarrow> mo_findRestingProtectiveStop inp;
     mark \<leftarrow> d_new D (tn_currentPrice inp);
     restingHigh \<leftarrow> nativeTrailHigh D inp state resting;
     stopLevel \<leftarrow> (case sr_stop level of
         Some stop \<Rightarrow> if stop_block config ''enabled'' = JBool True then mo_computeProtectiveStopLevel D inp state stop else Some None
       | None \<Rightarrow> Some None);
     let P = mo_arm_params D inp ourId level stopLevel mark restingHigh distance;
     arm \<leftarrow> evaluateProtectiveStopArm D P;
     Some \<lparr>ma_arm = arm, ma_nativeTrailed = (ap_primaryTrail P = None \<and> list_ex carries_trail (ar_decisions arm)),
           ma_nativeUnavailable = native_unavailable D inp distance\<rparr>
   }"

end
