(* ===== verification/Mo_Tick.thy ===== *)
theory Mo_Tick
  imports Mo_Arm
begin

text \<open>
  The tick of the momentum strategy, \<open>packages/strategy/momentum/src/tick.ts\<close>: the trend and extension
  gates, the entry with every trigger, the exit with its stop level, and the published score. The state
  is the stored \<open>json\<close> body; \<open>None\<close> is an exception. The periods of the two moving averages are numbers,
  as their schema says; another value is not modelled and counts as an exception.
\<close>

record 'd mo_tick =
  mk_input :: "'d tt_input"
  mk_kv :: profile_kv
  mk_override :: "(string \<times> string option) option"

text \<open>The output with the two fields that answer an override.\<close>

record mo_output = tick_output +
  to_overrideDeferred :: bool
  to_declineReason :: "string option"

definition mo_out :: "json \<Rightarrow> decision list \<Rightarrow> log_entry list \<Rightarrow> metric_entry list \<Rightarrow> mo_output" where
  "mo_out s ds ls ms = \<lparr>to_nextState = s, to_decisions = ds, to_logs = ls, to_metrics = ms, to_overrideDeferred = False, to_declineReason = None\<rparr>"

definition skipMetric :: "string \<Rightarrow> string \<Rightarrow> metric_entry" where
  "skipMetric side reason = metric_of ''momentum.skip'' (Some (JObj [(''side'', JStr side), (''reason'', JStr reason)])) 1"

definition holdsCoins :: "'d decimal_js \<Rightarrow> json \<Rightarrow> bool" where
  "holdsCoins D quantity = (quantity \<noteq> JNull \<and> (case decOrNull D quantity of Some q \<Rightarrow> d_gt D q (d_int D 0) | None \<Rightarrow> True))"

definition lastEntryCandle :: "json \<Rightarrow> rat option" where
  "lastEntryCandle state = json_rat (jget state ''lastEntryCandleMs'')"

definition profitTrailSince :: "json \<Rightarrow> rat option" where
  "profitTrailSince state = json_rat (jget state ''profitTrailSinceMs'')"

definition num_or_null :: "rat option \<Rightarrow> json" where
  "num_or_null v = (case v of Some r \<Rightarrow> JNum (JsNum r) | None \<Rightarrow> JNull)"

definition reason_blocker :: "string \<Rightarrow> json" where
  "reason_blocker reason = JObj [(''reason'', JStr reason)]"

definition hold :: "json \<Rightarrow> log_entry list \<Rightarrow> metric_entry list \<Rightarrow> json \<Rightarrow> mo_output" where
  "hold state logs metrics entryBlocker = mo_out (spread state [(''entryBlocker'', entryBlocker)]) [Noop] logs metrics"

text \<open>An entry refused for a named reason.\<close>

definition refuse :: "json \<Rightarrow> log_entry \<Rightarrow> string \<Rightarrow> mo_output" where
  "refuse state entry reason = hold state [entry] [skipMetric ''entry'' reason] (reason_blocker reason)"

definition entryMargin :: "'d decimal_js \<Rightarrow> json \<Rightarrow> 'd" where
  "entryMargin D config =
     (case decimal_of D (jcoalesce (jget config ''entryMarginPct'') (JStr ''0'')) of
        Some m \<Rightarrow> if d_lt D m (d_int D 0) then d_int D 0 else m
      | None \<Rightarrow> d_int D 0)"

section \<open>Number(v)\<close>

definition digit_value :: "char \<Rightarrow> int option" where
  "digit_value c =
     (let n = of_char c :: int
      in if 48 \<le> n \<and> n \<le> 57 then Some (n - 48) else if 97 \<le> n \<and> n \<le> 102 then Some (n - 87)
         else if 65 \<le> n \<and> n \<le> 70 then Some (n - 55) else None)"

definition radix_int :: "int \<Rightarrow> string \<Rightarrow> rat option" where
  "radix_int b s =
     (case those (map digit_value s) of
        Some ds \<Rightarrow> if ds = [] \<or> list_ex (\<lambda>d. b \<le> d) ds then None else Some (of_int (foldl (\<lambda>a d. b * a + d) 0 ds))
      | None \<Rightarrow> None)"

definition unsigned_number :: "string \<Rightarrow> rat option" where
  "unsigned_number s =
     (let is_e = (\<lambda>c. c = CHR ''e'' \<or> c = CHR ''E''); mant = takeWhile (\<lambda>c. \<not> is_e c) s; rest = dropWhile (\<lambda>c. \<not> is_e c) s;
          scale = (case rest of
             [] \<Rightarrow> Some 0
           | c # r \<Rightarrow>
               (case r of
                  [] \<Rightarrow> None
                | d # q \<Rightarrow> if d = CHR ''-'' then (if q = [] then None else map_option (\<lambda>ds. - num_of ds) (digits_of q))
                           else (let q' = (if d = CHR ''+'' then q else r) in if q' = [] then None else map_option num_of (digits_of q'))))
      in case (unsigned_parse mant, scale) of
           (Some (m, k), Some x) \<Rightarrow> Some (of_int m / 10 ^ k * 10 powi x)
         | _ \<Rightarrow> None)"

text \<open>\<open>Number(s)\<close> of a string; \<open>None\<close> is \<open>NaN\<close> or an infinity.\<close>

definition string_number :: "string \<Rightarrow> rat option" where
  "string_number s =
     (case trim s of
        [] \<Rightarrow> Some 0
      | c # r \<Rightarrow>
          if c = CHR ''-'' then map_option uminus (unsigned_number r)
          else if c = CHR ''+'' then unsigned_number r
          else case (c, r) of
                 (CHR ''0'', x # q) \<Rightarrow>
                   if x \<in> {CHR ''x'', CHR ''X''} then radix_int 16 q
                   else if x \<in> {CHR ''o'', CHR ''O''} then radix_int 8 q
                   else if x \<in> {CHR ''b'', CHR ''B''} then radix_int 2 q
                   else unsigned_number (c # r)
               | _ \<Rightarrow> unsigned_number (c # r))"

text \<open>The string an array of one element prints as, where it can be a number at all.\<close>

fun nested_number :: "json \<Rightarrow> rat option" where
  "nested_number (JStr s) = string_number s"
| "nested_number (JNum (JsNum r)) = Some r"
| "nested_number JNull = Some 0"
| "nested_number JUndefined = Some 0"
| "nested_number (JArr []) = Some 0"
| "nested_number (JArr [v]) = nested_number v"
| "nested_number _ = None"

fun finite_number :: "json \<Rightarrow> rat option" where
  "finite_number JUndefined = None"
| "finite_number (JBool b) = Some (if b then 1 else 0)"
| "finite_number v = nested_number v"

section \<open>Entry gates\<close>

datatype trend_gate = TrendPass | BelowTrend | AboveTrend | FallingTrend | TrendShort

fun trend_str :: "trend_gate \<Rightarrow> string" where
  "trend_str TrendPass = ''pass''"
| "trend_str BelowTrend = ''below-trend''"
| "trend_str AboveTrend = ''above-trend''"
| "trend_str FallingTrend = ''falling-trend''"
| "trend_str TrendShort = ''insufficient-history''"

definition trendLine :: "'d decimal_js \<Rightarrow> ma_type \<Rightarrow> candle list \<Rightarrow> int \<Rightarrow> 'd option" where
  "trendLine D ma candles period = (if ma = Ema then ema D candles (of_int period) else sma D candles (of_int period))"

definition slope_lookback :: "json \<Rightarrow> rat" where
  "slope_lookback raw =
     (case finite_number (jcoalesce raw (JNum (JsNum 10))) of Some k \<Rightarrow> if 1 \<le> k then k else 1 | None \<Rightarrow> 1)"

definition trendGate :: "'d decimal_js \<Rightarrow> json \<Rightarrow> candle list \<Rightarrow> string \<Rightarrow> trend_gate option" where
  "trendGate D config candles currentPrice =
     (let tf = jget config ''trendFilter'';
          rising = (jget tf ''requireRising'' = JBool True \<and> jget tf ''side'' \<noteq> JStr ''below'');
          k = (if rising then slope_lookback (jget tf ''slopeLookbackBars'') else 0);
          period = trendPeriod (jget tf ''period''); ma = trendMaType (jget tf ''maType'')
      in if jget tf ''enabled'' \<noteq> JBool True then Some TrendPass
         else if of_nat (length candles) < of_int period + k then Some TrendShort
         else do {
           line \<leftarrow> trendLine D ma candles period;
           price \<leftarrow> d_new D currentPrice;
           if jget tf ''side'' = JStr ''below'' then Some (if d_gte D price line then AboveTrend else TrendPass)
           else if d_lte D price line then Some BelowTrend
           else if rising then do {
             prevLine \<leftarrow> trendLine D ma (take (nat \<lfloor>of_nat (length candles) - k\<rfloor>) candles) period;
             Some (if d_lte D line prevLine then FallingTrend else TrendPass)
           } else Some TrendPass
         })"

definition underTrendLine :: "'d decimal_js \<Rightarrow> json \<Rightarrow> candle list \<Rightarrow> string \<Rightarrow> bool option" where
  "underTrendLine D config candles currentPrice =
     (let tf = jget config ''trendFilter''; period = trendPeriod (jget tf ''period'')
      in if int (length candles) < period then Some False
         else do {
           price \<leftarrow> d_new D currentPrice;
           line \<leftarrow> trendLine D (trendMaType (jget tf ''maType'')) candles period;
           Some (d_lte D price line)
         })"

definition belowTrendCalm :: "'d decimal_js \<Rightarrow> 'd decimal_more \<Rightarrow> json \<Rightarrow> candle list \<Rightarrow> bool option" where
  "belowTrendCalm D M block candles =
     (case maClusterMaxChoppiness D block of
        None \<Rightarrow> Some True
      | Some most \<Rightarrow>
          if length candles \<le> MA_CLUSTER_CHOP_PERIOD then Some False
          else map_option (\<lambda>chop. d_lt D chop most) (choppiness D M candles))"

datatype extension_gate = ExtensionPass | Overextended | ExtensionShort

fun extension_str :: "extension_gate \<Rightarrow> string" where
  "extension_str ExtensionPass = ''pass''"
| "extension_str Overextended = ''overextended''"
| "extension_str ExtensionShort = ''extension-insufficient-history''"

definition extensionGate :: "'d decimal_js \<Rightarrow> json \<Rightarrow> candle list \<Rightarrow> string \<Rightarrow> extension_gate option" where
  "extensionGate D config candles currentPrice =
     (let ext = jget config ''entryExtension''; period = extensionPeriod (jget ext ''period'')
      in if jget ext ''enabled'' \<noteq> JBool True then Some ExtensionPass
         else if int (length candles) < period then Some ExtensionShort
         else do {
           line \<leftarrow> trendLine D (trendMaType (jget ext ''maType'')) candles period;
           let highest = d_times D line (d_plus D (d_int D 1) (extensionMaxPercent D (jget ext ''maxPercent'')));
           price \<leftarrow> d_new D currentPrice;
           Some (if d_gt D price highest then Overextended else ExtensionPass)
         })"

section \<open>The entry signal\<close>

record 'd mo_signal =
  ms_fastNow :: 'd
  ms_slowNow :: 'd
  ms_threshold :: 'd
  ms_breakout :: "'d option"
  ms_belowBreakout :: "'d option"
  ms_impulse :: "'d impulse_reading option"
  ms_cluster :: "'d cluster_reading option"
  ms_exhaustion :: "'d exhaustion_reading option"
  ms_obvLead :: "'d obv_reading option"
  ms_weekendGap :: "gap_reading option"
  ms_close :: 'd
  ms_gate :: trend_gate

definition trigger_is :: "json \<Rightarrow> string \<Rightarrow> bool" where
  "trigger_is config k = (jget config ''entryTrigger'' = JStr k)"

text \<open>A reading that only its own trigger takes.\<close>

definition reading_for :: "json \<Rightarrow> string \<Rightarrow> 'a option option \<Rightarrow> 'a option option" where
  "reading_for config k r = (if trigger_is config k then r else Some None)"

definition below_level :: "'d decimal_js \<Rightarrow> json \<Rightarrow> candle list \<Rightarrow> 'd option option" where
  "below_level D config windowPrev =
     (let layer = jget config ''belowTrendBreakout''
      in if (trigger_is config ''breakout'' \<or> trigger_is config ''maCluster'') \<and> jget layer ''enabled'' = JBool True
         then breakoutLevel D windowPrev (breakoutLookback (jget layer ''lookback'')) else Some None)"

definition read_signal ::
  "'d decimal_js \<Rightarrow> 'd decimal_more \<Rightarrow> json \<Rightarrow> candle list \<Rightarrow> string \<Rightarrow> 'd \<Rightarrow> 'd \<Rightarrow> 'd \<Rightarrow> 'd mo_signal option" where
  "read_signal D M config candles currentPrice fastNow slowNow threshold = do {
     let windowPrev = butlast candles;
     breakout \<leftarrow> reading_for config ''breakout'' (breakoutLevel D windowPrev (breakoutLookback (jget config ''breakoutLookback'')));
     impulse \<leftarrow> reading_for config ''impulse'' (impulseReading D candles (jget config ''impulse''));
     cluster \<leftarrow> reading_for config ''maCluster'' (maClusterReading D M candles (jget config ''maCluster''));
     exhaustion \<leftarrow> reading_for config ''exhaustion'' (exhaustionReading D M candles (jget config ''exhaustion''));
     obvLead \<leftarrow> reading_for config ''obvLead'' (obvLeadReading D M candles (jget config ''obvLead''));
     weekendGap \<leftarrow> reading_for config ''weekendGap'' (weekendGapReading D candles config);
     belowBreakout \<leftarrow> below_level D config windowPrev;
     close \<leftarrow> last_close D candles;
     gate \<leftarrow> trendGate D config candles currentPrice;
     Some \<lparr>ms_fastNow = fastNow, ms_slowNow = slowNow, ms_threshold = threshold, ms_breakout = breakout, ms_belowBreakout = belowBreakout,
           ms_impulse = impulse, ms_cluster = cluster, ms_exhaustion = exhaustion, ms_obvLead = obvLead, ms_weekendGap = weekendGap,
           ms_close = close, ms_gate = gate\<rparr>
   }"

definition fired_by :: "('r \<Rightarrow> bool) \<Rightarrow> 'r option \<Rightarrow> bool" where
  "fired_by f r = (case r of Some x \<Rightarrow> f x | None \<Rightarrow> False)"

definition gap_signal :: "'d decimal_js \<Rightarrow> string \<Rightarrow> gap_reading option \<Rightarrow> bool option" where
  "gap_signal D currentPrice r =
     (case r of
        Some g \<Rightarrow>
          (case gr_refClose g of
             Some s \<Rightarrow> if \<not> gr_fired g then Some False
                       else do { price \<leftarrow> d_new D currentPrice; ref \<leftarrow> d_new D s; Some (d_lt D price ref) }
           | None \<Rightarrow> Some False)
      | None \<Rightarrow> Some False)"

definition entry_signal :: "'d decimal_js \<Rightarrow> json \<Rightarrow> string \<Rightarrow> bool \<Rightarrow> 'd mo_signal \<Rightarrow> bool option" where
  "entry_signal D config currentPrice crossUp sg =
     (if trigger_is config ''trend'' then Some (d_gt D (ms_fastNow sg) (ms_threshold sg))
      else if trigger_is config ''breakout'' then Some (fired_by (\<lambda>level. d_gt D (ms_close sg) level) (ms_breakout sg))
      else if trigger_is config ''impulse'' then Some (fired_by ir_fired (ms_impulse sg))
      else if trigger_is config ''maCluster'' then Some (fired_by mc_fired (ms_cluster sg))
      else if trigger_is config ''exhaustion'' then Some (fired_by xr_fired (ms_exhaustion sg))
      else if trigger_is config ''obvLead'' then Some (fired_by or_fired (ms_obvLead sg))
      else if trigger_is config ''weekendGap'' then gap_signal D currentPrice (ms_weekendGap sg)
      else Some crossUp)"

definition below_signal :: "'d decimal_js \<Rightarrow> 'd decimal_more \<Rightarrow> json \<Rightarrow> candle list \<Rightarrow> string \<Rightarrow> 'd mo_signal \<Rightarrow> bool option" where
  "below_signal D M config candles currentPrice sg =
     (if \<not> fired_by (\<lambda>level. d_gt D (ms_close sg) level) (ms_belowBreakout sg) then Some False
      else do {
        under \<leftarrow> (if trigger_is config ''maCluster'' then underTrendLine D config candles currentPrice else Some (ms_gate sg = BelowTrend));
        if \<not> under then Some False else belowTrendCalm D M (jget config ''belowTrendBreakout'') candles
      })"

section \<open>Entries\<close>

definition js_null :: "('a \<Rightarrow> json) \<Rightarrow> 'a option \<Rightarrow> json" where
  "js_null f v = (case v of Some x \<Rightarrow> f x | None \<Rightarrow> JNull)"

definition fixed_str :: "'d decimal_js \<Rightarrow> nat \<Rightarrow> 'd \<Rightarrow> json" where
  "fixed_str D n x = JStr (d_toFixed D x n)"

definition percent_str :: "'d decimal_js \<Rightarrow> 'd \<Rightarrow> json" where
  "percent_str D x = JStr (d_toFixed D (d_times D x (d_int D 100)) 2)"

text \<open>How far a price must rise to a level, in percent.\<close>

definition rise_to :: "'d decimal_js \<Rightarrow> 'd \<Rightarrow> 'd \<Rightarrow> json" where
  "rise_to D close level = percent_str D (d_minus D (d_div D level close) (d_int D 1))"

definition below_fields :: "'d decimal_js \<Rightarrow> 'd mo_signal \<Rightarrow> (string \<times> json) list" where
  "below_fields D sg =
     (case ms_belowBreakout sg of
        None \<Rightarrow> []
      | Some level \<Rightarrow> [(''belowTrendBreakoutLevel'', JStr (d_toFixedAll D level)), (''riseToBelowTrendBreakoutPercent'', rise_to D (ms_close sg) level)])"

definition impulse_fields :: "'d decimal_js \<Rightarrow> 'd mo_signal \<Rightarrow> (string \<times> json) list" where
  "impulse_fields D sg =
     (let r = ms_impulse sg
      in [(''volumeRatio'', js_null (fixed_str D 2 \<circ> ir_volumeRatio) r), (''bodyAtr'', js_null (fixed_str D 2 \<circ> ir_bodyAtr) r),
          (''trendGate'', JStr (trend_str (ms_gate sg))),
          (''waitingFor'', JStr (if r = None then ''impulse-history'' else ''heavy-volume-up-candle''))])"

definition exhaustion_fields :: "'d decimal_js \<Rightarrow> 'd mo_signal \<Rightarrow> (string \<times> json) list" where
  "exhaustion_fields D sg =
     (let r = ms_exhaustion sg
      in [(''choppiness'', js_null (fixed_str D 1 \<circ> xr_choppiness) r), (''belowAveragePercent'', js_null (percent_str D \<circ> xr_belowAverage) r),
          (''rsi'', js_null (fixed_str D 1 \<circ> xr_rsi) r), (''trendGate'', JStr (trend_str (ms_gate sg))),
          (''waitingFor'', JStr (if r = None then ''exhaustion-history'' else ''one-way-oversold-slide''))])"

definition obv_fields :: "'d decimal_js \<Rightarrow> 'd mo_signal \<Rightarrow> (string \<times> json) list" where
  "obv_fields D sg =
     (let r = ms_obvLead sg
      in [(''obvNewHigh'', js_null (JBool \<circ> or_obvNewHigh) r), (''priceToHighPercent'', js_null (percent_str D \<circ> or_priceToHigh) r),
          (''choppiness'', js_null (fixed_str D 1 \<circ> or_choppiness) r), (''trendGate'', JStr (trend_str (ms_gate sg))),
          (''waitingFor'', JStr (case r of
             None \<Rightarrow> ''obv-lead-history''
           | Some x \<Rightarrow> if \<not> or_obvNewHigh x then ''obv-new-high''
                       else if \<not> d_gt D (or_priceToHigh x) (d_int D 0) then ''price-already-at-high'' else ''less-choppy-market''))])"

definition gap_fields :: "'d mo_signal \<Rightarrow> (string \<times> json) list" where
  "gap_fields sg =
     (let r = ms_weekendGap sg
      in [(''refClose'', js_null (js_null JStr \<circ> gr_refClose) r), (''gapPercent'', js_null (js_null JStr \<circ> gr_gapPercent) r),
          (''trendGate'', JStr (trend_str (ms_gate sg))),
          (''waitingFor'', JStr (case r of
             None \<Rightarrow> ''one-hour-candles-only''
           | Some g \<Rightarrow> if \<not> gr_isEntryCandle g then ''sunday-22utc-candle''
                       else if gr_refClose g = None then ''weekend-gap-history'' else ''close-below-friday-close''))])"

definition cluster_fields :: "'d decimal_js \<Rightarrow> 'd mo_signal \<Rightarrow> (string \<times> json) list" where
  "cluster_fields D sg =
     (let r = ms_cluster sg
      in [(''clusterTop'', js_null (JStr \<circ> d_toFixedAll D \<circ> mc_top) r), (''clusterSpreadPercent'', js_null (percent_str D \<circ> mc_spread) r),
          (''riseToClusterTopPercent'', js_null (rise_to D (ms_close sg) \<circ> mc_top) r),
          (''choppiness'', js_null (fixed_str D 1 \<circ> mc_choppiness) r),
          (''atrPercentile'', js_null (js_null (fixed_str D 2) \<circ> mc_atrPercentile) r)]
         @ below_fields D sg @
         [(''trendGate'', JStr (trend_str (ms_gate sg))),
          (''waitingFor'', JStr (case r of
             None \<Rightarrow> ''ma-cluster-history''
           | Some x \<Rightarrow> if mc_choppy x then ''less-choppy-market'' else if mc_volatile x then ''calmer-market''
                       else if mc_unconfirmed x then ''next-close-above-cluster'' else if \<not> mc_bunched x then ''averages-to-bunch''
                       else if d_gt D (ms_close sg) (mc_top x) then ''fall-back-then-close-above-cluster''
                       else ''close-above-bunched-averages''))])"

definition breakout_fields :: "'d decimal_js \<Rightarrow> 'd mo_signal \<Rightarrow> (string \<times> json) list" where
  "breakout_fields D sg =
     [(''breakoutLevel'', js_null (JStr \<circ> d_toFixedAll D) (ms_breakout sg)),
      (''riseToBreakoutPercent'', js_null (rise_to D (ms_close sg)) (ms_breakout sg))] @ below_fields D sg @
     [(''trendGate'', JStr (trend_str (ms_gate sg))),
      (''waitingFor'', JStr (if ms_breakout sg = None then ''breakout-history'' else ''close-above-breakout-level''))]"

definition cross_fields :: "'d decimal_js \<Rightarrow> 'd mo_signal \<Rightarrow> (string \<times> json) list" where
  "cross_fields D sg =
     [(''fastEma'', JStr (d_toFixedAll D (ms_fastNow sg))), (''slowEma'', JStr (d_toFixedAll D (ms_slowNow sg))),
      (''entryThreshold'', JStr (d_toFixedAll D (ms_threshold sg))),
      (''fastVsThresholdPercent'', rise_to D (ms_threshold sg) (ms_fastNow sg)),
      (''waitingFor'', JStr (if d_gt D (ms_fastNow sg) (ms_threshold sg) then ''fall-back-then-cross-up'' else ''cross-up''))]"

text \<open>What a flat symbol without a signal reports.\<close>

definition no_signal_log :: "'d decimal_js \<Rightarrow> json \<Rightarrow> string \<Rightarrow> 'd mo_signal \<Rightarrow> log_entry" where
  "no_signal_log D config symbol sg =
     (let report = (\<lambda>message fields. log_of ''debug'' message (Some (JObj ((''symbol'', JStr symbol) # fields))))
      in if trigger_is config ''impulse'' then report ''momentum: flat, no impulse'' (impulse_fields D sg)
         else if trigger_is config ''exhaustion'' then report ''momentum: flat, no exhaustion'' (exhaustion_fields D sg)
         else if trigger_is config ''obvLead'' then report ''momentum: flat, no OBV lead'' (obv_fields D sg)
         else if trigger_is config ''weekendGap'' then report ''momentum: flat, no weekend gap'' (gap_fields sg)
         else if trigger_is config ''maCluster'' then report ''momentum: flat, no MA cluster break'' (cluster_fields D sg)
         else if trigger_is config ''breakout'' then report ''momentum: flat, no breakout'' (breakout_fields D sg)
         else report ''momentum: flat, no entry signal'' (cross_fields D sg))"

fun mo_budget_skip :: "mo_budget \<Rightarrow> string" where
  "mo_budget_skip MoSizingUnconfigured = ''sizing-unconfigured''"
| "mo_budget_skip MoCapReached = ''cap-reached''"
| "mo_budget_skip MoRiskUnavailable = ''risk-sizing-unavailable''"
| "mo_budget_skip (MoBudget b) = []"

fun size_skip :: "quantity_result \<Rightarrow> string" where
  "size_skip QMinQty = ''min-qty''"
| "size_skip QMinNotional = ''min-notional''"
| "size_skip QEntryBelowStopNotional = ''entry-below-stop-notional''"
| "size_skip _ = ''invalid-filters''"

definition skipped_log :: "string \<Rightarrow> string \<Rightarrow> string \<Rightarrow> log_entry" where
  "skipped_log message reason symbol = log_of ''warn'' message (Some (JObj [(''reason'', JStr reason), (''symbol'', JStr symbol)]))"

definition entry_message :: "json \<Rightarrow> json \<Rightarrow> string" where
  "entry_message config layer =
     (if layer = JStr ''below-trend'' then ''momentum: entry on breakout below the trend line''
      else if trigger_is config ''trend'' then ''momentum: entry with fast EMA above slow''
      else if trigger_is config ''breakout'' then ''momentum: entry on breakout above the lookback high''
      else if trigger_is config ''impulse'' then ''momentum: entry on impulse candle''
      else if trigger_is config ''maCluster'' then ''momentum: entry on break above bunched averages''
      else if trigger_is config ''exhaustion'' then ''momentum: entry on exhausted sell-off''
      else if trigger_is config ''obvLead'' then ''momentum: entry on OBV leading price''
      else if trigger_is config ''weekendGap'' then ''momentum: entry on weekend gap below the Friday close''
      else ''momentum: entry on EMA cross-up'')"

definition entered_state :: "'d tt_input \<Rightarrow> string \<Rightarrow> int \<Rightarrow> json \<Rightarrow> json" where
  "entered_state inp quantity candleCloseMs layer =
     JObj [(''schemaVersion'', JStr MOMENTUM_STATE_SCHEMA_VERSION), (''entryPrice'', JStr (tn_currentPrice inp)),
       (''highSinceEntry'', JStr (tn_currentPrice inp)), (''profitHigh'', JNull), (''heldQuantity'', JStr quantity),
       (''lastEntryCandleMs'', JNum (JsNum (of_int candleCloseMs))),
       (''profitTrailSinceMs'', num_or_null (map_option of_int (profitTrailEpoch (minute_candles inp)))),
       (''entryBlocker'', JNull), (''protectiveStopBlocker'', JNull), (''exitBlocker'', JNull), (''nativeTrail'', JNull),
       (''entryLayer'', jcoalesce layer (if trigger_is (tn_config inp) ''weekendGap'' then JStr ''weekend-gap'' else JNull))]"

definition enter_position :: "'d tt_input \<Rightarrow> string \<Rightarrow> int \<Rightarrow> json \<Rightarrow> mo_output option" where
  "enter_position inp quantity candleCloseMs layer = do {
     cid \<leftarrow> entryClientOrderId (tn_profileId inp) (tn_symbol inp) candleCloseMs;
     Some (mo_out (entered_state inp quantity candleCloseMs layer)
       [PlaceOrder (tt_intent inp BUY ''entry'' cid None) (market_params quantity)]
       [log_of ''info'' (entry_message (tn_config inp) layer)
          (Some (JObj [(''symbol'', JStr (tn_symbol inp)), (''price'', JStr (tn_currentPrice inp)), (''quantity'', JStr quantity)]))]
       [metric_of ''momentum.entry'' None 1])
   }"

definition evaluateEntry ::
  "'d decimal_js \<Rightarrow> 'd tt_input \<Rightarrow> json \<Rightarrow> bool \<Rightarrow> int \<Rightarrow> candle list \<Rightarrow> 'd mo_signal \<Rightarrow> json \<Rightarrow> mo_output option" where
  "evaluateEntry D inp state entrySignal candleCloseMs candles sg layer =
     (let config = tn_config inp; symbol = tn_symbol inp
      in if \<not> entrySignal then Some (hold state [no_signal_log D config symbol sg] [] JNull)
         else do {
           budget \<leftarrow> mo_resolveEntryBudget D config (tn_account inp) (si_quoteAsset (tn_symbolInfo inp)) (tn_currentPrice inp) candles;
           (case budget of
              MoBudget b \<Rightarrow> do {
                stop \<leftarrow> mo_entryStopFloor D config candles (tn_currentPrice inp);
                sized \<leftarrow> computeEntryQuantity D b (tn_currentPrice inp) (tn_filters inp) stop;
                (case sized of
                   Quantity quantity \<Rightarrow> enter_position inp quantity candleCloseMs layer
                 | skip \<Rightarrow> Some (refuse state (skipped_log ''momentum: entry skipped'' (size_skip skip) symbol) (size_skip skip)))
              }
            | skip \<Rightarrow> Some (refuse state (skipped_log ''momentum: entry skipped'' (mo_budget_skip skip) symbol) (mo_budget_skip skip)))
         })"

section \<open>Exits\<close>

text \<open>The trail's high-water mark: whether the last close raised it, and its value.\<close>

definition advance_high :: "'d decimal_js \<Rightarrow> json \<Rightarrow> json \<Rightarrow> candle \<Rightarrow> ('d \<times> bool \<times> 'd) option" where
  "advance_high D state entryPrice lastCandle = do {
     prevHigh \<leftarrow> decimal_of D (jcoalesce (jget state ''highSinceEntry'') entryPrice);
     closedClose \<leftarrow> d_new D (cd_close lastCandle);
     let closedAfterEntry = (case lastEntryCandle state of None \<Rightarrow> True | Some ms \<Rightarrow> ms < of_int (cd_closeTimeMs lastCandle));
     let madeNewHigh = (closedAfterEntry \<and> d_gt D closedClose prevHigh);
     Some (closedClose, madeNewHigh, if madeNewHigh then closedClose else prevHigh)
   }"

definition previous_stop :: "'d decimal_js \<Rightarrow> open_order option \<Rightarrow> 'd option" where
  "previous_stop D resting =
     (case resting of
        Some ord \<Rightarrow> if oo_trailingDelta ord = None then decOrNull D (case oo_stopPrice ord of Some s \<Rightarrow> JStr s | None \<Rightarrow> JUndefined) else None
      | None \<Rightarrow> None)"

record exit_triggers =
  et_trailHit :: bool
  et_gapFilled :: bool
  et_timeStop :: bool

text \<open>The two legs of a weekend-gap position: the Friday close as a target, and a time limit.\<close>

definition gap_legs :: "'d decimal_js \<Rightarrow> json \<Rightarrow> json \<Rightarrow> candle \<Rightarrow> candle list \<Rightarrow> 'd \<Rightarrow> (bool \<times> bool) option" where
  "gap_legs D config state lastCandle candles price =
     (case lastEntryCandle state of
        Some ms \<Rightarrow>
          if jget config ''candleInterval'' = JStr ''1h'' \<and> jget state ''entryLayer'' = JStr ''weekend-gap''
          then do {
            target \<leftarrow> weekendGapTarget D candles ms;
            Some (case target of Some x \<Rightarrow> d_gte D price x | None \<Rightarrow> False,
                  of_int (wg_maxHoldBars (weekendGapSettings D (jget config ''weekendGap''))) * 3600000 \<le> of_int (cd_closeTimeMs lastCandle) - ms)
          }
          else Some (False, False)
      | None \<Rightarrow> Some (False, False))"

definition exit_reason :: "bool \<Rightarrow> bool \<Rightarrow> exit_triggers \<Rightarrow> string" where
  "exit_reason forceSell crossDown et =
     (if forceSell then ''operator-force-sell'' else if et_trailHit et then ''trailing-stop'' else if crossDown then ''ema-cross''
      else if et_gapFilled et then ''gap-filled'' else ''time-stop'')"

definition flat_state :: "json \<Rightarrow> json" where
  "flat_state state =
     JObj [(''schemaVersion'', JStr MOMENTUM_STATE_SCHEMA_VERSION), (''entryPrice'', JNull), (''highSinceEntry'', JNull), (''profitHigh'', JNull),
       (''heldQuantity'', JNull), (''lastEntryCandleMs'', num_or_null (lastEntryCandle state)), (''profitTrailSinceMs'', JNull),
       (''entryBlocker'', JNull), (''protectiveStopBlocker'', JNull), (''exitBlocker'', JNull), (''nativeTrail'', JNull), (''entryLayer'', JNull)]"

definition sell_order :: "'d mo_tick \<Rightarrow> bool \<Rightarrow> candle \<Rightarrow> string \<Rightarrow> decision option" where
  "sell_order tk forceSell lastCandle quantity =
     (let inp = mk_input tk
      in map_option (\<lambda>cid. PlaceOrder ((tt_intent inp SELL ''exit'' cid None)\<lparr>oi_overrideActionId :=
             (if forceSell then (case mk_override tk of Some (kind, actionId) \<Rightarrow> actionId | None \<Rightarrow> None) else None)\<rparr>) (market_params quantity))
           (exitClientOrderId (tn_profileId inp) (tn_symbol inp) (cd_closeTimeMs lastCandle)))"

definition deferred_exit :: "'d mo_tick \<Rightarrow> json \<Rightarrow> bool \<Rightarrow> mo_output" where
  "deferred_exit tk state forceSell =
     (let out = hold state [log_of ''warn'' (if forceSell then ''momentum: operator force-sell could not execute -- no tracked quantity yet''
                  else ''momentum: exit signal but no held quantity'') (Some (JObj [(''symbol'', JStr (tn_symbol (mk_input tk)))]))]
                [skipMetric ''exit'' (if forceSell then ''force-sell-no-held'' else ''no-held'')] JNull
      in if forceSell then out\<lparr>to_overrideDeferred := True, to_declineReason := Some ''force-sell-no-held''\<rparr> else out)"

definition close_position :: "'d decimal_js \<Rightarrow> 'd mo_tick \<Rightarrow> json \<Rightarrow> bool \<Rightarrow> bool \<Rightarrow> exit_triggers \<Rightarrow> candle \<Rightarrow> mo_output option" where
  "close_position D tk state forceSell crossDown et lastCandle =
     (let inp = mk_input tk; symbol = tn_symbol inp
      in if jget state ''heldQuantity'' = JNull then Some (deferred_exit tk state forceSell)
         else do {
           sized \<leftarrow> computeExitQuantity D (jget state ''heldQuantity'') (tn_currentPrice inp) (tn_filters inp);
           (case sized of
              Quantity quantity \<Rightarrow> do {
                sell \<leftarrow> sell_order tk forceSell lastCandle quantity;
                decisions \<leftarrow> mo_closingSellDecisions inp sell;
                let reason = exit_reason forceSell crossDown et;
                Some (mo_out (flat_state state) decisions
                  [log_of ''info'' ''momentum: exit'' (Some (JObj [(''symbol'', JStr symbol), (''reason'', JStr reason),
                     (''price'', JStr (tn_currentPrice inp)), (''quantity'', JStr quantity)]))]
                  [metric_of ''momentum.exit'' (Some (JObj [(''reason'', JStr reason)])) 1])
              }
            | skip \<Rightarrow>
                (let out = hold state [skipped_log ''momentum: exit skipped'' (size_skip skip) symbol] [skipMetric ''exit'' (size_skip skip)] JNull
                 in Some (if forceSell then out\<lparr>to_declineReason := Some (size_skip skip)\<rparr> else out)))
         })"

definition toFixed_null :: "'d decimal_js \<Rightarrow> 'd option \<Rightarrow> json" where
  "toFixed_null D v = js_null (JStr \<circ> d_toFixedAll D) v"

definition mo_blocker_json :: "string \<Rightarrow> string \<Rightarrow> (string \<times> json) list \<Rightarrow> json" where
  "mo_blocker_json reason changeKey detail = JObj [(''reason'', JStr reason), (''changeKey'', JStr changeKey), (''detail'', JObj detail)]"

definition stop_price_str :: "open_order \<Rightarrow> string" where
  "stop_price_str ord = (case oo_stopPrice ord of Some s \<Rightarrow> s | None \<Rightarrow> ''undefined'')"

text \<open>What guards the position at the exchange, for the operator.\<close>

definition exit_blocker_of ::
  "'d decimal_js \<Rightarrow> json \<Rightarrow> 'd stop_resolution \<Rightarrow> 'd \<Rightarrow> open_order option \<Rightarrow> bool \<Rightarrow> json" where
  "exit_blocker_of D config level entry resting nativeUnavailable =
     (let attempted = toFixed_null D (desiredTrailDistance D config level entry);
          profitArmed = (profitLegDistance D config (sr_profitHigh level) entry \<noteq> None)
      in if stop_block config ''enabled'' \<noteq> JBool True then JNull
         else case resting of
                None \<Rightarrow> mo_blocker_json ''protective-stop-unplaced'' (if nativeUnavailable then ''unplaced|native-unavailable'' else ''unplaced'')
                          ((''stop'', toFixed_null D (sr_stop level)) #
                           (if nativeUnavailable then [(''nativeUnavailable'', JBool True), (''distancePct'', attempted)] else []))
              | Some ord \<Rightarrow>
                  (case oo_trailingDelta ord of
                     Some delta \<Rightarrow> mo_blocker_json (if profitArmed then ''profit-leg-armed'' else ''native-trail-resting'') (''native|delta='' @ int_str delta)
                                    [(''trailingDelta'', JNum (JsNum (of_int delta))), (''quantity'', JStr (oo_origQty ord))]
                   | None \<Rightarrow>
                       if nativeUnavailable
                       then mo_blocker_json ''native-trail-unavailable'' ''native-trail-unavailable'' [(''distancePct'', attempted), (''fallback'', JStr ''priced'')]
                       else mo_blocker_json ''priced-stop-resting'' (''priced|stop='' @ stop_price_str ord)
                              [(''stop'', case oo_stopPrice ord of Some s \<Rightarrow> JStr s | None \<Rightarrow> JUndefined)]))"

definition held_logs :: "string \<Rightarrow> json \<Rightarrow> blocker option \<Rightarrow> log_entry list" where
  "held_logs symbol newHigh b =
     (case b of
        None \<Rightarrow> [log_of ''debug'' ''momentum: holding long'' (Some (JObj [(''symbol'', JStr symbol), (''highSinceEntry'', newHigh)]))]
      | Some x \<Rightarrow>
          (let ctx = spread (JObj [(''symbol'', JStr symbol), (''reason'', JStr (blocker_reason_str (bk_reason x)))]) (bk_detail x)
           in if jget (JObj (bk_detail x)) ''guarded'' = JBool True
              then [log_of ''info'' ''momentum: protective stop held at its previous level'' (Some ctx)]
              else [log_of ''warn'' ''momentum: protective stop not armed'' (Some ctx)]))"

text \<open>Keep the position: persist the marks and arm the resting stop at the level just tested.\<close>

definition hold_position ::
  "'d decimal_js \<Rightarrow> 'd tt_input \<Rightarrow> json \<Rightarrow> json \<Rightarrow> 'd stop_resolution \<Rightarrow> 'd \<Rightarrow> open_order option \<Rightarrow> rat option \<Rightarrow> mo_output option" where
  "hold_position D inp state newHigh level entry resting profitSinceMs =
     (let held = spread state [(''highSinceEntry'', newHigh), (''profitHigh'', js_null (JStr \<circ> d_toString D) (sr_profitHigh level)),
                  (''profitTrailSinceMs'', num_or_null profitSinceMs), (''entryBlocker'', JNull)]
      in do {
        r \<leftarrow> mo_evaluateProtectiveStopArm D inp held level entry;
        let arm = ma_arm r;
        nativeHigh \<leftarrow> nativeTrailHigh D inp held resting;
        let nativeTrail = (case (nativeHigh, resting) of
              (Some h, Some ord) \<Rightarrow> JObj [(''orderId'', JNum (JsNum (of_int (oo_orderId ord)))), (''high'', JStr (d_toFixedAll D h))]
            | _ \<Rightarrow> JNull);
        Some (mo_out
          (spread held [(''protectiveStopBlocker'', stop_blocker_json (ar_blocker arm)),
             (''exitBlocker'', exit_blocker_of D (tn_config inp) level entry resting (ma_nativeUnavailable r)), (''nativeTrail'', nativeTrail)])
          (if ar_decisions arm \<noteq> [] then ar_decisions arm else [Noop])
          (held_logs (tn_symbol inp) newHigh (ar_blocker arm))
          ((case ar_blocker arm of None \<Rightarrow> [] | Some b \<Rightarrow> [skipMetric ''sell'' (blocker_reason_str (bk_reason b))]) @
           (if ar_decisions arm = [] then []
            else protectiveStopBandAdjustment (tn_symbol inp) (sr_floorClamped level) (ma_nativeTrailed r))))
      })"

definition evaluateExit ::
  "'d decimal_js \<Rightarrow> 'd mo_tick \<Rightarrow> json \<Rightarrow> bool \<Rightarrow> candle \<Rightarrow> candle list \<Rightarrow> bool \<Rightarrow> mo_output option" where
  "evaluateExit D tk state crossDown lastCandle candles forceSell =
     (let inp = mk_input tk; config = tn_config inp; entryPrice = jget state ''entryPrice''
      in do {
        (closedClose, madeNewHigh, effectiveHigh) \<leftarrow> advance_high D state entryPrice lastCandle;
        entry \<leftarrow> decimal_of D entryPrice;
        let profitSinceMs = (case profitTrailSince state of Some ms \<Rightarrow> Some ms | None \<Rightarrow> map_option of_int (profitTrailEpoch (minute_candles inp)));
        profitHigh \<leftarrow> ratchetProfitHigh D config (decOrNull D (jget state ''profitHigh'')) entry (minute_candles inp) profitSinceMs;
        resting \<leftarrow> mo_findRestingProtectiveStop inp;
        level \<leftarrow> resolveStopLevel D config entry effectiveHigh profitHigh candles (tn_currentPrice inp)
                   (sf_percentPriceBySide (tn_filters inp)) (previous_stop D resting);
        price \<leftarrow> d_new D (tn_currentPrice inp);
        let trailHit = (case sr_stop level of Some stop \<Rightarrow> d_lte D price stop | None \<Rightarrow> False);
        (gapFilled, timeStop) \<leftarrow> gap_legs D config state lastCandle candles price;
        if forceSell \<or> trailHit \<or> gapFilled \<or> timeStop \<or> crossDown
        then close_position D tk state forceSell crossDown \<lparr>et_trailHit = trailHit, et_gapFilled = gapFilled, et_timeStop = timeStop\<rparr> lastCandle
        else hold_position D inp state
               (if madeNewHigh then JStr (d_toString D closedClose) else jcoalesce (jget state ''highSinceEntry'') entryPrice)
               level entry resting profitSinceMs
      })"

section \<open>The tick\<close>

definition force_sell_asked :: "'d mo_tick \<Rightarrow> bool" where
  "force_sell_asked tk = (case mk_override tk of Some (kind, actionId) \<Rightarrow> kind = ''trigger-sell'' | None \<Rightarrow> False)"

definition position_free :: "'d decimal_js \<Rightarrow> json \<Rightarrow> bool" where
  "position_free D state = (jget state ''entryPrice'' = JNull \<and> \<not> holdsCoins D (jget state ''heldQuantity''))"

definition warming_up :: "json \<Rightarrow> nat \<Rightarrow> rat \<Rightarrow> bool \<Rightarrow> mo_output" where
  "warming_up state have need forceSell =
     (let out = hold state [log_of ''debug'' ''momentum: insufficient closed candles for EMA cross''
                  (Some (JObj [(''have'', JNum (JsNum (of_nat have))), (''need'', JNum (JsNum need))]))] [] JNull
      in if forceSell then out\<lparr>to_overrideDeferred := True, to_declineReason := Some ''warming-up''\<rparr> else out)"

definition held_without_basis :: "json \<Rightarrow> string \<Rightarrow> bool \<Rightarrow> mo_output" where
  "held_without_basis state symbol forceSell =
     (let out = refuse state (log_of ''debug'' ''momentum: holding coins with no cost basis, entry suppressed''
                  (Some (JObj [(''symbol'', JStr symbol), (''heldQuantity'', jget state ''heldQuantity'')]))) ''held-without-basis''
      in if forceSell then out\<lparr>to_declineReason := Some ''held-without-basis''\<rparr> else out)"

text \<open>The refusals before an entry, in order; \<open>Some None\<close> lets it through.\<close>

definition entry_refusal ::
  "'d decimal_js \<Rightarrow> 'd decimal_more \<Rightarrow> 'd mo_tick \<Rightarrow> json \<Rightarrow> candle list \<Rightarrow> trend_gate \<Rightarrow> json \<Rightarrow> mo_output option option" where
  "entry_refusal D M tk state candles gate layer =
     (let inp = mk_input tk; config = tn_config inp; symbol = tn_symbol inp;
          report = (\<lambda>message fields. log_of ''debug'' message (Some (JObj ((''symbol'', JStr symbol) # fields))))
      in if lastEntryCandle state = Some (of_int (cd_closeTimeMs (last candles)))
         then Some (Some (refuse state (report ''momentum: entry suppressed, already entered on this candle''
                [(''candleCloseMs'', JNum (JsNum (of_int (cd_closeTimeMs (last candles)))))]) ''already-entered-this-candle''))
         else if gate \<noteq> TrendPass \<and> layer = JNull
         then Some (Some (refuse state (report ''momentum: entry suppressed by trend filter'' [(''gate'', JStr (trend_str gate))]) (trend_str gate)))
         else do {
           extension \<leftarrow> extensionGate D config candles (tn_currentPrice inp);
           if extension \<noteq> ExtensionPass
           then Some (Some (refuse state (report ''momentum: entry suppressed by extension guard'' [(''gate'', JStr (extension_str extension))])
                  (extension_str extension)))
           else do {
             strength \<leftarrow> relativeStrengthGate D M candles (jget config ''relativeStrength'') symbol (mk_kv tk);
             if sg_gate strength \<noteq> StrengthPass
             then Some (Some (refuse state (report ''momentum: entry suppressed by relative strength''
                    [(''gate'', JStr (strength_str (sg_gate strength))), (''score'', js_null (fixed_str D 6) (sg_score strength)),
                     (''rank'', JNum (JsNum (of_nat (sg_rank strength)))), (''siblings'', JNum (JsNum (of_nat (sg_siblings strength))))])
                    (strength_str (sg_gate strength))))
             else Some None
           }
         })"

text \<open>The input with the configuration a position of the given layer reads.\<close>

definition for_layer :: "'d tt_input \<Rightarrow> json \<Rightarrow> 'd tt_input" where
  "for_layer inp layer = inp\<lparr>tn_config := configForEntryLayer (tn_config inp) layer\<rparr>"

definition flat_tick ::
  "'d decimal_js \<Rightarrow> 'd decimal_more \<Rightarrow> 'd mo_tick \<Rightarrow> json \<Rightarrow> candle list \<Rightarrow> 'd \<Rightarrow> 'd \<Rightarrow> 'd \<Rightarrow> bool \<Rightarrow> mo_output option" where
  "flat_tick D M tk state candles fastNow slowNow threshold crossUp =
     (let inp = mk_input tk; config = tn_config inp; price = tn_currentPrice inp
      in if holdsCoins D (jget state ''heldQuantity'') then Some (held_without_basis state (tn_symbol inp) (force_sell_asked tk))
         else do {
           sg \<leftarrow> read_signal D M config candles price fastNow slowNow threshold;
           entrySignal \<leftarrow> entry_signal D config price crossUp sg;
           belowSignal \<leftarrow> below_signal D M config candles price sg;
           let layer = (if belowSignal \<and> \<not> (entrySignal \<and> ms_gate sg = TrendPass) then JStr ''below-trend'' else JNull);
           refusal \<leftarrow> (if entrySignal \<or> belowSignal then entry_refusal D M tk state candles (ms_gate sg) layer else Some None);
           (case refusal of
              Some out \<Rightarrow> Some out
            | None \<Rightarrow> evaluateEntry D (for_layer inp layer) state (entrySignal \<or> belowSignal) (cd_closeTimeMs (last candles)) candles sg layer)
         })"

definition decide :: "'d decimal_js \<Rightarrow> 'd decimal_more \<Rightarrow> 'd mo_tick \<Rightarrow> json \<Rightarrow> mo_output option" where
  "decide D M tk given_state =
     (let inp = mk_input tk; config = tn_config inp; ema_block = jget config ''ema'';
          state = (if position_free D given_state then clearPositionScopedFields given_state else given_state);
          candles = trading_candles inp
      in do {
        slow \<leftarrow> json_rat (jget ema_block ''slow'');
        if candles = [] \<or> of_nat (length candles) < slow + 1 then Some (warming_up state (length candles) (slow + 1) (force_sell_asked tk))
        else do {
          fast \<leftarrow> json_rat (jget ema_block ''fast'');
          fastNow \<leftarrow> ema D candles fast;
          slowNow \<leftarrow> ema D candles slow;
          fastPrev \<leftarrow> ema D (butlast candles) fast;
          slowPrev \<leftarrow> ema D (butlast candles) slow;
          let band = d_plus D (d_int D 1) (entryMargin D config);
          let crossUp = (d_lte D fastPrev (d_times D slowPrev band) \<and> d_gt D fastNow (d_times D slowNow band));
          let crossDown = (d_gte D fastPrev slowPrev \<and> d_lt D fastNow slowNow);
          if jget state ''entryPrice'' = JNull then flat_tick D M tk state candles fastNow slowNow (d_times D slowNow band) crossUp
          else evaluateExit D (tk\<lparr>mk_input := for_layer inp (jget state ''entryLayer'')\<rparr>) state crossDown (last candles) candles (force_sell_asked tk)
        }
      })"

definition mo_computeTick :: "'d decimal_js \<Rightarrow> 'd decimal_more \<Rightarrow> 'd mo_tick \<Rightarrow> json \<Rightarrow> mo_output option" where
  "mo_computeTick D M tk state = do {
     out \<leftarrow> decide D M tk state;
     publish \<leftarrow> relativeStrengthPublish D M (trading_candles (mk_input tk)) (jget (tn_config (mk_input tk)) ''relativeStrength'')
                  (tn_symbol (mk_input tk)) (mk_kv tk);
     Some (case publish of None \<Rightarrow> out | Some d \<Rightarrow> out\<lparr>to_decisions := to_decisions out @ [d]\<rparr>)
   }"

end
