(* ===== verification/Mo_Tick_Safety.thy ===== *)
theory Mo_Tick_Safety
  imports Mo_Tick Tt_Tick_Safety
begin

text \<open>
  What one tick of the momentum strategy, and a run of ticks between which the position adapters write
  the body, may do: the orders it decides on, how often it enters, and how it answers a forced sell.
\<close>

section \<open>Our own stop\<close>

definition mo_own_resting :: "'d tt_input \<Rightarrow> int \<Rightarrow> bool" where
  "mo_own_resting inp oid \<longleftrightarrow>
     (\<exists>ord \<in> set (tn_openOrders inp). oo_orderId ord = oid \<and> oo_side ord = SELL \<and>
        mo_protectiveStopClientOrderId (tn_profileId inp) (tn_symbol inp) = Some (oo_clientOrderId ord))"

lemma mo_own_restingI:
  assumes "findRestingProtectiveStop (tn_openOrders inp) cid = Some ord" "mo_protectiveStopClientOrderId (tn_profileId inp) (tn_symbol inp) = Some cid"
  shows "mo_own_resting inp (oo_orderId ord)"
  unfolding mo_own_resting_def using resting_is_ours [OF assms(1)] assms(2) by (intro bexI [of _ ord]) simp_all

lemma mo_successor:
  assumes "is_successor (mo_arm_params D inp cid level lv mark high distance) Q rearm d"
  shows "\<exists>i p. d = PlaceOrder i p \<and> own_stop_order inp cid i p"
  using assms
  by (auto simp: is_successor_def mo_arm_params_def Let_def placeDecision_def nativeTrailPlaceDecision_def stop_intent_def own_stop_order_def
      stop_limit_params_def market_params_def tt_intent_def split: option.splits if_splits)

lemma mo_arm_fields:
  "arm_resting (mo_arm_params D inp cid level lv mark high distance) = findRestingProtectiveStop (tn_openOrders inp) cid"
  "ap_enabled (mo_arm_params D inp cid level lv mark high distance) \<longleftrightarrow> stop_block (tn_config inp) ''enabled'' = JBool True"
  "ap_level (mo_arm_params D inp cid level lv mark high distance) = lv"
  "ap_buildCancel (mo_arm_params D inp cid level lv mark high distance) r = CancelOrder (oo_orderId r) MO_SUPERSEDED (Some (tn_symbol inp))"
  "ap_buildReplace (mo_arm_params D inp cid level lv mark high distance) r (PlaceOrder i p) = ReplaceOrder (oo_orderId r) MO_SUPERSEDED i p"
  by (simp_all add: mo_arm_params_def Let_def arm_resting_def cancelDecision_def)

lemma mo_arm_decisions:
  assumes "arm_shape (mo_arm_params D inp cid level lv mark high distance) Q r"
  shows "list_all (own_stop_decision inp cid) (ar_decisions r) \<and> length (ar_decisions r) \<le> 1"
proof (cases "findRestingProtectiveStop (tn_openOrders inp) cid")
  case None
  then show ?thesis using assms by (auto simp: arm_shape_def mo_arm_fields dest!: mo_successor)
next
  case (Some resting)
  then show ?thesis using assms by (auto simp: arm_shape_def mo_arm_fields dest!: mo_successor)
qed

lemma mo_arm_own:
  assumes "mo_evaluateProtectiveStopArm D inp state level entry = Some r"
  obtains cid where "mo_protectiveStopClientOrderId (tn_profileId inp) (tn_symbol inp) = Some cid"
    "list_all (own_stop_decision inp cid) (ar_decisions (ma_arm r))" "length (ar_decisions (ma_arm r)) \<le> 1"
proof -
  obtain cid lv mark high distance arm where cid: "mo_protectiveStopClientOrderId (tn_profileId inp) (tn_symbol inp) = Some cid"
    and arm: "evaluateProtectiveStopArm D (mo_arm_params D inp cid level lv mark high distance) = Some arm" and r: "ma_arm r = arm"
    using assms unfolding mo_evaluateProtectiveStopArm_def Let_def by (auto simp: bind_eq_Some_conv)
  let ?P = "mo_arm_params D inp cid level lv mark high distance"
  have "list_all (own_stop_decision inp cid) (ar_decisions arm) \<and> length (ar_decisions arm) \<le> 1"
  proof (cases lv)
    case None
    then show ?thesis using arm
      by (auto simp: evaluateProtectiveStopArm_def mo_arm_fields cancelResting_def split: if_splits option.splits)
  next
    case (Some lv')
    show ?thesis
    proof (cases "ap_enabled ?P")
      case True
      then have "arm_level D ?P lv' = Some arm" using arm Some by (simp add: evaluateProtectiveStopArm_def mo_arm_fields)
      then show ?thesis by (rule mo_arm_decisions [OF arm_level_shape])
    next
      case False
      then show ?thesis using arm by (auto simp: evaluateProtectiveStopArm_def)
    qed
  qed
  then show ?thesis using that cid r by blast
qed

section \<open>Four outcomes of a decision\<close>

definition body_read :: "'d decimal_js \<Rightarrow> json \<Rightarrow> json" where
  "body_read D s = (if position_free D s then clearPositionScopedFields s else s)"

lemma body_read_fields [simp]:
  "k \<notin> set POSITION_SCOPED_STATE_FIELDS \<Longrightarrow> jget (body_read D s) k = jget s k"
  "lastEntryCandle (body_read D s) = lastEntryCandle s"
  by (simp_all add: body_read_def jget_clear lastEntryCandle_def POSITION_SCOPED_STATE_FIELDS_def)

lemma for_layer_fields [simp]:
  "tn_symbol (for_layer inp layer) = tn_symbol inp" "tn_profileId (for_layer inp layer) = tn_profileId inp"
  "tn_openOrders (for_layer inp layer) = tn_openOrders inp"
  by (simp_all add: for_layer_def)

lemma mo_out_fields [simp]:
  "to_decisions (mo_out s ds ls ms) = ds" "to_nextState (mo_out s ds ls ms) = s"
  "to_declineReason (mo_out s ds ls ms) = None"
  by (simp_all add: mo_out_def)

text \<open>A tick that only reports: nothing is decided and only the reported blocker changes.\<close>

definition idle :: "json \<Rightarrow> mo_output \<Rightarrow> bool" where
  "idle s out \<longleftrightarrow> to_decisions out = [Noop] \<and> (\<exists>b. to_nextState out = spread s [(''entryBlocker'', b)])"

lemma idle_hold: "idle s (hold s ls ms b)" "idle s (refuse s l r)" "idle s (warming_up s n need f)" "idle s (held_without_basis s z f)"
  "idle s (deferred_exit tk s f)"
  by (auto simp: idle_def refuse_def hold_def warming_up_def held_without_basis_def deferred_exit_def Let_def)

lemma idle_declined: "idle s (hold s ls ms b\<lparr>to_declineReason := r\<rparr>)"
  by (auto simp: idle_def hold_def)

lemma declined_reasons:
  "to_declineReason (warming_up s n r True) = Some ''warming-up''"
  "to_declineReason (held_without_basis s z True) = Some ''held-without-basis''"
  "to_declineReason (deferred_exit tk s True) = Some ''force-sell-no-held''"
  by (simp_all add: warming_up_def held_without_basis_def deferred_exit_def Let_def)

lemma refusal_idle:
  assumes "entry_refusal D M tk s candles gate layer = Some r"
  shows "case r of Some out \<Rightarrow> idle s out | None \<Rightarrow> lastEntryCandle s \<noteq> Some (of_int (cd_closeTimeMs (last candles)))"
  using assms unfolding entry_refusal_def Let_def
  by (auto simp: idle_hold bind_eq_Some_conv split: if_split_asm)

lemma entry_cases:
  assumes "evaluateEntry D inp s signal t candles sg layer = Some out"
  obtains (Idle) "idle s out" | (Enter) q where "signal" "enter_position inp q t layer = Some out"
proof (cases signal)
  case False
  then show ?thesis using assms Idle by (auto simp: evaluateEntry_def Let_def idle_hold)
next
  case True
  then obtain b where b: "mo_resolveEntryBudget D (tn_config inp) (tn_account inp) (si_quoteAsset (tn_symbolInfo inp)) (tn_currentPrice inp) candles = Some b"
    using assms by (auto simp: evaluateEntry_def Let_def bind_eq_Some_conv)
  show ?thesis
  proof (cases b)
    case (MoBudget x)
    then obtain stop sized where "mo_entryStopFloor D (tn_config inp) candles (tn_currentPrice inp) = Some stop"
      "computeEntryQuantity D x (tn_currentPrice inp) (tn_filters inp) stop = Some sized"
      using assms True b by (auto simp: evaluateEntry_def Let_def bind_eq_Some_conv)
    then show ?thesis using assms True b MoBudget Idle Enter
      by (cases sized) (auto simp: evaluateEntry_def Let_def idle_hold)
  qed (use assms True b Idle in \<open>auto simp: evaluateEntry_def Let_def idle_hold\<close>)
qed

lemma flat_cases:
  assumes "flat_tick D M tk s candles fastNow slowNow threshold crossUp = Some out"
  obtains (Idle) "idle s out" "force_sell_asked tk \<Longrightarrow> holdsCoins D (jget s ''heldQuantity'') \<Longrightarrow> to_declineReason out \<noteq> None"
  | (Enter) layer q where "\<not> holdsCoins D (jget s ''heldQuantity'')" "lastEntryCandle s \<noteq> Some (of_int (cd_closeTimeMs (last candles)))"
      "enter_position (for_layer (mk_input tk) layer) q (cd_closeTimeMs (last candles)) layer = Some out"
proof (cases "holdsCoins D (jget s ''heldQuantity'')")
  case True
  then show ?thesis using assms Idle by (auto simp: flat_tick_def Let_def idle_hold declined_reasons)
next
  case False
  then obtain sg layer entrySignal belowSignal refusal where
      r: "(if entrySignal \<or> belowSignal then entry_refusal D M tk s candles (ms_gate sg) layer else Some None) = Some refusal"
    and out: "(case refusal of Some out \<Rightarrow> Some out
       | None \<Rightarrow> evaluateEntry D (for_layer (mk_input tk) layer) s (entrySignal \<or> belowSignal) (cd_closeTimeMs (last candles)) candles sg layer) = Some out"
    using assms unfolding flat_tick_def Let_def by (simp only: if_False bind_eq_Some_conv) blast
  show ?thesis
  proof (cases refusal)
    case (Some x)
    then have "idle s out" using r out refusal_idle by (fastforce split: if_splits)
    then show ?thesis using Idle False by blast
  next
    case None
    then have e: "evaluateEntry D (for_layer (mk_input tk) layer) s (entrySignal \<or> belowSignal) (cd_closeTimeMs (last candles)) candles sg layer = Some out"
      using out by simp
    then show ?thesis
    proof (cases rule: entry_cases)
      case (Enter q)
      then show ?thesis using that(2) False r None refusal_idle [of D M tk s candles "ms_gate sg" layer None] by auto
    qed (use Idle False in blast)
  qed
qed

lemma close_cases:
  assumes "close_position D tk s force crossDown et lastCandle = Some out"
  obtains (Idle) "idle s out" "force \<Longrightarrow> to_declineReason out \<noteq> None"
  | (Close) sell q where "jget s ''heldQuantity'' \<noteq> JNull" "computeExitQuantity D (jget s ''heldQuantity'') (tn_currentPrice (mk_input tk)) (tn_filters (mk_input tk)) = Some (Quantity q)"
      "sell_order tk force lastCandle q = Some sell"
      "mo_closingSellDecisions (mk_input tk) sell = Some (to_decisions out)" "to_nextState out = flat_state s"
proof (cases "jget s ''heldQuantity'' = JNull")
  case True
  then show ?thesis using assms Idle by (auto simp: close_position_def Let_def idle_hold declined_reasons)
next
  case False
  then obtain sized where q: "computeExitQuantity D (jget s ''heldQuantity'') (tn_currentPrice (mk_input tk)) (tn_filters (mk_input tk)) = Some sized"
    using assms by (auto simp: close_position_def Let_def bind_eq_Some_conv)
  show ?thesis
  proof (cases sized)
    case (Quantity x)
    then show ?thesis using assms False q Close by (auto simp: close_position_def Let_def bind_eq_Some_conv)
  qed (use assms False q Idle in \<open>auto simp: close_position_def Let_def idle_hold idle_declined split: if_splits\<close>)
qed

lemma exit_cases:
  assumes "evaluateExit D tk s crossDown lastCandle candles force = Some out"
  obtains (Close) crosses et where "close_position D tk s force crosses et lastCandle = Some out"
  | (Keep) high level entry resting since where "\<not> force" "hold_position D (mk_input tk) s high level entry resting since = Some out"
  using assms unfolding evaluateExit_def Let_def
  by (auto split: bind_splits prod.split_asm if_split_asm)

lemma keep_decisions:
  assumes "hold_position D inp s high level entry resting since = Some out"
  obtains cid where "mo_protectiveStopClientOrderId (tn_profileId inp) (tn_symbol inp) = Some cid"
    "list_all (\<lambda>d. d = Noop \<or> own_stop_decision inp cid d) (to_decisions out)" "length (to_decisions out) \<le> 1"
    "lastEntryCandle (to_nextState out) = lastEntryCandle s"
proof -
  let ?held = "spread s [(''highSinceEntry'', high), (''profitHigh'', js_null (JStr \<circ> d_toString D) (sr_profitHigh level)),
                  (''profitTrailSinceMs'', num_or_null since), (''entryBlocker'', JNull)]"
  obtain r where r: "mo_evaluateProtectiveStopArm D inp ?held level entry = Some r"
    and ds: "to_decisions out = (if ar_decisions (ma_arm r) \<noteq> [] then ar_decisions (ma_arm r) else [Noop])"
    and s: "lastEntryCandle (to_nextState out) = lastEntryCandle s"
    using assms unfolding hold_position_def Let_def by (auto simp: bind_eq_Some_conv lastEntryCandle_def jget_spread)
  obtain cid where "mo_protectiveStopClientOrderId (tn_profileId inp) (tn_symbol inp) = Some cid"
    "list_all (own_stop_decision inp cid) (ar_decisions (ma_arm r))" "length (ar_decisions (ma_arm r)) \<le> 1"
    using r by (rule mo_arm_own)
  then show ?thesis using that [of cid] ds s by (auto simp: list_all_iff)
qed

lemma decide_cases:
  assumes "decide D M tk s = Some out"
  obtains (Idle) "idle (body_read D s) out" "force_sell_asked tk \<Longrightarrow> \<not> position_free D s \<Longrightarrow> to_declineReason out \<noteq> None"
  | (Enter) layer q where "position_free D s" "trading_candles (mk_input tk) \<noteq> []"
      "lastEntryCandle s \<noteq> Some (of_int (cd_closeTimeMs (last (trading_candles (mk_input tk)))))"
      "enter_position (for_layer (mk_input tk) layer) q (cd_closeTimeMs (last (trading_candles (mk_input tk)))) layer = Some out"
  | (Close) layer sell q where "jget s ''entryPrice'' \<noteq> JNull"
      "computeExitQuantity D (jget s ''heldQuantity'') (tn_currentPrice (mk_input tk)) (tn_filters (mk_input tk)) = Some (Quantity q)"
      "sell_order (tk\<lparr>mk_input := for_layer (mk_input tk) layer\<rparr>) (force_sell_asked tk) (last (trading_candles (mk_input tk))) q = Some sell"
      "mo_closingSellDecisions (for_layer (mk_input tk) layer) sell = Some (to_decisions out)" "to_nextState out = flat_state (body_read D s)"
  | (Keep) layer high level entry resting since where "jget s ''entryPrice'' \<noteq> JNull" "\<not> force_sell_asked tk"
      "hold_position D (for_layer (mk_input tk) layer) (body_read D s) high level entry resting since = Some out"
proof -
  let ?s = "body_read D s" and ?candles = "trading_candles (mk_input tk)"
  obtain slow where slow: "json_rat (jget (jget (tn_config (mk_input tk)) ''ema'') ''slow'') = Some slow"
    using assms by (auto simp: decide_def Let_def bind_eq_Some_conv)
  consider (warm) "idle ?s out" "force_sell_asked tk \<Longrightarrow> to_declineReason out \<noteq> None"
    | (flat) f sl th cr where "?candles \<noteq> []" "jget ?s ''entryPrice'' = JNull" "flat_tick D M tk ?s ?candles f sl th cr = Some out"
    | (held) cd where "jget ?s ''entryPrice'' \<noteq> JNull"
        "evaluateExit D (tk\<lparr>mk_input := for_layer (mk_input tk) (jget ?s ''entryLayer'')\<rparr>) ?s cd (last ?candles) ?candles (force_sell_asked tk) = Some out"
  proof (cases "?candles = [] \<or> of_nat (length ?candles) < slow + 1")
    case True
    then have "out = warming_up ?s (length ?candles) (slow + 1) (force_sell_asked tk)"
      using assms slow unfolding decide_def Let_def body_read_def [symmetric] by simp
    then show ?thesis using warm by (simp add: idle_hold declined_reasons)
  next
    case False
    then obtain f sl th cr cd where "(if jget ?s ''entryPrice'' = JNull then flat_tick D M tk ?s ?candles f sl th cr
      else evaluateExit D (tk\<lparr>mk_input := for_layer (mk_input tk) (jget ?s ''entryLayer'')\<rparr>) ?s cd (last ?candles) ?candles (force_sell_asked tk)) = Some out"
      using assms slow unfolding decide_def Let_def body_read_def [symmetric]
      by (simp only: if_False Option.bind.simps bind_eq_Some_conv) blast
    then show ?thesis using flat held False by (auto split: if_split_asm)
  qed
  then show ?thesis
  proof cases
    case warm
    then show ?thesis using Idle by blast
  next
    case flat
    have e: "jget s ''entryPrice'' = JNull" using flat(2) by (simp add: POSITION_SCOPED_STATE_FIELDS_def)
    from flat(3) show ?thesis
    proof (cases rule: flat_cases)
      case Idle
      then show ?thesis using that(1) e by (simp add: position_free_def POSITION_SCOPED_STATE_FIELDS_def)
    next
      case (Enter layer q)
      then show ?thesis using that(2) [of layer q] e flat(1) by (simp add: position_free_def POSITION_SCOPED_STATE_FIELDS_def)
    qed
  next
    case held
    have e: "jget s ''entryPrice'' \<noteq> JNull" using held(1) by (simp add: POSITION_SCOPED_STATE_FIELDS_def)
    from held(2) show ?thesis
    proof (cases rule: exit_cases)
      case (Close crosses et)
      then show ?thesis
      proof (cases rule: close_cases)
        case (Close sell q)
        then show ?thesis using that(3) [of q "jget ?s ''entryLayer''" sell] e
          by (simp add: POSITION_SCOPED_STATE_FIELDS_def for_layer_def)
      qed (use that(1) in blast)
    next
      case (Keep high level entry resting since)
      then show ?thesis using that(4) e by simp
    qed
  qed
qed

section \<open>Sound orders\<close>

text \<open>
  What a decision of the tick may be, given the body it read: a market entry from a position that is free;
  the market exit or our own stop, sold from a tracked position while nothing of ours rests; the atomic
  replacement or the cancellation of the stop that rests; or a write of the symbol's own score.
\<close>

fun mo_sound :: "'d decimal_js \<Rightarrow> 'd tt_input \<Rightarrow> json \<Rightarrow> decision \<Rightarrow> bool" where
  "mo_sound D inp s (PlaceOrder i p) \<longleftrightarrow> oi_symbol i = tn_symbol inp \<and>
     (if oi_side i = BUY then position_free D s \<and> oi_reason i = ''entry'' \<and> op_type p = MARKET
      else jget s ''entryPrice'' \<noteq> JNull \<and> mo_findRestingProtectiveStop inp = Some None \<and>
        (oi_reason i = ''exit'' \<and> op_type p = MARKET \<or>
         (\<exists>cid. mo_protectiveStopClientOrderId (tn_profileId inp) (tn_symbol inp) = Some cid \<and> own_stop_order inp cid i p)))"
| "mo_sound D inp s (ReplaceOrder oid r i p) \<longleftrightarrow>
     oi_symbol i = tn_symbol inp \<and> oi_side i = SELL \<and> jget s ''entryPrice'' \<noteq> JNull \<and> mo_own_resting inp oid"
| "mo_sound D inp s (CancelOrder oid r z) \<longleftrightarrow> jget s ''entryPrice'' \<noteq> JNull \<and> mo_own_resting inp oid"
| "mo_sound D inp s Noop \<longleftrightarrow> True"
| "mo_sound D inp s (EmitEvent k v) \<longleftrightarrow> False"
| "mo_sound D inp s (SetKv k v) \<longleftrightarrow> k = RELATIVE_STRENGTH_KV_PREFIX @ tn_symbol inp"
| "mo_sound D inp s (DeleteKv k) \<longleftrightarrow> k = RELATIVE_STRENGTH_KV_PREFIX @ tn_symbol inp"

lemma own_stop_layer [simp]:
  "own_stop_order (for_layer inp layer) cid i p = own_stop_order inp cid i p"
  "own_stop_decision (for_layer inp layer) cid d = own_stop_decision inp cid d"
  "mo_findRestingProtectiveStop (for_layer inp layer) = mo_findRestingProtectiveStop inp"
  by (simp_all add: own_stop_order_def mo_findRestingProtectiveStop_def) (cases d; simp add: own_stop_order_def)

lemma own_stop_sound:
  assumes "own_stop_decision inp cid d" "mo_protectiveStopClientOrderId (tn_profileId inp) (tn_symbol inp) = Some cid" "jget s ''entryPrice'' \<noteq> JNull"
  shows "mo_sound D inp s d"
  using assms by (cases d) (auto simp: own_stop_order_def mo_findRestingProtectiveStop_def intro: mo_own_restingI)

lemma sell_order_shape:
  assumes "sell_order tk force c q = Some sell"
  obtains i where "sell = PlaceOrder i (market_params q)" "oi_symbol i = tn_symbol (mk_input tk)" "oi_side i = SELL" "oi_reason i = ''exit''"
    "force \<Longrightarrow> oi_overrideActionId i = Option.bind (mk_override tk) snd"
  using assms by (auto simp: sell_order_def Let_def tt_intent_def split: option.splits)

lemma mo_closing_sell:
  assumes "mo_closingSellDecisions inp (PlaceOrder i p) = Some ds"
  obtains (Placed) "ds = [PlaceOrder i p]" "mo_findRestingProtectiveStop inp = Some None"
  | (Replaced) oid where "ds = [ReplaceOrder oid MO_SUPERSEDED i p]" "mo_own_resting inp oid"
  using assms by (auto simp: mo_closingSellDecisions_def mo_findRestingProtectiveStop_def mo_own_restingI split: option.splits)

lemma publish_sound:
  assumes "relativeStrengthPublish D M candles raw (tn_symbol inp) kv = Some (Some d)"
  shows "mo_sound D' inp s d \<and> \<not> is_order d"
  using assms by (auto simp: relativeStrengthPublish_def Let_def split: if_splits option.splits)

lemma decide_sound:
  assumes "decide D M tk s = Some out"
  shows "list_all (mo_sound D (mk_input tk) s) (to_decisions out) \<and> length (to_decisions out) \<le> 1"
  using assms
proof (cases rule: decide_cases)
  case Idle
  then show ?thesis by (simp add: idle_def)
next
  case (Enter layer q)
  then show ?thesis by (auto simp: enter_position_def tt_intent_def market_params_def bind_eq_Some_conv)
next
  case (Close layer sell q)
  from Close(3) obtain i where i: "sell = PlaceOrder i (market_params q)" "oi_symbol i = tn_symbol (mk_input tk)" "oi_side i = SELL" "oi_reason i = ''exit''"
    by (rule sell_order_shape) simp
  from Close(4) show ?thesis unfolding i(1)
    by (cases rule: mo_closing_sell) (use i Close(1) in \<open>auto simp: market_params_def mo_own_resting_def\<close>)
next
  case (Keep layer high level entry resting since)
  from Keep(3) obtain cid where "mo_protectiveStopClientOrderId (tn_profileId (mk_input tk)) (tn_symbol (mk_input tk)) = Some cid"
    "list_all (\<lambda>d. d = Noop \<or> own_stop_decision (mk_input tk) cid d) (to_decisions out)" "length (to_decisions out) \<le> 1"
    by (rule keep_decisions) simp
  then show ?thesis using Keep(1) by (auto simp: list_all_iff own_stop_sound)
qed

text \<open>A tick is its decision with at most one write of the score behind it.\<close>

lemma tick_decides:
  assumes "mo_computeTick D M tk s = Some out"
  obtains out0 extra where "decide D M tk s = Some out0" "to_decisions out = to_decisions out0 @ extra" "to_nextState out = to_nextState out0"
    "to_declineReason out = to_declineReason out0" "list_all (mo_sound D (mk_input tk) s) extra" "list_all (\<lambda>d. \<not> is_order d) extra" "length extra \<le> 1"
proof -
  obtain out0 p where o: "decide D M tk s = Some out0"
    and p: "relativeStrengthPublish D M (trading_candles (mk_input tk)) (jget (tn_config (mk_input tk)) ''relativeStrength'') (tn_symbol (mk_input tk)) (mk_kv tk) = Some p"
    and out: "out = (case p of None \<Rightarrow> out0 | Some d \<Rightarrow> out0\<lparr>to_decisions := to_decisions out0 @ [d]\<rparr>)"
    using assms by (auto simp: mo_computeTick_def bind_eq_Some_conv)
  show ?thesis
  proof (cases p)
    case None
    then show ?thesis using that [OF o, of "[]"] out by simp
  next
    case (Some d)
    then show ?thesis using that [OF o, of "[d]"] out publish_sound [OF p [unfolded Some]] by simp
  qed
qed

section \<open>Runs\<close>

text \<open>
  What happens to a momentum symbol between two closes of a candle: ticks, and the writes of the
  position adapter, where an adapter that declines leaves the body alone.
\<close>

datatype 'd mo_event = MoTick "'d mo_tick" | MoFill adopted_fill | MoHeld "string option" | MoAvg string | MoClear bool

definition adapted :: "json \<Rightarrow> json option \<Rightarrow> (json \<times> decision list) option" where
  "adapted s r = Some (case r of Some s' \<Rightarrow> s' | None \<Rightarrow> s, [])"

fun mo_event_step :: "'d decimal_js \<Rightarrow> 'd decimal_more \<Rightarrow> json \<Rightarrow> 'd mo_event \<Rightarrow> (json \<times> decision list) option" where
  "mo_event_step D M s (MoTick tk) = map_option (\<lambda>out. (to_nextState out, to_decisions out)) (mo_computeTick D M tk s)"
| "mo_event_step D M s (MoFill f) = adapted s (mo_applyFill s f)"
| "mo_event_step D M s (MoHeld q) = adapted s (mo_setHeldQuantity s q)"
| "mo_event_step D M s (MoAvg a) = adapted s (mo_setAvgEntryPrice s a)"
| "mo_event_step D M s (MoClear g) = adapted s (mo_clearPosition s g)"

fun mo_run :: "'d decimal_js \<Rightarrow> 'd decimal_more \<Rightarrow> json \<Rightarrow> 'd mo_event list \<Rightarrow> (json \<times> decision list) option" where
  "mo_run D M s [] = Some (s, [])"
| "mo_run D M s (e # es) = do {
     (s', ds) \<leftarrow> mo_event_step D M s e;
     (s'', ds') \<leftarrow> mo_run D M s' es;
     Some (s'', ds @ ds')
   }"

text \<open>The close every tick of the run reads as its last one.\<close>

fun reads_close :: "int \<Rightarrow> 'd mo_event \<Rightarrow> bool" where
  "reads_close t (MoTick tk) \<longleftrightarrow> trading_candles (mk_input tk) \<noteq> [] \<longrightarrow> cd_closeTimeMs (last (trading_candles (mk_input tk))) = t"
| "reads_close t _ \<longleftrightarrow> True"

lemma not_order_not_buy: "list_all (\<lambda>d. \<not> is_order d) ds \<Longrightarrow> filter buy_order ds = []"
  by (auto simp: list_all_iff buy_order_def filter_empty_conv)

lemma adapted_stamp:
  assumes "adapted s r = Some (s', ds)" "\<And>b. r = Some b \<Longrightarrow> lastEntryCandle b = lastEntryCandle s"
  shows "lastEntryCandle s' = lastEntryCandle s \<and> ds = []"
  using assms by (auto simp: adapted_def split: option.splits)

lemma adapter_stamps:
  "mo_applyFill s f = Some b \<Longrightarrow> lastEntryCandle b = lastEntryCandle s"
  "mo_setHeldQuantity s q = Some b \<Longrightarrow> lastEntryCandle b = lastEntryCandle s"
  "mo_setAvgEntryPrice s a = Some b \<Longrightarrow> lastEntryCandle b = lastEntryCandle s"
  "mo_clearPosition s g = Some b \<Longrightarrow> lastEntryCandle b = lastEntryCandle s"
  by (auto simp: mo_applyFill_def mo_setHeldQuantity_def mo_setAvgEntryPrice_def mo_clearPosition_def mo_asCurrentBody_def
      currentSchemaBody_Some lastEntryCandle_def jget_spread jget_clear POSITION_SCOPED_STATE_FIELDS_def Let_def
      split: option.splits adopted_fill.splits if_splits)

lemma decide_stamp:
  assumes "decide D M tk s = Some out" "reads_close t (MoTick tk)"
  shows "filter buy_order (to_decisions out) = [] \<and> lastEntryCandle (to_nextState out) = lastEntryCandle s \<or>
     length (to_decisions out) = 1 \<and> lastEntryCandle s \<noteq> Some (of_int t) \<and> lastEntryCandle (to_nextState out) = Some (of_int t)"
  using assms(1)
proof (cases rule: decide_cases)
  case Idle
  then show ?thesis by (auto simp: idle_def buy_order_def lastEntryCandle_def jget_spread POSITION_SCOPED_STATE_FIELDS_def)
next
  case (Enter layer q)
  then show ?thesis using assms(2) by (auto simp: enter_position_def entered_state_def lastEntryCandle_def bind_eq_Some_conv)
next
  case (Close layer sell q)
  from Close(3) obtain i where i: "sell = PlaceOrder i (market_params q)" "oi_side i = SELL" by (rule sell_order_shape)
  have "filter buy_order (to_decisions out) = []"
    using Close(4) unfolding i(1) by (cases rule: mo_closing_sell) (use i in \<open>auto simp: buy_order_def\<close>)
  moreover have "lastEntryCandle (flat_state b) = lastEntryCandle b" for b
    by (cases "lastEntryCandle b") (simp_all add: lastEntryCandle_def flat_state_def num_or_null_def)
  ultimately show ?thesis using Close(5) by simp
next
  case (Keep layer high level entry resting since)
  from Keep(3) obtain cid where "list_all (\<lambda>d. d = Noop \<or> own_stop_decision (for_layer (mk_input tk) layer) cid d) (to_decisions out)"
    "lastEntryCandle (to_nextState out) = lastEntryCandle (body_read D s)" by (rule keep_decisions)
  moreover from this(1) have "filter buy_order (to_decisions out) = []"
    by (auto simp: filter_empty_conv list_all_iff buy_order_def own_stop_order_def)
  ultimately show ?thesis by simp
qed

lemma step_stamp:
  assumes "mo_event_step D M s e = Some (s', ds)" "reads_close t e"
  shows "filter buy_order ds = [] \<and> lastEntryCandle s' = lastEntryCandle s \<or>
     length (filter buy_order ds) \<le> 1 \<and> lastEntryCandle s \<noteq> Some (of_int t) \<and> lastEntryCandle s' = Some (of_int t)"
proof (cases e)
  case (MoTick tk)
  then obtain out where out: "mo_computeTick D M tk s = Some out" "s' = to_nextState out" "ds = to_decisions out" using assms by auto
  from out(1) obtain out0 extra where o: "decide D M tk s = Some out0" "ds = to_decisions out0 @ extra" "s' = to_nextState out0"
    "list_all (\<lambda>d. \<not> is_order d) extra" using out by (rule_tac tick_decides) auto
  have "length (to_decisions out0) = 1 \<Longrightarrow> length (filter buy_order (to_decisions out0)) \<le> 1" by (metis length_filter_le)
  then show ?thesis using decide_stamp [OF o(1), of t] assms(2) o(2,3) MoTick not_order_not_buy [OF o(4)] by auto
qed (use assms in \<open>auto dest!: adapted_stamp intro: adapter_stamps\<close>)

lemma run_stamp:
  assumes "mo_run D M s es = Some (s', ds)" "list_all (reads_close t) es"
  shows "length (filter buy_order ds) \<le> 1 \<and>
     (lastEntryCandle s = Some (of_int t) \<longrightarrow> filter buy_order ds = [] \<and> lastEntryCandle s' = Some (of_int t))"
  using assms
proof (induction es arbitrary: s ds)
  case (Cons e es)
  then obtain s1 d1 d2 where st: "mo_event_step D M s e = Some (s1, d1)" "mo_run D M s1 es = Some (s', d2)" "ds = d1 @ d2"
    by (auto simp: bind_eq_Some_conv)
  have ih: "length (filter buy_order d2) \<le> 1 \<and>
     (lastEntryCandle s1 = Some (of_int t) \<longrightarrow> filter buy_order d2 = [] \<and> lastEntryCandle s' = Some (of_int t))"
    using Cons.IH [OF st(2)] Cons.prems(2) by simp
  have "reads_close t e" using Cons.prems(2) by simp
  from step_stamp [OF st(1) this] show ?case using ih st(3) by auto
qed simp

section \<open>A concrete symbol\<close>

text \<open>Three hourly closes, the last above both highs before it, and a trigger on that breakout.\<close>

definition example_mo_hours :: "candle list" where
  "example_mo_hours = [example_minute 0 ''90'', example_minute 60000 ''95'', example_minute 120000 ''100'']"

definition example_mo_settings :: json where
  "example_mo_settings = JObj [(''candleInterval'', JStr ''1h''), (''entryTrigger'', JStr ''breakout''), (''breakoutLookback'', JNum (JsNum 2)),
     (''ema'', JObj [(''fast'', JNum (JsNum 1)), (''slow'', JNum (JsNum 1))]),
     (''entrySizing'', JObj [(''mode'', JStr ''fixed''), (''amount'', JStr ''100'')])]"

definition example_mo_tick :: "(string \<times> string option) option \<Rightarrow> dec mo_tick" where
  "example_mo_tick ov = \<lparr>mk_input = example_tt_input\<lparr>tn_account := example_account,
       tn_symbolInfo := (tn_symbolInfo example_tt_input)\<lparr>si_quoteAsset := ''USDT''\<rparr>,
       tn_candlesByInterval := (\<lambda>k. if k = ''1h'' then Some example_mo_hours else None), tn_config := example_mo_settings\<rparr>,
     mk_kv = None, mk_override = ov\<rparr>"

definition example_mo_flat :: "json \<Rightarrow> json" where
  "example_mo_flat stamp = JObj [(''entryPrice'', JNull), (''heldQuantity'', JNull), (''lastEntryCandleMs'', stamp)]"

definition example_mo_held :: json where
  "example_mo_held = JObj [(''entryPrice'', JStr ''90''), (''heldQuantity'', JStr ''2'')]"

lemma example_mo_keys:
  "jget example_mo_settings ''entryTrigger'' = JStr ''breakout''" "jget example_mo_settings ''candleInterval'' = JStr ''1h''"
  "jget (jget example_mo_settings ''ema'') ''slow'' = JNum (JsNum 1)" "jget (jget example_mo_settings ''ema'') ''fast'' = JNum (JsNum 1)"
  "jget example_mo_settings ''breakoutLookback'' = JNum (JsNum 2)"
  "k \<notin> {''candleInterval'', ''entryTrigger'', ''breakoutLookback'', ''ema'', ''entrySizing''} \<Longrightarrow> jget example_mo_settings k = JUndefined"
  by (auto simp: example_mo_settings_def)

lemma example_mo_input:
  "tn_config (mk_input (example_mo_tick ov)) = example_mo_settings" "mk_kv (example_mo_tick ov) = None" "mk_override (example_mo_tick ov) = ov"
  "tn_symbol (mk_input (example_mo_tick ov)) = ''BTC''" "tn_profileId (mk_input (example_mo_tick ov)) = ''p''" "tn_openOrders (mk_input (example_mo_tick ov)) = []"
  "tn_currentPrice (mk_input (example_mo_tick ov)) = ''100''" "tn_filters (mk_input (example_mo_tick ov)) = example_lot"
  "tn_account (mk_input (example_mo_tick ov)) = example_account" "si_quoteAsset (tn_symbolInfo (mk_input (example_mo_tick ov))) = ''USDT''"
  "trading_candles (mk_input (example_mo_tick ov)) = example_mo_hours" "minute_candles (mk_input (example_mo_tick ov)) = []"
  by (simp_all add: example_mo_tick_def example_tt_input_def trading_candles_def candles_of_def example_mo_hours_def example_minute_def
      example_mo_keys minute_candles_def)

lemma example_mo_layer: "for_layer (mk_input (example_mo_tick ov)) layer = mk_input (example_mo_tick ov)"
  by (simp add: for_layer_def example_mo_input configForEntryLayer_def example_mo_keys)

lemma example_mo_parsed:
  "d_new dec_js ''90'' = Some (Dec 90 0)" "d_new dec_js ''95'' = Some (Dec 95 0)" "d_new dec_js ''100'' = Some (Dec 100 0)"
  by code_simp+

lemma example_mo_emas: "\<exists>v. ema dec_js example_mo_hours 1 = Some v" "\<exists>v. ema dec_js (butlast example_mo_hours) 1 = Some v"
  by (simp_all add: ema_def sma_def requirePeriod_def prices_def example_mo_hours_def example_minute_def example_mo_parsed)

lemma example_mo_ids: "entryClientOrderId ''p'' ''BTC'' 179999 = Some ''mo-345253d2-e''" "exitClientOrderId ''p'' ''BTC'' 179999 = Some ''mo-345253d2-x''"
  "mo_protectiveStopClientOrderId ''p'' ''BTC'' = Some ''mo-102edb6a-ps''"
  by code_simp+

lemma example_mo_last: "last_close dec_js example_mo_hours = Some (Dec 100 0)" "cd_closeTimeMs (last example_mo_hours) = 179999" "length example_mo_hours = 3"
  "example_mo_hours \<noteq> []"
  by (simp_all add: last_close_def example_mo_hours_def example_minute_def example_mo_parsed)

lemma example_mo_level:
  "breakoutLevel dec_js (butlast example_mo_hours) (breakoutLookback (JNum (JsNum 2))) = Some (Some (Dec 95 0))" "d_gt dec_js (Dec 100 0) (Dec 95 0)"
  by code_simp+

lemma example_mo_sized:
  "mo_resolveEntryBudget dec_js example_mo_settings example_account ''USDT'' ''100'' example_mo_hours = Some (MoBudget ''100'')"
  "mo_entryStopFloor dec_js example_mo_settings example_mo_hours ''100'' = Some None"
  "computeEntryQuantity dec_js ''100'' ''100'' example_lot None = Some (Quantity ''1.00'')"
  by code_simp+

lemma example_mo_signal:
  "read_signal dec_js M example_mo_settings example_mo_hours ''100'' f s t =
     Some \<lparr>ms_fastNow = f, ms_slowNow = s, ms_threshold = t, ms_breakout = Some (Dec 95 0), ms_belowBreakout = None, ms_impulse = None, ms_cluster = None,
       ms_exhaustion = None, ms_obvLead = None, ms_weekendGap = None, ms_close = Dec 100 0, ms_gate = TrendPass\<rparr>"
  by (simp add: read_signal_def reading_for_def trigger_is_def below_level_def example_mo_keys example_mo_level example_mo_last trendGate_def)

lemma example_mo_refusal:
  "entry_refusal dec_js M (example_mo_tick ov) (example_mo_flat stamp) example_mo_hours TrendPass JNull =
     (if json_rat stamp = Some 179999 then Some (Some (refuse (example_mo_flat stamp)
        (log_of ''debug'' ''momentum: entry suppressed, already entered on this candle''
          (Some (JObj [(''symbol'', JStr ''BTC''), (''candleCloseMs'', JNum (JsNum 179999))]))) ''already-entered-this-candle''))
      else Some None)"
  by (simp add: entry_refusal_def example_mo_input example_mo_last lastEntryCandle_def example_mo_flat_def extensionGate_def example_mo_keys
      relativeStrengthGate_def relativeStrengthSettings_def)

lemma example_mo_run:
  obtains f s th cr where "mo_computeTick dec_js M (example_mo_tick ov) (example_mo_flat stamp) =
     flat_tick dec_js M (example_mo_tick ov) (example_mo_flat stamp) example_mo_hours f s th cr"
proof -
  obtain v w where v: "ema dec_js example_mo_hours 1 = Some v" "ema dec_js (butlast example_mo_hours) 1 = Some w" using example_mo_emas by blast
  have "clearPositionScopedFields (example_mo_flat stamp) = example_mo_flat stamp"
    by (simp add: clearPositionScopedFields_def hasPositionScopedFieldSet_def POSITION_SCOPED_STATE_FIELDS_def example_mo_flat_def)
  moreover have "jget (example_mo_flat stamp) ''entryPrice'' = JNull" by (simp add: example_mo_flat_def)
  moreover have "relativeStrengthPublish dec_js M example_mo_hours JUndefined ''BTC'' None = Some None"
    by (simp add: relativeStrengthPublish_def relativeStrengthSettings_def)
  ultimately show ?thesis using that
    by (auto simp: mo_computeTick_def decide_def example_mo_input example_mo_keys v example_mo_last Let_def bind_eq_Some_conv)
qed

lemma example_mo_flat_tick:
  "flat_tick dec_js M (example_mo_tick ov) (example_mo_flat stamp) example_mo_hours f s th cr =
     (if json_rat stamp = Some 179999 then Some (refuse (example_mo_flat stamp)
        (log_of ''debug'' ''momentum: entry suppressed, already entered on this candle''
          (Some (JObj [(''symbol'', JStr ''BTC''), (''candleCloseMs'', JNum (JsNum 179999))]))) ''already-entered-this-candle'')
      else enter_position (mk_input (example_mo_tick ov)) ''1.00'' 179999 JNull)"
proof -
  have "\<not> holdsCoins dec_js (jget (example_mo_flat stamp) ''heldQuantity'')" by (simp add: holdsCoins_def example_mo_flat_def)
  then show ?thesis
    by (simp add: flat_tick_def example_mo_input example_mo_signal entry_signal_def below_signal_def trigger_is_def example_mo_keys fired_by_def
        example_mo_level example_mo_refusal example_mo_layer evaluateEntry_def example_mo_sized example_mo_last)
qed

lemma example_mo_enters:
  obtains out i where "mo_computeTick dec_js M (example_mo_tick ov) (example_mo_flat JNull) = Some out"
    "to_decisions out = [PlaceOrder i (market_params ''1.00'')]" "oi_side i = BUY" "to_declineReason out = None"
proof -
  obtain f s th cr where "mo_computeTick dec_js M (example_mo_tick ov) (example_mo_flat JNull) =
     flat_tick dec_js M (example_mo_tick ov) (example_mo_flat JNull) example_mo_hours f s th cr" by (rule example_mo_run)
  then show ?thesis using that by (simp add: example_mo_flat_tick enter_position_def example_mo_input example_mo_ids)
qed

section \<open>Properties\<close>

text \<open>
  C31. One sound order per momentum tick. Whatever the configuration, the market, the stored body and the open
  orders are, a tick that returns decides on at most one order, on its own symbol: a market entry, only from a
  body with no entry price and no coins; a market exit or our own protective stop, only from a tracked position
  and only while no stop of ours rests; or one atomic replacement of the stop that rests by such a sell. It
  cancels no order but that stop, and writes no key but the symbol's own score.
\<close>
theorem momentum_one_sound_order:
  assumes "mo_computeTick D M tk s = Some out"
  shows "length (filter is_order (to_decisions out)) \<le> 1 \<and> list_all (mo_sound D (mk_input tk) s) (to_decisions out)"
  using assms
proof (rule tick_decides)
  fix out0 extra
  assume o: "decide D M tk s = Some out0" "to_decisions out = to_decisions out0 @ extra" "list_all (mo_sound D (mk_input tk) s) extra"
    "list_all (\<lambda>d. \<not> is_order d) extra"
  have "filter is_order extra = []" using o(4) by (simp add: filter_empty_conv list_all_iff)
  then show ?thesis using o(2,3) decide_sound [OF o(1)] by (auto intro: order_trans [OF length_filter_le])
qed

theorem momentum_one_sound_order_witness:
  "\<exists>out d. mo_computeTick dec_js example_more (example_mo_tick None) (example_mo_flat JNull) = Some out \<and> filter is_order (to_decisions out) = [d] \<and>
     mo_sound dec_js (mk_input (example_mo_tick None)) (example_mo_flat JNull) d"
proof -
  obtain out i where run: "mo_computeTick dec_js example_more (example_mo_tick None) (example_mo_flat JNull) = Some out"
    "to_decisions out = [PlaceOrder i (market_params ''1.00'')]" by (rule example_mo_enters)
  show ?thesis using run momentum_one_sound_order [OF run(1)] by (simp del: mo_sound.simps)
qed

text \<open>
  C32. One entry per candle. Over any run of ticks that read the same last closed candle, with fills, quantity
  write-backs and position resets of the adapter in between in any order, the momentum strategy decides on at
  most one buy; and when the stored body already carries the stamp of that candle, because the position it
  opened was stopped out again, on none at all, and the stamp stays.
\<close>
theorem one_entry_per_candle:
  assumes "mo_run D M s es = Some (s', ds)" and "list_all (reads_close t) es"
  shows "length (filter buy_order ds) \<le> 1 \<and>
     (lastEntryCandle s = Some (of_int t) \<longrightarrow> filter buy_order ds = [] \<and> lastEntryCandle s' = Some (of_int t))"
  using assms by (rule run_stamp)

theorem one_entry_per_candle_witness:
  "\<exists>s' ds. mo_run dec_js example_more (example_mo_flat (JNum (JsNum 179999))) [MoHeld None, MoTick (example_mo_tick None)] = Some (s', ds) \<and>
     filter buy_order ds = []"
proof -
  let ?s = "example_mo_flat (JNum (JsNum 179999))" and ?es = "[MoHeld None, MoTick (example_mo_tick None)]"
  obtain f s th cr where "mo_computeTick dec_js example_more (example_mo_tick None) ?s = flat_tick dec_js example_more (example_mo_tick None) ?s example_mo_hours f s th cr"
    by (rule example_mo_run)
  moreover have "mo_setHeldQuantity ?s None = None"
    by (simp add: mo_setHeldQuantity_def mo_asCurrentBody_def currentSchemaBody_def example_mo_flat_def)
  ultimately have "\<exists>s' ds. mo_run dec_js example_more ?s ?es = Some (s', ds)" by (simp add: example_mo_flat_tick adapted_def)
  then obtain s' ds where run: "mo_run dec_js example_more ?s ?es = Some (s', ds)" by blast
  have "list_all (reads_close 179999) ?es" by (simp add: example_mo_input example_mo_last)
  from one_entry_per_candle [OF run this] show ?thesis using run by (simp add: lastEntryCandle_def example_mo_flat_def del: mo_run.simps)
qed

text \<open>
  C33. A forced sell is answered. When the operator asks a momentum symbol that has an entry price or coins to
  sell, a tick that returns either emits exactly one sell, placed or put in the place of the resting stop, which
  carries the id of the request, or reports the reason it declines with; it never ignores the request and
  never trades around it.
\<close>
theorem force_sell_answered:
  assumes "mo_computeTick D M tk s = Some out" and "mk_override tk = Some (''trigger-sell'', Some a)" and "\<not> position_free D s"
  shows "to_declineReason out \<noteq> None \<and> filter is_order (to_decisions out) = [] \<or>
     (\<exists>i p. oi_side i = SELL \<and> oi_reason i = ''exit'' \<and> oi_overrideActionId i = Some a \<and>
        (filter is_order (to_decisions out) = [PlaceOrder i p] \<or>
         (\<exists>oid. filter is_order (to_decisions out) = [ReplaceOrder oid MO_SUPERSEDED i p] \<and> mo_own_resting (mk_input tk) oid)))"
  using assms(1)
proof (rule tick_decides)
  fix out0 extra
  assume o: "decide D M tk s = Some out0" "to_decisions out = to_decisions out0 @ extra" "to_declineReason out = to_declineReason out0"
    "list_all (\<lambda>d. \<not> is_order d) extra"
  have orders: "filter is_order (to_decisions out) = filter is_order (to_decisions out0)"
    using o(2,4) by (simp add: filter_empty_conv list_all_iff)
  have asked: "force_sell_asked tk" using assms(2) by (simp add: force_sell_asked_def)
  show ?thesis using o(1)
  proof (cases rule: decide_cases)
    case Idle
    then show ?thesis using asked assms(3) o(3) orders by (simp add: idle_def)
  next
    case (Close layer sell q)
    from Close(3) obtain i where i: "sell = PlaceOrder i (market_params q)" "oi_side i = SELL" "oi_reason i = ''exit''" "oi_overrideActionId i = Some a"
      by (rule sell_order_shape) (use assms(2) asked in simp)
    from Close(4) show ?thesis unfolding i(1)
      by (cases rule: mo_closing_sell) (use i orders in \<open>auto simp: mo_own_resting_def\<close>)
  qed (use asked assms(3) in simp_all)
qed

lemma example_mo_exit_parts:
  "advance_high dec_js example_mo_held (JStr ''90'') (last example_mo_hours) = Some (Dec 100 0, True, Dec 100 0)"
  "decimal_of dec_js (JStr ''90'') = Some (Dec 90 0)"
  "resolveStopLevel dec_js example_mo_settings (Dec 90 0) (Dec 100 0) None example_mo_hours ''100'' (sf_percentPriceBySide example_lot) None =
     Some \<lparr>sr_effectiveHigh = Dec 100 0, sr_profitHigh = None, sr_stop = None, sr_floorClamped = False\<rparr>"
  by code_simp+

lemma example_mo_exit_size: "computeExitQuantity dec_js (JStr ''2'') ''100'' example_lot = Some (Quantity ''2.00'')"
  by code_simp

lemma example_mo_exit:
  "\<exists>out. evaluateExit dec_js (example_mo_tick (Some (''trigger-sell'', Some a))) example_mo_held cd (last example_mo_hours) example_mo_hours True = Some out"
proof -
  have held: "jget example_mo_held ''entryPrice'' = JStr ''90''" "jget example_mo_held ''heldQuantity'' = JStr ''2''" "lastEntryCandle example_mo_held = None"
    "profitTrailSince example_mo_held = None" "jget example_mo_held ''profitHigh'' = JUndefined"
    by (simp_all add: example_mo_held_def lastEntryCandle_def profitTrailSince_def)
  have "mo_findRestingProtectiveStop (mk_input (example_mo_tick ov)) = Some None" for ov
    by (simp add: mo_findRestingProtectiveStop_def example_mo_input example_mo_ids findRestingProtectiveStop_def)
  moreover have "ratchetProfitHigh dec_js example_mo_settings h e ms x = Some None" for h e ms x
    by (simp add: ratchetProfitHigh_def example_mo_keys)
  ultimately show ?thesis
    by (simp add: evaluateExit_def example_mo_input held example_mo_exit_parts previous_stop_def example_mo_parsed gap_legs_def Let_def
        close_position_def example_mo_exit_size sell_order_def example_mo_ids example_mo_last mo_closingSellDecisions_def)
qed

theorem force_sell_answered_witness:
  "\<exists>out. mo_computeTick dec_js example_more (example_mo_tick (Some (''trigger-sell'', Some ''a''))) example_mo_held = Some out \<and>
     (to_declineReason out \<noteq> None \<or> (\<exists>d. filter is_order (to_decisions out) = [d] \<and> carries ''a'' d))"
proof -
  let ?tk = "example_mo_tick (Some (''trigger-sell'', Some ''a''))"
  obtain v w where v: "ema dec_js example_mo_hours 1 = Some v" "ema dec_js (butlast example_mo_hours) 1 = Some w" using example_mo_emas by blast
  have held: "\<not> position_free dec_js example_mo_held" "jget example_mo_held ''entryPrice'' = JStr ''90''" by (simp_all add: position_free_def example_mo_held_def)
  have same: "?tk\<lparr>mk_input := mk_input ?tk\<rparr> = ?tk" by simp
  have "\<exists>out. mo_computeTick dec_js example_more ?tk example_mo_held = Some out"
    using example_mo_exit [of "''a''"]
    by (auto simp: mo_computeTick_def decide_def example_mo_input example_mo_keys v example_mo_last example_mo_layer Let_def bind_eq_Some_conv held
        force_sell_asked_def relativeStrengthPublish_def relativeStrengthSettings_def)
  then obtain out where run: "mo_computeTick dec_js example_more ?tk example_mo_held = Some out" by blast
  have "mk_override ?tk = Some (''trigger-sell'', Some ''a'')" by (simp add: example_mo_input)
  from force_sell_answered [OF run this held(1)] show ?thesis using run by auto
qed

text \<open>A forced sell on a flat symbol gets no answer, and the tick may buy on its signal all the same.\<close>

lemma force_sell_on_flat_buys:
  "\<exists>out d. mo_computeTick dec_js example_more (example_mo_tick (Some (''trigger-sell'', Some ''a''))) (example_mo_flat JNull) = Some out \<and>
     to_decisions out = [d] \<and> buy_order d \<and> to_declineReason out = None"
  by (rule example_mo_enters [of example_more "Some (''trigger-sell'', Some ''a'')"]) (auto simp: buy_order_def)

end
