(* ===== verification/Spec2Isabelle.thy ===== *)
theory Spec2Isabelle
  imports Order_Governor Weight_Governor Refusal_Circuit Halt_Filter Symbol_State Fill_Resolution Protective_Stop_Arm
    Client_Order_Id Position_Adapter Rebalance Tt_Tick_Safety Mo_Tick_Safety
begin

text \<open>
  Verification of the core of a spot-trading bot for the Binance exchange.

  The program. A worker process ticks every (profile, symbol) pair. A tick reads the persisted
  strategy state, the market and the wallet, calls a pure strategy plugin
  (\<open>packages/strategy/*\<close>), filters the decisions it returns, sends the orders through a rate-limited
  exchange client (\<open>packages/binance\<close>) and commits the next state with a version check. Fills come
  back asynchronously and are folded into the state. An HTTP API and a web client configure and show
  all of this; they hold no trading logic of their own.

  Theories and sources.

  \<^item> \<open>Prelude\<close>: JavaScript values (\<open>json\<close>, numbers), insertion-ordered maps, list lemmas.
  \<^item> \<open>Rolling_Window\<close>: the interface both rate governors share, as a locale on a tally of timestamped
    charges, with the bound on every window proved once.
  \<^item> \<open>Order_Governor\<close>, \<open>Weight_Governor\<close>: \<open>packages/binance/src/rate-limit/order-governor.ts\<close> and
    \<open>weight-governor.ts\<close>: window configuration, tallies, the reserve loops with their sleeps and
    aborts, and step relations that interleave any number of callers.
  \<^item> \<open>Contract\<close>: the data of \<open>packages/strategy/core/src/contract.ts\<close>, \<open>decision.ts\<close>, \<open>executor.ts\<close> and
    the order-status predicates of \<open>packages/contracts/src/resting-order.ts\<close>.
  \<^item> \<open>Refusal_Circuit\<close>: \<open>apps/worker/src/tick/order-refusal-circuit.ts\<close>, the breaker that stops repeating
    an order the exchange keeps refusing, with its persisted form.
  \<^item> \<open>Halt_Filter\<close>: \<open>apps/worker/src/tick/halt-filter.ts\<close>, the suppression of entries under a risk halt.
  \<^item> \<open>State_Migration\<close>, \<open>Symbol_State\<close>: \<open>apps/worker/src/state/migrate-state.ts\<close>,
    \<open>version-aware-mutate.ts\<close>, \<open>state-port.ts\<close>, \<open>boot/builders/state-persistence.ts\<close> and
    \<open>packages/db/src/repo/symbol-states.ts\<close>: the durable row, its cache, the compare-and-set write, and
    the tick's load and commit, among concurrent writers.
  \<^item> \<open>Decimal_Js\<close>: what the code relies on of \<open>decimal.js\<close> (precision 20, half-up), as the record
    \<open>decimal_js\<close> and the locale \<open>decimal_laws\<close>; a concrete arithmetic on scaled integers interprets it.
  \<^item> \<open>Money\<close>, \<open>Balances\<close>, \<open>Sizing\<close>, \<open>Fill_Resolution\<close>: \<open>packages/money/src/quantize.ts\<close> and
    \<open>format.ts\<close>, and \<open>balances.ts\<close>, \<open>sizing.ts\<close>, \<open>fill-resolution.ts\<close> of \<open>packages/strategy/core/src\<close>.
  \<^item> \<open>Protective_Stop\<close>, \<open>Protective_Stop_Arm\<close>: \<open>packages/strategy/core/src/protective-stop.ts\<close>: price band,
    clamping, native trail, drift and coverage tests, and the whole arm evaluation.
  \<^item> \<open>Client_Order_Id\<close>: the id builders of the core and of the three strategies; the hash is kept at
    32 bits.
  \<^item> \<open>Position_Adapter\<close>: \<open>state-body.ts\<close>, \<open>position-scope.ts\<close> and the \<open>PositionStateAdapter\<close> of the three
    strategies, as interpretations of the locale \<open>position_adapter\<close>.
  \<^item> \<open>Rebalance\<close>: the rebalance strategy, \<open>rebalance.ts\<close>, \<open>momentum.ts\<close> and \<open>tick.ts\<close> of
    \<open>packages/strategy/rebalance/src\<close>.
  \<^item> \<open>Tt_Sizing\<close>, \<open>Tt_Orders\<close>, \<open>Tt_Sell_Gate\<close>: of \<open>packages/strategy/trailing-trade/src\<close> the fees, cooldowns,
    latch merge, entry budget, quantities, stop level and risk caps; the decision builders, the
    binding of the stop arm and the emission of exits; and the exit ladder with the daily regime and
    the reason a position did not exit.
  \<^item> \<open>Tt_Gates\<close>, \<open>Tt_Entries\<close>, \<open>Tt_Tick\<close>, \<open>Tt_Tick_Safety\<close>: the gates before an entry
    (\<open>technicals-gate.ts\<close>, \<open>technicals-force-sell.ts\<close>, \<open>indicator-gate.ts\<close>, \<open>mean-reversion-gate.ts\<close>,
    \<open>branches/entry-guards.ts\<close>, the regime gates, \<open>entry-blocker.ts\<close>), the entries (\<open>branches/grid-buy.ts\<close>,
    \<open>first-entry.ts\<close>, \<open>bull-pyramid.ts\<close>), the tick itself (\<open>tick.ts\<close>, \<open>branches/override.ts\<close>) as the chain of
    branches it is, and what a tick may do. The locale \<open>tick_chain\<close> lifts a promise of every branch to the chain.
  \<^item> \<open>Mo_Stops\<close>, \<open>Mo_Signals\<close>, \<open>Mo_Arm\<close>, \<open>Mo_Tick\<close>, \<open>Mo_Tick_Safety\<close>: of \<open>packages/strategy/momentum/src\<close> the
    coercion of settings, both stop legs and the profit mark, entry budget and quantities
    (\<open>config-coerce.ts\<close>, \<open>stop-level.ts\<close>, \<open>trailing-stop.ts\<close>, \<open>profit-leg.ts\<close>, \<open>sizing.ts\<close>, \<open>quantity.ts\<close>); the
    triggers and the ranking (\<open>breakout.ts\<close>, \<open>ma-cluster.ts\<close>, \<open>impulse.ts\<close>, \<open>exhaustion.ts\<close>, \<open>obv-lead.ts\<close>,
    \<open>weekend-gap.ts\<close>, \<open>relative-strength.ts\<close>); the binding of the stop arm (\<open>protective-stop.ts\<close>); the tick
    (\<open>tick.ts\<close>); and what a tick, and a run of ticks with the adapter's writes between them, may do.
  \<^item> \<open>Indicators\<close>: the indicators of \<open>packages/indicators/src/index.ts\<close> the strategies read.

  Conventions. A \<open>throw\<close> is \<open>None\<close> or a value of an error type; \<open>null\<close> and \<open>undefined\<close> are kept apart
  where the code tells them apart. Values that reach the code unvalidated (configuration, persisted
  bodies, cached filters) are \<open>json\<close>. Clocks, the digest, \<open>JSON.stringify\<close> and \<open>JSON.parse\<close>, database
  outcomes, logarithm, root and power of the decimal library, strategy migrations and decision builders are parameters.

  What is shown. The rate governors never let a window exceed its budget however callers
  interleave, the order governor also across reconfigurations in place (against the ceiling in force at the
  last order of a span), keep the reserved band for orders, and admit an undisturbed caller after a
  bounded number of sleeps. The refusal circuit refines a count of consecutive refusals. The halt filter drops BUY
  entries only. State writes form one chain per slice, a mutation replaces the row
  its deciding attempt read by its result on the body that read settled on (a stale cache entry
  included), and commits never move a row backwards. Quantities are exact on power-of-ten grids under the twenty-digit
  arithmetic; an admitted entry is still sellable at its stop; a sell fill leaves
  exactly the difference or, exactly for an unsellable remainder, nothing; while a level resolves, the
  stop arm replaces a resting stop only atomically, and it never sells more than the position or the
  wallet backs. Ids are legal, but for what a manual order copies of its action id, and kinds of orders
  never share one. The adapters refine a plain position. Rebalance trades within its
  holdings and cash, and its ranking gives exactly the top symbols their weight. For the trailing-trade
  strategy: an entry is within cash and cap headroom and, with a stop, within its risk budget; an exit is
  one funded market sell; the ladder sells only for an exit that is due, the stop loss before every
  other; and the trailing high only rises; a grid buy is one order
  within the risk caps at its level's trigger; the rating gate, while on, is the conjunction of its rows. A whole
  tick sends at most one order, touches only its own stop and the buys of its symbol, leaves the held
  quantity alone, stays idle while disabled, answers every override, and opens a position
  on its own only through every gate. The indicators stay in their ranges. For the momentum strategy: the profit mark is exactly
  the highest admissible close, the exit level is the highest of its legs and never loosens, an entry
  keeps every limit, the cluster rule buys a break once, the ranking admits exactly
  the symbols with fewer than its number of stronger ones, and a weekend position finds its own target again; a tick sends at most one sound order,
  enters at most once per candle whatever the adapter writes in between, and answers a forced sell on
  every position.

  Fuel. The reserve loops carry a fuel of turns: the order governor returns within 60001 turns,
  one per millisecond of its longest wait, and the weight governor admits an undisturbed caller within one turn per
  charge in the tally (plus one), so running out is not hidden. The mutation loop has the
  code's own bound of attempts. Everything else is structurally recursive or terminates by a measure.

  Not modelled. The web client and the HTTP layer (\<open>apps/web\<close>, \<open>apps/api\<close>), logging, metrics and
  audit shipping, notification and language-model clients, schema validation (a third-party library),
  database access beyond the symbol-state table, queue and socket plumbing, seed and build scripts:
  input and output, or wiring of libraries. The incremental indicators,
  backtesting and discovery are program logic that the development does not reach yet.
\<close>

end
